(* ===== verification/Prelude.thy ===== *)
theory Prelude
  imports Complex_Main "HOL-Library.Char_ord" "HOL-Library.List_Lexorder"
    "HOL-Library.Product_Lexorder" "HOL-Library.Multiset"
begin

text \<open>
  Shared vocabulary of the development: the collections of facts the component theories
  fill, the error-result combinators, and the Python string operations the sources use
  (\<open>str.startswith\<close>, \<open>str.split\<close>, \<open>str.strip\<close>, decimal formatting), each with the
  laws the component proofs rest on. Strings are \<open>char list\<close>s; the sources' texts are
  taken to be ASCII wherever a character class matters.
\<close>

section \<open>Collections of facts\<close>

named_theorems script_defs \<open>definitions of the Lua scripts and Valkey commands\<close>
named_theorems method_defs \<open>definitions of the Python methods above the scripts\<close>
named_theorems validator_defs \<open>definitions of the request validators\<close>
named_theorems frame_simps \<open>which part of a state an operation leaves alone\<close>

section \<open>Properties kept by steps\<close>

text \<open>
  The contract every step relation of the development is used through: a property each step
  keeps holds after any number of steps. The components interpret it on their own relation
  and invariant.
\<close>

locale kept_property =
  fixes step :: "'s \<Rightarrow> 's \<Rightarrow> bool" and P :: "'s \<Rightarrow> bool"
  assumes step_keeps: "step s s' \<Longrightarrow> P s \<Longrightarrow> P s'"
begin

lemma steps_keep: "step\<^sup>*\<^sup>* s s' \<Longrightarrow> P s \<Longrightarrow> P s'"
  by (induction rule: rtranclp_induct) (auto intro: step_keeps)

end

section \<open>Error results\<close>

text \<open>A call that may raise returns \<open>'e + 'a\<close>; \<open>bindE\<close> is the sequencing of statements.\<close>

fun bindE :: "'e + 'a \<Rightarrow> ('a \<Rightarrow> 'e + 'b) \<Rightarrow> 'e + 'b" where
  "bindE (Inl e) f = Inl e"
| "bindE (Inr a) f = f a"

lemma bindE_eq_Inr [simp]: "bindE r f = Inr b \<longleftrightarrow> (\<exists>a. r = Inr a \<and> f a = Inr b)"
  by (cases r) auto

lemma bindE_eq_Inl: "bindE r f = Inl e \<longleftrightarrow> r = Inl e \<or> (\<exists>a. r = Inr a \<and> f a = Inl e)"
  by (cases r) auto

definition is_ok :: "'e + 'a \<Rightarrow> bool" where
  "is_ok r = (case r of Inl _ \<Rightarrow> False | Inr _ \<Rightarrow> True)"

lemma is_ok_simps [simp]: "\<not> is_ok (Inl e)" "is_ok (Inr a)"
  by (simp_all add: is_ok_def)

lemma is_ok_iff: "is_ok r \<longleftrightarrow> (\<exists>a. r = Inr a)"
  by (cases r) auto

text \<open>A comprehension whose body may raise: the first error wins, as the exception would.\<close>

fun mapE :: "('a \<Rightarrow> 'e + 'b) \<Rightarrow> 'a list \<Rightarrow> 'e + 'b list" where
  "mapE f [] = Inr []"
| "mapE f (x # xs) = bindE (f x) (\<lambda>y. bindE (mapE f xs) (\<lambda>ys. Inr (y # ys)))"

lemma mapE_Inr_iff: "mapE f xs = Inr ys \<longleftrightarrow> list_all2 (\<lambda>x y. f x = Inr y) xs ys"
proof (induction xs arbitrary: ys)
  case Nil
  then show ?case by auto
next
  case (Cons x xs)
  then show ?case by (cases ys) (auto simp: list_all2_Cons1)
qed

section \<open>Python strings\<close>

fun starts_with :: "string \<Rightarrow> string \<Rightarrow> bool" where
  "starts_with s [] = True"
| "starts_with [] (c # p) = False"
| "starts_with (a # s) (c # p) = (a = c \<and> starts_with s p)"

lemma starts_with_iff: "starts_with s p \<longleftrightarrow> (\<exists>t. s = p @ t)"
  by (induction s p rule: starts_with.induct) auto

lemma starts_with_append [simp]: "starts_with (p @ t) p"
  by (auto simp: starts_with_iff)

text \<open>\<open>needle in s\<close>.\<close>

fun contains :: "string \<Rightarrow> string \<Rightarrow> bool" where
  "contains needle [] = (needle = [])"
| "contains needle (c # s) = (starts_with (c # s) needle \<or> contains needle s)"

lemma contains_iff: "contains needle s \<longleftrightarrow> (\<exists>u v. s = u @ needle @ v)"
proof (induction s)
  case Nil
  then show ?case by simp
next
  case (Cons c s)
  have "(\<exists>u v. c # s = u @ needle @ v) \<longleftrightarrow> (\<exists>v. c # s = needle @ v) \<or> (\<exists>u v. s = u @ needle @ v)"
    (is "?L \<longleftrightarrow> ?R")
  proof
    assume ?L
    then obtain u v where "c # s = u @ needle @ v" by blast
    then show ?R by (cases u) auto
  next
    assume ?R
    then show ?L
    proof
      assume "\<exists>v. c # s = needle @ v"
      then obtain v where "c # s = [] @ needle @ v" by auto
      then show ?L by blast
    next
      assume "\<exists>u v. s = u @ needle @ v"
      then obtain u v where "c # s = (c # u) @ needle @ v" by auto
      then show ?L by blast
    qed
  qed
  then show ?case using Cons by (simp add: starts_with_iff)
qed

text \<open>\<open>s.split(c)\<close> for a one-character separator, and its inverse \<open>c.join\<close>.\<close>

fun split_on :: "char \<Rightarrow> string \<Rightarrow> string list" where
  "split_on c [] = [[]]"
| "split_on c (x # xs) =
     (if x = c then [] # split_on c xs
      else (case split_on c xs of [] \<Rightarrow> [[x]] | w # ws \<Rightarrow> (x # w) # ws))"

fun join_on :: "char \<Rightarrow> string list \<Rightarrow> string" where
  "join_on c [] = []"
| "join_on c [w] = w"
| "join_on c (w # v # ws) = w @ c # join_on c (v # ws)"

lemma split_on_nonempty [simp]: "split_on c s \<noteq> []"
  by (cases s) (auto split: list.splits)

lemma join_split_on [simp]: "join_on c (split_on c s) = s"
proof (induction s)
  case Nil
  then show ?case by simp
next
  case (Cons x xs)
  obtain w ws where w: "split_on c xs = w # ws"
    by (cases "split_on c xs") auto
  show ?case using Cons w by (cases ws) auto
qed

lemma split_on_no_sep: "w \<in> set (split_on c s) \<Longrightarrow> c \<notin> set w"
proof (induction s arbitrary: w)
  case Nil
  then show ?case by simp
next
  case (Cons x xs)
  then show ?case by (auto split: if_splits list.splits)
qed

lemma split_on_append:
  "split_on c (s @ c # t) = split_on c s @ split_on c t"
proof (induction s)
  case Nil
  then show ?case by simp
next
  case (Cons x xs)
  obtain w ws where "split_on c xs = w # ws"
    by (cases "split_on c xs") auto
  with Cons show ?case by auto
qed

lemma split_on_single: "c \<notin> set s \<Longrightarrow> split_on c s = [s]"
  by (induction s) auto

text \<open>\<open>s.lstrip(c)\<close>, \<open>s.rstrip(c)\<close>, \<open>s.strip(c)\<close> for one character.\<close>

definition lstrip :: "char \<Rightarrow> string \<Rightarrow> string" where
  "lstrip c s = dropWhile (\<lambda>x. x = c) s"

definition rstrip :: "char \<Rightarrow> string \<Rightarrow> string" where
  "rstrip c s = rev (dropWhile (\<lambda>x. x = c) (rev s))"

definition strip :: "char \<Rightarrow> string \<Rightarrow> string" where
  "strip c s = rstrip c (lstrip c s)"

lemma lstrip_decomp: "\<exists>n. s = replicate n c @ lstrip c s"
proof -
  have "\<forall>x \<in> set (takeWhile (\<lambda>x. x = c) s). x = c"
    by (auto dest: set_takeWhileD)
  then have "takeWhile (\<lambda>x. x = c) s = replicate (length (takeWhile (\<lambda>x. x = c) s)) c"
    by (rule replicate_length_same [symmetric])
  moreover have "s = takeWhile (\<lambda>x. x = c) s @ lstrip c s"
    by (simp add: lstrip_def)
  ultimately show ?thesis by metis
qed

lemma rstrip_decomp: "\<exists>n. s = rstrip c s @ replicate n c"
proof -
  obtain n where "rev s = replicate n c @ lstrip c (rev s)"
    using lstrip_decomp by blast
  then have "s = rev (lstrip c (rev s)) @ replicate n c"
    by (metis rev_append rev_replicate rev_rev_ident)
  then show ?thesis by (auto simp: rstrip_def lstrip_def)
qed

lemma rstrip_no_trailing: "rstrip c s = [] \<or> last (rstrip c s) \<noteq> c"
proof (cases "dropWhile (\<lambda>x. x = c) (rev s) = []")
  case True
  then show ?thesis by (simp add: rstrip_def)
next
  case False
  then have "hd (dropWhile (\<lambda>x. x = c) (rev s)) \<noteq> c" by (rule hd_dropWhile)
  with False show ?thesis by (simp add: rstrip_def last_rev)
qed

lemma rstrip_idem [simp]: "rstrip c (rstrip c s) = rstrip c s"
  by (simp add: rstrip_def)

section \<open>Decimal formatting of naturals\<close>

definition digit_char :: "nat \<Rightarrow> char" where
  "digit_char d = char_of (48 + d)"

definition digit_val :: "char \<Rightarrow> nat" where
  "digit_val c = of_char c - 48"

fun dec_of_nat :: "nat \<Rightarrow> string" where
  "dec_of_nat n =
     (if n < 10 then [digit_char n] else dec_of_nat (n div 10) @ [digit_char (n mod 10)])"

declare dec_of_nat.simps [simp del]

definition nat_of_dec :: "string \<Rightarrow> nat" where
  "nat_of_dec s = foldl (\<lambda>a c. 10 * a + digit_val c) 0 s"

lemma digit_val_char [simp]: "d < 10 \<Longrightarrow> digit_val (digit_char d) = d"
  by (simp add: digit_val_def digit_char_def)

lemma nat_of_dec_of_nat [simp]: "nat_of_dec (dec_of_nat n) = n"
proof (induction n rule: dec_of_nat.induct)
  case (1 n)
  show ?case
  proof (cases "n < 10")
    case True
    then show ?thesis by (simp add: nat_of_dec_def dec_of_nat.simps [of n])
  next
    case False
    with "1.IH" have "nat_of_dec (dec_of_nat (n div 10)) = n div 10" by simp
    with False show ?thesis by (simp add: nat_of_dec_def dec_of_nat.simps [of n])
  qed
qed

lemma dec_of_nat_inject [simp]: "dec_of_nat m = dec_of_nat n \<longleftrightarrow> m = n"
  by (metis nat_of_dec_of_nat)

lemma dec_of_nat_digits: "c \<in> set (dec_of_nat n) \<Longrightarrow> \<exists>d<10. c = digit_char d"
proof (induction n rule: dec_of_nat.induct)
  case (1 n)
  then show ?case
    by (cases "n < 10") (force simp: dec_of_nat.simps [of n])+
qed

lemma dec_of_nat_nonempty [simp]: "dec_of_nat n \<noteq> []"
  by (subst dec_of_nat.simps) simp

section \<open>Lists as Valkey uses them\<close>

lemma set_remove1_subset': "x \<in> set (remove1 a xs) \<Longrightarrow> x \<in> set xs"
  by (meson notin_set_remove1)

lemma distinct_count_list: "distinct xs \<Longrightarrow> count_list xs x = (if x \<in> set xs then 1 else 0)"
  by (induction xs) auto

lemma count_remove1 [simp]:
  "count (mset (remove1 a xs)) x = count (mset xs) x - (if x = a then 1 else 0)"
  by simp

lemma sum_fun_upd:
  fixes g :: "'a \<Rightarrow> nat" and n :: nat
  assumes "i < n"
  shows "(\<Sum>k<n. g ((f(i := v)) k)) + g (f i) = (\<Sum>k<n. g (f k)) + g v"
proof -
  have i: "finite {..<n}" "i \<in> {..<n}" using assms by simp_all
  have "(\<Sum>k\<in>{..<n} - {i}. g ((f(i := v)) k)) = (\<Sum>k\<in>{..<n} - {i}. g (f k))"
    by (intro sum.cong) auto
  moreover have "(\<Sum>k<n. g ((f(i := v)) k)) = g v + (\<Sum>k\<in>{..<n} - {i}. g ((f(i := v)) k))"
    using sum.remove [OF i, of "\<lambda>k. g ((f(i := v)) k)"] by simp
  moreover have "(\<Sum>k<n. g (f k)) = g (f i) + (\<Sum>k\<in>{..<n} - {i}. g (f k))"
    using sum.remove [OF i, of "\<lambda>k. g (f k)"] by simp
  ultimately show ?thesis by simp
qed

end
