(* ===== verification/Errors.thy ===== *)
theory Errors
  imports Prelude
begin

text \<open>
  The exceptions the program raises and tests for: the classes of \<open>src/dalmatian/errors.py\<close>,
  the \<open>ValueError\<close> subclasses of \<open>paths.py\<close> and \<open>storage.py\<close>, and the built-in classes that
  \<open>worker.py\<close> names. A class is a constructor of \<open>exn_class\<close>; \<open>mro\<close> lists a class with its
  ancestors, so that \<open>isinstance\<close> and the choice of an \<open>except\<close> clause are computable.
\<close>

datatype exn_class =
    DalmatianError | QueryRejected | BusyError | QueryCancelled | QueryTimeout | CommitFenced
  | IdempotencyConflict | MetadataSchemaError | RetryableQueryError
  | UnknownStorageLocation | PathOutsideDataRoot | NoFilesMatched
  | ValueError | OSError | FileExistsError | ConnectionError | BaseExn
  | OtherExn string \<comment> \<open>any other class, by its name; a direct subclass of \<open>Exception\<close>\<close>

fun mro :: "exn_class \<Rightarrow> exn_class list" where
  "mro BaseExn = [BaseExn]"
| "mro DalmatianError = [DalmatianError, BaseExn]"
| "mro QueryRejected = [QueryRejected, DalmatianError, ValueError, BaseExn]"
| "mro BusyError = [BusyError, DalmatianError, BaseExn]"
| "mro QueryCancelled = [QueryCancelled, DalmatianError, BaseExn]"
| "mro QueryTimeout = [QueryTimeout, QueryCancelled, DalmatianError, BaseExn]"
| "mro CommitFenced = [CommitFenced, DalmatianError, BaseExn]"
| "mro IdempotencyConflict = [IdempotencyConflict, DalmatianError, BaseExn]"
| "mro MetadataSchemaError = [MetadataSchemaError, DalmatianError, BaseExn]"
| "mro RetryableQueryError = [RetryableQueryError, DalmatianError, BaseExn]"
| "mro UnknownStorageLocation = [UnknownStorageLocation, ValueError, BaseExn]"
| "mro PathOutsideDataRoot = [PathOutsideDataRoot, ValueError, BaseExn]"
| "mro NoFilesMatched = [NoFilesMatched, ValueError, BaseExn]"
| "mro ValueError = [ValueError, BaseExn]"
| "mro OSError = [OSError, BaseExn]"
| "mro FileExistsError = [FileExistsError, OSError, BaseExn]"
| "mro ConnectionError = [ConnectionError, OSError, BaseExn]"
| "mro (OtherExn n) = [OtherExn n, BaseExn]"

fun class_name :: "exn_class \<Rightarrow> string" where
  "class_name BaseExn = ''Exception''"
| "class_name DalmatianError = ''DalmatianError''"
| "class_name QueryRejected = ''QueryRejected''"
| "class_name BusyError = ''BusyError''"
| "class_name QueryCancelled = ''QueryCancelled''"
| "class_name QueryTimeout = ''QueryTimeout''"
| "class_name CommitFenced = ''CommitFenced''"
| "class_name IdempotencyConflict = ''IdempotencyConflict''"
| "class_name MetadataSchemaError = ''MetadataSchemaError''"
| "class_name RetryableQueryError = ''RetryableQueryError''"
| "class_name UnknownStorageLocation = ''UnknownStorageLocation''"
| "class_name PathOutsideDataRoot = ''PathOutsideDataRoot''"
| "class_name NoFilesMatched = ''NoFilesMatched''"
| "class_name ValueError = ''ValueError''"
| "class_name OSError = ''OSError''"
| "class_name FileExistsError = ''FileExistsError''"
| "class_name ConnectionError = ''ConnectionError''"
| "class_name (OtherExn n) = n"

text \<open>An exception value: its class and \<open>str(exc)\<close>.\<close>

record exn =
  exn_cls :: exn_class
  exn_msg :: string

type_synonym 'a res = "exn + 'a"

definition raise :: "exn_class \<Rightarrow> string \<Rightarrow> 'a res" where
  "raise c m = Inl \<lparr>exn_cls = c, exn_msg = m\<rparr>"

lemma raise_simps [simp]: "raise c m \<noteq> Inr a" "\<not> is_ok (raise c m)"
  "bindE (raise c m) f = raise c m"
  by (simp_all add: raise_def)

lemma raise_eq_iff [simp]:
  "raise c m = Inl e \<longleftrightarrow> exn_cls e = c \<and> exn_msg e = m"
  by (cases e) (auto simp: raise_def)

definition isinstance :: "exn \<Rightarrow> exn_class list \<Rightarrow> bool" where
  "isinstance e cs = list_ex (\<lambda>c. c \<in> set (mro (exn_cls e))) cs"

lemma isinstance_Nil [simp]: "\<not> isinstance e []"
  by (simp add: isinstance_def)

lemma isinstance_Cons [simp]:
  "isinstance e (c # cs) \<longleftrightarrow> c \<in> set (mro (exn_cls e)) \<or> isinstance e cs"
  by (simp add: isinstance_def)

lemma mro_self [simp]: "c \<in> set (mro c)"
  by (cases c) simp_all

text \<open>
  Subclassing is transitive: a handler for a class also takes what its ancestors' handlers
  would have taken.
\<close>

lemma mro_trans: "b \<in> set (mro c) \<Longrightarrow> a \<in> set (mro b) \<Longrightarrow> a \<in> set (mro c)"
  by (cases c) auto

end
