(* ===== verification/Models.thy ===== *)
theory Models
  imports Errors
begin

text \<open>
  The request, result and job models of \<open>src/dalmatian/models.py\<close> and the execution context
  of \<open>execution.py\<close>. A pydantic model is a record, a \<open>StrEnum\<close> a datatype with its \<open>value\<close>
  function; a field constraint (\<open>Field(ge=1)\<close>, \<open>min_length=1\<close>) and a \<open>model_validator\<close> are
  checks that return the model or raise \<open>ValueError\<close> (pydantic's \<open>ValidationError\<close> is one).
  Dictionaries are association lists in insertion order. \<open>req_fields_set\<close> is pydantic's
  \<open>model_fields_set\<close>, the fields the caller supplied.
\<close>

section \<open>Enumerations\<close>

datatype DataFormat = DF_CSV | DF_PARQUET | DF_JSON
datatype DeliveryMode = INLINE | STREAM | STORE
datatype OutputFormat = OF_JSON | OF_CSV | OF_JSONL | OF_PARQUET
datatype WriteMode = WM_ERROR | WM_OVERWRITE | WM_APPEND
datatype JobStatus = QUEUED | RUNNING | RETRYING | SUCCEEDED | FAILED | CANCELLED

fun data_format_value :: "DataFormat \<Rightarrow> string" where
  "data_format_value DF_CSV = ''csv''"
| "data_format_value DF_PARQUET = ''parquet''"
| "data_format_value DF_JSON = ''json''"

fun delivery_mode_value :: "DeliveryMode \<Rightarrow> string" where
  "delivery_mode_value INLINE = ''inline''"
| "delivery_mode_value STREAM = ''stream''"
| "delivery_mode_value STORE = ''store''"

fun output_format_value :: "OutputFormat \<Rightarrow> string" where
  "output_format_value OF_JSON = ''json''"
| "output_format_value OF_CSV = ''csv''"
| "output_format_value OF_JSONL = ''jsonl''"
| "output_format_value OF_PARQUET = ''parquet''"

fun write_mode_value :: "WriteMode \<Rightarrow> string" where
  "write_mode_value WM_ERROR = ''error''"
| "write_mode_value WM_OVERWRITE = ''overwrite''"
| "write_mode_value WM_APPEND = ''append''"

fun job_status_value :: "JobStatus \<Rightarrow> string" where
  "job_status_value QUEUED = ''queued''"
| "job_status_value RUNNING = ''running''"
| "job_status_value RETRYING = ''retrying''"
| "job_status_value SUCCEEDED = ''succeeded''"
| "job_status_value FAILED = ''failed''"
| "job_status_value CANCELLED = ''cancelled''"

lemma job_status_value_inject [simp]:
  "job_status_value a = job_status_value b \<longleftrightarrow> a = b"
  by (cases a; cases b) simp_all

lemma output_format_value_inject [simp]:
  "output_format_value a = output_format_value b \<longleftrightarrow> a = b"
  by (cases a; cases b) simp_all

lemma data_format_value_inject [simp]:
  "data_format_value a = data_format_value b \<longleftrightarrow> a = b"
  by (cases a; cases b) simp_all

lemma delivery_mode_value_inject [simp]:
  "delivery_mode_value a = delivery_mode_value b \<longleftrightarrow> a = b"
  by (cases a; cases b) simp_all

lemma write_mode_value_inject [simp]:
  "write_mode_value a = write_mode_value b \<longleftrightarrow> a = b"
  by (cases a; cases b) simp_all

section \<open>JSON values\<close>

text \<open>
  The values \<open>json.dumps\<close> and \<open>json.loads\<close> work on. A float is kept as the text of its
  literal: no arithmetic is done on row values.
\<close>

datatype json =
    JNull | JBool bool | JInt int | JFloat string | JStr string
  | JArr "json list" | JObj "(string \<times> json) list"

section \<open>Requests\<close>

datatype schema_definition = SchemaText string | SchemaFields "(string \<times> string) list"

record SourceSpec =
  src_path :: string
  src_format :: DataFormat
  src_location :: "string option"
  src_options :: "(string \<times> string) list"
  src_version :: "string option"
  src_schema :: "schema_definition option"
  src_infer_schema :: bool

record OutputSpec =
  out_mode :: DeliveryMode
  out_format :: OutputFormat
  out_location :: "string option"
  out_path :: "string option"
  out_write_mode :: WriteMode
  out_options :: "(string \<times> string) list"

record QueryRequest =
  req_sql :: string
  req_sources :: "(string \<times> SourceSpec) list"
  req_output :: OutputSpec
  req_max_rows :: int
  req_cache_ttl_seconds :: "int option"
  req_timeout_seconds :: "int option"
  req_fields_set :: "string list"

definition default_output :: OutputSpec where
  "default_output = \<lparr>out_mode = INLINE, out_format = OF_JSON, out_location = None,
     out_path = None, out_write_mode = WM_ERROR, out_options = []\<rparr>"

text \<open>\<open>Field(min_length=1)\<close> on an optional string.\<close>

definition min_length1 :: "string option \<Rightarrow> bool" where
  "min_length1 v = (case v of None \<Rightarrow> True | Some s \<Rightarrow> s \<noteq> [])"

definition validate_source_spec :: "SourceSpec \<Rightarrow> SourceSpec res" where
  [validator_defs]: "validate_source_spec s =
     (if src_path s = [] then raise ValueError ''path: String should have at least 1 character''
      else if \<not> min_length1 (src_location s)
        then raise ValueError ''location: String should have at least 1 character''
      else if \<not> min_length1 (src_version s)
        then raise ValueError ''version: String should have at least 1 character''
      else if src_infer_schema s \<and> src_format s \<noteq> DF_CSV
        then raise ValueError ''infer_schema is only valid for csv sources''
      else Inr s)"

text \<open>
  The traversal test shared by the validators and the storage layer:
  \<open>path.startswith("/") or ".." in path.split("/")\<close>.
\<close>

definition escapes_root :: "string \<Rightarrow> bool" where
  "escapes_root p = (starts_with p ''/'' \<or> ''..'' \<in> set (split_on CHR ''/'' p))"

definition quoted :: "string \<Rightarrow> string" where
  "quoted s = CHR 0x27 # s @ [CHR 0x27]"

definition validate_delivery :: "OutputSpec \<Rightarrow> OutputSpec res" where
  [validator_defs]: "validate_delivery out =
     (if out_mode out = INLINE then
        (if out_format out \<noteq> OF_JSON
           then raise ValueError ''inline output format must be json''
         else if out_location out \<noteq> None \<or> out_path out \<noteq> None
           then raise ValueError ''inline output does not accept a storage destination''
         else Inr out)
      else if out_mode out = STREAM then
        (if out_format out \<notin> {OF_CSV, OF_JSONL}
           then raise ValueError ''stream output format must be csv or jsonl''
         else if out_location out \<noteq> None \<or> out_path out \<noteq> None
           then raise ValueError ''stream output does not accept a storage destination''
         else Inr out)
      else
        (case (out_location out, out_path out) of
           (Some _, Some p) \<Rightarrow>
             (if out_format out = OF_JSON
                then raise ValueError
                  ''stored output uses jsonl, csv, or parquet; json is inline only''
              else if escapes_root p
                then raise ValueError
                  (''stored output path must be relative and cannot contain '' @ quoted ''..'')
              else Inr out)
         | _ \<Rightarrow> raise ValueError ''stored output requires location and path''))"

text \<open>\<open>str.isidentifier\<close> on ASCII text.\<close>

definition ident_start :: "char \<Rightarrow> bool" where
  "ident_start c = (c = CHR ''_'' \<or> (CHR ''a'' \<le> c \<and> c \<le> CHR ''z'')
     \<or> (CHR ''A'' \<le> c \<and> c \<le> CHR ''Z''))"

definition ident_char :: "char \<Rightarrow> bool" where
  "ident_char c = (ident_start c \<or> (CHR ''0'' \<le> c \<and> c \<le> CHR ''9''))"

definition isidentifier :: "string \<Rightarrow> bool" where
  "isidentifier s = (case s of [] \<Rightarrow> False | c # cs \<Rightarrow> ident_start c \<and> list_all ident_char cs)"

definition validate_request :: "QueryRequest \<Rightarrow> QueryRequest res" where
  [validator_defs]: "validate_request r =
     (if list_ex (\<lambda>p. \<not> isidentifier (fst p)) (req_sources r)
        then raise ValueError ''source name must be a valid identifier''
      else if out_mode (req_output r) \<noteq> INLINE \<and> ''max_rows'' \<in> set (req_fields_set r)
        then raise ValueError ''max_rows is only valid for inline output; use SQL LIMIT otherwise''
      else if out_mode (req_output r) \<noteq> INLINE \<and> ''cache_ttl_seconds'' \<in> set (req_fields_set r)
        then raise ValueError ''cache_ttl_seconds is only valid for inline output''
      else Inr r)"

text \<open>
  Constructing a \<open>QueryRequest\<close>: the nested models validate first, then the field
  constraints, then \<open>validate_request\<close>.
\<close>

definition validate_fields :: "QueryRequest \<Rightarrow> QueryRequest res" where
  [validator_defs]: "validate_fields r =
     (if req_sql r = [] then raise ValueError ''sql: String should have at least 1 character''
      else if req_sources r = [] then raise ValueError ''sources: should have at least 1 item''
      else if req_max_rows r < 1 then raise ValueError ''max_rows: should be at least 1''
      else if (case req_cache_ttl_seconds r of None \<Rightarrow> False | Some t \<Rightarrow> t < 0)
        then raise ValueError ''cache_ttl_seconds: should be at least 0''
      else if (case req_timeout_seconds r of None \<Rightarrow> False | Some t \<Rightarrow> t < 1)
        then raise ValueError ''timeout_seconds: should be at least 1''
      else Inr r)"

definition make_request :: "QueryRequest \<Rightarrow> QueryRequest res" where
  [validator_defs]: "make_request r =
     bindE (mapE (\<lambda>p. validate_source_spec (snd p)) (req_sources r)) (\<lambda>_.
     bindE (validate_delivery (req_output r)) (\<lambda>_.
     bindE (validate_fields r) (\<lambda>r. validate_request r)))"

section \<open>Results and jobs\<close>

record InlineResult =
  inl_query_id :: "string option"
  inl_columns :: "string list"
  inl_rows :: "json list"
  inl_truncated :: bool
  inl_cached :: bool

record StoredResult =
  sto_query_id :: string
  sto_format :: OutputFormat
  sto_location :: string
  sto_path :: string
  sto_manifest_uri :: string
  sto_data_uri :: string
  sto_partitions :: nat
  sto_source_versions :: "(string \<times> string) list"

datatype QueryResult = Inline InlineResult | Stored StoredResult

record JobRecord =
  jr_id :: string
  jr_status :: JobStatus
  jr_attempts :: nat
  jr_result :: "QueryResult option"
  jr_error :: "string option"
  jr_created_at :: "int option"
  jr_updated_at :: "int option"
  jr_next_attempt_at :: "int option"

record ExplainResult =
  exp_query_id :: string
  exp_normalized_sql :: string
  exp_source_versions :: "(string \<times> string) list"
  exp_plan :: string

record SourceColumn =
  col_name :: string
  col_type :: string
  col_nullable :: bool

record SourceInspection =
  insp_location :: string
  insp_resolved_uri :: string
  insp_fingerprint :: "string option"
  insp_cache_safe :: bool
  insp_columns :: "SourceColumn list"

record StorageLocationInfo =
  sli_name :: string
  sli_uri :: string
  sli_source :: string

text \<open>
  \<open>ExecutionContext\<close>; the callbacks \<open>can_commit\<close> and \<open>publish_output\<close> are given where the
  context is used, by the component that builds it.
\<close>

record ExecutionContext =
  ctx_query_id :: string
  ctx_attempt_id :: string
  ctx_attempt_number :: nat
  ctx_timeout_seconds :: int
  ctx_kind :: string

section \<open>What validation guarantees\<close>

lemma validators_return_input:
  "validate_source_spec s = Inr s' \<Longrightarrow> s' = s"
  "validate_delivery out = Inr out' \<Longrightarrow> out' = out"
  "validate_request r = Inr r' \<Longrightarrow> r' = r"
  "validate_fields r = Inr r' \<Longrightarrow> r' = r"
  by (auto simp: validator_defs split: if_splits option.splits)

lemma make_request_returns_input: "make_request r = Inr r' \<Longrightarrow> r' = r"
  by (auto simp: make_request_def dest!: validators_return_input)

lemma validate_delivery_store:
  assumes "validate_delivery out = Inr out'" and "out_mode out = STORE"
  shows "\<exists>l p. out_location out = Some l \<and> out_path out = Some p \<and> \<not> escapes_root p
    \<and> out_format out \<noteq> OF_JSON"
  using assms by (auto simp: validator_defs split: if_splits option.splits)

lemma validate_delivery_no_destination:
  assumes "validate_delivery out = Inr out'" and "out_mode out \<noteq> STORE"
  shows "out_location out = None \<and> out_path out = None"
  using assms by (cases "out_mode out") (auto simp: validator_defs split: if_splits)

lemma validate_request_set_fields:
  assumes "validate_request r = Inr r'" and "out_mode (req_output r) \<noteq> INLINE"
  shows "''max_rows'' \<notin> set (req_fields_set r) \<and> ''cache_ttl_seconds'' \<notin> set (req_fields_set r)"
  using assms by (auto simp: validator_defs split: if_splits)

lemma make_request_parts:
  assumes "make_request r = Inr r'"
  shows "validate_delivery (req_output r) = Inr (req_output r)" and "validate_fields r = Inr r"
    and "validate_request r = Inr r"
    and "\<And>n s. (n, s) \<in> set (req_sources r) \<Longrightarrow> validate_source_spec s = Inr s"
proof -
  from assms obtain ss out r1 where
    ss: "mapE (\<lambda>p. validate_source_spec (snd p)) (req_sources r) = Inr ss" and
    parts: "validate_delivery (req_output r) = Inr out" "validate_fields r = Inr r1"
      "validate_request r1 = Inr r'"
    by (auto simp: make_request_def)
  then show "validate_delivery (req_output r) = Inr (req_output r)" "validate_fields r = Inr r"
    "validate_request r = Inr r"
    using validators_return_input by blast+
  fix n s assume "(n, s) \<in> set (req_sources r)"
  with ss obtain s' where "validate_source_spec s = Inr s'"
    by (fastforce simp: mapE_Inr_iff list_all2_conv_all_nth in_set_conv_nth)
  then show "validate_source_spec s = Inr s" using validators_return_input(1) by blast
qed

end
