(* ===== verification/Valkey.thy ===== *)
theory Valkey
  imports Prelude
begin

text \<open>
  The Valkey data types that the queue and the registries store their state in, with the
  commands the sources call on them: lists (\<open>LPUSH\<close>, \<open>LREM key 1\<close>, \<open>RPOPLPUSH\<close>), sorted sets
  (\<open>ZADD\<close>, \<open>ZREM\<close>, \<open>ZSCORE\<close>, \<open>ZRANGEBYSCORE ... LIMIT\<close>) and hashes of string fields
  (\<open>HSET\<close>, \<open>HGET\<close>). The left end of a Valkey list is the head of the HOL list. A sorted set
  is kept as the list of its (score, member) pairs in Valkey's order: by score, and by the
  bytes of the member where scores are equal. The interface the queue relies on is the
  locale \<open>sorted_set\<close>, interpreted on these definitions.
\<close>

section \<open>Lists\<close>

definition lpush :: "'a \<Rightarrow> 'a list \<Rightarrow> 'a list" where
  [script_defs]: "lpush x xs = x # xs"

definition lrem1 :: "'a \<Rightarrow> 'a list \<Rightarrow> 'a list" where
  [script_defs]: "lrem1 x xs = remove1 x xs"

definition rpop :: "'a list \<Rightarrow> ('a \<times> 'a list) option" where
  "rpop xs = (if xs = [] then None else Some (last xs, butlast xs))"

lemma rpop_Some [simp]: "rpop xs = Some (x, ys) \<longleftrightarrow> xs = ys @ [x]"
  by (auto simp: rpop_def)

lemma rpop_None [simp]: "rpop xs = None \<longleftrightarrow> xs = []"
  by (auto simp: rpop_def)

lemma rpop_simps [simp]: "rpop [] = None" "rpop (xs @ [x]) = Some (x, xs)"
  by (simp_all add: rpop_def)

section \<open>Sorted sets\<close>

type_synonym zset = "(int \<times> string) list"

definition zrem :: "string \<Rightarrow> zset \<Rightarrow> zset" where
  "zrem m z = filter (\<lambda>p. snd p \<noteq> m) z"

definition zadd :: "int \<Rightarrow> string \<Rightarrow> zset \<Rightarrow> zset" where
  "zadd sc m z = insort (sc, m) (zrem m z)"

definition zscore :: "zset \<Rightarrow> string \<Rightarrow> int option" where
  "zscore z m = map_of (map prod.swap z) m"

definition zrangebyscore :: "int \<Rightarrow> int \<Rightarrow> nat \<Rightarrow> zset \<Rightarrow> string list" where
  "zrangebyscore lo hi n z = take n (map snd (filter (\<lambda>p. lo \<le> fst p \<and> fst p \<le> hi) z))"

definition zmembers :: "zset \<Rightarrow> string set" where
  "zmembers z = snd ` set z"

definition zset_ok :: "zset \<Rightarrow> bool" where
  "zset_ok z = (sorted z \<and> distinct (map snd z))"

lemma zset_ok_Nil [simp]: "zset_ok []"
  by (simp add: zset_ok_def)

lemma zmembers_Nil [simp]: "zmembers [] = {}"
  by (simp add: zmembers_def)

lemma zmembers_zrem [simp]: "zmembers (zrem m z) = zmembers z - {m}"
  by (auto simp: zmembers_def zrem_def)

lemma set_zadd: "set (zadd sc m z) = insert (sc, m) (set (zrem m z))"
  by (simp add: zadd_def set_insort_key)

lemma zmembers_zadd [simp]: "zmembers (zadd sc m z) = insert m (zmembers z)"
  by (auto simp: zmembers_def set_zadd zrem_def)

lemma zset_ok_zrem: "zset_ok z \<Longrightarrow> zset_ok (zrem m z)"
proof -
  assume "zset_ok z"
  then have "sorted (zrem m z)" "distinct (map snd (zrem m z))"
    by (auto simp: zset_ok_def zrem_def distinct_map_filter intro: sorted_filter [of id, simplified])
  then show ?thesis by (simp add: zset_ok_def)
qed

lemma mset_map_insort: "mset (map f (insort x xs)) = add_mset (f x) (mset (map f xs))"
  by (induction xs) auto

lemma distinct_map_insort: "distinct (map f (insort x xs)) \<longleftrightarrow> distinct (f x # map f xs)"
  by (metis mset.simps(2) mset_eq_imp_distinct_iff mset_map_insort)

lemma zset_ok_zadd: "zset_ok z \<Longrightarrow> zset_ok (zadd sc m z)"
proof -
  assume "zset_ok z"
  then have ok: "zset_ok (zrem m z)" by (rule zset_ok_zrem)
  have "m \<notin> snd ` set (zrem m z)" by (auto simp: zrem_def)
  with ok show ?thesis
    by (simp add: zset_ok_def zadd_def distinct_map_insort sorted_insort)
qed

lemma length_zadd: "length (zadd sc m z) = Suc (length (zrem m z))"
  by (simp add: zadd_def)

lemma zrem_notin: "m \<notin> zmembers z \<Longrightarrow> zrem m z = z"
  by (auto simp: zrem_def zmembers_def filter_id_conv)

lemma length_zrem:
  assumes "zset_ok z"
  shows "length (zrem m z) + (if m \<in> zmembers z then 1 else 0) = length z"
  using assms unfolding zset_ok_def
proof (induction z)
  case Nil
  then show ?case by (simp add: zrem_def)
next
  case (Cons p z)
  then have IH: "length (zrem m z) + (if m \<in> zmembers z then 1 else 0) = length z"
    by simp
  show ?case
  proof (cases "snd p = m")
    case True
    with Cons.prems have "m \<notin> zmembers z" by (auto simp: zmembers_def)
    then have "zrem m z = z" by (rule zrem_notin)
    with True show ?thesis by (simp add: zrem_def zmembers_def)
  next
    case False
    with IH show ?thesis by (auto simp: zrem_def zmembers_def)
  qed
qed

lemma zscore_Some_iff:
  assumes "zset_ok z"
  shows "zscore z m = Some sc \<longleftrightarrow> (sc, m) \<in> set z"
proof -
  have "distinct (map fst (map prod.swap z))" using assms by (simp add: zset_ok_def comp_def)
  then show ?thesis
    unfolding zscore_def by (force simp: map_of_eq_Some_iff image_iff)
qed

lemma zscore_None_iff: "zscore z m = None \<longleftrightarrow> m \<notin> zmembers z"
  by (auto simp: zscore_def zmembers_def map_of_eq_None_iff image_iff)

lemma zscore_zadd [simp]: "zset_ok z \<Longrightarrow> zscore (zadd sc m z) m = Some sc"
  by (simp add: zscore_Some_iff zset_ok_zadd set_zadd)

lemma set_zrangebyscore_subset: "m \<in> set (zrangebyscore lo hi n z) \<Longrightarrow> m \<in> zmembers z"
  by (auto simp: zrangebyscore_def zmembers_def dest!: in_set_takeD)

lemma zrangebyscore_due:
  assumes "zset_ok z" and "m \<in> set (zrangebyscore lo hi n z)"
  shows "\<exists>sc. zscore z m = Some sc \<and> lo \<le> sc \<and> sc \<le> hi"
  using assms by (force simp: zrangebyscore_def zscore_Some_iff dest!: in_set_takeD)

lemma zrangebyscore_complete:
  assumes "zset_ok z" and "zscore z m = Some sc" and "lo \<le> sc" and "sc \<le> hi"
    and "length z \<le> n"
  shows "m \<in> set (zrangebyscore lo hi n z)"
proof -
  have "length (filter (\<lambda>p. lo \<le> fst p \<and> fst p \<le> hi) z) \<le> n"
    using assms(5) length_filter_le [of _ z] by (meson order_trans)
  with assms show ?thesis
    by (force simp: zrangebyscore_def zscore_Some_iff)
qed

lemma distinct_zrangebyscore: "zset_ok z \<Longrightarrow> distinct (zrangebyscore lo hi n z)"
  unfolding zrangebyscore_def zset_ok_def by (intro distinct_take distinct_map_filter) simp

section \<open>The sorted-set interface\<close>

text \<open>
  What the retry queue needs of a sorted set: membership and score after \<open>ZADD\<close> and
  \<open>ZREM\<close>, and a range query that returns due members only.
\<close>

locale sorted_set =
  fixes add :: "int \<Rightarrow> string \<Rightarrow> 'z \<Rightarrow> 'z"
    and rem :: "string \<Rightarrow> 'z \<Rightarrow> 'z"
    and score :: "'z \<Rightarrow> string \<Rightarrow> int option"
    and range_by :: "int \<Rightarrow> int \<Rightarrow> nat \<Rightarrow> 'z \<Rightarrow> string list"
    and invar :: "'z \<Rightarrow> bool"
  assumes score_add: "invar z \<Longrightarrow> score (add sc m z) = (score z)(m \<mapsto> sc)"
    and score_rem: "invar z \<Longrightarrow> score (rem m z) = (score z)(m := None)"
    and range_due: "invar z \<Longrightarrow> m \<in> set (range_by lo hi n z) \<Longrightarrow>
          \<exists>sc. score z m = Some sc \<and> lo \<le> sc \<and> sc \<le> hi"
    and invar_add: "invar z \<Longrightarrow> invar (add sc m z)"
    and invar_rem: "invar z \<Longrightarrow> invar (rem m z)"
begin

lemma rem_add_same: "invar z \<Longrightarrow> score (rem m (add sc m z)) = score (rem m z)"
  by (simp add: score_add score_rem invar_add)

lemma range_never_future:
  assumes "invar z" and "hi < sc"
  shows "m \<notin> set (range_by lo hi n (add sc m z))"
proof
  assume "m \<in> set (range_by lo hi n (add sc m z))"
  then obtain sc' where "score (add sc m z) m = Some sc'" "sc' \<le> hi"
    using range_due [OF invar_add [OF assms(1)]] by blast
  with assms show False by (simp add: score_add)
qed

end

interpretation zs: sorted_set zadd zrem zscore zrangebyscore zset_ok
proof unfold_locales
  fix z sc m assume ok: "zset_ok z"
  show "zscore (zadd sc m z) = (zscore z)(m \<mapsto> sc)"
  proof (rule ext)
    fix k
    have "zscore (zadd sc m z) k = Some v \<longleftrightarrow> ((zscore z)(m \<mapsto> sc)) k = Some v" for v
      using ok by (auto simp: zscore_Some_iff zset_ok_zadd set_zadd zrem_def)
    then show "zscore (zadd sc m z) k = ((zscore z)(m \<mapsto> sc)) k"
      by (metis not_None_eq)
  qed
next
  fix z m assume ok: "zset_ok z"
  show "zscore (zrem m z) = (zscore z)(m := None)"
  proof (rule ext)
    fix k
    have "zscore (zrem m z) k = Some v \<longleftrightarrow> ((zscore z)(m := None)) k = Some v" for v
      using ok by (auto simp: zscore_Some_iff zset_ok_zrem) (auto simp: zrem_def)
    then show "zscore (zrem m z) k = ((zscore z)(m := None)) k"
      by (metis not_None_eq)
  qed
qed (auto intro: zset_ok_zadd zset_ok_zrem dest: zrangebyscore_due)

section \<open>Hashes of string fields\<close>

type_synonym fields = "string \<rightharpoonup> string"

definition hset :: "(string \<times> string) list \<Rightarrow> fields \<Rightarrow> fields" where
  "hset kvs m = m ++ map_of (rev kvs)"

text \<open>\<open>HGET key field or ''\<close>, on a key that may not exist.\<close>

definition hget_or_empty :: "fields option \<Rightarrow> string \<Rightarrow> string" where
  "hget_or_empty m f = (case m of None \<Rightarrow> [] | Some fs \<Rightarrow> (case fs f of None \<Rightarrow> [] | Some v \<Rightarrow> v))"

text \<open>\<open>HSET\<close> on a key that may not exist yet creates it.\<close>

definition hset_key :: "string \<Rightarrow> (string \<times> string) list \<Rightarrow> (string \<rightharpoonup> fields) \<Rightarrow> (string \<rightharpoonup> fields)"
where
  "hset_key k kvs db = db(k \<mapsto> hset kvs (case db k of None \<Rightarrow> Map.empty | Some fs \<Rightarrow> fs))"

lemma hset_key_same [simp]:
  "hset_key k kvs db k = Some (hset kvs (case db k of None \<Rightarrow> Map.empty | Some fs \<Rightarrow> fs))"
  by (simp add: hset_key_def)

lemma hset_key_other [simp]: "k' \<noteq> k \<Longrightarrow> hset_key k kvs db k' = db k'"
  by (simp add: hset_key_def)

definition dec_of_int :: "int \<Rightarrow> string" where
  "dec_of_int i = (if i < 0 then CHR ''-'' # dec_of_nat (nat (- i)) else dec_of_nat (nat i))"

end
