(* ===== verification/JobStore.thy ===== *)
theory JobStore
  imports Models Valkey
begin

text \<open>
  The Valkey state of \<open>ValkeyJobQueue\<close> (\<open>src/dalmatian/jobs.py\<close>) and its ten Lua scripts, each
  one atomic step. A job hash is a record with the fields the enqueue script writes; the
  script writes them all at once and no script deletes one, so a job key that exists has every
  field and the scripts' defaults for a missing field are never taken. Numbers, which Valkey
  keeps as decimal strings, are \<open>nat\<close> and \<open>int\<close>; times are milliseconds. \<open>h_ttl\<close> and \<open>b_ttl\<close>
  are the deadlines Valkey keeps for a key after \<open>EXPIRE\<close>, against its own clock
  \<open>server_ms\<close>; every script gets the caller's clock as an argument, so callers' clocks are
  arbitrary. A script's reply \<open>1\<close>/\<open>0\<close> is a \<open>bool\<close>.
\<close>

section \<open>State\<close>

record job_hash =
  h_status :: JobStatus
  h_request :: string
  h_error :: string
  h_result :: string
  h_attempts :: nat
  h_worker_id :: string
  h_lease_expires_ms :: int
  h_cancel_requested :: bool
  h_shard :: nat
  h_created_at_ms :: int
  h_updated_at_ms :: int
  h_next_attempt_ms :: int
  h_ttl :: int

record idem_binding =
  b_request_hash :: string
  b_job_id :: string
  b_ttl :: int

record store =
  jobs :: "string \<rightharpoonup> job_hash"
  pending :: "nat \<Rightarrow> string list"
  processing :: "string list"
  retry :: zset
  dead :: "string list"
  idem :: "string \<rightharpoonup> idem_binding"
  publications :: "string \<rightharpoonup> fields"
  server_ms :: int

definition empty_store :: "int \<Rightarrow> store" where
  "empty_store t = \<lparr>jobs = Map.empty, pending = (\<lambda>_. []), processing = [], retry = [],
     dead = [], idem = Map.empty, publications = Map.empty, server_ms = t\<rparr>"

definition expire :: "int \<Rightarrow> store \<Rightarrow> int" where
  "expire ttl_seconds s = server_ms s + ttl_seconds * 1000"

definition set_job :: "string \<Rightarrow> job_hash \<Rightarrow> store \<Rightarrow> store" where
  "set_job j h s = s\<lparr>jobs := (jobs s)(j \<mapsto> h)\<rparr>"

definition push_pending :: "nat \<Rightarrow> string \<Rightarrow> store \<Rightarrow> store" where
  "push_pending k j s = s\<lparr>pending := (pending s)(k := lpush j (pending s k))\<rparr>"

text \<open>The jobs that are pending in one of \<open>n\<close> shards, in processing or waiting for a retry.\<close>

definition queue_depth :: "nat \<Rightarrow> store \<Rightarrow> nat" where
  "queue_depth n s =
     length (processing s) + length (retry s) + (\<Sum>k<n. length (pending s k))"

section \<open>Enqueue\<close>

datatype enqueue_reply = Conflict string | Existing string | Full | Created string

definition new_job :: "string \<Rightarrow> nat \<Rightarrow> int \<Rightarrow> int \<Rightarrow> job_hash" where
  "new_job request_json shard now ttl =
     \<lparr>h_status = QUEUED, h_request = request_json, h_error = [], h_result = [],
      h_attempts = 0, h_worker_id = [], h_lease_expires_ms = 0, h_cancel_requested = False,
      h_shard = shard, h_created_at_ms = now, h_updated_at_ms = now, h_next_attempt_ms = 0,
      h_ttl = ttl\<rparr>"

definition enqueue_script ::
  "nat \<Rightarrow> string option \<Rightarrow> string \<Rightarrow> string \<Rightarrow> nat \<Rightarrow> int \<Rightarrow> int \<Rightarrow> string \<Rightarrow> int \<Rightarrow> nat \<Rightarrow> store
   \<Rightarrow> enqueue_reply \<times> store" where
  \<comment> \<open>\<open>use_idem = '1'\<close> is \<open>Some idem\<close>; \<open>n\<close> is the number of pending lists in \<open>KEYS[6..]\<close>\<close>
  [script_defs]:
  "enqueue_script n idem_key request_hash request_json shard now job_ttl job_id idem_ttl max_depth s =
     (case (case idem_key of None \<Rightarrow> None | Some k \<Rightarrow> idem s k) of
        Some b \<Rightarrow>
          (if b_request_hash b \<noteq> request_hash then (Conflict (b_job_id b), s)
           else (Existing (b_job_id b), s))
      | None \<Rightarrow>
          (if queue_depth n s \<ge> max_depth then (Full, s)
           else
             (let s1 = push_pending shard job_id
                    (set_job job_id (new_job request_json shard now (expire job_ttl s)) s)
              in (Created job_id,
                  (case idem_key of None \<Rightarrow> s1
                   | Some k \<Rightarrow> s1\<lparr>idem := (idem s1)(k \<mapsto>
                       \<lparr>b_request_hash = request_hash, b_job_id = job_id,
                        b_ttl = expire idem_ttl s1\<rparr>)\<rparr>)))))"

section \<open>Ownership\<close>

text \<open>
  The guard that heartbeat, completion, termination, retry and publication share: the job is
  running, the caller is its recorded worker, and the lease is later than the caller's clock.
\<close>

definition holds_lease :: "string \<Rightarrow> int \<Rightarrow> job_hash \<Rightarrow> bool" where
  "holds_lease w now h =
     (h_status h = RUNNING \<and> h_worker_id h = w \<and> \<not> h_lease_expires_ms h \<le> now)"

definition claim_script ::
  "string \<Rightarrow> string \<Rightarrow> int \<Rightarrow> int \<Rightarrow> int \<Rightarrow> store \<Rightarrow> (string \<times> nat \<times> nat \<times> int) option \<times> store" where
  [script_defs]:
  "claim_script j w lease now job_ttl s =
     (if j \<notin> set (processing s) then (None, s)
      else (case jobs s j of
        None \<Rightarrow> (None, s)
      | Some h \<Rightarrow>
          (if h_status h \<noteq> QUEUED then (None, s)
           else
             (let h' = h\<lparr>h_attempts := h_attempts h + 1, h_status := RUNNING, h_worker_id := w,
                  h_lease_expires_ms := lease, h_updated_at_ms := now,
                  h_cancel_requested := False, h_next_attempt_ms := 0,
                  h_ttl := expire job_ttl s\<rparr>
              in (Some (h_request h', h_attempts h', h_shard h', h_created_at_ms h'),
                  set_job j h' s)))))"

definition heartbeat_script :: "string \<Rightarrow> string \<Rightarrow> int \<Rightarrow> int \<Rightarrow> int \<Rightarrow> store \<Rightarrow> bool \<times> store" where
  [script_defs]:
  "heartbeat_script j w lease now job_ttl s =
     (case jobs s j of
        None \<Rightarrow> (False, s)
      | Some h \<Rightarrow>
          (if \<not> holds_lease w now h then (False, s)
           else (True, set_job j (h\<lparr>h_lease_expires_ms := lease, h_updated_at_ms := now,
                    h_ttl := expire job_ttl s\<rparr>) s)))"

definition complete_script :: "string \<Rightarrow> string \<Rightarrow> string \<Rightarrow> int \<Rightarrow> int \<Rightarrow> store \<Rightarrow> bool \<times> store" where
  [script_defs]:
  "complete_script j w res now job_ttl s =
     (case jobs s j of
        None \<Rightarrow> (False, s)
      | Some h \<Rightarrow>
          (if \<not> holds_lease w now h \<or> h_cancel_requested h then (False, s)
           else
             (let s1 = set_job j (h\<lparr>h_status := SUCCEEDED, h_result := res, h_error := [],
                    h_worker_id := [], h_lease_expires_ms := 0, h_updated_at_ms := now,
                    h_ttl := expire job_ttl s\<rparr>) s
              in (True, s1\<lparr>processing := lrem1 j (processing s1)\<rparr>))))"

definition terminal_script ::
  "string \<Rightarrow> string \<Rightarrow> JobStatus \<Rightarrow> string \<Rightarrow> int \<Rightarrow> int \<Rightarrow> store \<Rightarrow> bool \<times> store" where
  [script_defs]:
  "terminal_script j w new_status err now job_ttl s =
     (case jobs s j of
        None \<Rightarrow> (False, s)
      | Some h \<Rightarrow>
          (if \<not> holds_lease w now h then (False, s)
           else
             (let s1 = set_job j (h\<lparr>h_status := new_status, h_error := err, h_worker_id := [],
                    h_lease_expires_ms := 0, h_updated_at_ms := now,
                    h_ttl := expire job_ttl s\<rparr>) s;
                  s2 = s1\<lparr>processing := lrem1 j (processing s1)\<rparr>
              in (True, if new_status = FAILED then s2\<lparr>dead := lpush j (dead s2)\<rparr> else s2))))"

definition retry_script ::
  "string \<Rightarrow> string \<Rightarrow> nat \<Rightarrow> string \<Rightarrow> int \<Rightarrow> int \<Rightarrow> int \<Rightarrow> store \<Rightarrow> bool \<times> store" where
  [script_defs]:
  "retry_script j w max_attempts err now next_ms job_ttl s =
     (case jobs s j of
        None \<Rightarrow> (False, s)
      | Some h \<Rightarrow>
          (if \<not> holds_lease w now h then (False, s)
           else
             (let s1 = s\<lparr>processing := lrem1 j (processing s)\<rparr>;
                  h1 = h\<lparr>h_error := err, h_worker_id := [], h_lease_expires_ms := 0,
                    h_updated_at_ms := now, h_ttl := expire job_ttl s\<rparr>
              in (True,
                  if h_attempts h \<ge> max_attempts
                  then (set_job j (h1\<lparr>h_status := FAILED\<rparr>) s1)\<lparr>dead := lpush j (dead s1)\<rparr>
                  else (set_job j (h1\<lparr>h_status := RETRYING, h_next_attempt_ms := next_ms\<rparr>) s1)
                         \<lparr>retry := zadd next_ms j (retry s1)\<rparr>))))"

definition reap_script ::
  "string \<Rightarrow> int \<Rightarrow> int \<Rightarrow> nat \<Rightarrow> int \<Rightarrow> int \<Rightarrow> nat \<Rightarrow> store \<Rightarrow> bool \<times> store" where
  [script_defs]:
  "reap_script j expected_lease now max_attempts next_ms job_ttl shard s =
     (let s1 = s\<lparr>processing := lrem1 j (processing s)\<rparr> in
      case jobs s j of
        None \<Rightarrow> (True, s1)
      | Some h \<Rightarrow>
          (if h_status h = QUEUED then (True, push_pending shard j s1)
           else if h_status h \<noteq> RUNNING then (True, s1)
           else if h_lease_expires_ms h \<noteq> expected_lease \<or> h_lease_expires_ms h > now
             then (False, s)
           else
             (let h1 = h\<lparr>h_worker_id := [], h_lease_expires_ms := 0, h_updated_at_ms := now,
                    h_ttl := expire job_ttl s\<rparr>
              in (True,
                  if h_cancel_requested h
                  then set_job j (h1\<lparr>h_status := CANCELLED, h_error := [],
                         h_next_attempt_ms := 0\<rparr>) s1
                  else if h_attempts h \<ge> max_attempts
                  then (set_job j (h1\<lparr>h_status := FAILED, h_error := ''worker lease expired''\<rparr>) s1)
                         \<lparr>dead := lpush j (dead s1)\<rparr>
                  else (set_job j (h1\<lparr>h_status := RETRYING, h_error := ''worker lease expired'',
                         h_next_attempt_ms := next_ms\<rparr>) s1)
                         \<lparr>retry := zadd next_ms j (retry s1)\<rparr>))))"

definition promote_script :: "string \<Rightarrow> int \<Rightarrow> nat \<Rightarrow> store \<Rightarrow> bool \<times> store" where
  [script_defs]:
  "promote_script j now shard s =
     (case jobs s j of
        None \<Rightarrow> (False, s\<lparr>retry := zrem j (retry s)\<rparr>)
      | Some h \<Rightarrow>
          (if h_status h \<noteq> RETRYING then (False, s\<lparr>retry := zrem j (retry s)\<rparr>)
           else (case zscore (retry s) j of
               None \<Rightarrow> (False, s)
             | Some score \<Rightarrow>
                 (if score > now then (False, s)
                  else (True, push_pending shard j
                    (set_job j (h\<lparr>h_status := QUEUED, h_next_attempt_ms := 0,
                        h_updated_at_ms := now\<rparr>) (s\<lparr>retry := zrem j (retry s)\<rparr>)))))))"

datatype cancel_reply = CancelMissing | CancelNow | CancelRequested | CancelNoop

definition cancel_script :: "string \<Rightarrow> int \<Rightarrow> nat \<Rightarrow> store \<Rightarrow> cancel_reply \<times> store" where
  [script_defs]:
  "cancel_script j now shard s =
     (case jobs s j of
        None \<Rightarrow> (CancelMissing, s)
      | Some h \<Rightarrow>
          (if h_status h = QUEUED
           then (CancelNow, set_job j (h\<lparr>h_status := CANCELLED, h_updated_at_ms := now\<rparr>)
                  (s\<lparr>pending := (pending s)(shard := lrem1 j (pending s shard))\<rparr>))
           else if h_status h = RETRYING
           then (CancelNow, set_job j (h\<lparr>h_status := CANCELLED, h_updated_at_ms := now\<rparr>)
                  (s\<lparr>retry := zrem j (retry s)\<rparr>))
           else if h_status h = RUNNING
           then (CancelRequested,
                  set_job j (h\<lparr>h_cancel_requested := True, h_updated_at_ms := now\<rparr>) s)
           else (CancelNoop, s)))"

section \<open>Output publication\<close>

text \<open>
  The part of the publication script after its ownership guards is the same Lua text as
  \<open>ValkeyOutputPublicationRegistry._PUBLISH_SCRIPT\<close> in \<open>src/dalmatian/storage.py\<close>: \<open>None\<close> is
  the reply \<open>0\<close>, \<open>Some db\<close> the reply \<open>1\<close> with the new registry.
\<close>

definition publish_fields ::
  "string \<Rightarrow> string \<Rightarrow> string \<Rightarrow> string \<Rightarrow> string \<Rightarrow> int \<Rightarrow> (string \<rightharpoonup> fields)
   \<Rightarrow> (string \<rightharpoonup> fields) option" where
  "publish_fields key mode query_id attempt_id manifest_uri now db =
     (if mode = ''append''
      then Some (hset_key key [(''exists'', ''1''), (''last_append_query_id'', query_id),
             (''last_append_attempt_id'', attempt_id),
             (''last_append_manifest_uri'', manifest_uri),
             (''updated_at_ms'', dec_of_int now)] db)
      else if mode = ''error'' \<and> db key \<noteq> None \<and> hget_or_empty (db key) ''query_id'' \<noteq> query_id
      then None
      else Some (hset_key key [(''exists'', ''1''), (''query_id'', query_id),
             (''attempt_id'', attempt_id), (''manifest_uri'', manifest_uri),
             (''updated_at_ms'', dec_of_int now)] db))"

definition publish_script ::
  "string \<Rightarrow> string \<Rightarrow> nat \<Rightarrow> string \<Rightarrow> string \<Rightarrow> string \<Rightarrow> string \<Rightarrow> int \<Rightarrow> store \<Rightarrow> int \<times> store" where
  [script_defs]:
  "publish_script j w attempt_number key mode attempt_id manifest_uri now s =
     (case jobs s j of
        None \<Rightarrow> (-1, s)
      | Some h \<Rightarrow>
          (if \<not> holds_lease w now h \<or> h_attempts h \<noteq> attempt_number \<or> h_cancel_requested h
           then (-1, s)
           else (case publish_fields key mode j attempt_id manifest_uri now (publications s) of
               None \<Rightarrow> (0, s)
             | Some db \<Rightarrow> (1, s\<lparr>publications := db\<rparr>))))"

section \<open>Pops and key expiry\<close>

text \<open>\<open>RPOPLPUSH shard processing\<close>; the blocking form returns the same when an element is there.\<close>

definition pop_to_processing :: "nat \<Rightarrow> store \<Rightarrow> string option \<times> store" where
  [script_defs]:
  "pop_to_processing k s =
     (case rpop (pending s k) of
        None \<Rightarrow> (None, s)
      | Some (j, rest) \<Rightarrow>
          (Some j, s\<lparr>pending := (pending s)(k := rest), processing := lpush j (processing s)\<rparr>))"

text \<open>Valkey's clock moves to \<open>t\<close> and every key whose deadline has passed is gone.\<close>

definition advance_clock :: "int \<Rightarrow> store \<Rightarrow> store" where
  [script_defs]:
  "advance_clock t s = s\<lparr>server_ms := t,
     jobs := (\<lambda>j. case jobs s j of None \<Rightarrow> None | Some h \<Rightarrow> if h_ttl h \<le> t then None else Some h),
     idem := (\<lambda>k. case idem s k of None \<Rightarrow> None | Some b \<Rightarrow> if b_ttl b \<le> t then None else Some b)\<rparr>"

section \<open>Reading the updated state\<close>

lemma set_job_sel [simp]:
  "jobs (set_job j h s) = (jobs s)(j \<mapsto> h)" "pending (set_job j h s) = pending s"
  "processing (set_job j h s) = processing s" "retry (set_job j h s) = retry s"
  "dead (set_job j h s) = dead s" "idem (set_job j h s) = idem s"
  "publications (set_job j h s) = publications s" "server_ms (set_job j h s) = server_ms s"
  by (simp_all add: set_job_def)

lemma push_pending_sel [simp]:
  "jobs (push_pending k j s) = jobs s"
  "pending (push_pending k j s) = (pending s)(k := j # pending s k)"
  "processing (push_pending k j s) = processing s" "retry (push_pending k j s) = retry s"
  "dead (push_pending k j s) = dead s" "idem (push_pending k j s) = idem s"
  "publications (push_pending k j s) = publications s"
  "server_ms (push_pending k j s) = server_ms s"
  by (simp_all add: push_pending_def lpush_def)

lemma new_job_sel [simp]:
  "h_status (new_job r k t e) = QUEUED" "h_shard (new_job r k t e) = k"
  "h_attempts (new_job r k t e) = 0" "h_worker_id (new_job r k t e) = []"
  "h_lease_expires_ms (new_job r k t e) = 0" "h_cancel_requested (new_job r k t e) = False"
  "h_request (new_job r k t e) = r"
  by (simp_all add: new_job_def)

lemma publish_fields_other:
  "publish_fields k mode q a m now db = Some db' \<Longrightarrow> k' \<noteq> k \<Longrightarrow> db' k' = db k'"
  by (auto simp: publish_fields_def split: if_splits)

end
