(* ===== verification/JobInvariant.thy ===== *)
theory JobInvariant
  imports JobStore
begin

text \<open>
  Every interleaving of the queue's atomic Valkey operations, as a step relation, and the
  invariant all of them keep: a live job can always be found where the next operation on it
  looks, attempts never pass the limit, an idle job has no owner, and the dead-letter list
  holds exactly the failed jobs. The steps are the scripts of \<open>JobStore\<close> with arbitrary
  arguments (clocks, workers, leases a caller read earlier), so nothing is assumed about how
  workers, reapers and API processes interleave. Only two things are assumed of the callers:
  a new job's identifier (\<open>uuid4\<close>) is unused, and a script that names a pending list names
  the one of the job's own shard, as the Python callers do.
\<close>

section \<open>Where a job is\<close>

definition fresh_id :: "nat \<Rightarrow> string \<Rightarrow> store \<Rightarrow> bool" where
  "fresh_id n j s = (jobs s j = None \<and> j \<notin> set (processing s) \<and> j \<notin> zmembers (retry s)
     \<and> j \<notin> set (dead s) \<and> list_all (\<lambda>k. j \<notin> set (pending s k)) [0..<n])"

definition own_shard :: "string \<Rightarrow> nat \<Rightarrow> store \<Rightarrow> bool" where
  "own_shard j k s = (case jobs s j of None \<Rightarrow> True | Some h \<Rightarrow> k = h_shard h)"

fun located :: "nat \<Rightarrow> store \<Rightarrow> string \<Rightarrow> job_hash \<Rightarrow> JobStatus \<Rightarrow> bool" where
  "located m s j h QUEUED =
     (h_attempts h < m \<and> (j \<in> set (pending s (h_shard h)) \<or> j \<in> set (processing s)))"
| "located m s j h RUNNING =
     (0 < h_attempts h \<and> h_attempts h \<le> m \<and> j \<in> set (processing s))"
| "located m s j h RETRYING =
     (0 < h_attempts h \<and> h_attempts h < m \<and> j \<in> zmembers (retry s))"
| "located m s j h SUCCEEDED = (0 < h_attempts h \<and> h_attempts h \<le> m)"
| "located m s j h FAILED = (0 < h_attempts h \<and> h_attempts h \<le> m \<and> j \<in> set (dead s))"
| "located m s j h CANCELLED = (h_attempts h \<le> m)"

definition job_ok :: "nat \<Rightarrow> nat \<Rightarrow> store \<Rightarrow> string \<Rightarrow> job_hash \<Rightarrow> bool" where
  "job_ok n m s j h = (h_shard h < n \<and> located m s j h (h_status h)
     \<and> (h_status h \<noteq> RUNNING \<longrightarrow> h_worker_id h = [] \<and> h_lease_expires_ms h = 0))"

definition queue_inv :: "nat \<Rightarrow> nat \<Rightarrow> store \<Rightarrow> bool" where
  "queue_inv n m s = ((\<forall>j h. jobs s j = Some h \<longrightarrow> job_ok n m s j h)
     \<and> zset_ok (retry s) \<and> distinct (dead s)
     \<and> (\<forall>j h. j \<in> set (dead s) \<longrightarrow> jobs s j = Some h \<longrightarrow> h_status h = FAILED))"

lemma queue_inv_empty: "queue_inv n m (empty_store t)"
  by (simp add: queue_inv_def empty_store_def)

text \<open>A state change keeps job \<open>i\<close> findable when it moves \<open>i\<close> towards processing at most.\<close>

definition keeps :: "string \<Rightarrow> store \<Rightarrow> store \<Rightarrow> bool" where
  "keeps i s s' = ((\<forall>k. i \<in> set (pending s k) \<longrightarrow> i \<in> set (pending s' k) \<or> i \<in> set (processing s'))
     \<and> (i \<in> set (processing s) \<longrightarrow> i \<in> set (processing s'))
     \<and> (i \<in> zmembers (retry s) \<longrightarrow> i \<in> zmembers (retry s'))
     \<and> (i \<in> set (dead s) \<longrightarrow> i \<in> set (dead s')))"

lemma keeps_refl [simp]: "keeps i s s"
  by (simp add: keeps_def)

lemma job_ok_keeps: "job_ok n m s i h \<Longrightarrow> keeps i s s' \<Longrightarrow> job_ok n m s' i h"
  by (cases "h_status h") (auto simp: job_ok_def keeps_def)

text \<open>
  The one argument all preservation proofs share: a step that rewrites the hash of one job
  and keeps the others findable.
\<close>

lemma queue_inv_update:
  assumes inv: "queue_inv n m s"
    and hash: "jobs s' = (jobs s)(j \<mapsto> h')"
    and ok: "job_ok n m s' j h'"
    and others: "\<And>i. i \<noteq> j \<Longrightarrow> keeps i s s'"
    and zset: "zset_ok (retry s')"
    and dead: "dead s' = dead s \<and> (j \<notin> set (dead s) \<or> h_status h' = FAILED)
      \<or> dead s' = j # dead s \<and> j \<notin> set (dead s) \<and> h_status h' = FAILED"
  shows "queue_inv n m s'"
proof -
  have jobs_ok: "job_ok n m s' i h" if "jobs s' i = Some h" for i h
  proof (cases "i = j")
    case True
    with that hash ok show ?thesis by simp
  next
    case False
    with that hash inv have "job_ok n m s i h" by (simp add: queue_inv_def)
    then show ?thesis using others [OF False] by (rule job_ok_keeps)
  qed
  have "distinct (dead s')" using inv dead by (auto simp: queue_inv_def)
  moreover have "h_status h = FAILED" if "i \<in> set (dead s')" "jobs s' i = Some h" for i h
    using that hash dead inv by (auto simp: queue_inv_def split: if_splits)
  ultimately show ?thesis using jobs_ok zset by (simp add: queue_inv_def)
qed

lemma queue_inv_same_jobs:
  assumes inv: "queue_inv n m s" and hash: "jobs s' = jobs s"
    and keep: "\<And>i h. jobs s i = Some h \<Longrightarrow> job_ok n m s i h \<Longrightarrow> job_ok n m s' i h"
    and zset: "zset_ok (retry s')" and dead: "dead s' = dead s"
  shows "queue_inv n m s'"
  using assms by (simp add: queue_inv_def)

lemma queue_invD:
  assumes "queue_inv n m s"
  shows "jobs s j = Some h \<Longrightarrow> job_ok n m s j h" and "zset_ok (retry s)"
    and "j \<in> set (dead s) \<Longrightarrow> jobs s j = Some h \<Longrightarrow> h_status h = FAILED"
  using assms by (auto simp: queue_inv_def)

section \<open>Each script keeps the invariant\<close>

lemma inv_enqueue:
  assumes "queue_inv n m s" and "fresh_id n j s" and "shard < n" and "0 < m"
  shows "queue_inv n m (snd (enqueue_script n ik rh rj shard now ttl j ittl d s))"
proof (cases "snd (enqueue_script n ik rh rj shard now ttl j ittl d s) = s")
  case True
  with assms show ?thesis by simp
next
  case False
  let ?s = "snd (enqueue_script n ik rh rj shard now ttl j ittl d s)"
  let ?h = "new_job rj shard now (expire ttl s)"
  from False have st: "jobs ?s = (jobs s)(j \<mapsto> ?h)"
    "pending ?s = (pending s)(shard := j # pending s shard)" "processing ?s = processing s"
    "retry ?s = retry s" "dead ?s = dead s"
    by (auto simp: script_defs Let_def split: option.splits if_splits)
  show ?thesis
  proof (rule queue_inv_update [OF assms(1) st(1)])
    show "job_ok n m ?s j ?h" using assms st by (simp add: job_ok_def)
    show "keeps i s ?s" for i using st by (auto simp: keeps_def)
    show "zset_ok (retry ?s)" using assms(1) st by (simp add: queue_inv_def)
  qed (use assms(2) st in \<open>simp add: fresh_id_def\<close>)
qed

lemma inv_pop:
  assumes "queue_inv n m s"
  shows "queue_inv n m (snd (pop_to_processing k s))"
proof (cases "rpop (pending s k)")
  case None
  then show ?thesis using assms by (simp add: pop_to_processing_def rpop_def)
next
  case (Some p)
  then obtain j rest where p: "pending s k = rest @ [j]"
    and st: "snd (pop_to_processing k s) =
      s\<lparr>pending := (pending s)(k := rest), processing := j # processing s\<rparr>"
    by (cases p) (auto simp: pop_to_processing_def lpush_def)
  have "keeps i s (snd (pop_to_processing k s))" for i
    using p by (auto simp: st keeps_def)
  then show ?thesis
    using assms by (intro queue_inv_same_jobs [OF assms])
      (auto simp: st queue_inv_def intro: job_ok_keeps)
qed

lemma inv_claim:
  assumes "queue_inv n m s"
  shows "queue_inv n m (snd (claim_script j w lease now ttl s))"
proof (cases "\<exists>h. jobs s j = Some h \<and> h_status h = QUEUED \<and> j \<in> set (processing s)")
  case False
  with assms show ?thesis by (auto simp: claim_script_def split: option.splits)
next
  case True
  then obtain h where h: "jobs s j = Some h" "h_status h = QUEUED" "j \<in> set (processing s)"
    by blast
  have st: "snd (claim_script j w lease now ttl s) = set_job j (h\<lparr>h_attempts := h_attempts h + 1,
      h_status := RUNNING, h_worker_id := w, h_lease_expires_ms := lease, h_updated_at_ms := now,
      h_cancel_requested := False, h_next_attempt_ms := 0, h_ttl := expire ttl s\<rparr>) s"
    using h by (simp add: claim_script_def Let_def)
  have ok: "job_ok n m s j h" using assms h by (simp add: queue_invD)
  show ?thesis unfolding st
    using assms h ok queue_invD(3) [OF assms, of j h]
    by (intro queue_inv_update [OF assms, where j = j])
      (auto simp: job_ok_def keeps_def queue_invD)
qed

lemma inv_heartbeat:
  assumes "queue_inv n m s"
  shows "queue_inv n m (snd (heartbeat_script j w lease now ttl s))"
proof (cases "jobs s j")
  case None
  with assms show ?thesis by (simp add: heartbeat_script_def)
next
  case (Some h)
  have ok: "job_ok n m s j h" using assms Some by (simp add: queue_invD)
  show ?thesis
  proof (cases "holds_lease w now h")
    case False
    with Some assms show ?thesis by (simp add: heartbeat_script_def)
  next
    case True
    with Some ok show ?thesis
      using queue_invD(3) [OF assms, of j h]
      by (auto simp: heartbeat_script_def holds_lease_def job_ok_def keeps_def queue_invD(2) [OF assms]
          intro!: queue_inv_update [OF assms, where j = j])
  qed
qed

text \<open>The three ways a running job leaves the processing list.\<close>

lemma inv_finish:
  assumes inv: "queue_inv n m s" and h: "jobs s j = Some h" and run: "h_status h = RUNNING"
    and st: "jobs s' = (jobs s)(j \<mapsto> the (jobs s' j))" "pending s' = pending s"
      "processing s' = remove1 j (processing s)" "retry s' = retry s"
    and h': "h_shard (the (jobs s' j)) = h_shard h" "h_attempts (the (jobs s' j)) = h_attempts h"
      "h_worker_id (the (jobs s' j)) = []" "h_lease_expires_ms (the (jobs s' j)) = 0"
    and dead: "h_status (the (jobs s' j)) = FAILED \<and> dead s' = j # dead s
      \<or> h_status (the (jobs s' j)) \<in> {SUCCEEDED, CANCELLED} \<and> dead s' = dead s"
  shows "queue_inv n m s'"
proof -
  have ok: "job_ok n m s j h" using inv h by (simp add: queue_invD)
  have nd: "j \<notin> set (dead s)" using queue_invD(3) [OF inv, of j h] h run by auto
  show ?thesis
  proof (rule queue_inv_update [OF inv st(1)])
    show "job_ok n m s' j (the (jobs s' j))" using ok run h' dead by (auto simp: job_ok_def)
    show "keeps i s s'" if "i \<noteq> j" for i using that st dead by (auto simp: keeps_def)
    show "zset_ok (retry s')" using inv st by (simp add: queue_invD)
  qed (use dead nd in auto)
qed

lemma inv_to_retry:
  assumes inv: "queue_inv n m s" and h: "jobs s j = Some h" and run: "h_status h = RUNNING"
    and st: "jobs s' = (jobs s)(j \<mapsto> the (jobs s' j))" "pending s' = pending s"
      "processing s' = remove1 j (processing s)" "retry s' = zadd sc j (retry s)" "dead s' = dead s"
    and h': "h_shard (the (jobs s' j)) = h_shard h" "h_attempts (the (jobs s' j)) = h_attempts h"
      "h_worker_id (the (jobs s' j)) = []" "h_lease_expires_ms (the (jobs s' j)) = 0"
      "h_status (the (jobs s' j)) = RETRYING" "h_attempts h < m"
  shows "queue_inv n m s'"
proof -
  have ok: "job_ok n m s j h" using inv h by (simp add: queue_invD)
  have nd: "j \<notin> set (dead s)" using queue_invD(3) [OF inv, of j h] h run by auto
  show ?thesis
  proof (rule queue_inv_update [OF inv st(1)])
    show "job_ok n m s' j (the (jobs s' j))" using ok run h' st by (simp add: job_ok_def)
    show "keeps i s s'" if "i \<noteq> j" for i using that st by (auto simp: keeps_def)
    show "zset_ok (retry s')" using inv st by (simp add: queue_invD zset_ok_zadd)
  qed (use st nd in auto)
qed

lemma inv_complete:
  assumes "queue_inv n m s"
  shows "queue_inv n m (snd (complete_script j w res now ttl s))"
proof (cases "snd (complete_script j w res now ttl s) = s")
  case True
  with assms show ?thesis by simp
next
  case False
  then obtain h where h: "jobs s j = Some h" "holds_lease w now h" "\<not> h_cancel_requested h"
    by (auto simp: complete_script_def split: option.splits if_splits)
  show ?thesis
    by (rule inv_finish [OF assms h(1)])
      (use h in \<open>auto simp: complete_script_def Let_def holds_lease_def lrem1_def\<close>)
qed

lemma inv_terminal:
  assumes "queue_inv n m s" and "st \<in> {FAILED, CANCELLED}"
  shows "queue_inv n m (snd (terminal_script j w st err now ttl s))"
proof (cases "snd (terminal_script j w st err now ttl s) = s")
  case True
  with assms show ?thesis by simp
next
  case False
  then obtain h where h: "jobs s j = Some h" "holds_lease w now h"
    by (auto simp: terminal_script_def split: option.splits if_splits)
  show ?thesis
    by (rule inv_finish [OF assms(1) h(1)])
      (use h assms(2) in \<open>auto simp: terminal_script_def Let_def holds_lease_def lrem1_def lpush_def\<close>)
qed

lemma inv_retry:
  assumes "queue_inv n m s"
  shows "queue_inv n m (snd (retry_script j w m err now next_ms ttl s))"
proof (cases "snd (retry_script j w m err now next_ms ttl s) = s")
  case True
  with assms show ?thesis by simp
next
  case False
  then obtain h where h: "jobs s j = Some h" "holds_lease w now h"
    by (auto simp: retry_script_def split: option.splits if_splits)
  then have run: "h_status h = RUNNING" by (simp add: holds_lease_def)
  show ?thesis
  proof (cases "m \<le> h_attempts h")
    case True
    show ?thesis
      by (rule inv_finish [OF assms h(1) run])
        (use h True in \<open>auto simp: retry_script_def Let_def lrem1_def lpush_def\<close>)
  next
    case small: False
    show ?thesis
      by (rule inv_to_retry [OF assms h(1) run, where sc = next_ms])
        (use h small in \<open>auto simp: retry_script_def Let_def lrem1_def\<close>)
  qed
qed

lemma inv_drop_processing:
  assumes "queue_inv n m s" and "jobs s j = None \<or> (\<exists>h. jobs s j = Some h \<and> h_status h \<notin> {QUEUED, RUNNING})"
  shows "queue_inv n m (s\<lparr>processing := remove1 j (processing s)\<rparr>)"
proof (rule queue_inv_same_jobs [OF assms(1)])
  fix i h assume i: "jobs s i = Some h" "job_ok n m s i h"
  show "job_ok n m (s\<lparr>processing := remove1 j (processing s)\<rparr>) i h"
  proof (cases "i = j")
    case True
    with i assms(2) show ?thesis by (cases "h_status h") (auto simp: job_ok_def)
  next
    case False
    then have "keeps i s (s\<lparr>processing := remove1 j (processing s)\<rparr>)" by (simp add: keeps_def)
    with i show ?thesis by (blast intro: job_ok_keeps)
  qed
qed (use assms in \<open>simp_all add: queue_invD\<close>)

lemma inv_requeue:
  assumes "queue_inv n m s" and "jobs s j = Some h" and "h_status h = QUEUED"
  shows "queue_inv n m (push_pending (h_shard h) j (s\<lparr>processing := remove1 j (processing s)\<rparr>))"
    (is "queue_inv n m ?s")
proof (rule queue_inv_same_jobs [OF assms(1)])
  fix i h' assume i: "jobs s i = Some h'" "job_ok n m s i h'"
  show "job_ok n m ?s i h'"
  proof (cases "i = j")
    case True
    with i assms show ?thesis by (auto simp: job_ok_def)
  next
    case False
    then have "keeps i s ?s" by (auto simp: keeps_def)
    with i show ?thesis by (blast intro: job_ok_keeps)
  qed
qed (use assms in \<open>simp_all add: queue_invD\<close>)

lemma inv_reap:
  assumes "queue_inv n m s" and own: "own_shard j k s"
  shows "queue_inv n m (snd (reap_script j lease now m next_ms ttl k s))"
proof (cases "jobs s j")
  case None
  with assms(1) show ?thesis by (simp add: reap_script_def lrem1_def inv_drop_processing)
next
  case (Some h)
  show ?thesis
  proof (cases "h_status h = RUNNING")
    case False
    with Some own assms(1) show ?thesis
      by (auto simp: reap_script_def Let_def lrem1_def own_shard_def inv_drop_processing inv_requeue)
  next
    case run: True
    consider (live) "h_lease_expires_ms h \<noteq> lease \<or> h_lease_expires_ms h > now"
      | (stop) "h_lease_expires_ms h = lease" "\<not> h_lease_expires_ms h > now"
          "h_cancel_requested h \<or> m \<le> h_attempts h"
      | (again) "h_lease_expires_ms h = lease" "\<not> h_lease_expires_ms h > now"
          "\<not> h_cancel_requested h" "h_attempts h < m"
      by linarith
    then show ?thesis
    proof cases
      case live
      with Some run assms(1) show ?thesis by (simp add: reap_script_def)
    next
      case stop
      show ?thesis
        by (rule inv_finish [OF assms(1) Some run])
          (use Some run stop in \<open>auto simp: reap_script_def Let_def lrem1_def lpush_def\<close>)
    next
      case again
      show ?thesis
        by (rule inv_to_retry [OF assms(1) Some run, where sc = next_ms])
          (use Some run again in \<open>auto simp: reap_script_def Let_def lrem1_def\<close>)
    qed
  qed
qed

lemma inv_drop_retry:
  assumes "queue_inv n m s" and "\<And>h. jobs s j = Some h \<Longrightarrow> h_status h \<noteq> RETRYING"
  shows "queue_inv n m (s\<lparr>retry := zrem j (retry s)\<rparr>)"
proof (rule queue_inv_same_jobs [OF assms(1)])
  fix i h assume i: "jobs s i = Some h" "job_ok n m s i h"
  show "job_ok n m (s\<lparr>retry := zrem j (retry s)\<rparr>) i h"
  proof (cases "i = j")
    case True
    with i assms(2) show ?thesis by (cases "h_status h") (auto simp: job_ok_def)
  next
    case False
    then have "keeps i s (s\<lparr>retry := zrem j (retry s)\<rparr>)" by (simp add: keeps_def)
    with i show ?thesis by (blast intro: job_ok_keeps)
  qed
qed (use assms in \<open>simp_all add: queue_invD zset_ok_zrem\<close>)

lemma inv_promote:
  assumes inv: "queue_inv n m s" and own: "own_shard j k s"
  shows "queue_inv n m (snd (promote_script j now k s))"
proof (cases "\<exists>h sc. jobs s j = Some h \<and> h_status h = RETRYING \<and> zscore (retry s) j = Some sc \<and> sc \<le> now")
  case False
  with inv show ?thesis
    by (auto simp: promote_script_def intro!: inv_drop_retry split: option.splits)
next
  case True
  then obtain h sc where h: "jobs s j = Some h" "h_status h = RETRYING"
    "zscore (retry s) j = Some sc" "sc \<le> now" by blast
  have ok: "job_ok n m s j h" using inv h by (simp add: queue_invD)
  have "k = h_shard h" using own h by (simp add: own_shard_def)
  with h ok queue_invD(3) [OF inv, of j h] show ?thesis
    by (auto simp: promote_script_def job_ok_def keeps_def queue_invD(2) [OF inv] zset_ok_zrem
        intro!: queue_inv_update [OF inv, where j = j])
qed

lemma inv_cancel:
  assumes inv: "queue_inv n m s" and own: "own_shard j k s"
  shows "queue_inv n m (snd (cancel_script j now k s))"
proof (cases "jobs s j")
  case None
  with inv show ?thesis by (simp add: cancel_script_def)
next
  case (Some h)
  have ok: "job_ok n m s j h" using inv Some by (simp add: queue_invD)
  show ?thesis
  proof (cases "h_status h \<in> {QUEUED, RETRYING, RUNNING}")
    case False
    with Some inv show ?thesis by (auto simp: cancel_script_def)
  next
    case True
    with Some ok queue_invD(3) [OF inv, of j h] show ?thesis
      by (auto simp: cancel_script_def job_ok_def keeps_def queue_invD(2) [OF inv] zset_ok_zrem lrem1_def
          intro!: queue_inv_update [OF inv, where j = j])
  qed
qed

text \<open>Publications, the clocks and the bindings play no part in the invariant.\<close>

lemma queue_inv_cong:
  assumes "queue_inv n m s" and "\<And>j h. jobs s' j = Some h \<Longrightarrow> jobs s j = Some h"
    and "pending s' = pending s" and "processing s' = processing s" and "retry s' = retry s"
    and "dead s' = dead s"
  shows "queue_inv n m s'"
proof -
  have "keeps j s s'" for j using assms(3-6) by (simp add: keeps_def)
  then have ok: "job_ok n m s' j h" if "jobs s' j = Some h" for j h
    using job_ok_keeps [OF queue_invD(1) [OF assms(1) assms(2) [OF that]]] by simp
  have "h_status h = FAILED" if "j \<in> set (dead s')" "jobs s' j = Some h" for j h
    using queue_invD(3) [OF assms(1) _ assms(2) [OF that(2)]] that(1) assms(6) by simp
  with ok show ?thesis using assms(1,5,6) unfolding queue_inv_def by simp
qed

lemma inv_publish:
  assumes "queue_inv n m s"
  shows "queue_inv n m (snd (publish_script j w a key mode aid uri now s))"
  by (rule queue_inv_cong [OF assms]) (auto simp: publish_script_def split: option.splits if_splits)

lemma inv_advance:
  assumes "queue_inv n m s"
  shows "queue_inv n m (advance_clock t s)"
  by (rule queue_inv_cong [OF assms]) (auto simp: advance_clock_def split: option.splits if_splits)

section \<open>The step relation\<close>

text \<open>
  \<open>n\<close> is \<open>affinity_shards\<close>, \<open>m\<close> is \<open>max_attempts\<close>, \<open>d\<close> is \<open>max_queue_depth\<close>; everything else a
  caller may choose. \<open>core_step\<close> has every operation but the reaper's. In \<open>script_step\<close> the
  reaper may work from an outdated \<open>LRANGE\<close> or \<open>HMGET\<close>; in \<open>synced_step\<close> the job it reaps is
  still in the processing list.
\<close>

inductive core_step :: "nat \<Rightarrow> nat \<Rightarrow> nat \<Rightarrow> store \<Rightarrow> store \<Rightarrow> bool" for n m d where
  core_enqueue: "fresh_id n j s \<Longrightarrow> shard < n \<Longrightarrow>
    core_step n m d s (snd (enqueue_script n ik rh rj shard now ttl j ittl d s))"
| core_pop: "k < n \<Longrightarrow> core_step n m d s (snd (pop_to_processing k s))"
| core_claim: "core_step n m d s (snd (claim_script j w lease now ttl s))"
| core_heartbeat: "core_step n m d s (snd (heartbeat_script j w lease now ttl s))"
| core_complete: "core_step n m d s (snd (complete_script j w res now ttl s))"
| core_terminal: "st \<in> {FAILED, CANCELLED} \<Longrightarrow>
    core_step n m d s (snd (terminal_script j w st err now ttl s))"
| core_retry: "core_step n m d s (snd (retry_script j w m err now next_ms ttl s))"
| core_promote: "own_shard j k s \<Longrightarrow> core_step n m d s (snd (promote_script j now k s))"
| core_cancel: "own_shard j k s \<Longrightarrow> core_step n m d s (snd (cancel_script j now k s))"
| core_publish: "core_step n m d s (snd (publish_script j w a key mode aid uri now s))"
| core_advance: "server_ms s \<le> t \<Longrightarrow> core_step n m d s (advance_clock t s)"

inductive script_step :: "nat \<Rightarrow> nat \<Rightarrow> nat \<Rightarrow> store \<Rightarrow> store \<Rightarrow> bool" for n m d where
  step_core: "core_step n m d s s' \<Longrightarrow> script_step n m d s s'"
| step_reap: "own_shard j k s \<Longrightarrow>
    script_step n m d s (snd (reap_script j lease now m next_ms ttl k s))"

inductive synced_step :: "nat \<Rightarrow> nat \<Rightarrow> nat \<Rightarrow> store \<Rightarrow> store \<Rightarrow> bool" for n m d where
  synced_core: "core_step n m d s s' \<Longrightarrow> synced_step n m d s s'"
| synced_reap: "own_shard j k s \<Longrightarrow> j \<in> set (processing s) \<Longrightarrow>
    synced_step n m d s (snd (reap_script j lease now m next_ms ttl k s))"

lemmas step_enqueue = core_enqueue [THEN step_core]
  and step_pop = core_pop [THEN step_core]
  and step_claim = core_claim [THEN step_core]
  and step_heartbeat = core_heartbeat [THEN step_core]
  and step_complete = core_complete [THEN step_core]
  and step_terminal = core_terminal [THEN step_core]
  and step_retry = core_retry [THEN step_core]
  and step_promote = core_promote [THEN step_core]
  and step_cancel = core_cancel [THEN step_core]
  and step_publish = core_publish [THEN step_core]
  and step_advance = core_advance [THEN step_core]

lemma synced_is_script: "synced_step n m d s s' \<Longrightarrow> script_step n m d s s'"
  by (auto elim!: synced_step.cases intro: script_step.intros)

abbreviation script_steps :: "nat \<Rightarrow> nat \<Rightarrow> nat \<Rightarrow> store \<Rightarrow> store \<Rightarrow> bool" where
  "script_steps n m d \<equiv> (script_step n m d)\<^sup>*\<^sup>*"

lemmas core_invs = inv_enqueue inv_pop inv_claim inv_heartbeat inv_complete inv_terminal
  inv_retry inv_promote inv_cancel inv_publish inv_advance

lemma core_step_inv:
  "core_step n m d s s' \<Longrightarrow> queue_inv n m s \<Longrightarrow> 0 < m \<Longrightarrow> queue_inv n m s'"
  by (induction rule: core_step.induct) (rule core_invs; assumption)+

lemma script_step_inv:
  "script_step n m d s s' \<Longrightarrow> queue_inv n m s \<Longrightarrow> 0 < m \<Longrightarrow> queue_inv n m s'"
  by (induction rule: script_step.induct) (auto intro: core_step_inv inv_reap)

interpretation queue_runs: kept_property "script_step n m d" "\<lambda>s. queue_inv n m s \<and> 0 < m"
  by unfold_locales (auto intro: script_step_inv)

lemma script_steps_inv:
  "script_steps n m d s s' \<Longrightarrow> queue_inv n m s \<Longrightarrow> 0 < m \<Longrightarrow> queue_inv n m s'"
  using queue_runs.steps_keep by blast

end
