(* ===== verification/JobLifecycle.thy ===== *)
theory JobLifecycle
  imports JobInvariant
begin

text \<open>
  The life of one job under every interleaving: the abstract machine over (status, attempts)
  that the scripts implement, the frozen terminal states, the growth of the attempt counter,
  and the fencing of workers that no longer own the job.
\<close>

section \<open>The abstract job machine\<close>

definition terminal_status :: "JobStatus \<Rightarrow> bool" where
  "terminal_status st = (st \<in> {SUCCEEDED, FAILED, CANCELLED})"

text \<open>
  What the README draws, with the two cancellations of waiting jobs that the code also has:
  a job is \<open>(status, attempts)\<close>, and only a claim counts an attempt.
\<close>

inductive life_step :: "nat \<Rightarrow> JobStatus \<times> nat \<Rightarrow> JobStatus \<times> nat \<Rightarrow> bool" for m where
  life_claim: "a < m \<Longrightarrow> life_step m (QUEUED, a) (RUNNING, Suc a)"
| life_cancel_queued: "life_step m (QUEUED, a) (CANCELLED, a)"
| life_succeed: "life_step m (RUNNING, a) (SUCCEEDED, a)"
| life_fail: "life_step m (RUNNING, a) (FAILED, a)"
| life_cancel_running: "life_step m (RUNNING, a) (CANCELLED, a)"
| life_retry: "a < m \<Longrightarrow> life_step m (RUNNING, a) (RETRYING, a)"
| life_promote: "life_step m (RETRYING, a) (QUEUED, a)"
| life_cancel_retrying: "life_step m (RETRYING, a) (CANCELLED, a)"

inductive_cases life_step_from: "life_step m (st, a) p"

lemma life_step_terminal: "terminal_status st \<Longrightarrow> \<not> life_step m (st, a) p"
  by (auto simp: terminal_status_def elim: life_step_from)

lemma life_step_attempts: "life_step m (st, a) (st', a') \<Longrightarrow> a \<le> a' \<and> a' \<le> Suc a"
  by (auto elim: life_step_from)

definition life :: "job_hash \<Rightarrow> JobStatus \<times> nat" where
  "life h = (h_status h, h_attempts h)"

text \<open>
  How one job's hash may change in a step: not at all, by expiry, by creation, or by a
  transition of the machine or a refresh of a running job that keeps its identity.
\<close>

definition same_job :: "job_hash \<Rightarrow> job_hash \<Rightarrow> bool" where
  "same_job h h' = (h_request h' = h_request h \<and> h_shard h' = h_shard h
     \<and> h_created_at_ms h' = h_created_at_ms h)"

definition hash_step :: "nat \<Rightarrow> job_hash option \<Rightarrow> job_hash option \<Rightarrow> bool" where
  "hash_step m oh oh' =
     (case (oh, oh') of
        (None, None) \<Rightarrow> True
      | (None, Some h') \<Rightarrow> life h' = (QUEUED, 0)
      | (Some h, None) \<Rightarrow> True
      | (Some h, Some h') \<Rightarrow> h' = h \<or> same_job h h'
          \<and> (life_step m (life h) (life h') \<or> h_status h = RUNNING \<and> life h' = life h))"

lemma hash_step_refl [simp]: "hash_step m oh oh"
  by (simp add: hash_step_def split: option.splits)

lemmas life_defs = hash_step_def life_def same_job_def

lemma core_step_hash:
  assumes "core_step n m d s s'" and "queue_inv n m s"
  shows "hash_step m (jobs s j) (jobs s' j)"
  using assms
proof (cases rule: core_step.cases)
  case (core_enqueue i shard ik rh rj now ttl ittl)
  then show ?thesis
    by (auto simp: script_defs Let_def life_defs fresh_id_def split: option.splits if_splits)
next
  case (core_claim i w lease now ttl)
  then show ?thesis using queue_invD(1) [OF assms(2), of i]
    by (auto simp: script_defs Let_def life_defs job_ok_def intro: life_step.intros
        split: option.splits if_splits)
qed (auto simp: script_defs Let_def life_defs holds_lease_def intro: life_step.intros
      split: option.splits if_splits prod.splits)

lemma script_step_hash:
  assumes "script_step n m d s s'" and "queue_inv n m s"
  shows "hash_step m (jobs s j) (jobs s' j)"
  using assms(1)
proof cases
  case step_core
  then show ?thesis using assms(2) by (rule core_step_hash)
next
  case (step_reap i k lease now next_ms ttl)
  then show ?thesis
    by (auto simp: script_defs Let_def life_defs intro: life_step.intros
        split: option.splits if_splits)
qed

section \<open>Runs in which an identifier is not reused\<close>

text \<open>
  \<open>uuid4\<close> does not return an identifier twice: steps that do not create job \<open>j\<close> anew after its
  key has expired.
\<close>

definition keeping_id :: "nat \<Rightarrow> nat \<Rightarrow> nat \<Rightarrow> string \<Rightarrow> store \<Rightarrow> store \<Rightarrow> bool" where
  "keeping_id n m d j s s' = (script_step n m d s s' \<and> (jobs s j = None \<longrightarrow> jobs s' j = None))"

lemma keeping_id_hash:
  "keeping_id n m d j s s' \<Longrightarrow> queue_inv n m s \<Longrightarrow> hash_step m (jobs s j) (jobs s' j)"
  by (auto simp: keeping_id_def intro: script_step_hash)

lemma keeping_id_inv:
  "keeping_id n m d j s s' \<Longrightarrow> queue_inv n m s \<Longrightarrow> 0 < m \<Longrightarrow> queue_inv n m s'"
  by (auto simp: keeping_id_def intro: script_step_inv)

lemma keeping_id_frozen:
  assumes "keeping_id n m d j s s'" and "queue_inv n m s" and "terminal_status (h_status h)"
    and "jobs s j = None \<or> jobs s j = Some h"
  shows "jobs s' j = None \<or> jobs s' j = Some h"
  using assms keeping_id_hash [OF assms(1,2)] life_step_terminal
  by (auto simp: keeping_id_def life_defs terminal_status_def split: option.splits)

lemma keeping_id_attempts:
  assumes "keeping_id n m d j s s'" and "queue_inv n m s"
    and "\<And>h. jobs s j = Some h \<Longrightarrow> a \<le> h_attempts h" and "jobs s' j = Some h'"
  shows "a \<le> h_attempts h'"
  using assms keeping_id_hash [OF assms(1,2)]
  by (force simp: keeping_id_def life_defs split: option.splits dest: life_step_attempts)

interpretation frozen: kept_property "keeping_id n m d j"
  "\<lambda>s. queue_inv n m s \<and> 0 < m \<and> terminal_status (h_status h)
     \<and> (jobs s j = None \<or> jobs s j = Some h)"
  by unfold_locales (meson keeping_id_frozen keeping_id_inv)

interpretation counted: kept_property "keeping_id n m d j"
  "\<lambda>s. queue_inv n m s \<and> 0 < m \<and> (\<forall>h. jobs s j = Some h \<longrightarrow> a \<le> h_attempts h)"
  by unfold_locales (meson keeping_id_attempts keeping_id_inv)

section \<open>Replies of the scripts\<close>

text \<open>When each guarded script says yes, and that a refusal changes nothing.\<close>

lemma complete_reply:
  "fst (complete_script j w res now ttl s) \<longleftrightarrow>
     (\<exists>h. jobs s j = Some h \<and> holds_lease w now h \<and> \<not> h_cancel_requested h)"
  by (auto simp: complete_script_def Let_def split: option.splits)

lemma publish_reply:
  "fst (publish_script j w a key mode aid uri now s) \<noteq> -1 \<longleftrightarrow>
     (\<exists>h. jobs s j = Some h \<and> holds_lease w now h \<and> h_attempts h = a \<and> \<not> h_cancel_requested h)"
  by (auto simp: publish_script_def split: option.splits)

lemma refused_unchanged:
  assumes "\<And>h. jobs s j = Some h \<Longrightarrow> \<not> holds_lease w now h"
  shows "heartbeat_script j w lease now ttl s = (False, s)"
    and "complete_script j w res now ttl s = (False, s)"
    and "terminal_script j w st err now ttl s = (False, s)"
    and "retry_script j w m err now next_ms ttl s = (False, s)"
    and "publish_script j w a key mode aid uri now s = (-1, s)"
  using assms by (auto simp: script_defs split: option.splits)

end
