(* ===== verification/Sql.thy ===== *)
theory Sql
  imports Errors
begin

text \<open>
  The SQL boundary, \<open>src/dalmatian/sql.py\<close>. The parser is the third-party package sqlglot: a
  record of the observers the code uses (\<open>sg_parse\<close> with the statements or the exception's
  text, whether a statement is an \<open>exp.Query\<close>, the CTE names and tables found in it, and its
  rendering), \<open>None\<close> when the package cannot be imported. The regular-expression fallback is
  modelled in full for ASCII text; each pattern is a deterministic scanner, since the
  character classes on both sides of every repetition are disjoint.
\<close>

record table_ref =
  t_catalog :: string
  t_db :: string
  t_name :: string

record 'ast sqlglot =
  sg_parse :: "string \<Rightarrow> string + 'ast option list"
  sg_is_query :: "'ast \<Rightarrow> bool"
  sg_ctes :: "'ast \<Rightarrow> string list"
  sg_tables :: "'ast \<Rightarrow> table_ref list"
  sg_sql :: "'ast \<Rightarrow> string"

section \<open>Character classes\<close>

definition is_space :: "char \<Rightarrow> bool" where
  "is_space c = (let n = of_char c :: nat in n = 32 \<or> (9 \<le> n \<and> n \<le> 13) \<or> (28 \<le> n \<and> n \<le> 31))"

definition is_word :: "char \<Rightarrow> bool" where
  "is_word c = (let n = of_char c :: nat in
     (48 \<le> n \<and> n \<le> 57) \<or> (65 \<le> n \<and> n \<le> 90) \<or> (97 \<le> n \<and> n \<le> 122) \<or> n = 95)"

definition is_ident_start :: "char \<Rightarrow> bool" where
  "is_ident_start c = (let n = of_char c :: nat in
     (65 \<le> n \<and> n \<le> 90) \<or> (97 \<le> n \<and> n \<le> 122) \<or> n = 95)"

definition to_lower :: "char \<Rightarrow> char" where
  "to_lower c = (let n = of_char c :: nat in if 65 \<le> n \<and> n \<le> 90 then char_of (n + 32) else c)"

definition lower :: "string \<Rightarrow> string" where
  "lower s = map to_lower s"

definition lstrip_ws :: "string \<Rightarrow> string" where
  "lstrip_ws s = dropWhile is_space s"

definition rstrip_ws :: "string \<Rightarrow> string" where
  "rstrip_ws s = rev (dropWhile is_space (rev s))"

definition strip_ws :: "string \<Rightarrow> string" where
  "strip_ws s = rstrip_ws (lstrip_ws s)"

section \<open>The patterns\<close>

definition forbidden_words :: "string list" where
  "forbidden_words = [''insert'', ''update'', ''delete'', ''create'', ''drop'', ''alter'',
     ''merge'', ''truncate'', ''cache'', ''uncache'', ''refresh'', ''set'', ''use'',
     ''describe'', ''show'', ''grant'', ''revoke'', ''call'', ''copy'']"

text \<open>
  \<open>\b(w1|...|wn)\b\<close> matches somewhere exactly when one of the maximal runs of word characters,
  lower-cased, is one of the words.
\<close>

fun words :: "string \<Rightarrow> string \<Rightarrow> string list" where
  "words cur [] = (if cur = [] then [] else [cur])"
| "words cur (c # cs) =
     (if is_word c then words (cur @ [c]) cs
      else (if cur = [] then words [] cs else cur # words [] cs))"

definition forbidden_search :: "string \<Rightarrow> bool" where
  "forbidden_search s = list_ex (\<lambda>w. lower w \<in> set forbidden_words) (words [] s)"

definition starts_read_only :: "string \<Rightarrow> bool" where
  "starts_read_only s = (lower (takeWhile is_word s) \<in> {''select'', ''with''})"

text \<open>\<open>(?:from|join)\s+([`\w.]+)\<close> at the start of the text: the group and what is left.\<close>

definition is_table_char :: "char \<Rightarrow> bool" where
  "is_table_char c = (is_word c \<or> c = CHR 0x60 \<or> c = CHR ''.'')"

definition match_table :: "string \<Rightarrow> (string \<times> string) option" where
  "match_table s =
     (if lower (take 4 s) \<in> {''from'', ''join''} then
        (let r = drop 4 s; r1 = dropWhile is_space r; raw = takeWhile is_table_char r1 in
         if takeWhile is_space r = [] \<or> raw = [] then None
         else Some (raw, dropWhile is_table_char r1))
      else None)"

lemma match_table_shorter:
  assumes "match_table s = Some (raw, rest)"
  shows "length rest < length s"
proof -
  let ?r = "drop 4 s"
  from assms have rest: "rest = dropWhile is_table_char (dropWhile is_space ?r)"
    and "takeWhile is_space ?r \<noteq> []"
    by (auto simp: match_table_def Let_def split: if_splits)
  then have "length (dropWhile is_space ?r) < length ?r"
    by (metis add_less_cancel_left length_append length_greater_0_conv less_add_same_cancel2
        takeWhile_dropWhile_id)
  moreover have "length rest \<le> length (dropWhile is_space ?r)"
    unfolding rest by (rule length_dropWhile_le)
  ultimately show ?thesis by simp
qed

text \<open>\<open>_TABLE.findall\<close>: \<open>w\<close> says whether the character before the text is a word character.\<close>

function table_findall :: "bool \<Rightarrow> string \<Rightarrow> string list" where
  "table_findall w [] = []"
| "table_findall w (c # cs) =
     (case (if w then None else match_table (c # cs)) of
        Some (raw, rest) \<Rightarrow> raw # table_findall (is_word (last raw)) rest
      | None \<Rightarrow> table_findall (is_word c) cs)"
  by pat_completeness auto
termination
  by (relation "measure (\<lambda>(w, s). length s)")
    (auto split: if_splits dest!: match_table_shorter)

text \<open>\<open>\s*([A-Za-z_]\w*)\s+as\s*\(\<close> after the introducing word or comma.\<close>

definition match_cte_tail :: "string \<Rightarrow> (string \<times> string) option" where
  "match_cte_tail s =
     (let r = dropWhile is_space s; name = takeWhile is_word r; r1 = dropWhile is_word r;
          r2 = dropWhile is_space r1; r3 = dropWhile is_space (drop 2 r2) in
      if name \<noteq> [] \<and> is_ident_start (hd name) \<and> takeWhile is_space r1 \<noteq> []
         \<and> lower (take 2 r2) = ''as'' \<and> take 1 r3 = ''(''
      then Some (name, drop 1 r3) else None)"

definition match_cte :: "bool \<Rightarrow> string \<Rightarrow> (string \<times> string) option" where
  "match_cte w s =
     (if \<not> w \<and> lower (take 4 s) = ''with'' \<and> \<not> (drop 4 s \<noteq> [] \<and> is_word (hd (drop 4 s)))
      then match_cte_tail (drop 4 s)
      else if take 1 s = '','' then match_cte_tail (drop 1 s)
      else None)"

lemma match_cte_tail_shorter: "match_cte_tail s = Some (name, rest) \<Longrightarrow> length rest \<le> length s"
proof -
  assume "match_cte_tail s = Some (name, rest)"
  then have "rest = drop 1 (dropWhile is_space (drop 2 (dropWhile is_space
      (dropWhile is_word (dropWhile is_space s)))))"
    by (auto simp: match_cte_tail_def Let_def split: if_splits)
  then have "length rest \<le> length (dropWhile is_space (drop 2 (dropWhile is_space
      (dropWhile is_word (dropWhile is_space s)))))" by simp
  also have "\<dots> \<le> length (drop 2 (dropWhile is_space (dropWhile is_word (dropWhile is_space s))))"
    by (rule length_dropWhile_le)
  also have "\<dots> \<le> length (dropWhile is_space (dropWhile is_word (dropWhile is_space s)))" by simp
  also have "\<dots> \<le> length s"
    using length_dropWhile_le order_trans by metis
  finally show ?thesis .
qed

lemma match_cte_shorter: "match_cte w (c # cs) = Some (name, rest) \<Longrightarrow> length rest < length (c # cs)"
  by (auto simp: match_cte_def split: if_splits dest!: match_cte_tail_shorter)

function cte_findall :: "bool \<Rightarrow> string \<Rightarrow> string list" where
  "cte_findall w [] = []"
| "cte_findall w (c # cs) =
     (case match_cte w (c # cs) of
        Some (name, rest) \<Rightarrow> name # cte_findall False rest
      | None \<Rightarrow> cte_findall (is_word c) cs)"
  by pat_completeness auto
termination
  by (relation "measure (\<lambda>(w, s). length s)") (auto dest!: match_cte_shorter)

text \<open>\<open>re.sub(r"\s+", " ", s)\<close>.\<close>

fun collapse_ws :: "bool \<Rightarrow> string \<Rightarrow> string" where
  "collapse_ws in_ws [] = []"
| "collapse_ws in_ws (c # cs) =
     (if is_space c then (if in_ws then collapse_ws True cs else CHR '' '' # collapse_ws True cs)
      else c # collapse_ws False cs)"

section \<open>Validation\<close>

fun check_raw_tables :: "string list \<Rightarrow> string list \<Rightarrow> unit res" where
  "check_raw_tables allowed [] = Inr ()"
| "check_raw_tables allowed (raw # raws) =
     (let name = last (split_on CHR ''.'' (strip CHR 0x60 raw)) in
      if CHR ''.'' \<in> set raw \<or> name \<notin> set allowed
      then raise QueryRejected (''query references undeclared source: '' @ name)
      else check_raw_tables allowed raws)"

definition fallback :: "string \<Rightarrow> string list \<Rightarrow> string res" where
  "fallback sql aliases =
     (let value = strip_ws sql in
      if value = [] then raise QueryRejected ''SQL cannot be empty''
      else
        (let stripped = strip_ws (rstrip CHR '';'' (rstrip_ws value)) in
         if CHR '';'' \<in> set stripped
         then raise QueryRejected ''exactly one SQL statement is required''
         else if \<not> starts_read_only stripped
         then raise QueryRejected ''only read-only SELECT queries are allowed''
         else if forbidden_search stripped
         then raise QueryRejected ''only read-only SELECT queries are allowed''
         else bindE (check_raw_tables (aliases @ cte_findall False stripped)
                      (table_findall False stripped))
                (\<lambda>_. Inr (collapse_ws False stripped))))"

fun check_tables :: "string list \<Rightarrow> table_ref list \<Rightarrow> unit res" where
  "check_tables allowed [] = Inr ()"
| "check_tables allowed (t # ts) =
     (if t_catalog t \<noteq> [] \<or> t_db t \<noteq> []
      then raise QueryRejected ''catalog and database-qualified tables are not allowed''
      else if t_name t \<notin> set allowed
      then raise QueryRejected (''query references undeclared source: '' @ t_name t)
      else check_tables allowed ts)"

definition validate_and_normalize ::
  "'ast sqlglot option \<Rightarrow> string \<Rightarrow> string list \<Rightarrow> string res" where
  "validate_and_normalize sg sql aliases =
     (case sg of
        None \<Rightarrow> fallback sql aliases
      | Some g \<Rightarrow>
          (case sg_parse g sql of
             Inl e \<Rightarrow> raise QueryRejected (''invalid SQL: '' @ e)
           | Inr [Some q] \<Rightarrow>
               (if \<not> sg_is_query g q
                then raise QueryRejected ''only read-only SELECT queries are allowed''
                else bindE (check_tables (aliases @ sg_ctes g q) (sg_tables g q))
                       (\<lambda>_. Inr (sg_sql g q)))
           | Inr _ \<Rightarrow> raise QueryRejected ''exactly one SQL statement is required''))"

lemma check_tables_ok:
  "check_tables allowed ts = Inr u \<longleftrightarrow>
     (\<forall>t \<in> set ts. t_catalog t = [] \<and> t_db t = [] \<and> t_name t \<in> set allowed)"
  by (induction ts) auto

lemma check_raw_tables_ok:
  "check_raw_tables allowed raws = Inr u \<longleftrightarrow>
     (\<forall>raw \<in> set raws. CHR ''.'' \<notin> set raw
        \<and> last (split_on CHR ''.'' (strip CHR 0x60 raw)) \<in> set allowed)"
  by (induction raws) (auto simp: Let_def)

lemma check_raises_rejected:
  "check_tables allowed ts = Inl e \<Longrightarrow> exn_cls e = QueryRejected"
  "check_raw_tables allowed raws = Inl e \<Longrightarrow> exn_cls e = QueryRejected"
  by (induction ts, auto split: if_splits) (induction raws, auto simp: Let_def split: if_splits)

text \<open>Every refusal is a \<open>QueryRejected\<close>, which the API answers with 400.\<close>

lemma validate_error_class:
  assumes "validate_and_normalize sg sql aliases = Inl e"
  shows "exn_cls e = QueryRejected"
  using assms
  by (auto simp: validate_and_normalize_def fallback_def Let_def bindE_eq_Inl
      dest: check_raises_rejected split: option.splits sum.splits if_splits list.splits)

end
