(* ===== verification/Fingerprint.thy ===== *)
theory Fingerprint
  imports Models Sql Valkey
begin

text \<open>
  Canonical JSON and the fingerprints of \<open>src/dalmatian/fingerprint.py\<close>. \<open>json_dumps\<close> is
  \<open>json.dumps(_, sort_keys=True, separators=(",", ":"))\<close> with its ASCII escaping, for code
  points below 256. \<open>sha256\<close> (the hex digest) is a parameter. \<open>request_payload\<close> is what
  \<open>model_dump(mode="json")\<close> returns for a request, with the models' field names as keys.
\<close>

section \<open>Canonical JSON\<close>

definition hex_digit :: "nat \<Rightarrow> char" where
  "hex_digit d = (if d < 10 then char_of (48 + d) else char_of (87 + d))"

definition json_escape :: "char \<Rightarrow> string" where
  "json_escape c = (let n = of_char c :: nat in
     if n = 34 then [CHR 0x5C, CHR 0x22]
     else if n = 92 then [CHR 0x5C, CHR 0x5C]
     else if n = 10 then [CHR 0x5C, CHR ''n'']
     else if n = 13 then [CHR 0x5C, CHR ''r'']
     else if n = 9 then [CHR 0x5C, CHR ''t'']
     else if n = 12 then [CHR 0x5C, CHR ''f'']
     else if n = 8 then [CHR 0x5C, CHR ''b'']
     else if 32 \<le> n \<and> n \<le> 126 then [c]
     else CHR 0x5C # ''u00'' @ [hex_digit (n div 16), hex_digit (n mod 16)])"

definition json_quote :: "string \<Rightarrow> string" where
  "json_quote s = CHR 0x22 # concat (map json_escape s) @ [CHR 0x22]"

definition json_member :: "string \<times> string \<Rightarrow> string" where
  "json_member p = json_quote (fst p) @ CHR '':'' # snd p"

primrec json_dumps :: "json \<Rightarrow> string" where
  "json_dumps JNull = ''null''"
| "json_dumps (JBool b) = (if b then ''true'' else ''false'')"
| "json_dumps (JInt i) = dec_of_int i"
| "json_dumps (JFloat t) = t"
| "json_dumps (JStr s) = json_quote s"
| "json_dumps (JArr xs) = CHR ''['' # join_on CHR '','' (map json_dumps xs) @ '']''"
| "json_dumps (JObj kvs) =
     CHR ''{'' # join_on CHR '','' (map json_member (sort_key fst (map (map_prod id json_dumps) kvs)))
       @ ''}''"

definition hash_json :: "(string \<Rightarrow> string) \<Rightarrow> json \<Rightarrow> string" where
  "hash_json sha256 payload = sha256 (json_dumps payload)"

section \<open>Payloads\<close>

definition json_opt :: "string option \<Rightarrow> json" where
  "json_opt v = (case v of None \<Rightarrow> JNull | Some s \<Rightarrow> JStr s)"

definition json_opt_int :: "int option \<Rightarrow> json" where
  "json_opt_int v = (case v of None \<Rightarrow> JNull | Some i \<Rightarrow> JInt i)"

definition json_dict :: "(string \<times> string) list \<Rightarrow> json" where
  "json_dict kvs = JObj (map (map_prod id JStr) kvs)"

definition json_schema :: "schema_definition option \<Rightarrow> json" where
  "json_schema v = (case v of None \<Rightarrow> JNull | Some (SchemaText t) \<Rightarrow> JStr t
     | Some (SchemaFields fs) \<Rightarrow> json_dict fs)"

text \<open>The dictionary that \<open>_declared_source_version\<close> and \<open>dataset_affinity_key\<close> build for a source.\<close>

definition source_payload :: "SourceSpec \<Rightarrow> json" where
  "source_payload s = JObj [(''location'', json_opt (src_location s)), (''path'', JStr (src_path s)),
     (''format'', JStr (data_format_value (src_format s))), (''options'', json_dict (src_options s)),
     (''schema'', json_schema (src_schema s)), (''infer_schema'', JBool (src_infer_schema s)),
     (''version'', json_opt (src_version s))]"

definition declared_source_version :: "(string \<Rightarrow> string) \<Rightarrow> SourceSpec \<Rightarrow> string" where
  "declared_source_version sha256 s = hash_json sha256 (source_payload s)"

definition declared_source_versions ::
  "(string \<Rightarrow> string) \<Rightarrow> QueryRequest \<Rightarrow> (string \<times> string) list option" where
  "declared_source_versions sha256 r =
     (if list_ex (\<lambda>p. src_version (snd p) = None) (req_sources r) then None
      else Some (map (map_prod id (declared_source_version sha256)) (req_sources r)))"

definition dataset_affinity_key :: "(string \<Rightarrow> string) \<Rightarrow> QueryRequest \<Rightarrow> string" where
  "dataset_affinity_key sha256 r =
     hash_json sha256 (JObj (map (map_prod id source_payload) (sort_key fst (req_sources r))))"

text \<open>\<open>request.model_dump(mode="json")\<close>; the schema field keeps its own name, not its alias.\<close>

definition source_dump :: "SourceSpec \<Rightarrow> json" where
  "source_dump s = JObj [(''path'', JStr (src_path s)),
     (''format'', JStr (data_format_value (src_format s))),
     (''location'', json_opt (src_location s)), (''options'', json_dict (src_options s)),
     (''version'', json_opt (src_version s)), (''schema_definition'', json_schema (src_schema s)),
     (''infer_schema'', JBool (src_infer_schema s))]"

definition output_dump :: "OutputSpec \<Rightarrow> json" where
  "output_dump out = JObj [(''mode'', JStr (delivery_mode_value (out_mode out))),
     (''format'', JStr (output_format_value (out_format out))),
     (''location'', json_opt (out_location out)), (''path'', json_opt (out_path out)),
     (''write_mode'', JStr (write_mode_value (out_write_mode out))),
     (''options'', json_dict (out_options out))]"

definition request_payload :: "QueryRequest \<Rightarrow> (string \<times> json) list" where
  "request_payload r = [(''sql'', JStr (req_sql r)),
     (''sources'', JObj (map (map_prod id source_dump) (req_sources r))),
     (''output'', output_dump (req_output r)), (''max_rows'', JInt (req_max_rows r)),
     (''cache_ttl_seconds'', json_opt_int (req_cache_ttl_seconds r)),
     (''timeout_seconds'', json_opt_int (req_timeout_seconds r))]"

definition request_payload_fingerprint :: "(string \<Rightarrow> string) \<Rightarrow> QueryRequest \<Rightarrow> string" where
  "request_payload_fingerprint sha256 r = hash_json sha256 (JObj (request_payload r))"

definition source_names :: "QueryRequest \<Rightarrow> string list" where
  "source_names r = map fst (req_sources r)"

definition query_fingerprint ::
  "(string \<Rightarrow> string) \<Rightarrow> 'ast sqlglot option \<Rightarrow> QueryRequest \<Rightarrow> (string \<times> string) list \<Rightarrow> string res"
where
  "query_fingerprint sha256 sg r source_versions =
     bindE (validate_and_normalize sg (req_sql r) (source_names r)) (\<lambda>sql.
       Inr (hash_json sha256 (JObj
         (filter (\<lambda>p. fst p \<notin> {''cache_ttl_seconds'', ''sql''}) (request_payload r)
          @ [(''sql'', JStr sql), (''source_versions'', json_dict source_versions)]))))"

section \<open>Key order does not matter\<close>

lemma sort_key_perm_eq:
  assumes "mset xs = mset ys" and "distinct (map fst xs)"
  shows "sort_key fst xs = sort_key fst ys"
proof (rule sort_key_inj_key_eq)
  show "mset xs = mset (sort_key fst ys)" using assms(1) by simp
  show "inj_on fst (set xs)" using assms(2) by (simp add: distinct_map)
  show "sorted (map fst (sort_key fst ys))" by simp
qed

lemma json_dumps_perm:
  assumes "mset kvs = mset kvs'" and "distinct (map fst kvs)"
  shows "json_dumps (JObj kvs) = json_dumps (JObj kvs')"
proof -
  have "sort_key fst (map (map_prod id json_dumps) kvs) = sort_key fst (map (map_prod id json_dumps) kvs')"
    using assms by (intro sort_key_perm_eq) (auto simp: comp_def)
  then show ?thesis by simp
qed

end
