(* ===== verification/Metadata.thy ===== *)
theory Metadata
  imports Fingerprint
begin

text \<open>
  The metadata stores of \<open>src/dalmatian/metadata.py\<close>. \<open>meta_ops\<close> is the \<open>MetadataStore\<close> protocol
  as the queue, the service and the storage registry call it; \<open>null_meta\<close> is
  \<open>NullMetadataStore\<close> and \<open>sql_meta\<close> is \<open>SqlMetadataStore\<close> over two tables keyed by their primary
  keys. A transaction that fails leaves the tables as they were. Times are microseconds; the
  \<open>k\<close>-th reading of \<open>datetime.now\<close> in the store is \<open>clk k\<close>. \<open>loads\<close> (\<open>json.loads\<close>) and \<open>dump\<close>
  (a result's \<open>model_dump_json\<close>) are parameters. Migrations, engines and connection pools are
  not modelled.
\<close>

section \<open>The protocol\<close>

record 'm meta_ops =
  mo_record_invocation :: "string \<Rightarrow> string \<Rightarrow> string \<Rightarrow> 'm \<Rightarrow> 'm res"
  mo_update_invocation ::
    "string \<Rightarrow> string \<Rightarrow> QueryResult option \<Rightarrow> string option \<Rightarrow> string option \<Rightarrow> nat option
     \<Rightarrow> 'm \<Rightarrow> 'm res"
  mo_storage_location :: "'m \<Rightarrow> string \<Rightarrow> string option"
  mo_storage_locations :: "'m \<Rightarrow> (string \<times> string) list"

definition null_meta :: "unit meta_ops" where
  "null_meta = \<lparr>mo_record_invocation = (\<lambda>_ _ _ u. Inr u),
     mo_update_invocation = (\<lambda>_ _ _ _ _ _ u. Inr u),
     mo_storage_location = (\<lambda>_ _. None), mo_storage_locations = (\<lambda>_. [])\<rparr>"

text \<open>The callers catch and log whatever a metadata write raises.\<close>

definition swallow :: "'m res \<Rightarrow> 'm \<Rightarrow> 'm" where
  "swallow r m = (case r of Inl _ \<Rightarrow> m | Inr m' \<Rightarrow> m')"

section \<open>The SQL tables\<close>

record invocation =
  iv_kind :: string
  iv_status :: string
  iv_attempts :: nat
  iv_request_json :: string
  iv_output_mode :: "string option"
  iv_output_format :: "string option"
  iv_output_location :: "string option"
  iv_output_path :: "string option"
  iv_cached :: "bool option"
  iv_rows_returned :: "nat option"
  iv_bytes_returned :: "nat option"
  iv_truncated :: "bool option"
  iv_manifest_uri :: "string option"
  iv_data_uri :: "string option"
  iv_source_versions_json :: "string option"
  iv_error_class :: "string option"
  iv_error_message :: "string option"
  iv_created_at :: int
  iv_started_at :: "int option"
  iv_finished_at :: "int option"
  iv_duration_ms :: "int option"
  iv_updated_at :: int

record location_row =
  lo_uri :: string
  lo_created_at :: int
  lo_updated_at :: int

record meta_db =
  invocations :: "string \<rightharpoonup> invocation"
  locations :: "(string \<times> location_row) list"
  db_tick :: nat

text \<open>\<open>d.get(key, default)\<close> on a decoded object, for a value that is a string or null.\<close>

definition json_get :: "json \<Rightarrow> string \<Rightarrow> json option" where
  "json_get j k = (case j of JObj kvs \<Rightarrow> map_of kvs k | _ \<Rightarrow> None)"

definition json_text :: "json option \<Rightarrow> string option \<Rightarrow> string option" where
  "json_text v dflt = (case v of None \<Rightarrow> dflt | Some (JStr s) \<Rightarrow> Some s | Some _ \<Rightarrow> None)"

definition record_invocation ::
  "(string \<Rightarrow> json res) \<Rightarrow> (nat \<Rightarrow> int) \<Rightarrow> string \<Rightarrow> string \<Rightarrow> string \<Rightarrow> meta_db \<Rightarrow> meta_db res" where
  [method_defs]:
  "record_invocation loads clk i kind request_json db =
     bindE (loads request_json) (\<lambda>request.
     (let output = (case json_get request ''output'' of None \<Rightarrow> JObj [] | Some JNull \<Rightarrow> JObj []
            | Some v \<Rightarrow> v);
          now = clk (db_tick db) in
      if invocations db i \<noteq> None then raise (OtherExn ''IntegrityError'') i
      else Inr (db\<lparr>db_tick := Suc (db_tick db), invocations := (invocations db)(i \<mapsto>
        \<lparr>iv_kind = kind, iv_status = (if kind = ''async'' then ''queued'' else ''running''),
         iv_attempts = 0, iv_request_json = request_json,
         iv_output_mode = json_text (json_get output ''mode'') (Some ''inline''),
         iv_output_format = json_text (json_get output ''format'') (Some ''json''),
         iv_output_location = json_text (json_get output ''location'') None,
         iv_output_path = json_text (json_get output ''path'') None,
         iv_cached = None, iv_rows_returned = None, iv_bytes_returned = None,
         iv_truncated = None, iv_manifest_uri = None, iv_data_uri = None,
         iv_source_versions_json = None, iv_error_class = None, iv_error_message = None,
         iv_created_at = now, iv_started_at = (if kind = ''sync'' then Some now else None),
         iv_finished_at = None, iv_duration_ms = None, iv_updated_at = now\<rparr>)\<rparr>)))"

definition result_values :: "(QueryResult \<Rightarrow> string) \<Rightarrow> QueryResult \<Rightarrow> invocation \<Rightarrow> invocation" where
  [method_defs]:
  "result_values dump r v =
     (case r of
        Inline x \<Rightarrow> v\<lparr>iv_cached := Some (inl_cached x), iv_rows_returned := Some (length (inl_rows x)),
          iv_bytes_returned := Some (length (dump r)), iv_truncated := Some (inl_truncated x),
          iv_output_mode := Some ''inline'', iv_output_format := Some ''json''\<rparr>
      | Stored x \<Rightarrow> v\<lparr>iv_output_mode := Some ''store'',
          iv_output_format := Some (output_format_value (sto_format x)),
          iv_output_location := Some (sto_location x), iv_output_path := Some (sto_path x),
          iv_manifest_uri := Some (sto_manifest_uri x), iv_data_uri := Some (sto_data_uri x),
          iv_source_versions_json := Some (json_dumps (json_dict (sto_source_versions x)))\<rparr>)"

definition opt_set :: "'a option \<Rightarrow> ('a \<Rightarrow> 'r \<Rightarrow> 'r) \<Rightarrow> 'r \<Rightarrow> 'r" where
  "opt_set v f r = (case v of None \<Rightarrow> r | Some a \<Rightarrow> f a r)"

definition final_status :: "string \<Rightarrow> bool" where
  "final_status st = (st \<in> {''succeeded'', ''failed'', ''cancelled''})"

definition update_row ::
  "(QueryResult \<Rightarrow> string) \<Rightarrow> int \<Rightarrow> string \<Rightarrow> QueryResult option \<Rightarrow> string option \<Rightarrow> string option
   \<Rightarrow> nat option \<Rightarrow> invocation \<Rightarrow> invocation" where
  [method_defs]:
  "update_row dump now status result error error_class attempts v =
     (let started = iv_started_at v;
          v1 = opt_set result (result_values dump) (v\<lparr>iv_status := status, iv_updated_at := now\<rparr>);
          v2 = opt_set error (\<lambda>e w. w\<lparr>iv_error_message := Some e\<rparr>) v1;
          v3 = opt_set error_class (\<lambda>c w. w\<lparr>iv_error_class := Some c\<rparr>) v2;
          v4 = opt_set attempts (\<lambda>a w. w\<lparr>iv_attempts := a\<rparr>) v3;
          v5 = (if status = ''running'' then v4\<lparr>iv_started_at := Some now\<rparr> else v4);
          v6 = (if final_status status then v5\<lparr>iv_finished_at := Some now\<rparr> else v5)
      in if final_status status
         then opt_set started (\<lambda>t w. w\<lparr>iv_duration_ms := Some (max 0 ((now - t) div 1000))\<rparr>) v6
         else v6)"

definition update_invocation ::
  "(QueryResult \<Rightarrow> string) \<Rightarrow> (nat \<Rightarrow> int) \<Rightarrow> string \<Rightarrow> string \<Rightarrow> QueryResult option \<Rightarrow> string option
   \<Rightarrow> string option \<Rightarrow> nat option \<Rightarrow> meta_db \<Rightarrow> meta_db res" where
  [method_defs]:
  "update_invocation dump clk i status result error error_class attempts db =
     Inr (db\<lparr>db_tick := Suc (db_tick db),
       invocations := (invocations db)(i := map_option
         (update_row dump (clk (db_tick db)) status result error error_class attempts)
         (invocations db i))\<rparr>)"

definition storage_location :: "meta_db \<Rightarrow> string \<Rightarrow> string option" where
  "storage_location db name = map_option lo_uri (map_of (locations db) name)"

definition storage_locations :: "meta_db \<Rightarrow> (string \<times> string) list" where
  "storage_locations db = map (map_prod id lo_uri) (locations db)"

definition put_storage_location :: "(nat \<Rightarrow> int) \<Rightarrow> string \<Rightarrow> string \<Rightarrow> meta_db \<Rightarrow> meta_db" where
  [method_defs]:
  "put_storage_location clk name uri db =
     (let now = clk (db_tick db); db1 = db\<lparr>db_tick := Suc (db_tick db)\<rparr> in
      if map_of (locations db) name \<noteq> None
      then db1\<lparr>locations := map (\<lambda>p. if fst p = name
             then (name, (snd p)\<lparr>lo_uri := uri, lo_updated_at := now\<rparr>) else p) (locations db)\<rparr>
      else db1\<lparr>locations := locations db
             @ [(name, \<lparr>lo_uri = uri, lo_created_at = now, lo_updated_at = now\<rparr>)]\<rparr>)"

definition delete_storage_location :: "string \<Rightarrow> meta_db \<Rightarrow> meta_db" where
  [method_defs]:
  "delete_storage_location name db = db\<lparr>locations := filter (\<lambda>p. fst p \<noteq> name) (locations db)\<rparr>"

definition sql_meta ::
  "(string \<Rightarrow> json res) \<Rightarrow> (QueryResult \<Rightarrow> string) \<Rightarrow> (nat \<Rightarrow> int) \<Rightarrow> meta_db meta_ops" where
  "sql_meta loads dump clk = \<lparr>mo_record_invocation = record_invocation loads clk,
     mo_update_invocation = update_invocation dump clk,
     mo_storage_location = storage_location, mo_storage_locations = storage_locations\<rparr>"

section \<open>Laws of the location table\<close>

lemma map_of_update_at:
  "map_of (map (\<lambda>p. if fst p = k then (k, f (snd p)) else p) kvs) k' =
     (if k' = k then map_option f (map_of kvs k) else map_of kvs k')"
  by (induction kvs) auto

lemma put_storage_location_lookup:
  "storage_location (put_storage_location clk name uri db) name' =
     (if name' = name then Some uri else storage_location db name')"
  using map_of_update_at [of name "\<lambda>v. v\<lparr>lo_uri := uri, lo_updated_at := clk (db_tick db)\<rparr>" "locations db"]
  by (auto simp: storage_location_def put_storage_location_def Let_def map_add_def option.map_comp comp_def
      split: option.splits)

lemma map_of_filter_neq:
  "map_of (filter (\<lambda>p. fst p \<noteq> k) kvs) k' = (if k' = k then None else map_of kvs k')"
  by (induction kvs) auto

lemma delete_storage_location_lookup:
  "storage_location (delete_storage_location name db) name' =
     (if name' = name then None else storage_location db name')"
  by (simp add: storage_location_def delete_storage_location_def map_of_filter_neq)

definition locations_ok :: "meta_db \<Rightarrow> bool" where
  "locations_ok db = distinct (map fst (locations db))"

lemma map_fst_put_storage_location:
  "map fst (locations (put_storage_location clk name uri db)) =
     (if map_of (locations db) name \<noteq> None then map fst (locations db)
      else map fst (locations db) @ [name])"
  by (auto simp: put_storage_location_def Let_def)

lemma put_storage_location_ok: "locations_ok db \<Longrightarrow> locations_ok (put_storage_location clk name uri db)"
  by (simp add: locations_ok_def map_fst_put_storage_location map_of_eq_None_iff)

lemma delete_storage_location_ok: "locations_ok db \<Longrightarrow> locations_ok (delete_storage_location name db)"
  by (simp add: locations_ok_def delete_storage_location_def distinct_map_filter)

end
