(* ===== verification/JobQueue.thy ===== *)
theory JobQueue
  imports JobLifecycle Metadata
begin

text \<open>
  The methods of \<open>ValkeyJobQueue\<close> (\<open>src/dalmatian/jobs.py\<close>) above the Lua scripts: each is the
  sequence of Valkey calls and metadata writes the Python method makes, as a function of the
  store, the metadata store \<open>m\<close> (through \<open>meta_ops\<close>) and what the method reads from outside: the
  clock (one argument per reading), the random jitter, the new identifier. Pydantic's JSON
  encoding and \<open>hashlib\<close> are parameters (\<open>codec\<close>, \<open>hashing\<close>). Connection errors are not modelled;
  every other raise is an \<open>Inl\<close>. A method run is one execution with no foreign step in
  between; \<open>JobInvariant.script_step\<close> covers the interleavings, and \<open>method_steps\<close> below shows
  that every method is a sequence of those steps.
\<close>

section \<open>Configuration and parameters\<close>

record queue_cfg =
  queue_name :: string
  job_ttl_seconds :: int
  lease_seconds :: int
  max_attempts :: nat
  affinity_shards :: nat
  max_queue_depth :: nat
  idempotency_ttl_seconds :: int
  retry_base_seconds :: rat
  retry_max_seconds :: rat

record codec =
  dump_request :: "QueryRequest \<Rightarrow> string"
  parse_request :: "string \<Rightarrow> QueryRequest res"
  dump_result :: "QueryResult \<Rightarrow> string"
  parse_result :: "string \<Rightarrow> QueryResult res"

record hashing =
  sha_hex :: "string \<Rightarrow> string"
  sha_bytes :: "string \<Rightarrow> nat list"

text \<open>The constructor: a missing or zero idempotency TTL falls back to the job TTL.\<close>

definition make_queue ::
  "string \<Rightarrow> int \<Rightarrow> int \<Rightarrow> nat \<Rightarrow> nat \<Rightarrow> nat \<Rightarrow> int option \<Rightarrow> rat \<Rightarrow> rat \<Rightarrow> queue_cfg" where
  "make_queue name ttl lease attempts shards depth idem_ttl base mx =
     \<lparr>queue_name = name, job_ttl_seconds = ttl, lease_seconds = lease, max_attempts = attempts,
      affinity_shards = shards, max_queue_depth = depth,
      idempotency_ttl_seconds = (case idem_ttl of None \<Rightarrow> ttl | Some t \<Rightarrow> if t = 0 then ttl else t),
      retry_base_seconds = base, retry_max_seconds = mx\<rparr>"

definition cfg_ok :: "queue_cfg \<Rightarrow> bool" where
  "cfg_ok c = (0 < max_attempts c \<and> 0 < affinity_shards c)"

section \<open>Key names\<close>

definition job_key :: "queue_cfg \<Rightarrow> string \<Rightarrow> string" where
  "job_key c j = queue_name c @ '':job:'' @ j"

definition pending_key :: "queue_cfg \<Rightarrow> nat \<Rightarrow> string" where
  "pending_key c k = queue_name c @ '':shard:'' @ dec_of_nat k"

definition idempotency_key :: "hashing \<Rightarrow> queue_cfg \<Rightarrow> string \<Rightarrow> string" where
  "idempotency_key hs c key = queue_name c @ '':idempotency:'' @ sha_hex hs key"

definition processing_name :: "queue_cfg \<Rightarrow> string" where
  "processing_name c = queue_name c @ '':processing''"

definition retry_name :: "queue_cfg \<Rightarrow> string" where
  "retry_name c = queue_name c @ '':retry''"

definition dead_name :: "queue_cfg \<Rightarrow> string" where
  "dead_name c = queue_name c @ '':dead''"

definition dt :: "int \<Rightarrow> int option" where
  "dt ms = (if ms = 0 then None else Some ms)"

definition from_bytes_big :: "nat list \<Rightarrow> nat" where
  "from_bytes_big bs = foldl (\<lambda>a b. 256 * a + b) 0 bs"

definition shard_of :: "hashing \<Rightarrow> queue_cfg \<Rightarrow> QueryRequest \<Rightarrow> nat" where
  "shard_of hs c r =
     from_bytes_big (take 8 (sha_bytes hs (dataset_affinity_key (sha_hex hs) r))) mod affinity_shards c"

definition depth :: "queue_cfg \<Rightarrow> store \<Rightarrow> nat" where
  "depth c s = (\<Sum>k<affinity_shards c. length (pending s k)) + length (processing s) + length (retry s)"

section \<open>Reading a job\<close>

definition get_job :: "codec \<Rightarrow> store \<Rightarrow> string \<Rightarrow> JobRecord option res" where
  [method_defs]:
  "get_job cd s j =
     (case jobs s j of
        None \<Rightarrow> Inr None
      | Some h \<Rightarrow>
          bindE (if h_result h = [] then Inr None else bindE (parse_result cd (h_result h)) (\<lambda>r. Inr (Some r)))
            (\<lambda>result. Inr (Some
              \<lparr>jr_id = j, jr_status = h_status h, jr_attempts = h_attempts h, jr_result = result,
               jr_error = (if h_error h = [] then None else Some (h_error h)),
               jr_created_at = dt (h_created_at_ms h), jr_updated_at = dt (h_updated_at_ms h),
               jr_next_attempt_at = dt (h_next_attempt_ms h)\<rparr>)))"

section \<open>Metadata writes\<close>

definition metadata_status ::
  "'m meta_ops \<Rightarrow> string \<Rightarrow> string \<Rightarrow> QueryResult option \<Rightarrow> string option \<Rightarrow> string option \<Rightarrow> 'm \<Rightarrow> 'm" where
  "metadata_status mo j status result error error_class m =
     swallow (mo_update_invocation mo j status result error error_class None m) m"

section \<open>Enqueue\<close>

definition conflict_message :: "string \<Rightarrow> string" where
  "conflict_message j = ''Idempotency-Key is already bound to job '' @ j @ '' with a different request''"

definition expired_message :: string where
  "expired_message = ''Idempotency-Key is still retained but its job record has expired; ''
     @ ''submit a new request with a new key''"

text \<open>Both places that find a binding answer with the bound job, or raise when it is gone.\<close>

definition existing_job :: "codec \<Rightarrow> store \<Rightarrow> string \<Rightarrow> JobRecord res" where
  "existing_job cd s j =
     bindE (get_job cd s j) (\<lambda>r. case r of
       Some rec \<Rightarrow> Inr rec | None \<Rightarrow> raise IdempotencyConflict expired_message)"

text \<open>
  \<open>enqueue\<close> looks for the binding of the key with a call of its own before it runs the script:
  \<open>env 0\<close> is what other clients do between that call and the next, \<open>env 1\<close> what they do between
  the script and the lookup of the job it names.
\<close>

definition enqueue_amid ::
  "(nat \<Rightarrow> store \<times> 'm \<Rightarrow> store \<times> 'm) \<Rightarrow> hashing \<Rightarrow> codec \<Rightarrow> queue_cfg \<Rightarrow> 'm meta_ops \<Rightarrow> QueryRequest
   \<Rightarrow> string option \<Rightarrow> string \<Rightarrow> int \<Rightarrow> store \<times> 'm \<Rightarrow> JobRecord res \<times> store \<times> 'm" where
  "enqueue_amid env hs cd c mo r key job_id now sm =
     (let fp = request_payload_fingerprint (sha_hex hs) r; ik = map_option (idempotency_key hs c) key in
      if (case key of None \<Rightarrow> False | Some k \<Rightarrow> \<not> (1 \<le> length k \<and> length k \<le> 255))
      then (raise ValueError ''Idempotency-Key must be between 1 and 255 characters'', sm)
      else case (case ik of None \<Rightarrow> None | Some k \<Rightarrow> idem (fst sm) k) of
        Some b \<Rightarrow>
          (if b_request_hash b \<noteq> fp
           then (raise IdempotencyConflict (conflict_message (b_job_id b)), sm)
           else (existing_job cd (fst (env 0 sm)) (b_job_id b), env 0 sm))
      | None \<Rightarrow>
          (let (s, m) = env 0 sm;
               (reply, s1) = enqueue_script (affinity_shards c) ik fp (dump_request cd r)
                 (shard_of hs c r) now (job_ttl_seconds c) job_id (idempotency_ttl_seconds c)
                 (max_queue_depth c) s
           in case reply of
                Full \<Rightarrow> (raise BusyError ''async queue is full'', s1, m)
              | Conflict j \<Rightarrow> (raise IdempotencyConflict (conflict_message j), s1, m)
              | Existing j \<Rightarrow> (existing_job cd (fst (env 1 (s1, m))) j, env 1 (s1, m))
              | Created _ \<Rightarrow>
                  (Inr \<lparr>jr_id = job_id, jr_status = QUEUED, jr_attempts = 0, jr_result = None,
                     jr_error = None, jr_created_at = dt now, jr_updated_at = dt now,
                     jr_next_attempt_at = None\<rparr>,
                   s1, swallow (mo_record_invocation mo job_id ''async'' (dump_request cd r) m) m)))"

text \<open>A submission that no other client disturbs.\<close>

definition enqueue ::
  "hashing \<Rightarrow> codec \<Rightarrow> queue_cfg \<Rightarrow> 'm meta_ops \<Rightarrow> QueryRequest \<Rightarrow> string option \<Rightarrow> string \<Rightarrow> int
   \<Rightarrow> store \<times> 'm \<Rightarrow> JobRecord res \<times> store \<times> 'm" where
  "enqueue = enqueue_amid (\<lambda>_ sm. sm)"

lemma enqueue_alone [method_defs]:
  "enqueue hs cd c mo r key job_id now (s, m) =
     (let fp = request_payload_fingerprint (sha_hex hs) r; ik = map_option (idempotency_key hs c) key in
      if (case key of None \<Rightarrow> False | Some k \<Rightarrow> \<not> (1 \<le> length k \<and> length k \<le> 255))
      then (raise ValueError ''Idempotency-Key must be between 1 and 255 characters'', s, m)
      else case (case ik of None \<Rightarrow> None | Some k \<Rightarrow> idem s k) of
        Some b \<Rightarrow>
          (if b_request_hash b \<noteq> fp
           then (raise IdempotencyConflict (conflict_message (b_job_id b)), s, m)
           else (existing_job cd s (b_job_id b), s, m))
      | None \<Rightarrow>
          (let (reply, s1) = enqueue_script (affinity_shards c) ik fp (dump_request cd r)
                 (shard_of hs c r) now (job_ttl_seconds c) job_id (idempotency_ttl_seconds c)
                 (max_queue_depth c) s
           in case reply of
                Full \<Rightarrow> (raise BusyError ''async queue is full'', s1, m)
              | Conflict j \<Rightarrow> (raise IdempotencyConflict (conflict_message j), s1, m)
              | Existing j \<Rightarrow> (existing_job cd s1 j, s1, m)
              | Created _ \<Rightarrow>
                  (Inr \<lparr>jr_id = job_id, jr_status = QUEUED, jr_attempts = 0, jr_result = None,
                     jr_error = None, jr_created_at = dt now, jr_updated_at = dt now,
                     jr_next_attempt_at = None\<rparr>,
                   s1, swallow (mo_record_invocation mo job_id ''async'' (dump_request cd r) m) m)))"
  by (simp only: enqueue_def enqueue_amid_def Let_def split_conv fst_conv)

section \<open>Retries, reservation\<close>

definition shard_field :: "store \<Rightarrow> string \<Rightarrow> nat" where
  "shard_field s j = (case jobs s j of None \<Rightarrow> 0 | Some h \<Rightarrow> h_shard h)"

fun promote_loop :: "int \<Rightarrow> string list \<Rightarrow> nat \<Rightarrow> store \<Rightarrow> nat \<times> store" where
  "promote_loop now [] moved s = (moved, s)"
| "promote_loop now (j # js) moved s =
     (let (ok, s1) = promote_script j now (shard_field s j) s
      in promote_loop now js (moved + (if ok then 1 else 0)) s1)"

definition promote_retries :: "int \<Rightarrow> store \<Rightarrow> nat \<times> store" where
  [method_defs]: "promote_retries now s = promote_loop now (zrangebyscore 0 now 100 (retry s)) 0 s"

text \<open>The search of the other shards when the worker's own shard stayed empty.\<close>

fun steal :: "nat \<Rightarrow> nat list \<Rightarrow> store \<Rightarrow> string option \<times> store" where
  "steal primary [] s = (None, s)"
| "steal primary (k # ks) s =
     (if k = primary then steal primary ks s
      else (case pop_to_processing k s of
          (Some j, s1) \<Rightarrow> (Some j, s1)
        | (None, s1) \<Rightarrow> steal primary ks s1))"

record ReservedJob =
  rj_id :: string
  rj_request :: QueryRequest
  rj_attempts :: nat
  rj_shard :: nat

definition pop_job :: "queue_cfg \<Rightarrow> nat \<Rightarrow> store \<Rightarrow> string option \<times> store" where
  [method_defs]:
  "pop_job c shard s =
     (let primary = shard mod affinity_shards c in
      case pop_to_processing primary s of
        (Some j, s1) \<Rightarrow> (Some j, s1)
      | (None, s1) \<Rightarrow>
          (if affinity_shards c > 1 then steal primary [0..<affinity_shards c] s1 else (None, s1)))"

definition reserve ::
  "codec \<Rightarrow> queue_cfg \<Rightarrow> 'm meta_ops \<Rightarrow> string \<Rightarrow> nat \<Rightarrow> int \<Rightarrow> int \<Rightarrow> store \<times> 'm
   \<Rightarrow> ReservedJob option res \<times> store \<times> 'm" where
  [method_defs]:
  "reserve cd c mo w shard now now' sm =
     (let (s, m) = sm; s1 = snd (promote_retries now s); (jo, s2) = pop_job c shard s1 in
      case jo of
        None \<Rightarrow> (Inr None, s2, m)
      | Some j \<Rightarrow>
          (let (cl, s3) = claim_script j w (now' + lease_seconds c * 1000) now' (job_ttl_seconds c) s2 in
           case cl of
             None \<Rightarrow> (Inr None, s3, m)
           | Some (request_json, attempts, sh, created) \<Rightarrow>
               (bindE (parse_request cd request_json) (\<lambda>r. Inr (Some
                  \<lparr>rj_id = j, rj_request = r, rj_attempts = attempts, rj_shard = sh\<rparr>)),
                s3,
                swallow (mo_update_invocation mo j ''running'' None None None (Some attempts) m) m)))"

section \<open>Ownership\<close>

definition heartbeat :: "queue_cfg \<Rightarrow> string \<Rightarrow> string \<Rightarrow> int \<Rightarrow> store \<Rightarrow> bool \<times> store" where
  [method_defs]:
  "heartbeat c j w now s =
     heartbeat_script j w (now + lease_seconds c * 1000) now (job_ttl_seconds c) s"

definition owns :: "string \<Rightarrow> string \<Rightarrow> int \<Rightarrow> store \<Rightarrow> bool" where
  [method_defs]:
  "owns j w now s = (case jobs s j of None \<Rightarrow> False
     | Some h \<Rightarrow> h_status h = RUNNING \<and> h_worker_id h = w \<and> h_lease_expires_ms h > now)"

definition cancel_requested :: "string \<Rightarrow> string \<Rightarrow> store \<Rightarrow> bool" where
  [method_defs]:
  "cancel_requested j w s = (case jobs s j of None \<Rightarrow> False
     | Some h \<Rightarrow> h_status h = RUNNING \<and> h_worker_id h = w \<and> h_cancel_requested h)"

definition request_cancel ::
  "codec \<Rightarrow> 'm meta_ops \<Rightarrow> string \<Rightarrow> int \<Rightarrow> store \<times> 'm \<Rightarrow> JobRecord option res \<times> store \<times> 'm" where
  [method_defs]:
  "request_cancel cd mo j now sm =
     (let (s, m) = sm in
      if jobs s j = None then (Inr None, s, m)
      else
        (let (reply, s1) = cancel_script j now (shard_field s j) s in
         if reply = CancelMissing then (Inr None, s1, m)
         else (case get_job cd s1 j of
             Inl e \<Rightarrow> (Inl e, s1, m)
           | Inr r \<Rightarrow> (Inr r, s1,
               (case r of
                  Some rec \<Rightarrow> if jr_status rec = CANCELLED
                    then metadata_status mo j ''cancelled'' None None None m else m
                | None \<Rightarrow> m)))))"

definition complete ::
  "codec \<Rightarrow> queue_cfg \<Rightarrow> 'm meta_ops \<Rightarrow> string \<Rightarrow> string \<Rightarrow> QueryResult \<Rightarrow> int \<Rightarrow> store \<times> 'm
   \<Rightarrow> bool \<times> store \<times> 'm" where
  [method_defs]:
  "complete cd c mo j w result now sm =
     (let (s, m) = sm;
          (ok, s1) = complete_script j w (dump_result cd result) now (job_ttl_seconds c) s in
      (ok, s1, if ok then metadata_status mo j ''succeeded'' (Some result) None None m else m))"

definition publish_output ::
  "string \<Rightarrow> string \<Rightarrow> nat \<Rightarrow> string \<Rightarrow> string \<Rightarrow> string \<Rightarrow> string \<Rightarrow> int \<Rightarrow> store \<Rightarrow> int \<times> store" where
  [method_defs]:
  "publish_output j w attempt_number key attempt_id manifest_uri mode now s =
     publish_script j w attempt_number key mode attempt_id manifest_uri now s"

definition cancel_complete ::
  "queue_cfg \<Rightarrow> 'm meta_ops \<Rightarrow> string \<Rightarrow> string \<Rightarrow> int \<Rightarrow> store \<times> 'm \<Rightarrow> bool \<times> store \<times> 'm" where
  [method_defs]:
  "cancel_complete c mo j w now sm =
     (let (s, m) = sm; (ok, s1) = terminal_script j w CANCELLED [] now (job_ttl_seconds c) s in
      (ok, s1, if ok then metadata_status mo j ''cancelled'' None None None m else m))"

text \<open>
  \<open>int(base * jitter * 1000)\<close> with \<open>base = min(retry_base * 2 ** max(0, attempts - 1), retry_max)\<close>,
  over exact rationals (the float roundings of the source are not modelled).
\<close>

definition retry_delay_ms :: "queue_cfg \<Rightarrow> rat \<Rightarrow> nat \<Rightarrow> int" where
  "retry_delay_ms c jitter attempts =
     (let base = min (retry_base_seconds c * 2 ^ (attempts - 1)) (retry_max_seconds c)
      in max 1 \<lfloor>base * jitter * 1000\<rfloor>)"

definition fail ::
  "codec \<Rightarrow> queue_cfg \<Rightarrow> 'm meta_ops \<Rightarrow> string \<Rightarrow> string \<Rightarrow> string \<Rightarrow> bool \<Rightarrow> string option
   \<Rightarrow> rat \<Rightarrow> int \<Rightarrow> int \<Rightarrow> store \<times> 'm \<Rightarrow> bool res \<times> store \<times> 'm" where
  [method_defs]:
  "fail cd c mo j w error retryable error_class jitter now now' sm =
     (let (s, m) = sm in
      if retryable then
        (let attempts = (case jobs s j of None \<Rightarrow> 0 | Some h \<Rightarrow> h_attempts h);
             next_ms = now + retry_delay_ms c jitter attempts;
             (ok, s1) = retry_script j w (max_attempts c) error now' next_ms (job_ttl_seconds c) s in
         if ok then
           (case get_job cd s1 j of
              Inl e \<Rightarrow> (Inl e, s1, m)
            | Inr r \<Rightarrow> (Inr True, s1,
                metadata_status mo j
                  (case r of Some rec \<Rightarrow> job_status_value (jr_status rec) | None \<Rightarrow> ''retrying'')
                  None (Some error) error_class m))
         else (Inr False, s1, m))
      else
        (let (ok, s1) = terminal_script j w FAILED error now (job_ttl_seconds c) s in
         (Inr ok, s1,
          if ok then metadata_status mo j ''failed'' None (Some error) error_class m else m)))"

section \<open>Recovery of stale jobs\<close>

text \<open>The body of the loop: the reading, the script, the metadata write. Jitter is a draw per job.\<close>

definition reap_one ::
  "codec \<Rightarrow> queue_cfg \<Rightarrow> 'm meta_ops \<Rightarrow> rat \<Rightarrow> int \<Rightarrow> string \<Rightarrow> store \<times> 'm \<Rightarrow> bool res \<times> store \<times> 'm" where
  [method_defs]:
  "reap_one cd c mo jitter now j sm =
     (let (s, m) = sm;
          lease = (case jobs s j of None \<Rightarrow> 0 | Some h \<Rightarrow> h_lease_expires_ms h);
          attempts = (case jobs s j of None \<Rightarrow> 1 | Some h \<Rightarrow> h_attempts h) in
      if (case jobs s j of None \<Rightarrow> False | Some h \<Rightarrow> h_status h = RUNNING \<and> lease > now)
      then (Inr False, s, m)
      else
        (let next_ms = now + retry_delay_ms c jitter attempts;
             (changed, s1) = reap_script j lease now (max_attempts c) next_ms (job_ttl_seconds c)
               (shard_field s j) s in
         if changed then
           (case get_job cd s1 j of
              Inl e \<Rightarrow> (Inl e, s1, m)
            | Inr r \<Rightarrow> (Inr True, s1,
                (case r of None \<Rightarrow> m
                 | Some rec \<Rightarrow> metadata_status mo j (job_status_value (jr_status rec)) None
                     (jr_error rec) None m)))
         else (Inr False, s1, m)))"

fun reap_loop ::
  "codec \<Rightarrow> queue_cfg \<Rightarrow> 'm meta_ops \<Rightarrow> (string \<Rightarrow> rat) \<Rightarrow> int \<Rightarrow> string list \<Rightarrow> nat \<Rightarrow> store \<times> 'm
   \<Rightarrow> nat res \<times> store \<times> 'm" where
  "reap_loop cd c mo jitter now [] reaped sm = (Inr reaped, sm)"
| "reap_loop cd c mo jitter now (j # js) reaped sm =
     (case reap_one cd c mo (jitter j) now j sm of
        (Inl e, sm1) \<Rightarrow> (Inl e, sm1)
      | (Inr changed, sm1) \<Rightarrow>
          reap_loop cd c mo jitter now js (reaped + (if changed then 1 else 0)) sm1)"

definition reap_stale ::
  "codec \<Rightarrow> queue_cfg \<Rightarrow> 'm meta_ops \<Rightarrow> (string \<Rightarrow> rat) \<Rightarrow> int \<Rightarrow> int \<Rightarrow> store \<times> 'm
   \<Rightarrow> nat res \<times> store \<times> 'm" where
  [method_defs]:
  "reap_stale cd c mo jitter now now' sm =
     (case reap_loop cd c mo jitter now (processing (fst sm)) 0 sm of
        (Inl e, sm1) \<Rightarrow> (Inl e, sm1)
      | (Inr reaped, s1, m1) \<Rightarrow> (Inr reaped, snd (promote_retries now' s1), m1))"

end
