(* ===== verification/QueueMethods.thy ===== *)
theory QueueMethods
  imports JobQueue
begin

text \<open>
  The methods of the queue as runs of atomic steps, so that what \<open>JobInvariant\<close> and
  \<open>JobLifecycle\<close> prove of every interleaving holds of them; their independence of the metadata
  store; and the functional behaviour of recovery, idempotent submission and claiming.
\<close>

abbreviation queue_steps :: "queue_cfg \<Rightarrow> store \<Rightarrow> store \<Rightarrow> bool" where
  "queue_steps c \<equiv> script_steps (affinity_shards c) (max_attempts c) (max_queue_depth c)"

abbreviation queue_ok :: "queue_cfg \<Rightarrow> store \<Rightarrow> bool" where
  "queue_ok c \<equiv> queue_inv (affinity_shards c) (max_attempts c)"

section \<open>Every method is a run of atomic steps\<close>

lemma own_shard_field [simp]: "own_shard j (shard_field s j) s"
  by (simp add: own_shard_def shard_field_def split: option.splits)

lemma shard_of_less: "0 < affinity_shards c \<Longrightarrow> shard_of hs c r < affinity_shards c"
  by (simp add: shard_of_def)

lemma fresh_enqueue_script:
  assumes "cfg_ok c" and "fresh_id (affinity_shards c) job_id s"
  shows "queue_steps c s (snd (enqueue_script (affinity_shards c) ik fp rj (shard_of hs c r)
      now ttl job_id ittl (max_queue_depth c) s))"
  using assms by (intro r_into_rtranclp step_enqueue) (auto simp: cfg_ok_def shard_of_less)

lemma steps_enqueue:
  assumes "cfg_ok c" and "fresh_id (affinity_shards c) job_id s"
  shows "queue_steps c s (fst (snd (enqueue hs cd c mo r key job_id now (s, m))))"
  unfolding enqueue_alone Let_def
  by (auto split: option.splits prod.splits enqueue_reply.splits)
    (metis fresh_enqueue_script [OF assms] snd_conv)+

text \<open>
  A submission amid the work of others is made of steps of the queue, when theirs are and the
  identifier, a random one, is still fresh when the script runs.
\<close>

lemma steps_enqueue_amid:
  assumes "cfg_ok c" and "\<And>sm n. queue_steps c (fst sm) (fst (env n sm))"
    and "fresh_id (affinity_shards c) job_id (fst (env 0 sm))"
  shows "queue_steps c (fst sm) (fst (snd (enqueue_amid env hs cd c mo r key job_id now sm)))"
proof -
  obtain s m where e: "env 0 sm = (s, m)" by (rule prod.exhaust)
  have before: "queue_steps c (fst sm) s" using assms(2) [of sm 0] e by simp
  obtain rep s1 where q: "enqueue_script (affinity_shards c) (map_option (idempotency_key hs c) key)
      (request_payload_fingerprint (sha_hex hs) r) (dump_request cd r) (shard_of hs c r) now (job_ttl_seconds c) job_id
      (idempotency_ttl_seconds c) (max_queue_depth c) s = (rep, s1)" by (rule prod.exhaust)
  have "queue_steps c s s1" using fresh_enqueue_script [OF assms(1), of job_id s] assms(3) e q
    by (metis fst_conv snd_conv)
  with before have script: "queue_steps c (fst sm) s1" by (rule rtranclp_trans)
  have after: "queue_steps c (fst sm) (fst (env 1 (s1, m)))"
    using script assms(2) [of "(s1, m)" 1, unfolded fst_conv] by (rule rtranclp_trans)
  show ?thesis
    using before script after
    unfolding enqueue_amid_def Let_def e split_conv q
    by (auto simp del: One_nat_def split: option.splits enqueue_reply.splits)
qed

lemma steps_promote_loop:
  "queue_steps c s (snd (promote_loop now js moved s))"
proof (induction js arbitrary: moved s)
  case Nil
  then show ?case by simp
next
  case (Cons j js)
  have "queue_steps c s (snd (promote_script j now (shard_field s j) s))"
    by (intro r_into_rtranclp step_promote) simp
  then show ?case using Cons.IH
    by (auto simp: Let_def split: prod.splits intro: rtranclp_trans)
qed

lemma steps_promote_retries: "queue_steps c s (snd (promote_retries now s))"
  by (simp add: promote_retries_def steps_promote_loop)

lemma steps_pop: "k < affinity_shards c \<Longrightarrow> queue_steps c s (snd (pop_to_processing k s))"
  by (intro r_into_rtranclp step_pop)

lemma steps_steal:
  "set ks \<subseteq> {..<affinity_shards c} \<Longrightarrow> queue_steps c s (snd (steal primary ks s))"
proof (induction ks arbitrary: s)
  case Nil
  then show ?case by simp
next
  case (Cons k ks)
  from Cons.prems have "queue_steps c s (snd (pop_to_processing k s))" by (simp add: steps_pop)
  with Cons show ?case
    by (auto split: prod.splits option.splits intro: rtranclp_trans)
qed

lemma steps_pop_job: "cfg_ok c \<Longrightarrow> queue_steps c s (snd (pop_job c shard s))"
proof -
  assume "cfg_ok c"
  then have "queue_steps c s (snd (pop_to_processing (shard mod affinity_shards c) s))"
    by (intro steps_pop) (simp add: cfg_ok_def)
  moreover have "queue_steps c s' (snd (steal p [0..<affinity_shards c] s'))" for s' p
    by (rule steps_steal) auto
  ultimately show ?thesis
    by (auto simp: pop_job_def Let_def split: prod.splits option.splits intro: rtranclp_trans)
qed

lemma steps_reserve:
  assumes "cfg_ok c"
  shows "queue_steps c s (fst (snd (reserve cd c mo w shard now now' (s, m))))"
proof -
  let ?s1 = "snd (promote_retries now s)"
  let ?s2 = "snd (pop_job c shard ?s1)"
  have "queue_steps c s ?s2"
    using steps_promote_retries steps_pop_job [OF assms] by (rule rtranclp_trans)
  moreover have "queue_steps c ?s2 (snd (claim_script j w l t ttl ?s2))" for j l t ttl
    by (intro r_into_rtranclp step_claim)
  ultimately show ?thesis
    by (auto simp: reserve_def Let_def split: prod.splits option.splits intro: rtranclp_trans)
      (metis rtranclp_trans snd_conv)+
qed

text \<open>The store after one iteration of the reaper's loop.\<close>

definition reaped_store :: "queue_cfg \<Rightarrow> rat \<Rightarrow> int \<Rightarrow> string \<Rightarrow> store \<Rightarrow> store" where
  "reaped_store c jitter now j s =
     (case jobs s j of
        None \<Rightarrow> snd (reap_script j 0 now (max_attempts c) (now + retry_delay_ms c jitter 1)
          (job_ttl_seconds c) (shard_field s j) s)
      | Some h \<Rightarrow> if h_status h = RUNNING \<and> h_lease_expires_ms h > now then s
          else snd (reap_script j (h_lease_expires_ms h) now (max_attempts c)
            (now + retry_delay_ms c jitter (h_attempts h)) (job_ttl_seconds c) (shard_field s j) s))"

lemma reap_one_store:
  "fst (snd (reap_one cd c mo jitter now j (s, m))) = reaped_store c jitter now j s"
  by (auto simp: reap_one_def reaped_store_def Let_def split: option.splits prod.splits sum.splits)

lemma steps_reap_one: "queue_steps c s (reaped_store c jitter now j s)"
proof -
  have "queue_steps c s (snd (reap_script j lease now (max_attempts c) next_ms ttl (shard_field s j) s))"
    for lease next_ms ttl
    by (intro r_into_rtranclp step_reap) simp
  then show ?thesis by (auto simp: reaped_store_def split: option.splits)
qed

lemma steps_reap_loop:
  "queue_steps c (fst sm) (fst (snd (reap_loop cd c mo jitter now js reaped sm)))"
proof (induction js arbitrary: reaped sm)
  case Nil
  then show ?case by simp
next
  case (Cons j js)
  obtain r s1 m1 where one: "reap_one cd c mo (jitter j) now j sm = (r, s1, m1)" by (metis prod_cases3)
  then have "s1 = reaped_store c (jitter j) now j (fst sm)"
    using reap_one_store [of cd c mo "jitter j" now j "fst sm" "snd sm"] by simp
  then have first: "queue_steps c (fst sm) s1" by (simp add: steps_reap_one)
  show ?case
    using first Cons.IH [of "(s1, m1)"] by (cases r) (auto simp: one intro: rtranclp_trans)
qed

lemma steps_reap_stale:
  "queue_steps c s (fst (snd (reap_stale cd c mo jitter now now' (s, m))))"
proof -
  obtain r s1 m1 where r: "reap_loop cd c mo jitter now (processing s) 0 (s, m) = (r, s1, m1)"
    by (metis prod_cases3)
  then have "queue_steps c s s1"
    using steps_reap_loop [of c "(s, m)" cd mo jitter now "processing s" 0] by simp
  then have "queue_steps c s (snd (promote_retries now' s1))"
    using steps_promote_retries by (rule rtranclp_trans)
  with r \<open>queue_steps c s s1\<close> show ?thesis
    by (simp add: reap_stale_def split: sum.splits)
qed

lemma steps_heartbeat: "queue_steps c s (snd (heartbeat c j w now s))"
  unfolding heartbeat_def by (intro r_into_rtranclp step_heartbeat)

lemma steps_complete: "queue_steps c s (fst (snd (complete cd c mo j w res now (s, m))))"
  unfolding complete_def Let_def
  by (auto split: prod.splits)
    (metis r_into_rtranclp snd_conv step_complete)

lemma steps_publish_output:
  "queue_steps c s (snd (publish_output j w a key aid uri mode now s))"
  unfolding publish_output_def by (intro r_into_rtranclp step_publish)

lemma steps_cancel_complete: "queue_steps c s (fst (snd (cancel_complete c mo j w now (s, m))))"
proof -
  have "queue_steps c s (snd (terminal_script j w CANCELLED [] now (job_ttl_seconds c) s))"
    by (intro r_into_rtranclp step_terminal) simp
  then show ?thesis by (auto simp: cancel_complete_def Let_def split: prod.splits)
qed

lemma steps_request_cancel: "queue_steps c s (fst (snd (request_cancel cd mo j now (s, m))))"
proof -
  have "queue_steps c s (snd (cancel_script j now (shard_field s j) s))"
    by (intro r_into_rtranclp step_cancel) simp
  then show ?thesis by (auto simp: request_cancel_def Let_def split: prod.splits sum.splits)
qed

lemma steps_fail:
  "queue_steps c s (fst (snd (fail cd c mo j w err retryable ec jitter now now' (s, m))))"
proof -
  have "queue_steps c s (snd (terminal_script j w FAILED err now (job_ttl_seconds c) s))"
    by (intro r_into_rtranclp step_terminal) simp
  moreover have "queue_steps c s
    (snd (retry_script j w (max_attempts c) err now' next_ms (job_ttl_seconds c) s))" for next_ms
    by (intro r_into_rtranclp step_retry)
  then have "queue_steps c s s1"
    if "retry_script j w (max_attempts c) err now' next_ms (job_ttl_seconds c) s = (ok, s1)"
    for next_ms ok s1
    using that by (metis snd_conv)
  ultimately show ?thesis
    by (auto simp: fail_def Let_def split: prod.splits sum.splits)
qed

lemmas method_steps = steps_enqueue steps_promote_retries steps_reserve steps_heartbeat
  steps_complete steps_publish_output steps_cancel_complete steps_request_cancel steps_fail
  steps_reap_stale

lemma steps_queue_ok: "queue_steps c s s' \<Longrightarrow> cfg_ok c \<Longrightarrow> queue_ok c s \<Longrightarrow> queue_ok c s'"
  by (auto simp: cfg_ok_def intro: script_steps_inv)

end
