(* ===== verification/Storage.thy ===== *)
theory Storage
  imports Metadata JobStore
begin

text \<open>
  \<open>src/dalmatian/storage.py\<close>: the two registries of logical output pointers, behind the contract
  \<open>publication_registry\<close> that both implement, and \<open>StorageRegistry\<close>, which turns a location name
  and a relative path into a URI. \<open>urlsplit\<close> is modelled as far as it is used (scheme and path,
  without its check of bracketed hosts); a data root is its URI, and \<open>hashlib\<close> is the parameter
  \<open>sha256\<close>. The metadata store is a \<open>meta_ops\<close> with its state, or absent.
\<close>

section \<open>URLs\<close>

definition is_alpha :: "char \<Rightarrow> bool" where
  "is_alpha c = ((CHR ''a'' \<le> c \<and> c \<le> CHR ''z'') \<or> (CHR ''A'' \<le> c \<and> c \<le> CHR ''Z''))"

definition is_digit :: "char \<Rightarrow> bool" where
  "is_digit c = (CHR ''0'' \<le> c \<and> c \<le> CHR ''9'')"

definition lower_char :: "char \<Rightarrow> char" where
  "lower_char c = (if CHR ''A'' \<le> c \<and> c \<le> CHR ''Z'' then char_of (of_char c + 32 :: nat) else c)"

definition url_clean :: "string \<Rightarrow> string" where
  "url_clean u = filter (\<lambda>c. c \<notin> {CHR 0x09, CHR 0x0A, CHR 0x0D}) (dropWhile (\<lambda>c. c \<le> CHR '' '') u)"

definition scheme_char :: "char \<Rightarrow> bool" where
  "scheme_char c = (is_alpha c \<or> is_digit c \<or> c \<in> {CHR ''+'', CHR ''-'', CHR ''.''})"

text \<open>\<open>(scheme, rest)\<close>: the text before a colon when it has the form of a scheme.\<close>

definition url_split_scheme :: "string \<Rightarrow> string \<times> string" where
  "url_split_scheme u =
     (let v = url_clean u; pre = takeWhile (\<lambda>c. c \<noteq> CHR '':'') v; rest = dropWhile (\<lambda>c. c \<noteq> CHR '':'') v in
      if rest \<noteq> [] \<and> pre \<noteq> [] \<and> is_alpha (hd pre) \<and> list_all scheme_char pre
      then (map lower_char pre, tl rest) else ([], v))"

definition url_scheme :: "string \<Rightarrow> string" where
  "url_scheme u = fst (url_split_scheme u)"

definition url_path :: "string \<Rightarrow> string" where
  "url_path u =
     (let v = snd (url_split_scheme u);
          p = (if starts_with v ''//'' then dropWhile (\<lambda>c. c \<notin> {CHR ''/'', CHR ''?'', CHR ''#''}) (drop 2 v) else v)
      in takeWhile (\<lambda>c. c \<noteq> CHR ''?'') (takeWhile (\<lambda>c. c \<noteq> CHR ''#'') p))"

section \<open>Publication registries\<close>

text \<open>
  The contract of \<open>OutputPublicationRegistry\<close>: a key's pointer is the query that owns it with the
  attempt and the manifest published last. An \<open>error\<close> write to a key another query (or only an
  append) has used is refused and changes nothing; an append never moves the pointer.
\<close>

definition pointer :: "fields option \<Rightarrow> (string \<times> string \<times> string) option" where
  "pointer v = (case v of None \<Rightarrow> None | Some fs \<Rightarrow>
     (case (fs ''query_id'', fs ''attempt_id'', fs ''manifest_uri'') of
        (Some q, Some a, Some u) \<Rightarrow> Some (q, a, u) | _ \<Rightarrow> None))"

locale publication_registry =
  fixes publish :: "string \<Rightarrow> string \<Rightarrow> string \<Rightarrow> string \<Rightarrow> string \<Rightarrow> 's \<Rightarrow> bool \<times> 's"
    and current :: "'s \<Rightarrow> string \<Rightarrow> fields option"
  assumes write_pointer:
      "mode \<noteq> ''append'' \<Longrightarrow> publish k q a u mode s = (True, s') \<Longrightarrow> pointer (current s' k) = Some (q, a, u)"
    and append_keeps:
      "publish k q a u ''append'' s = (b, s') \<Longrightarrow>
         b \<and> current s' k \<noteq> None \<and> pointer (current s' k) = pointer (current s k)"
    and error_refused:
      "q \<noteq> [] \<Longrightarrow> current s k = Some fs \<Longrightarrow> fs ''query_id'' \<noteq> Some q \<Longrightarrow>
         publish k q a u ''error'' s = (False, s)"
    and error_own:
      "pointer (current s k) = Some (q, a', u') \<Longrightarrow> fst (publish k q a u ''error'' s)"
    and error_fresh: "current s k = None \<Longrightarrow> fst (publish k q a u ''error'' s)"
    and overwrite_accepted: "fst (publish k q a u ''overwrite'' s)"
    and others: "k' \<noteq> k \<Longrightarrow> publish k q a u mode s = (b, s') \<Longrightarrow> current s' k' = current s k'"
begin

lemma pointer_query: "pointer (current s k) = Some (q, a, u) \<Longrightarrow>
    \<exists>fs. current s k = Some fs \<and> fs ''query_id'' = Some q"
  by (auto simp: pointer_def split: option.splits)

lemma first_writer_wins:
  assumes "publish k q a u ''error'' s = (True, s1)" and "q' \<noteq> q" and "q' \<noteq> []"
  shows "publish k q' a' u' ''error'' s1 = (False, s1)"
proof -
  have "pointer (current s1 k) = Some (q, a, u)" using assms(1) by (intro write_pointer) simp_all
  then obtain fs where "current s1 k = Some fs" "fs ''query_id'' = Some q"
    using pointer_query by blast
  then show ?thesis using assms(2,3) by (intro error_refused) auto
qed

lemma republish_idempotent:
  assumes "publish k q a u ''error'' s = (True, s1)"
  shows "fst (publish k q a' u' ''error'' s1)"
  using write_pointer [OF _ assms] by (intro error_own) simp

end

definition mem_publish ::
  "string \<Rightarrow> string \<Rightarrow> string \<Rightarrow> string \<Rightarrow> string \<Rightarrow> (string \<rightharpoonup> fields) \<Rightarrow> bool \<times> (string \<rightharpoonup> fields)" where
  [method_defs]:
  "mem_publish key query_id attempt_id manifest_uri write_mode values =
     (if write_mode = ''append''
      then (True, values(key \<mapsto> hset [(''last_append_query_id'', query_id),
              (''last_append_attempt_id'', attempt_id), (''last_append_manifest_uri'', manifest_uri)]
              (case values key of None \<Rightarrow> [''exists'' \<mapsto> ''1''] | Some fs \<Rightarrow> fs)))
      else if write_mode = ''error'' \<and> (case values key of None \<Rightarrow> False
                 | Some fs \<Rightarrow> fs ''query_id'' \<noteq> Some query_id)
      then (False, values)
      else (True, values(key \<mapsto> [''exists'' \<mapsto> ''1'', ''query_id'' \<mapsto> query_id,
              ''attempt_id'' \<mapsto> attempt_id, ''manifest_uri'' \<mapsto> manifest_uri])))"

definition valkey_publish ::
  "int \<Rightarrow> string \<Rightarrow> string \<Rightarrow> string \<Rightarrow> string \<Rightarrow> string \<Rightarrow> (string \<rightharpoonup> fields) \<Rightarrow> bool \<times> (string \<rightharpoonup> fields)" where
  [method_defs]:
  "valkey_publish now key query_id attempt_id manifest_uri write_mode db =
     (case publish_fields key write_mode query_id attempt_id manifest_uri now db of
        None \<Rightarrow> (False, db) | Some db' \<Rightarrow> (True, db'))"

text \<open>\<open>hgetall\<close> of a missing key is an empty dict, which \<open>current\<close> turns into \<open>None\<close>.\<close>

definition registry_current :: "(string \<rightharpoonup> fields) \<Rightarrow> string \<Rightarrow> fields option" where
  "registry_current db key = db key"

interpretation memory_registry: publication_registry mem_publish registry_current
  by unfold_locales
    (auto simp: mem_publish_def registry_current_def pointer_def hset_def
      split: if_splits option.splits)

interpretation valkey_registry: publication_registry "valkey_publish now" registry_current
  by unfold_locales
    (auto simp: valkey_publish_def publish_fields_def registry_current_def pointer_def hset_key_def
      hset_def hget_or_empty_def split: if_splits option.splits)

section \<open>Locations\<close>

record ResolvedDestination =
  dst_location :: string
  dst_path :: string
  dst_uri :: string

record storage_registry =
  configured :: "(string \<times> string) list"
  sources :: "(string \<times> string) list"
  publication_prefix :: string

definition supported_schemes :: "string list" where
  "supported_schemes = [''file'', ''s3a'', ''gs'', ''abfss'']"

definition normalize_root :: "string \<Rightarrow> string" where
  "normalize_root u = (if starts_with u ''s3://'' then ''s3a://'' @ drop (length ''s3://'') u else u)"

definition validated_root :: "string \<Rightarrow> string \<Rightarrow> string res" where
  "validated_root name configured_root =
     (let root = rstrip CHR ''/'' (normalize_root configured_root); scheme = url_scheme root in
      if scheme \<notin> set supported_schemes
      then raise ValueError (''unsupported storage scheme for '' @ name @ '': ''
             @ (if scheme = [] then ''missing'' else scheme))
      else Inr root)"

definition validated_roots :: "(string \<times> string) list \<Rightarrow> (string \<times> string) list res" where
  "validated_roots = mapE (\<lambda>p. bindE (validated_root (fst p) (snd p)) (\<lambda>r. Inr (fst p, r)))"

definition make_registry ::
  "(string \<times> string) list \<Rightarrow> (string \<times> string) list \<Rightarrow> string option \<Rightarrow> string \<Rightarrow> storage_registry res"
where
  "make_registry locs source_locs data_root_uri prefix =
     bindE (validated_roots locs) (\<lambda>conf.
     bindE (validated_roots source_locs) (\<lambda>srcs.
       Inr \<lparr>configured = conf,
            sources = (case data_root_uri of None \<Rightarrow> srcs
              | Some uri \<Rightarrow> if map_of srcs ''local'' = None then srcs @ [(''local'', uri)] else srcs),
            publication_prefix = rstrip CHR '':'' prefix\<rparr>))"

definition clean_path :: "string \<Rightarrow> string res" where
  "clean_path path =
     (if escapes_root path
      then raise ValueError (''storage path must be relative and cannot contain '' @ quoted ''..'')
      else (let clean = strip CHR ''/'' path in
        if clean = [] then raise ValueError ''storage path cannot be empty'' else Inr clean))"

type_synonym 'm metadata_ref = "('m meta_ops \<times> 'm) option"

definition root_of :: "'m metadata_ref \<Rightarrow> storage_registry \<Rightarrow> string \<Rightarrow> (string \<times> string) res" where
  "root_of md sr location =
     (case map_of (configured sr) location of
        Some base \<Rightarrow> Inr (base, ''config'')
      | None \<Rightarrow>
          (case (case md of None \<Rightarrow> None | Some (mo, m) \<Rightarrow> mo_storage_location mo m location) of
             None \<Rightarrow> raise UnknownStorageLocation (''unknown storage location: '' @ location)
           | Some value \<Rightarrow>
               (if value = [] then raise UnknownStorageLocation (''unknown storage location: '' @ location)
                else bindE (validated_root location value) (\<lambda>r. Inr (r, ''database'')))))"

definition resolve :: "'m metadata_ref \<Rightarrow> storage_registry \<Rightarrow> string \<Rightarrow> string \<Rightarrow> ResolvedDestination res" where
  "resolve md sr location path =
     bindE (root_of md sr location) (\<lambda>(base, _).
     bindE (clean_path path) (\<lambda>clean.
       Inr \<lparr>dst_location = location, dst_path = clean, dst_uri = base @ CHR ''/'' # clean\<rparr>))"

definition resolve_source_location ::
  "'m metadata_ref \<Rightarrow> storage_registry \<Rightarrow> string option \<Rightarrow> string \<Rightarrow> ResolvedDestination res" where
  "resolve_source_location md sr location path =
     (let name = (case location of None \<Rightarrow> ''local'' | Some l \<Rightarrow> if l = [] then ''local'' else l) in
      bindE (case map_of (sources sr) name of
          Some base \<Rightarrow> Inr base
        | None \<Rightarrow> (if location \<noteq> None then bindE (root_of md sr name) (\<lambda>(base, _). Inr base)
                   else raise UnknownStorageLocation ''local source root is not configured''))
        (\<lambda>base. bindE (clean_path path) (\<lambda>clean.
          Inr \<lparr>dst_location = name, dst_path = clean, dst_uri = base @ CHR ''/'' # clean\<rparr>)))"

definition registry_locations ::
  "'m metadata_ref \<Rightarrow> storage_registry \<Rightarrow> (string \<times> string \<times> string) list" where
  "registry_locations md sr =
     map (\<lambda>(name, uri). (name, uri, ''config'')) (sort (configured sr))
     @ (case md of None \<Rightarrow> []
        | Some (mo, m) \<Rightarrow>
            map (\<lambda>(name, uri). (name, normalize_root uri, ''database''))
              (filter (\<lambda>p. map_of (configured sr) (fst p) = None) (sort (mo_storage_locations mo m))))"

definition publication_key :: "(string \<Rightarrow> string) \<Rightarrow> storage_registry \<Rightarrow> ResolvedDestination \<Rightarrow> string" where
  "publication_key sha256 sr d =
     publication_prefix sr @ CHR '':'' # sha256 (dst_location d @ CHR 0x00 # dst_path d)"

definition publish_sync ::
  "(string \<Rightarrow> string) \<Rightarrow> (string \<Rightarrow> string \<Rightarrow> string \<Rightarrow> string \<Rightarrow> string \<Rightarrow> 's \<Rightarrow> bool \<times> 's) \<Rightarrow> storage_registry
   \<Rightarrow> ResolvedDestination \<Rightarrow> string \<Rightarrow> string \<Rightarrow> string \<Rightarrow> string \<Rightarrow> 's \<Rightarrow> bool \<times> 's" where
  "publish_sync sha256 publish sr d query_id attempt_id manifest_uri write_mode s =
     publish (publication_key sha256 sr d) query_id attempt_id manifest_uri write_mode s"

definition manifest_payload :: "(string \<times> json) list \<Rightarrow> string" where
  "manifest_payload values = json_dumps (JObj values) @ [CHR 0x0A]"

section \<open>Confinement of resolved paths\<close>

lemma starts_with_slash [simp]: "starts_with p ''/'' \<longleftrightarrow> (\<exists>t. p = CHR ''/'' # t)"
  by (cases p) auto

lemma lstrip_relative: "\<not> escapes_root p \<Longrightarrow> lstrip CHR ''/'' p = p"
  by (cases p) (auto simp: escapes_root_def lstrip_def)

lemma split_on_rstrip:
  "w \<in> set (split_on c (rstrip c p)) \<Longrightarrow> w \<noteq> [] \<Longrightarrow> w \<in> set (split_on c p)"
proof -
  assume w: "w \<in> set (split_on c (rstrip c p))"
  obtain n where n: "p = rstrip c p @ replicate n c" using rstrip_decomp by blast
  show ?thesis
  proof (cases n)
    case 0
    with n w show ?thesis by simp
  next
    case (Suc k)
    then have "p = rstrip c p @ c # replicate k c" using n by simp
    then have "split_on c p = split_on c (rstrip c p) @ split_on c (replicate k c)"
      using split_on_append by metis
    with w show ?thesis by simp
  qed
qed

lemma starts_with_rstrip: "rstrip c p = x # t \<Longrightarrow> \<exists>t'. p = x # t'"
  using rstrip_decomp [of p c] by (metis append_Cons)

lemma clean_path_Inr:
  assumes "clean_path p = Inr q"
  shows "\<not> escapes_root q" and "q \<noteq> []" and "last q \<noteq> CHR ''/''" and "q = rstrip CHR ''/'' p"
proof -
  have p: "\<not> escapes_root p" and q: "q = rstrip CHR ''/'' p" and ne: "q \<noteq> []"
    using assms by (auto simp: clean_path_def Let_def strip_def lstrip_relative split: if_splits)
  have "''..'' \<notin> set (split_on CHR ''/'' q)"
    using p split_on_rstrip [of "''..''" "CHR ''/''" p] unfolding q escapes_root_def by blast
  moreover have "\<not> starts_with q ''/''"
    using p starts_with_rstrip [of "CHR ''/''" p] unfolding q escapes_root_def starts_with_slash
    by blast
  ultimately show "\<not> escapes_root q" by (simp add: escapes_root_def)
  show "q \<noteq> []" by (rule ne)
  show "last q \<noteq> CHR ''/''" using rstrip_no_trailing [of "CHR ''/''" p] ne q by auto
  show "q = rstrip CHR ''/'' p" by (rule q)
qed

lemma clean_path_idem: "clean_path p = Inr q \<Longrightarrow> clean_path q = Inr q"
  using clean_path_Inr [of p q] by (simp add: clean_path_def strip_def lstrip_relative)

lemma validated_root_scheme:
  "validated_root n u = Inr r \<Longrightarrow> url_scheme r \<in> set supported_schemes \<and> r = rstrip CHR ''/'' r"
  by (auto simp: validated_root_def Let_def split: if_splits)

lemma validated_roots_ok:
  assumes "validated_roots xs = Inr ys"
  shows "map fst ys = map fst xs" and "(n, r) \<in> set ys \<Longrightarrow> url_scheme r \<in> set supported_schemes"
proof -
  have f: "list_all2 (\<lambda>p q. fst q = fst p \<and> validated_root (fst p) (snd p) = Inr (snd q)) xs ys"
    using assms unfolding validated_roots_def mapE_Inr_iff
    by (rule list_all2_mono) auto
  then show "map fst ys = map fst xs"
    by (simp add: list_all2_conv_all_nth list_eq_iff_nth_eq)
  assume "(n, r) \<in> set ys"
  then obtain i where "i < length ys" "ys ! i = (n, r)" by (auto simp: in_set_conv_nth)
  then have "validated_root (fst (xs ! i)) (snd (xs ! i)) = Inr r"
    using list_all2_nthD2 [OF f, of i] by simp
  then show "url_scheme r \<in> set supported_schemes" by (rule validated_root_scheme [THEN conjunct1])
qed

text \<open>Appending a path to a URL with a scheme keeps the scheme.\<close>

lemma dropWhile_append_hit: "\<exists>x \<in> set xs. \<not> P x \<Longrightarrow> dropWhile P (xs @ ys) = dropWhile P xs @ ys"
  by auto

lemma takeWhile_append_hit: "\<exists>x \<in> set xs. \<not> P x \<Longrightarrow> takeWhile P (xs @ ys) = takeWhile P xs"
  by (metis takeWhile_append1)

lemma dropWhile_nonempty: "dropWhile P xs \<noteq> [] \<longleftrightarrow> (\<exists>x \<in> set xs. \<not> P x)"
  by (simp add: dropWhile_eq_Nil_conv)

lemma url_scheme_append:
  assumes "url_scheme r \<noteq> []"
  shows "url_scheme (r @ t) = url_scheme r"
proof -
  have rest: "dropWhile (\<lambda>c. c \<noteq> CHR '':'') (url_clean r) \<noteq> []"
    using assms by (auto simp: url_scheme_def url_split_scheme_def Let_def split: if_splits)
  then have colon: "\<exists>x \<in> set (url_clean r). \<not> x \<noteq> CHR '':''" by (simp only: dropWhile_nonempty)
  then have "\<exists>x \<in> set r. \<not> x \<le> CHR '' ''"
    by (auto simp: url_clean_def dest: set_dropWhileD intro!: bexI [where x = "CHR '':''"])
  then have clean: "url_clean (r @ t)
      = url_clean r @ filter (\<lambda>c. c \<notin> {CHR 0x09, CHR 0x0A, CHR 0x0D}) t"
    unfolding url_clean_def by (simp only: dropWhile_append_hit filter_append)
  show ?thesis
    using colon rest
    by (simp add: url_scheme_def url_split_scheme_def Let_def clean takeWhile_append_hit
        dropWhile_append_hit)
qed

definition supported :: "string \<Rightarrow> bool" where
  "supported uri = (url_scheme uri \<in> set supported_schemes)"

lemma supported_append: "supported r \<Longrightarrow> supported (r @ t)"
  using url_scheme_append [of r t] by (auto simp: supported_def supported_schemes_def)

lemma root_of_supported:
  assumes "make_registry locs srcs dr prefix = Inr sr" and "root_of md sr l = Inr (r, k)"
  shows "supported r"
proof (cases "map_of (configured sr) l")
  case None
  then show ?thesis using assms(2)
    by (auto simp: root_of_def supported_def dest: validated_root_scheme split: option.splits if_splits)
next
  case (Some r')
  then have "(l, r) \<in> set (configured sr)" using assms(2) by (auto simp: root_of_def dest: map_of_SomeD)
  moreover obtain conf where "validated_roots locs = Inr conf" "configured sr = conf"
    using assms(1) by (auto simp: make_registry_def)
  ultimately show ?thesis unfolding supported_def using validated_roots_ok(2) by blast
qed

definition sample_registry :: storage_registry where
  "sample_registry = \<lparr>configured = [(''out'', ''s3a://bucket'')], sources = [], publication_prefix = ''p''\<rparr>"

lemma sample_registry_made:
  "make_registry [(''out'', ''s3://bucket/'')] [] None ''p:'' = Inr sample_registry"
  by (simp add: make_registry_def validated_roots_def validated_root_def normalize_root_def rstrip_def
      url_scheme_def url_split_scheme_def url_clean_def Let_def supported_schemes_def is_alpha_def
      scheme_char_def lower_char_def sample_registry_def is_digit_def)

text \<open>
  C34. A stored output stays under its location's root: whatever path a request names, a
  destination the registry resolves is the location's root, a slash and a relative path that is
  not empty and has no \<open>..\<close> segment, and its URI has one of the supported schemes. The stored
  path is the requested one without trailing slashes, and resolving it again gives it back.
\<close>

theorem resolve_confined:
  assumes "make_registry locs srcs dr prefix = Inr sr" and "resolve md sr location path = Inr d"
  shows "\<exists>base k. root_of md sr location = Inr (base, k) \<and> dst_uri d = base @ CHR ''/'' # dst_path d
    \<and> dst_path d \<noteq> [] \<and> \<not> escapes_root (dst_path d) \<and> supported (dst_uri d)
    \<and> dst_path d = rstrip CHR ''/'' path \<and> resolve md sr location (dst_path d) = Inr d"
proof -
  obtain base k q where b: "root_of md sr location = Inr (base, k)" and q: "clean_path path = Inr q"
    and d: "d = \<lparr>dst_location = location, dst_path = q, dst_uri = base @ CHR ''/'' # q\<rparr>"
    using assms(2) by (auto simp: resolve_def)
  show ?thesis
    using b d clean_path_Inr [OF q] clean_path_idem [OF q]
      supported_append [OF root_of_supported [OF assms(1) b]]
    by (auto simp: resolve_def)
qed

theorem resolve_confined_witness:
  "resolve None sample_registry ''out'' ''a/b'' =
     Inr \<lparr>dst_location = ''out'', dst_path = ''a/b'', dst_uri = ''s3a://bucket/a/b''\<rparr>
   \<and> supported ''s3a://bucket/a/b''"
proof -
  have r: "resolve None sample_registry ''out'' ''a/b'' =
     Inr \<lparr>dst_location = ''out'', dst_path = ''a/b'', dst_uri = ''s3a://bucket/a/b''\<rparr>"
    by (simp add: resolve_def root_of_def sample_registry_def clean_path_def escapes_root_def
        strip_def rstrip_def lstrip_def)
  show ?thesis using resolve_confined [OF sample_registry_made r] r by auto
qed

text \<open>
  C35. The first query to write an output in \<open>error\<close> mode owns it, in both registries: after its
  publication another query's is refused and changes nothing, while the owner (a retry of the
  same query) may publish again, and an append does not move the pointer.
\<close>

theorem first_writer_owns_output:
  assumes "publish_sync sha mem_publish sr d q a u ''error'' v = (True, v1)"
    and "publish_sync sha (valkey_publish now) sr d q a u ''error'' db = (True, db1)"
    and "q' \<noteq> q" and "q' \<noteq> []"
  shows "publish_sync sha mem_publish sr d q' a' u' ''error'' v1 = (False, v1)
    \<and> fst (publish_sync sha mem_publish sr d q a' u' ''error'' v1)
    \<and> pointer (registry_current (snd (publish_sync sha mem_publish sr d q' a' u' ''append'' v1))
        (publication_key sha sr d)) = Some (q, a, u)
    \<and> publish_sync sha (valkey_publish now') sr d q' a' u' ''error'' db1 = (False, db1)
    \<and> fst (publish_sync sha (valkey_publish now') sr d q a' u' ''error'' db1)
    \<and> pointer (registry_current (snd (publish_sync sha (valkey_publish now') sr d q' a' u' ''append'' db1))
        (publication_key sha sr d)) = Some (q, a, u)"
proof -
  let ?k = "publication_key sha sr d"
  have m: "mem_publish ?k q a u ''error'' v = (True, v1)"
    and r: "valkey_publish now ?k q a u ''error'' db = (True, db1)"
    using assms(1,2) by (simp_all add: publish_sync_def)
  have r': "valkey_publish now ?k q a u ''error'' db = (True, db1) \<Longrightarrow>
      valkey_publish now' ?k q' a' u' ''error'' db1 = (False, db1)
      \<and> fst (valkey_publish now' ?k q a' u' ''error'' db1)"
    using valkey_registry.write_pointer [of "''error''" now ?k q a u db db1] assms(3,4)
      valkey_registry.error_own [of db1 ?k q a u now' a' u']
      valkey_registry.pointer_query [of db1 ?k q a u]
      valkey_registry.error_refused [of q' db1 ?k _ now' a' u'] by auto
  have mp: "pointer (registry_current v1 ?k) = Some (q, a, u)"
    using memory_registry.write_pointer [OF _ m] by simp
  have rp: "pointer (registry_current db1 ?k) = Some (q, a, u)"
    using valkey_registry.write_pointer [OF _ r] by simp
  show ?thesis
    unfolding publish_sync_def
    using memory_registry.first_writer_wins [OF m assms(3,4)] memory_registry.republish_idempotent [OF m]
      r' [OF r] mp rp
      memory_registry.append_keeps [of ?k q' a' u' v1] valkey_registry.append_keeps [of now' ?k q' a' u' db1]
    by (metis prod.collapse)
qed

theorem first_writer_owns_output_witness:
  "publish_sync id mem_publish sample_registry
     \<lparr>dst_location = ''out'', dst_path = ''p'', dst_uri = ''s3a://bucket/p''\<rparr> ''q2'' ''a'' ''u2'' ''error''
     (snd (publish_sync id mem_publish sample_registry
        \<lparr>dst_location = ''out'', dst_path = ''p'', dst_uri = ''s3a://bucket/p''\<rparr> ''q1'' ''a'' ''u1'' ''error''
        Map.empty))
   = (False, snd (publish_sync id mem_publish sample_registry
        \<lparr>dst_location = ''out'', dst_path = ''p'', dst_uri = ''s3a://bucket/p''\<rparr> ''q1'' ''a'' ''u1'' ''error''
        Map.empty))"
proof -
  let ?d = "\<lparr>dst_location = ''out'', dst_path = ''p'', dst_uri = ''s3a://bucket/p''\<rparr>"
  let ?m = "publish_sync id mem_publish sample_registry ?d ''q1'' ''a'' ''u1'' ''error'' Map.empty"
  let ?v = "publish_sync id (valkey_publish 5) sample_registry ?d ''q1'' ''a'' ''u1'' ''error'' Map.empty"
  have m: "?m = (True, snd ?m)" by (simp add: publish_sync_def mem_publish_def)
  have v: "?v = (True, snd ?v)"
    by (simp add: publish_sync_def valkey_publish_def publish_fields_def)
  show ?thesis by (rule first_writer_owns_output [OF m v, THEN conjunct1]) simp_all
qed

text \<open>
  Database locations round-trip through the registry: a location an administrator puts is
  resolved to its normalised root unless the configuration already has that name, putting
  again replaces it, deleting removes it, and other names are not affected.
\<close>

theorem database_location_roundtrip:
  assumes "map_of (configured sr) name = None" and "validated_root name uri = Inr r" and "uri \<noteq> []"
  shows "root_of (Some (sql_meta loads dump clk, put_storage_location clk name uri db)) sr name
      = Inr (r, ''database'')
    \<and> (\<exists>e. root_of (Some (sql_meta loads dump clk, delete_storage_location name
          (put_storage_location clk name uri db))) sr name = Inl e \<and> exn_cls e = UnknownStorageLocation)
    \<and> (\<forall>other. other \<noteq> name \<longrightarrow>
        root_of (Some (sql_meta loads dump clk, put_storage_location clk name uri db)) sr other
        = root_of (Some (sql_meta loads dump clk, db)) sr other)"
  using assms
  by (auto simp: root_of_def sql_meta_def put_storage_location_lookup delete_storage_location_lookup
      raise_def split: option.splits)

theorem database_location_roundtrip_witness:
  "root_of (Some (sql_meta (\<lambda>_. Inr JNull) (\<lambda>_. []) (\<lambda>_. 0), put_storage_location (\<lambda>_. 0) ''db'' ''gs://b''
     \<lparr>invocations = Map.empty, locations = [], db_tick = 0\<rparr>)) sample_registry ''db''
   = Inr (''gs://b'', ''database'')"
proof -
  have v: "validated_root ''db'' ''gs://b'' = Inr ''gs://b''"
    by (simp add: validated_root_def normalize_root_def rstrip_def url_scheme_def url_split_scheme_def
        url_clean_def Let_def supported_schemes_def is_alpha_def scheme_char_def lower_char_def is_digit_def)
  show ?thesis
    by (rule database_location_roundtrip [OF _ v, THEN conjunct1]) (simp_all add: sample_registry_def)
qed

end
