(* ===== verification/Worker.thy ===== *)
theory Worker
  imports QueueMethods Storage
begin

text \<open>
  \<open>src/dalmatian/worker.py\<close>: the classification of exceptions, one unit of work, the lease
  heartbeat and the worker's loop. \<open>run\<close> is \<open>service.execute\<close> as the queue sees it, with all that
  other processes and the heartbeat thread do to the queue meanwhile; \<open>env n\<close> is what others do
  just before the worker's \<open>n\<close>-th call to the queue afterwards, and \<open>clk n\<close> the \<open>n\<close>-th reading of
  the worker's clock. The second component of a result is the label counted in \<open>JOB_OUTCOMES\<close>.
  Logging is left out, and connection errors outside the heartbeats are not modelled.
\<close>

section \<open>Retryable exceptions\<close>

definition transient_texts :: "string list" where
  "transient_texts = [''py4jnetworkerror'', ''executorlostfailure'', ''fetchfailed'', ''connection refused'',
     ''temporarily unavailable'', ''connection reset'']"

definition is_retryable :: "exn \<Rightarrow> bool" where
  "is_retryable e =
     (if isinstance e [QueryRejected, QueryTimeout, ValueError, FileExistsError] then False
      else if isinstance e [RetryableQueryError, OSError, ConnectionError] then True
      else (let text = lower (class_name (exn_cls e) @ '': '' @ exn_msg e) in
        list_ex (\<lambda>needle. contains needle text) transient_texts))"

section \<open>One unit of work\<close>

type_synonym 'm world = "store \<times> 'm"

definition job_context :: "ReservedJob \<Rightarrow> string \<Rightarrow> ExecutionContext" where
  "job_context job uuid =
     \<lparr>ctx_query_id = rj_id job, ctx_attempt_id = dec_of_nat (rj_attempts job) @ CHR ''-'' # uuid,
      ctx_attempt_number = rj_attempts job,
      ctx_timeout_seconds = (case req_timeout_seconds (rj_request job) of None \<Rightarrow> 300
        | Some t \<Rightarrow> if t = 0 then 300 else t),
      ctx_kind = ''async''\<rparr>"

text \<open>\<open>can_commit\<close> of the context: a heartbeat, then the cancellation flag.\<close>

definition can_commit :: "queue_cfg \<Rightarrow> string \<Rightarrow> string \<Rightarrow> int \<Rightarrow> (store \<Rightarrow> store) \<Rightarrow> store \<Rightarrow> bool \<times> store" where
  "can_commit c j w now between s =
     (let (ok, s1) = heartbeat c j w now s in
      if ok then (let s2 = between s1 in (\<not> cancel_requested j w s2, s2)) else (False, s1))"

definition finish_cancelled ::
  "codec \<Rightarrow> queue_cfg \<Rightarrow> 'm meta_ops \<Rightarrow> string \<Rightarrow> string \<Rightarrow> (nat \<Rightarrow> int) \<Rightarrow> (nat \<Rightarrow> 'm world \<Rightarrow> 'm world)
   \<Rightarrow> rat \<Rightarrow> 'm world \<Rightarrow> string option res \<times> 'm world" where
  [method_defs]:
  "finish_cancelled cd c mo j w clk env jitter sm =
     (let sm1 = env 0 sm in
      if cancel_requested j w (fst sm1)
      then (let (_, sm2) = cancel_complete c mo j w (clk 0) (env 1 sm1) in (Inr (Some ''cancelled''), sm2))
      else (let sm2 = env 1 sm1 in
        if owns j w (clk 0) (fst sm2)
        then (let (r, sm3) = fail cd c mo j w ''query was cancelled'' False (Some ''QueryCancelled'') jitter
                (clk 1) (clk 1) (env 2 sm2)
              in (bindE r (\<lambda>_. Inr (Some ''failed'')), sm3))
        else (Inr None, sm2)))"

definition finish_fenced ::
  "queue_cfg \<Rightarrow> 'm meta_ops \<Rightarrow> string \<Rightarrow> string \<Rightarrow> (nat \<Rightarrow> int) \<Rightarrow> (nat \<Rightarrow> 'm world \<Rightarrow> 'm world)
   \<Rightarrow> 'm world \<Rightarrow> string option res \<times> 'm world" where
  [method_defs]:
  "finish_fenced c mo j w clk env sm =
     (let sm1 = env 0 sm in
      if cancel_requested j w (fst sm1)
      then (let (ok, sm2) = cancel_complete c mo j w (clk 0) (env 1 sm1) in
            (Inr (if ok then Some ''cancelled'' else None), sm2))
      else (Inr None, sm1))"

definition finish_error ::
  "codec \<Rightarrow> queue_cfg \<Rightarrow> 'm meta_ops \<Rightarrow> string \<Rightarrow> string \<Rightarrow> (nat \<Rightarrow> int) \<Rightarrow> (nat \<Rightarrow> 'm world \<Rightarrow> 'm world)
   \<Rightarrow> rat \<Rightarrow> exn \<Rightarrow> 'm world \<Rightarrow> string option res \<times> 'm world" where
  [method_defs]:
  "finish_error cd c mo j w clk env jitter e sm =
     (let sm1 = env 0 sm in
      if owns j w (clk 0) (fst sm1)
      then (let (r, sm2) = fail cd c mo j w (exn_msg e) (is_retryable e) (Some (class_name (exn_cls e))) jitter
              (clk 1) (clk 2) (env 1 sm1)
            in (bindE r (\<lambda>_. Inr None), sm2))
      else (Inr None, sm1))"

definition finish_result ::
  "codec \<Rightarrow> queue_cfg \<Rightarrow> 'm meta_ops \<Rightarrow> string \<Rightarrow> string \<Rightarrow> (nat \<Rightarrow> int) \<Rightarrow> (nat \<Rightarrow> 'm world \<Rightarrow> 'm world)
   \<Rightarrow> QueryResult \<Rightarrow> 'm world \<Rightarrow> string option res \<times> 'm world" where
  [method_defs]:
  "finish_result cd c mo j w clk env result sm =
     (let sm1 = env 0 sm in
      if cancel_requested j w (fst sm1)
      then (let (ok, sm2) = cancel_complete c mo j w (clk 0) (env 1 sm1) in
            (Inr (if ok then Some ''cancelled'' else None), sm2))
      else (let (ok, sm2) = complete cd c mo j w result (clk 0) (env 1 sm1) in
        if ok then (Inr (Some ''succeeded''), sm2)
        else (let sm3 = env 2 sm2 in
          if cancel_requested j w (fst sm3)
          then (let (ok, sm4) = cancel_complete c mo j w (clk 1) (env 3 sm3) in
                (Inr (if ok then Some ''cancelled'' else None), sm4))
          else (Inr None, sm3))))"

definition work_once ::
  "codec \<Rightarrow> queue_cfg \<Rightarrow> 'm meta_ops
   \<Rightarrow> (QueryRequest \<Rightarrow> ExecutionContext \<Rightarrow> 'm world \<Rightarrow> QueryResult res \<times> 'm world)
   \<Rightarrow> string \<Rightarrow> nat \<Rightarrow> string \<Rightarrow> (nat \<Rightarrow> int) \<Rightarrow> (nat \<Rightarrow> 'm world \<Rightarrow> 'm world) \<Rightarrow> rat \<Rightarrow> 'm world
   \<Rightarrow> (bool \<times> string option) res \<times> 'm world" where
  [method_defs]:
  "work_once cd c mo run w shard uuid clk env jitter sm =
     (let (rj, sm1) = reserve cd c mo w shard (clk 0) (clk 1) sm in
      case rj of
        Inl e \<Rightarrow> (Inl e, sm1)
      | Inr None \<Rightarrow> (Inr (False, None), sm1)
      | Inr (Some job) \<Rightarrow>
          (let (result, sm2) = run (rj_request job) (job_context job uuid) sm1;
               j = rj_id job; clk' = (\<lambda>n. clk (n + 2));
               (outcome, sm3) =
                 (case result of
                    Inl e \<Rightarrow>
                      (if isinstance e [QueryCancelled] then finish_cancelled cd c mo j w clk' env jitter sm2
                       else if isinstance e [CommitFenced] then finish_fenced c mo j w clk' env sm2
                       else finish_error cd c mo j w clk' env jitter e sm2)
                  | Inr v \<Rightarrow> finish_result cd c mo j w clk' env v sm2)
           in (bindE outcome (\<lambda>m. Inr (True, m)), sm3)))"

section \<open>Heartbeats\<close>

text \<open>
  \<open>LeaseHeartbeat._run\<close> over the ticks before it is stopped: the clock, and whether the connection
  failed. A tick may not have reached Valkey, or may have reached it and got no answer; both raise,
  are logged, and the thread goes on. The flag of the result is whether \<open>service.cancel\<close> has been
  called; \<open>others\<close> is what happens in Valkey between ticks.
\<close>

datatype beat_fault = NoFault | Unreached | Unanswered

fun heartbeat_run ::
  "queue_cfg \<Rightarrow> string \<Rightarrow> string \<Rightarrow> (int \<Rightarrow> store \<Rightarrow> store) \<Rightarrow> (int \<times> beat_fault) list \<Rightarrow> store
   \<Rightarrow> bool \<times> store" where
  "heartbeat_run c j w others [] s = (False, s)"
| "heartbeat_run c j w others ((now, fault) # ticks) s =
     (case fault of
        Unreached \<Rightarrow> heartbeat_run c j w others ticks (others now s)
      | Unanswered \<Rightarrow> heartbeat_run c j w others ticks (snd (heartbeat c j w now (others now s)))
      | NoFault \<Rightarrow>
          (let (ok, s1) = heartbeat c j w now (others now s) in
           if \<not> ok then (True, s1)
           else if cancel_requested j w s1 then (True, s1)
           else heartbeat_run c j w others ticks s1))"

section \<open>The loop\<close>

definition worker_shard :: "string \<Rightarrow> nat option \<Rightarrow> nat \<Rightarrow> nat" where
  "worker_shard hostname configured_shard shards =
     (case configured_shard of
        Some k \<Rightarrow> k mod shards
      | None \<Rightarrow>
          (let digits = rev (takeWhile is_digit (rev hostname)) in
           if digits = [] then 0
           else (let v = nat_of_dec digits in
             (if contains ''-worker-'' hostname \<or> contains ''_worker_'' hostname then v - 1 else v) mod shards)))"

text \<open>
  The worker's own metrics: \<open>JOB_OUTCOMES\<close> by label, \<open>STALE_RECOVERIES\<close>, and the gauge
  \<open>JOB_QUEUE_DEPTH\<close> as it was last set.
\<close>

record worker_metrics =
  wx_outcomes :: "string \<Rightarrow> nat"
  wx_recoveries :: nat
  wx_depth :: "nat option"

definition no_worker_metrics :: worker_metrics where
  "no_worker_metrics = \<lparr>wx_outcomes = (\<lambda>_. 0), wx_recoveries = 0, wx_depth = None\<rparr>"

definition count_outcome :: "(bool \<times> string option) res \<Rightarrow> worker_metrics \<Rightarrow> worker_metrics" where
  "count_outcome r m =
     (case r of
        Inr (_, Some label) \<Rightarrow> m\<lparr>wx_outcomes := (wx_outcomes m)(label := Suc (wx_outcomes m label))\<rparr>
      | _ \<Rightarrow> m)"

record 'm worker =
  wk_next_reap :: rat
  wk_world :: "'m world"
  wk_metrics :: worker_metrics

text \<open>
  What one turn of the loop reads: the stop event, the monotonic clock, the clocks and random
  numbers of the calls, and what other processes do before the turn, before the depth is read and
  before the worker reserves (\<open>tn_others 0\<close>, \<open>1\<close>, \<open>2\<close>).
\<close>

record 'm turn =
  tn_stop :: bool
  tn_now :: rat
  tn_uuid :: string
  tn_clk :: "nat \<Rightarrow> int"
  tn_env :: "nat \<Rightarrow> 'm world \<Rightarrow> 'm world"
  tn_jitter :: rat
  tn_jits :: "string \<Rightarrow> rat"
  tn_reap_ms :: int
  tn_promote_ms :: int
  tn_others :: "nat \<Rightarrow> 'm world \<Rightarrow> 'm world"

text \<open>Reaping when it is time; an exception is logged and leaves the metrics.\<close>

definition reap_turn ::
  "codec \<Rightarrow> queue_cfg \<Rightarrow> 'm meta_ops \<Rightarrow> rat \<Rightarrow> 'm turn \<Rightarrow> 'm worker \<Rightarrow> 'm worker" where
  "reap_turn cd c mo interval tn wk =
     (if wk_next_reap wk \<le> tn_now tn
      then (let (r, sm) = reap_stale cd c mo (tn_jits tn) (tn_reap_ms tn) (tn_promote_ms tn) (wk_world wk);
                m = wk_metrics wk; sm1 = tn_others tn 1 sm;
                m1 = (case r of Inl _ \<Rightarrow> m
                   | Inr reaped \<Rightarrow> m\<lparr>wx_depth := Some (depth c (fst sm1)),
                        wx_recoveries := wx_recoveries m + reaped\<rparr>)
            in wk\<lparr>wk_next_reap := tn_now tn + interval, wk_world := sm1, wk_metrics := m1\<rparr>)
      else wk)"

definition worker_turn ::
  "codec \<Rightarrow> queue_cfg \<Rightarrow> 'm meta_ops
   \<Rightarrow> (QueryRequest \<Rightarrow> ExecutionContext \<Rightarrow> 'm world \<Rightarrow> QueryResult res \<times> 'm world)
   \<Rightarrow> string \<Rightarrow> nat \<Rightarrow> rat \<Rightarrow> 'm turn \<Rightarrow> 'm worker \<Rightarrow> (bool \<times> string option) res \<times> 'm worker" where
  "worker_turn cd c mo run w shard interval tn wk =
     (let wk1 = reap_turn cd c mo interval tn (wk\<lparr>wk_world := tn_others tn 0 (wk_world wk)\<rparr>);
          (r, sm) = work_once cd c mo run w shard (tn_uuid tn) (tn_clk tn) (tn_env tn) (tn_jitter tn)
                      (tn_others tn 2 (wk_world wk1))
      in (r, wk1\<lparr>wk_world := sm, wk_metrics := count_outcome r (wk_metrics wk1)\<rparr>))"

text \<open>
  The loop over the turns given: \<open>None\<close> while it is still running when they are used up, otherwise
  how it ended: the stop event was set, or an exception of \<open>work_once\<close>.
\<close>

fun worker_loop ::
  "codec \<Rightarrow> queue_cfg \<Rightarrow> 'm meta_ops
   \<Rightarrow> (QueryRequest \<Rightarrow> ExecutionContext \<Rightarrow> 'm world \<Rightarrow> QueryResult res \<times> 'm world)
   \<Rightarrow> string \<Rightarrow> nat \<Rightarrow> rat \<Rightarrow> 'm turn list \<Rightarrow> 'm worker \<Rightarrow> unit res option \<times> 'm worker" where
  "worker_loop cd c mo run w shard interval [] wk = (None, wk)"
| "worker_loop cd c mo run w shard interval (tn # tns) wk =
     (if tn_stop tn then (Some (Inr ()), wk)
      else (case worker_turn cd c mo run w shard interval tn wk of
          (Inl e, wk1) \<Rightarrow> (Some (Inl e), wk1)
        | (Inr _, wk1) \<Rightarrow> worker_loop cd c mo run w shard interval tns wk1))"

text \<open>
  \<open>run\<close> around the loop: the \<open>finally\<close> block closes the service and then the queue's connection
  (the last component: whether that is still open). An exception of \<open>service.close\<close> keeps the
  queue from being closed and replaces the loop's.
\<close>

definition start_worker :: "'m world \<Rightarrow> 'm worker" where
  "start_worker sm = \<lparr>wk_next_reap = 0, wk_world = sm, wk_metrics = no_worker_metrics\<rparr>"

definition worker_run ::
  "codec \<Rightarrow> queue_cfg \<Rightarrow> 'm meta_ops
   \<Rightarrow> (QueryRequest \<Rightarrow> ExecutionContext \<Rightarrow> 'm world \<Rightarrow> QueryResult res \<times> 'm world)
   \<Rightarrow> ('m world \<Rightarrow> unit res \<times> 'm world) \<Rightarrow> string \<Rightarrow> nat \<Rightarrow> rat \<Rightarrow> 'm turn list \<Rightarrow> 'm world
   \<Rightarrow> unit res option \<times> 'm worker \<times> bool" where
  "worker_run cd c mo run svc_close w shard interval tns sm =
     (case worker_loop cd c mo run w shard interval tns (start_worker sm) of
        (None, wk) \<Rightarrow> (None, wk, True)
      | (Some r, wk) \<Rightarrow>
          (case svc_close (wk_world wk) of
             (Inl e, sm1) \<Rightarrow> (Some (Inl e), wk\<lparr>wk_world := sm1\<rparr>, True)
           | (Inr _, sm1) \<Rightarrow> (Some r, wk\<lparr>wk_world := sm1\<rparr>, False)))"

section \<open>The worker as steps of the queue\<close>

definition quiet :: "queue_cfg \<Rightarrow> ('m world \<Rightarrow> 'm world) \<Rightarrow> bool" where
  "quiet c f = (\<forall>sm. queue_steps c (fst sm) (fst (f sm)))"

lemma quietD: "quiet c f \<Longrightarrow> queue_steps c (fst sm) (fst (f sm))"
  unfolding quiet_def by (rule spec)

lemma quiet_compose: "quiet c f \<Longrightarrow> quiet c g \<Longrightarrow> quiet c (\<lambda>sm. g (f sm))"
  unfolding quiet_def by (meson rtranclp_trans)

lemma quiet_cancel_complete: "quiet c (\<lambda>sm. snd (cancel_complete c mo j w now sm))"
  using steps_cancel_complete by (auto simp: quiet_def)

lemma quiet_complete: "quiet c (\<lambda>sm. snd (complete cd c mo j w v now sm))"
  using steps_complete by (auto simp: quiet_def)

lemma quiet_fail: "quiet c (\<lambda>sm. snd (fail cd c mo j w err rt ec jitter now now' sm))"
  using steps_fail by (auto simp: quiet_def)

lemma quiet_reserve: "cfg_ok c \<Longrightarrow> quiet c (\<lambda>sm. snd (reserve cd c mo w shard now now' sm))"
  using steps_reserve by (auto simp: quiet_def)

lemma quiet_reap_stale: "quiet c (\<lambda>sm. snd (reap_stale cd c mo jits now now' sm))"
  using steps_reap_stale by (auto simp: quiet_def)

lemmas quiets = quiet_cancel_complete quiet_complete quiet_fail

lemma steps_after: "queue_steps c s s1 \<Longrightarrow> quiet c f \<Longrightarrow> s1 = fst sm \<Longrightarrow> queue_steps c s (fst (f sm))"
  using quietD [of c f sm] by (auto intro: rtranclp_trans)

text \<open>The end of a call after what others did, in the two forms the branches have.\<close>

lemma finish_quiet:
  assumes env: "\<And>n. quiet c (env n)"
  shows "queue_steps c (fst sm) (fst (snd (finish_cancelled cd c mo j w clk env jitter sm)))"
    and "queue_steps c (fst sm) (fst (snd (finish_fenced c mo j w clk env sm)))"
    and "queue_steps c (fst sm) (fst (snd (finish_error cd c mo j w clk env jitter e sm)))"
    and "queue_steps c (fst sm) (fst (snd (finish_result cd c mo j w clk env v sm)))"
proof -
  have e0: "queue_steps c (fst sm) (fst (env 0 sm))" using env by (rule quietD)
  have e1: "queue_steps c (fst sm) (fst (env 1 (env 0 sm)))" by (rule steps_after [OF e0 env refl])
  have e2: "queue_steps c (fst sm) (fst (env 2 (env 1 (env 0 sm))))" by (rule steps_after [OF e1 env refl])
  note after = steps_after [OF _ quiet_cancel_complete refl] steps_after [OF _ quiet_complete refl]
    steps_after [OF _ quiet_fail refl]
  show "queue_steps c (fst sm) (fst (snd (finish_cancelled cd c mo j w clk env jitter sm)))"
    using e1 after(1) [OF e1] after(3) [OF e2]
    by (simp add: finish_cancelled_def Let_def case_prod_beta)
  show "queue_steps c (fst sm) (fst (snd (finish_fenced c mo j w clk env sm)))"
    using e0 after(1) [OF e1] by (simp add: finish_fenced_def Let_def case_prod_beta)
  show "queue_steps c (fst sm) (fst (snd (finish_error cd c mo j w clk env jitter e sm)))"
    using e0 after(3) [OF e1] by (simp add: finish_error_def Let_def case_prod_beta)
  have c1: "queue_steps c (fst sm) (fst (snd (complete cd c mo j w v (clk 0) (env 1 (env 0 sm)))))"
    by (rule after(2) [OF e1])
  have c2: "queue_steps c (fst sm) (fst (env 2 (snd (complete cd c mo j w v (clk 0) (env 1 (env 0 sm))))))"
    by (rule steps_after [OF c1 env refl])
  have c3: "queue_steps c (fst sm) (fst (env 3 (env 2 (snd (complete cd c mo j w v (clk 0) (env 1 (env 0 sm)))))))"
    by (rule steps_after [OF c2 env refl])
  show "queue_steps c (fst sm) (fst (snd (finish_result cd c mo j w clk env v sm)))"
    using after(1) [OF e1] c1 c2 after(1) [OF c3]
    by (simp add: finish_result_def Let_def case_prod_beta)
qed

lemma steps_work_once:
  assumes "cfg_ok c" and "\<And>n. quiet c (env n)" and "\<And>r ctx. quiet c (\<lambda>sm. snd (run r ctx sm))"
  shows "queue_steps c (fst sm) (fst (snd (work_once cd c mo run w shard uuid clk env jitter sm)))"
proof -
  obtain rj sm1 where r: "reserve cd c mo w shard (clk 0) (clk 1) sm = (rj, sm1)"
    by (metis prod.collapse)
  have s1: "queue_steps c (fst sm) (fst sm1)"
    using quietD [OF quiet_reserve [OF assms(1), of cd mo w shard "clk 0" "clk 1"], of sm] r by simp
  show ?thesis
  proof (cases "\<exists>job. rj = Inr (Some job)")
    case False
    then show ?thesis using s1 r
      by (auto simp: work_once_def split: sum.splits option.splits)
  next
    case True
    then obtain job where job: "rj = Inr (Some job)" by blast
    obtain res sm2 where x: "run (rj_request job) (job_context job uuid) sm1 = (res, sm2)"
      by (metis prod.collapse)
    have s2: "queue_steps c (fst sm) (fst sm2)" using steps_after [OF s1 assms(3) refl] x by (metis snd_conv)
    note fin = finish_quiet [where env = env and c = c and sm = sm2, OF assms(2)]
    show ?thesis
      using s2 fin
      by (auto simp: work_once_def r job x Let_def case_prod_beta simp del: One_nat_def
          split: sum.splits intro: rtranclp_trans)
  qed
qed

section \<open>The loop as steps of the queue\<close>

definition quiet_turn :: "queue_cfg \<Rightarrow> 'm turn \<Rightarrow> bool" where
  "quiet_turn c tn = (\<forall>n. quiet c (tn_env tn n) \<and> quiet c (tn_others tn n))"

lemma reap_turn_steps:
  assumes "quiet_turn c tn"
  shows "queue_steps c (fst (wk_world wk)) (fst (wk_world (reap_turn cd c mo interval tn wk)))"
proof -
  have "queue_steps c (fst (wk_world wk)) (fst (tn_others tn 1 (snd (reap_stale cd c mo (tn_jits tn)
      (tn_reap_ms tn) (tn_promote_ms tn) (wk_world wk)))))"
    using assms by (intro steps_after [OF quietD [OF quiet_reap_stale] _ refl]) (simp add: quiet_turn_def)
  then show ?thesis by (simp add: reap_turn_def Let_def case_prod_beta)
qed

lemma worker_turn_steps:
  assumes "cfg_ok c" and "quiet_turn c tn" and "\<forall>r ctx. quiet c (\<lambda>sm. snd (run r ctx sm))"
  shows "queue_steps c (fst (wk_world wk)) (fst (wk_world (snd (worker_turn cd c mo run w shard interval tn wk))))"
proof -
  have others: "quiet c (tn_others tn n)" and env: "\<And>n. quiet c (tn_env tn n)" for n
    using assms(2) by (simp_all add: quiet_turn_def)
  let ?wk = "wk\<lparr>wk_world := tn_others tn 0 (wk_world wk)\<rparr>"
  let ?sm = "tn_others tn 2 (wk_world (reap_turn cd c mo interval tn ?wk))"
  have "queue_steps c (fst (wk_world wk)) (fst (wk_world ?wk))" using quietD [OF others] by simp
  then have "queue_steps c (fst (wk_world wk)) (fst (wk_world (reap_turn cd c mo interval tn ?wk)))"
    using reap_turn_steps [OF assms(2), of ?wk] by (rule rtranclp_trans)
  then have "queue_steps c (fst (wk_world wk)) (fst ?sm)" by (rule steps_after [OF _ others refl])
  then have "queue_steps c (fst (wk_world wk)) (fst (snd (work_once cd c mo run w shard (tn_uuid tn) (tn_clk tn)
      (tn_env tn) (tn_jitter tn) ?sm)))"
    by (rule rtranclp_trans) (rule steps_work_once [OF assms(1) env assms(3) [rule_format]])
  then show ?thesis by (simp add: worker_turn_def Let_def case_prod_beta)
qed

lemma worker_loop_steps:
  assumes "cfg_ok c" and "\<And>tn. tn \<in> set tns \<Longrightarrow> quiet_turn c tn" and "\<forall>r ctx. quiet c (\<lambda>sm. snd (run r ctx sm))"
  shows "queue_steps c (fst (wk_world wk)) (fst (wk_world (snd (worker_loop cd c mo run w shard interval tns wk))))"
  using assms(2)
proof (induction tns arbitrary: wk)
  case (Cons tn tns)
  obtain r wk1 where t: "worker_turn cd c mo run w shard interval tn wk = (r, wk1)" by (rule prod.exhaust)
  have s1: "queue_steps c (fst (wk_world wk)) (fst (wk_world wk1))"
    using worker_turn_steps [OF assms(1) _ assms(3), of tn wk cd mo w shard interval] Cons.prems t by simp
  have "queue_steps c (fst (wk_world wk1)) (fst (wk_world (snd (worker_loop cd c mo run w shard interval tns wk1))))"
    using Cons by simp
  then show ?case using s1 t by (auto split: sum.split intro: rtranclp_trans)
qed simp

lemma worker_run_steps:
  assumes "cfg_ok c" and "\<And>tn. tn \<in> set tns \<Longrightarrow> quiet_turn c tn" and "\<forall>r ctx. quiet c (\<lambda>sm. snd (run r ctx sm))"
    and "quiet c (\<lambda>sm. snd (svc_close sm))"
    and "worker_run cd c mo run svc_close w shard interval tns sm = (x, wk, opn)"
  shows "queue_steps c (fst sm) (fst (wk_world wk))"
proof -
  obtain y wk1 where l: "worker_loop cd c mo run w shard interval tns (start_worker sm) = (y, wk1)"
    by (rule prod.exhaust)
  have s1: "queue_steps c (fst sm) (fst (wk_world wk1))"
    using worker_loop_steps [OF assms(1-3), of tns "start_worker sm" cd mo w shard interval] l
    by (simp add: start_worker_def)
  have "queue_steps c (fst (wk_world wk1)) (fst (snd (svc_close (wk_world wk1))))" using assms(4) by (rule quietD)
  then show ?thesis using assms(5) s1 l
    by (auto simp: worker_run_def split: option.splits prod.splits sum.splits intro: rtranclp_trans)
qed

end
