(* ===== verification/JobPlacement.thy ===== *)
theory JobPlacement
  imports JobInvariant
begin

text \<open>
  How often a job occurs in the queue's lists, and the bound on the queue depth. As long as
  the reaper reaps jobs that are still in the processing list, every identifier occurs at most
  once over all pending lists, the processing list and the retry set, and the depth never
  grows past \<open>max_queue_depth\<close>. A reaper that acts on an outdated reading breaks both:
  \<open>stale_reap_duplicates\<close> is the run.
\<close>

definition occurrences :: "nat \<Rightarrow> store \<Rightarrow> string \<Rightarrow> nat" where
  "occurrences n s j = count_list (processing s) j + (if j \<in> zmembers (retry s) then 1 else 0)
     + (\<Sum>k<n. count_list (pending s k) j)"

definition placed_once :: "nat \<Rightarrow> store \<Rightarrow> bool" where
  "placed_once n s = (\<forall>j. occurrences n s j \<le> 1)"

lemma count_list_remove1:
  "count_list (remove1 a xs) x = count_list xs x - (if x = a then 1 else 0)"
  by (induction xs) auto

lemma Suc_length_remove1: "a \<in> set xs \<Longrightarrow> Suc (length (remove1 a xs)) = length xs"
  by (induction xs) auto

lemma sum_count_upd:
  "k < (n :: nat) \<Longrightarrow> (\<Sum>i<n. count_list ((f(k := v)) i) j) + count_list (f k) j
     = (\<Sum>i<n. count_list (f i) j) + count_list v j"
  using sum_fun_upd [of k n "\<lambda>xs. count_list xs j" f v] by simp

lemma sum_length_upd:
  "k < (n :: nat) \<Longrightarrow> (\<Sum>i<n. length ((f(k := v)) i)) + length (f k) = (\<Sum>i<n. length (f i)) + length v"
  using sum_fun_upd [of k n length f v] by simp

lemma sum_upd_ge:
  "\<not> k < (n :: nat) \<Longrightarrow> (\<Sum>i<n. g ((f(k := v)) i)) = (\<Sum>i<n. g (f i))"
  by (intro sum.cong) auto

section \<open>Depth\<close>

text \<open>The effect of the list operations on the depth, in the forms the scripts use.\<close>

lemma depth_remove_processing:
  "processing s' = remove1 j (processing s) \<Longrightarrow> retry s' = retry s \<Longrightarrow> pending s' = pending s
   \<Longrightarrow> queue_depth n s' \<le> queue_depth n s"
  by (simp add: queue_depth_def length_remove1)

lemma depth_processing_to_retry:
  assumes "j \<in> set (processing s)" and "processing s' = remove1 j (processing s)"
    and "retry s' = zadd sc j (retry s)" and "pending s' = pending s"
  shows "queue_depth n s' \<le> queue_depth n s"
proof -
  have "length (zrem j (retry s)) \<le> length (retry s)" by (simp add: zrem_def)
  moreover have "Suc (length (processing s')) = length (processing s)"
    using assms(1,2) by (simp only: Suc_length_remove1)
  ultimately show ?thesis using assms(3,4) by (simp add: queue_depth_def zadd_def)
qed

lemma depth_push_pending:
  "queue_depth n (push_pending k j s) \<le> Suc (queue_depth n s)"
proof (cases "k < n")
  case True
  then show ?thesis using sum_length_upd [OF True, of "pending s" "j # pending s k"]
    by (simp add: queue_depth_def)
next
  case False
  then show ?thesis using sum_upd_ge [OF False, of length "pending s"]
    by (simp add: queue_depth_def)
qed

lemma depth_set_job [simp]: "queue_depth n (set_job j h s) = queue_depth n s"
  by (simp add: queue_depth_def)

lemma core_step_depth:
  assumes "core_step n m d s s'" and "queue_inv n m s"
  shows "queue_depth n s' \<le> max d (queue_depth n s)"
  using assms(1)
proof cases
  case (core_enqueue j shard ik rh rj now ttl ittl)
  show ?thesis
  proof (cases "s' = s")
    case False
    with core_enqueue have "queue_depth n s < d"
      by (auto simp: enqueue_script_def split: option.splits if_splits)
    moreover have "queue_depth n s' = queue_depth n
        (push_pending shard j (set_job j (new_job rj shard now (expire ttl s)) s))"
      using False core_enqueue
      by (auto simp: enqueue_script_def Let_def queue_depth_def split: option.splits if_splits)
    ultimately show ?thesis
      using depth_push_pending [of n shard j "set_job j (new_job rj shard now (expire ttl s)) s"]
      by simp
  qed simp
next
  case (core_pop k)
  show ?thesis
  proof (cases "rpop (pending s k)")
    case None
    with core_pop show ?thesis by (simp add: pop_to_processing_def rpop_def)
  next
    case (Some p)
    then obtain j rest where p: "pending s k = rest @ [j]" by (cases p) auto
    then show ?thesis
      using core_pop sum_length_upd [OF core_pop(2), of "pending s" rest]
      by (simp add: pop_to_processing_def lpush_def queue_depth_def)
  qed
next
  case (core_retry j w err now next_ms ttl)
  show ?thesis
  proof (cases "s' = s")
    case False
    with core_retry obtain h where h: "jobs s j = Some h" "holds_lease w now h"
      by (auto simp: retry_script_def split: option.splits if_splits)
    then have "j \<in> set (processing s)"
      using queue_invD(1) [OF assms(2) h(1)] by (auto simp: job_ok_def holds_lease_def)
    then have "queue_depth n s' \<le> queue_depth n s"
      using core_retry h
      by (cases "m \<le> h_attempts h")
        (auto simp: retry_script_def Let_def lrem1_def
          intro: depth_remove_processing depth_processing_to_retry)
    then show ?thesis by simp
  qed simp
next
  case (core_promote j k now)
  show ?thesis
  proof (cases "\<exists>h sc. jobs s j = Some h \<and> h_status h = RETRYING \<and> zscore (retry s) j = Some sc \<and> sc \<le> now")
    case True
    then obtain h sc where h: "jobs s j = Some h" "h_status h = RETRYING"
      "zscore (retry s) j = Some sc" "sc \<le> now" by blast
    then have "j \<in> zmembers (retry s)" by (metis option.distinct(1) zscore_None_iff)
    then have "Suc (queue_depth n (s\<lparr>retry := zrem j (retry s)\<rparr>)) = queue_depth n s"
      using length_zrem [OF queue_invD(2) [OF assms(2)], of j] by (simp add: queue_depth_def)
    moreover have "queue_depth n s' \<le> Suc (queue_depth n (s\<lparr>retry := zrem j (retry s)\<rparr>))"
      using core_promote h by (simp add: promote_script_def)
        (metis depth_push_pending depth_set_job)
    ultimately show ?thesis by simp
  next
    case False
    have "length (zrem j (retry s)) \<le> length (retry s)" by (simp add: zrem_def)
    with False core_promote show ?thesis
      by (auto simp: promote_script_def queue_depth_def split: option.splits)
  qed
next
  case (core_cancel j k now)
  have "length (zrem j (retry s)) \<le> length (retry s)" by (simp add: zrem_def)
  moreover have "(\<Sum>i<n. length (((pending s)(k := remove1 j (pending s k))) i))
      \<le> (\<Sum>i<n. length (pending s i))"
    by (intro sum_mono) (simp add: length_remove1)
  ultimately show ?thesis using core_cancel
    by (auto simp: cancel_script_def queue_depth_def lrem1_def split: option.splits)
qed (auto simp: script_defs Let_def queue_depth_def length_remove1 split: option.splits)

lemma synced_step_depth:
  assumes "synced_step n m d s s'" and "queue_inv n m s"
  shows "queue_depth n s' \<le> max d (queue_depth n s)"
  using assms(1)
proof cases
  case synced_core
  then show ?thesis using assms(2) by (rule core_step_depth)
next
  case (synced_reap j k lease now next_ms ttl)
  let ?s1 = "s\<lparr>processing := remove1 j (processing s)\<rparr>"
  have "Suc (queue_depth n ?s1) = queue_depth n s"
    using Suc_length_remove1 [OF synced_reap(3)] by (simp add: queue_depth_def)
  then have "queue_depth n s' \<le> queue_depth n s"
    using synced_reap depth_push_pending [of n k j ?s1]
    by (auto simp: reap_script_def Let_def lrem1_def
        intro: depth_remove_processing depth_processing_to_retry split: option.splits)
  then show ?thesis by simp
qed

section \<open>Occurrences\<close>

text \<open>The number of places job \<open>i\<close> gains or loses under each list operation.\<close>

abbreviation hit :: "string \<Rightarrow> string \<Rightarrow> nat" where
  "hit i j \<equiv> (if i = j then 1 else 0)"

lemma occ_set_job [simp]: "occurrences n (set_job j h s) i = occurrences n s i"
  by (simp add: occurrences_def)

lemma occ_push_pending: "occurrences n (push_pending k j s) i \<le> occurrences n s i + hit i j"
proof (cases "k < n")
  case True
  then show ?thesis using sum_count_upd [OF True, of "pending s" "j # pending s k" i]
    by (auto simp: occurrences_def)
next
  case False
  then show ?thesis using sum_upd_ge [OF False, of "\<lambda>xs. count_list xs i" "pending s"]
    by (simp add: occurrences_def)
qed

lemma count_list_pos: "j \<in> set xs \<Longrightarrow> 0 < count_list xs j"
  by (meson bot_nat_0.not_eq_extremum count_list_0_iff)

lemma occ_remove_processing:
  assumes "j \<in> set (processing s)"
  shows "occurrences n (s\<lparr>processing := remove1 j (processing s)\<rparr>) i + hit i j = occurrences n s i"
  using count_list_pos [OF assms] by (simp add: occurrences_def count_list_remove1)

lemma occ_drop_processing:
  "occurrences n (s\<lparr>processing := remove1 j (processing s)\<rparr>) i \<le> occurrences n s i"
  by (simp add: occurrences_def count_list_remove1)

lemma occ_zrem:
  "occurrences n (s\<lparr>retry := zrem j (retry s)\<rparr>) i
     + (if i = j \<and> j \<in> zmembers (retry s) then 1 else 0) = occurrences n s i"
  by (auto simp: occurrences_def)

lemma occ_drop_pending:
  "occurrences n (s\<lparr>pending := (pending s)(k := remove1 j (pending s k))\<rparr>) i \<le> occurrences n s i"
proof -
  have "(\<Sum>x<n. count_list (((pending s)(k := remove1 j (pending s k))) x) i)
      \<le> (\<Sum>x<n. count_list (pending s x) i)"
    by (intro sum_mono) (simp add: count_list_remove1)
  then show ?thesis by (simp add: occurrences_def)
qed

lemma occ_zadd: "occurrences n (s\<lparr>retry := zadd sc j (retry s)\<rparr>) i \<le> occurrences n s i + hit i j"
  by (auto simp: occurrences_def)

lemma occ_cong:
  "processing s' = processing s \<Longrightarrow> retry s' = retry s \<Longrightarrow> pending s' = pending s
   \<Longrightarrow> occurrences n s' i = occurrences n s i"
  by (simp add: occurrences_def)

lemma occ_fresh: "fresh_id n j s \<Longrightarrow> occurrences n s j = 0"
  by (auto simp: occurrences_def fresh_id_def count_list_0_iff list_all_iff)

lemma occ_pop:
  assumes "k < n"
  shows "occurrences n (snd (pop_to_processing k s)) i = occurrences n s i"
proof (cases "rpop (pending s k)")
  case None
  then show ?thesis by (simp add: pop_to_processing_def)
next
  case (Some p)
  then obtain j rest where p: "pending s k = rest @ [j]" by (cases p) auto
  then show ?thesis
    using sum_count_upd [OF assms, of "pending s" rest i]
    by (auto simp: pop_to_processing_def lpush_def occurrences_def)
qed

lemma occ_processing_to_retry:
  assumes "j \<in> set (processing s)" and "processing s' = remove1 j (processing s)"
    and "retry s' = zadd sc j (retry s)" and "pending s' = pending s"
  shows "occurrences n s' i \<le> occurrences n s i"
proof -
  let ?s1 = "s\<lparr>processing := remove1 j (processing s)\<rparr>"
  have "occurrences n s' i = occurrences n (?s1\<lparr>retry := zadd sc j (retry ?s1)\<rparr>) i"
    using assms by (intro occ_cong) simp_all
  with occ_zadd [where s = ?s1 and n = n and sc = sc and j = j and i = i] occ_remove_processing [OF assms(1), of n i] show ?thesis by simp
qed

lemma occ_processing_dropped:
  assumes "processing s' = remove1 j (processing s)" and "retry s' = retry s" and "pending s' = pending s"
  shows "occurrences n s' i \<le> occurrences n s i"
  using assms by (simp add: occurrences_def count_list_remove1)

lemma occ_enqueue:
  assumes "fresh_id n j s"
  shows "occurrences n (snd (enqueue_script n ik rh rj shard now ttl j ittl d s)) i
    \<le> max 1 (occurrences n s i)"
proof -
  let ?s' = "snd (enqueue_script n ik rh rj shard now ttl j ittl d s)"
  let ?s1 = "push_pending shard j (set_job j (new_job rj shard now (expire ttl s)) s)"
  have "?s' = s \<or> processing ?s' = processing ?s1 \<and> retry ?s' = retry ?s1 \<and> pending ?s' = pending ?s1"
    by (simp add: enqueue_script_def Let_def split: option.splits)
  then have "?s' = s \<or> occurrences n ?s' i = occurrences n ?s1 i" using occ_cong by metis
  moreover have "occurrences n ?s1 i \<le> occurrences n s i + hit i j"
    using occ_push_pending [of n shard j "set_job j (new_job rj shard now (expire ttl s)) s" i] by simp
  ultimately show ?thesis using occ_fresh [OF assms] by (cases "i = j") auto
qed

text \<open>No operation but a creation puts a job into more places than it was in.\<close>

lemma core_step_occ:
  assumes "core_step n m d s s'" and "queue_inv n m s"
  shows "occurrences n s' i \<le> max 1 (occurrences n s i)"
  using assms(1)
proof cases
  case (core_enqueue j shard ik rh rj now ttl ittl)
  then show ?thesis using occ_enqueue by simp
next
  case (core_pop k)
  then show ?thesis by (simp add: occ_pop)
next
  case (core_retry j w err now next_ms ttl)
  show ?thesis
  proof (cases "s' = s")
    case False
    with core_retry obtain h where h: "jobs s j = Some h" "holds_lease w now h"
      by (auto simp: retry_script_def split: option.splits if_splits)
    then have "j \<in> set (processing s)"
      using queue_invD(1) [OF assms(2) h(1)] by (auto simp: job_ok_def holds_lease_def)
    moreover have "processing s' = remove1 j (processing s)" "pending s' = pending s"
      "retry s' = retry s \<or> retry s' = zadd next_ms j (retry s)"
      using core_retry h by (simp_all add: retry_script_def Let_def lrem1_def)
    ultimately have "occurrences n s' i \<le> occurrences n s i"
      by (meson occ_processing_dropped occ_processing_to_retry)
    then show ?thesis by simp
  qed simp
next
  case (core_promote j k now)
  show ?thesis
  proof (cases "\<exists>h sc. jobs s j = Some h \<and> h_status h = RETRYING \<and> zscore (retry s) j = Some sc \<and> sc \<le> now")
    case True
    then obtain h sc where h: "jobs s j = Some h" "h_status h = RETRYING"
      "zscore (retry s) j = Some sc" "sc \<le> now" by blast
    then have "j \<in> zmembers (retry s)" by (metis option.distinct(1) zscore_None_iff)
    then have "occurrences n (s\<lparr>retry := zrem j (retry s)\<rparr>) i + hit i j = occurrences n s i"
      using occ_zrem [where s = s and n = n and j = j and i = i] by simp
    moreover obtain h' where "s' = push_pending k j (set_job j h' (s\<lparr>retry := zrem j (retry s)\<rparr>))"
      using core_promote h by (simp add: promote_script_def)
    ultimately have "occurrences n s' i \<le> occurrences n s i"
      using occ_push_pending [of n k j "set_job j h' (s\<lparr>retry := zrem j (retry s)\<rparr>)" i]
      by (simp only: occ_set_job)
    then show ?thesis by simp
  next
    case False
    with core_promote have "s' = s \<or> s' = s\<lparr>retry := zrem j (retry s)\<rparr>"
      by (auto simp: promote_script_def split: option.splits)
    then show ?thesis using occ_zrem [where s = s and n = n and j = j and i = i]
      by (elim disjE) simp_all
  qed
next
  case (core_cancel j k now)
  then have "s' = s \<or> (\<exists>h. s' = set_job j h s)
      \<or> (\<exists>h. s' = set_job j h (s\<lparr>pending := (pending s)(k := remove1 j (pending s k))\<rparr>))
      \<or> (\<exists>h. s' = set_job j h (s\<lparr>retry := zrem j (retry s)\<rparr>))"
    by (auto simp: cancel_script_def lrem1_def split: option.splits)
  then show ?thesis
    using occ_drop_pending [where s = s and n = n and j = j and i = i and k = k]
      occ_zrem [where s = s and n = n and j = j and i = i] by (elim disjE exE) simp_all
next
  case (core_claim j w lease now ttl)
  then have "s' = s \<or> (\<exists>h. s' = set_job j h s)"
    by (auto simp: claim_script_def Let_def split: option.splits)
  then show ?thesis by auto
next
  case (core_heartbeat j w lease now ttl)
  then have "s' = s \<or> (\<exists>h. s' = set_job j h s)"
    by (auto simp: heartbeat_script_def split: option.splits)
  then show ?thesis by auto
next
  case (core_complete j w res now ttl)
  then have "s' = s \<or> processing s' = remove1 j (processing s) \<and> retry s' = retry s \<and> pending s' = pending s"
    by (auto simp: complete_script_def Let_def lrem1_def split: option.splits)
  then show ?thesis using occ_processing_dropped [of s' j s n i] by auto
next
  case (core_terminal st j w err now ttl)
  then have "s' = s \<or> processing s' = remove1 j (processing s) \<and> retry s' = retry s \<and> pending s' = pending s"
    by (auto simp: terminal_script_def Let_def lrem1_def split: option.splits)
  then show ?thesis using occ_processing_dropped [of s' j s n i] by auto
next
  case (core_publish j w a key mode aid uri now)
  then have "occurrences n s' i = occurrences n s i"
    by (intro occ_cong) (auto simp: publish_script_def split: option.splits)
  then show ?thesis by simp
next
  case (core_advance t)
  then have "occurrences n s' i = occurrences n s i"
    by (intro occ_cong) (auto simp: advance_clock_def)
  then show ?thesis by simp
qed

lemma synced_step_occ:
  assumes "synced_step n m d s s'" and "queue_inv n m s"
  shows "occurrences n s' i \<le> max 1 (occurrences n s i)"
  using assms(1)
proof cases
  case synced_core
  then show ?thesis using assms(2) by (rule core_step_occ)
next
  case (synced_reap j k lease now next_ms ttl)
  let ?s1 = "s\<lparr>processing := remove1 j (processing s)\<rparr>"
  have "occurrences n (push_pending k j ?s1) i \<le> occurrences n s i"
    using occ_push_pending [of n k j ?s1 i] occ_remove_processing [OF synced_reap(3), of n i] by simp
  moreover have "s' = s \<or> s' = push_pending k j ?s1 \<or> processing s' = remove1 j (processing s)
      \<and> pending s' = pending s \<and> (retry s' = retry s \<or> retry s' = zadd next_ms j (retry s))"
    using synced_reap by (simp add: reap_script_def Let_def lrem1_def split: option.splits)
  ultimately have "occurrences n s' i \<le> occurrences n s i"
    using synced_reap(3) by (metis occ_processing_dropped occ_processing_to_retry order_refl)
  then show ?thesis by simp
qed

section \<open>Reachable states\<close>

definition placement_inv :: "nat \<Rightarrow> nat \<Rightarrow> nat \<Rightarrow> store \<Rightarrow> bool" where
  "placement_inv n m d s = (queue_inv n m s \<and> queue_depth n s \<le> d \<and> placed_once n s)"

lemma placement_inv_step:
  assumes "synced_step n m d s s'" and "placement_inv n m d s" and "0 < m"
  shows "placement_inv n m d s'"
proof -
  have inv: "queue_inv n m s" using assms(2) by (simp add: placement_inv_def)
  have "queue_inv n m s'" using script_step_inv [OF synced_is_script [OF assms(1)] inv assms(3)] .
  moreover have "queue_depth n s' \<le> d"
    using synced_step_depth [OF assms(1) inv] assms(2) by (simp add: placement_inv_def)
  moreover have "occurrences n s' i \<le> 1" for i
    using synced_step_occ [OF assms(1) inv, of i] assms(2)
    by (simp add: placement_inv_def placed_once_def max_absorb1)
  ultimately show ?thesis by (simp add: placement_inv_def placed_once_def)
qed

lemma placement_inv_empty: "placement_inv n m d (empty_store t)"
proof -
  have "placed_once n (empty_store t)" "queue_depth n (empty_store t) = 0"
    by (simp_all add: placed_once_def occurrences_def queue_depth_def empty_store_def)
  then show ?thesis by (simp add: placement_inv_def queue_inv_empty)
qed

interpretation placement_runs: kept_property "synced_step n m d" "\<lambda>s. placement_inv n m d s \<and> 0 < m"
  by unfold_locales (auto intro: placement_inv_step)

lemma synced_reachable:
  "(synced_step n m d)\<^sup>*\<^sup>* (empty_store t) s \<Longrightarrow> 0 < m \<Longrightarrow> placement_inv n m d s"
  using placement_runs.steps_keep placement_inv_empty by blast

end
