(* ===== verification/QueueSafety.thy ===== *)
theory QueueSafety
  imports QueueMethods JobPlacement
begin

text \<open>
  The safety properties of the job queue that its users rely on, stated of every reachable
  state under every interleaving of workers, reapers and API processes, each with a concrete
  run that exercises it.
\<close>

section \<open>A sample run\<close>

text \<open>Two shards, two attempts: job \<open>a\<close> is submitted, popped and claimed by worker \<open>w1\<close>.\<close>

definition sample_queued :: store where
  "sample_queued = snd (enqueue_script 2 None ''h'' ''{}'' 1 1000 60 ''a'' 60 10 (empty_store 0))"

definition sample_popped :: store where
  "sample_popped = snd (pop_to_processing 1 sample_queued)"

definition sample_running :: store where
  "sample_running = snd (claim_script ''a'' ''w1'' 11000 1000 60 sample_popped)"

definition sample_hash :: job_hash where
  "sample_hash = (new_job ''{}'' 1 1000 60000)\<lparr>h_status := RUNNING, h_attempts := 1,
     h_worker_id := ''w1'', h_lease_expires_ms := 11000\<rparr>"

lemma lessThan_2: "{..<2::nat} = {0, 1}"
  by auto

lemma sample_queued_eq: "sample_queued = (empty_store 0)\<lparr>jobs := [''a'' \<mapsto> new_job ''{}'' 1 1000 60000],
    pending := (\<lambda>_. [])(1 := [''a''])\<rparr>"
  by (simp add: sample_queued_def script_defs Let_def queue_depth_def empty_store_def lessThan_2
      set_job_def push_pending_def expire_def)

lemma sample_popped_eq: "sample_popped = (empty_store 0)\<lparr>jobs := [''a'' \<mapsto> new_job ''{}'' 1 1000 60000],
    processing := [''a'']\<rparr>"
  by (simp add: sample_popped_def sample_queued_eq script_defs rpop_def empty_store_def fun_eq_iff)

lemma sample_running_eq: "sample_running = (empty_store 0)\<lparr>jobs := [''a'' \<mapsto> sample_hash],
    processing := [''a'']\<rparr>"
  by (simp add: sample_running_def sample_popped_eq script_defs Let_def empty_store_def
      set_job_def expire_def sample_hash_def new_job_def)

lemma sample_core_steps:
  "core_step 2 2 10 (empty_store 0) sample_queued" "core_step 2 2 10 sample_queued sample_popped"
  "core_step 2 2 10 sample_popped sample_running"
proof -
  show "core_step 2 2 10 (empty_store 0) sample_queued"
    unfolding sample_queued_def
    by (rule core_enqueue) (simp_all add: fresh_id_def empty_store_def list_all_iff)
  show "core_step 2 2 10 sample_queued sample_popped"
    unfolding sample_popped_def by (rule core_pop) simp
  show "core_step 2 2 10 sample_popped sample_running"
    unfolding sample_running_def by (rule core_claim)
qed

lemma sample_synced_steps: "(synced_step 2 2 10)\<^sup>*\<^sup>* (empty_store 0) sample_running"
  using sample_core_steps [THEN synced_core]
  by (meson converse_rtranclp_into_rtranclp r_into_rtranclp)

lemma sample_steps:
  "script_steps 2 2 10 (empty_store 0) sample_queued"
  "script_steps 2 2 10 (empty_store 0) sample_running"
  using sample_core_steps [THEN step_core]
  by (meson converse_rtranclp_into_rtranclp r_into_rtranclp)+

lemma sample_inv: "queue_inv 2 2 sample_running"
  by (rule script_steps_inv [OF sample_steps(2) queue_inv_empty]) simp

section \<open>Reachable states\<close>

text \<open>
  C1. No live job is ever lost: in every state reachable from an empty queue, under every
  interleaving, a queued job is in its shard's pending list or already in the processing list,
  a running job is in the processing list where the reaper looks for it, and a retrying job is
  in the retry set where the promoter looks for it.
\<close>

theorem live_job_never_lost:
  assumes "script_steps n m d (empty_store t) s" and "0 < m" and "jobs s j = Some h"
  shows "(h_status h = QUEUED \<longrightarrow> j \<in> set (pending s (h_shard h)) \<or> j \<in> set (processing s))
    \<and> (h_status h = RUNNING \<longrightarrow> j \<in> set (processing s))
    \<and> (h_status h = RETRYING \<longrightarrow> zscore (retry s) j \<noteq> None)"
proof -
  have "job_ok n m s j h"
    using script_steps_inv [OF assms(1) queue_inv_empty assms(2)] assms(3) by (rule queue_invD)
  then show ?thesis by (auto simp: job_ok_def zscore_None_iff)
qed

theorem live_job_never_lost_witness:
  "h_status sample_hash = RUNNING \<and> ''a'' \<in> set (processing sample_running)"
proof -
  have j: "jobs sample_running ''a'' = Some sample_hash" by (simp add: sample_running_eq)
  have r: "h_status sample_hash = RUNNING" by (simp add: sample_hash_def)
  show ?thesis using live_job_never_lost [OF sample_steps(2) _ j] r by simp
qed



text \<open>
  C13. Attempts are bounded: in every reachable state a job has been claimed at most
  \<open>max_attempts\<close> times, and a job that may still be claimed strictly fewer times.
\<close>

theorem attempts_bounded:
  assumes "script_steps n m d (empty_store t) s" and "0 < m" and "jobs s j = Some h"
  shows "h_attempts h \<le> m \<and> (h_status h \<in> {QUEUED, RETRYING} \<longrightarrow> h_attempts h < m)"
proof -
  have "job_ok n m s j h"
    using script_steps_inv [OF assms(1) queue_inv_empty assms(2)] assms(3) by (rule queue_invD)
  then show ?thesis by (cases "h_status h") (auto simp: job_ok_def)
qed

theorem attempts_bounded_witness: "h_attempts sample_hash = 1 \<and> h_attempts sample_hash \<le> 2"
proof -
  have j: "jobs sample_running ''a'' = Some sample_hash" by (simp add: sample_running_eq)
  show ?thesis using attempts_bounded [OF sample_steps(2) _ j] by (simp add: sample_hash_def)
qed

text \<open>
  C14. The dead-letter list records failures exactly: in every reachable state a failed job
  occurs in it exactly once, and a job that still has a record and is in it has failed.
\<close>

theorem dead_letter_exact:
  assumes "script_steps n m d (empty_store t) s" and "0 < m" and "jobs s j = Some h"
  shows "h_status h = FAILED \<longleftrightarrow> count_list (dead s) j = 1"
proof -
  have inv: "queue_inv n m s" by (rule script_steps_inv [OF assms(1) queue_inv_empty assms(2)])
  then have ok: "job_ok n m s j h" and dist: "distinct (dead s)"
    using assms(3) by (auto simp: queue_inv_def)
  have "count_list (dead s) j = 1 \<longleftrightarrow> j \<in> set (dead s)"
    using dist by (simp add: distinct_count_list)
  then show ?thesis
    using ok queue_invD(3) [OF inv _ assms(3)] by (auto simp: job_ok_def)
qed

definition sample_failed :: store where
  "sample_failed = snd (terminal_script ''a'' ''w1'' FAILED ''boom'' 2000 60 sample_running)"

lemma sample_failed_steps: "script_steps 2 2 10 (empty_store 0) sample_failed"
proof -
  have "script_step 2 2 10 sample_running sample_failed"
    unfolding sample_failed_def by (rule step_terminal) simp
  with sample_steps(2) show ?thesis by simp
qed

lemma sample_failed_job: "\<exists>h. jobs sample_failed ''a'' = Some h \<and> h_status h = FAILED"
  by (simp add: sample_failed_def sample_running_eq script_defs Let_def sample_hash_def
      holds_lease_def new_job_def)

theorem dead_letter_exact_witness: "count_list (dead sample_failed) ''a'' = 1"
proof -
  obtain h where h: "jobs sample_failed ''a'' = Some h" "h_status h = FAILED"
    using sample_failed_job by blast
  show ?thesis using dead_letter_exact [OF sample_failed_steps _ h(1)] h(2) by simp
qed

section \<open>Terminal states and fencing\<close>

text \<open>
  A finished job is frozen: once a job has succeeded, failed or been cancelled, no
  sequence of steps changes any field of its record; the record stays as it is or expires.
\<close>

theorem terminal_record_frozen:
  assumes "queue_inv n m s" and "0 < m" and "jobs s j = Some h"
    and "terminal_status (h_status h)" and "(keeping_id n m d j)\<^sup>*\<^sup>* s s'"
  shows "jobs s' j = None \<or> jobs s' j = Some h"
  using frozen.steps_keep [OF assms(5), of h] assms(1-4) by simp

theorem terminal_record_frozen_witness:
  "jobs (snd (cancel_script ''a'' 3000 1 sample_failed)) ''a'' = jobs sample_failed ''a''"
proof -
  obtain h where h: "jobs sample_failed ''a'' = Some h" "h_status h = FAILED"
    using sample_failed_job by blast
  let ?s = "snd (cancel_script ''a'' 3000 1 sample_failed)"
  have inv: "queue_inv 2 2 sample_failed"
    by (rule script_steps_inv [OF sample_failed_steps queue_inv_empty]) simp
  have shard: "own_shard ''a'' 1 sample_failed"
    by (simp add: own_shard_def sample_failed_def sample_running_eq script_defs Let_def
        sample_hash_def holds_lease_def new_job_def)
  have "keeping_id 2 2 10 ''a'' sample_failed ?s"
    using step_cancel [OF shard, of 2 2 10 3000] h(1) by (simp add: keeping_id_def)
  then have "jobs ?s ''a'' = None \<or> jobs ?s ''a'' = Some h"
    using h by (intro terminal_record_frozen [OF inv _ h(1), of 10 ?s])
      (simp_all add: terminal_status_def)
  moreover have "jobs ?s ''a'' \<noteq> None" using h by (simp add: cancel_script_def)
  ultimately show ?thesis using h(1) by metis
qed

text \<open>
  C3. A worker that does not hold the lease is fenced: if the job is not running under this
  worker with a lease later than its clock (it was claimed by another worker, reaped, finished,
  or the lease ran out before anybody noticed), then its heartbeat, completion, failure,
  cancellation, retry and publication are all refused and change nothing in Valkey.
\<close>

theorem stale_worker_fenced:
  assumes "\<forall>h. jobs s j = Some h \<longrightarrow> h_status h = RUNNING \<longrightarrow>
      h_worker_id h \<noteq> w \<or> h_lease_expires_ms h \<le> now"
  shows "heartbeat c j w now s = (False, s)
    \<and> complete cd c mo j w res now (s, mt) = (False, s, mt)
    \<and> cancel_complete c mo j w now (s, mt) = (False, s, mt)
    \<and> fail cd c mo j w err False ec jitter now now' (s, mt) = (Inr False, s, mt)
    \<and> fail cd c mo j w err True ec jitter now' now (s, mt) = (Inr False, s, mt)
    \<and> publish_output j w a key aid uri mode now s = (-1, s)"
proof -
  have "\<not> holds_lease w now h" if "jobs s j = Some h" for h
    using assms that by (auto simp: holds_lease_def)
  then show ?thesis by (simp add: method_defs refused_unchanged)
qed

theorem stale_worker_fenced_witness:
  "heartbeat (make_queue ''q'' 60 10 2 2 10 None 2 60) ''a'' ''w2'' 2000 sample_running
     = (False, sample_running)
   \<and> publish_output ''a'' ''w1'' 1 ''k'' ''x'' ''u'' ''overwrite'' 11000 sample_running
     = (-1, sample_running)"
proof -
  have other: "\<forall>h. jobs sample_running ''a'' = Some h \<longrightarrow> h_status h = RUNNING \<longrightarrow>
      h_worker_id h \<noteq> ''w2'' \<or> h_lease_expires_ms h \<le> 2000"
    and late: "\<forall>h. jobs sample_running ''a'' = Some h \<longrightarrow> h_status h = RUNNING \<longrightarrow>
      h_worker_id h \<noteq> ''w1'' \<or> h_lease_expires_ms h \<le> 11000"
    by (auto simp: sample_running_eq sample_hash_def)
  show ?thesis
    by (rule conjI [OF stale_worker_fenced [OF other, THEN conjunct1]
          stale_worker_fenced [OF late, THEN conjunct2, THEN conjunct2, THEN conjunct2,
            THEN conjunct2, THEN conjunct2]])
qed

text \<open>
  C4. A superseded attempt can never publish: once a job has been claimed for an attempt later
  than \<open>a\<close>, no later state, however it is reached and whatever worker and clock ask, lets
  attempt \<open>a\<close> move the logical output pointer.
\<close>

theorem superseded_attempt_never_publishes:
  assumes "queue_inv n m s" and "0 < m" and "jobs s j = Some h" and "a < h_attempts h"
    and "(keeping_id n m d j)\<^sup>*\<^sup>* s s'"
  shows "publish_output j w a key aid uri mode now s' = (-1, s')"
proof -
  have "a < h_attempts h'" if "jobs s' j = Some h'" for h'
    using counted.steps_keep [OF assms(5), of "Suc a"] assms(1-4) that by auto
  then show ?thesis by (auto simp: publish_output_def publish_script_def split: option.splits)
qed

theorem superseded_attempt_never_publishes_witness:
  "publish_output ''a'' ''w1'' 0 ''k'' ''x'' ''u'' ''overwrite'' 2000
     (snd (heartbeat_script ''a'' ''w1'' 12000 2000 60 sample_running))
   = (-1, snd (heartbeat_script ''a'' ''w1'' 12000 2000 60 sample_running))"
proof -
  let ?s = "snd (heartbeat_script ''a'' ''w1'' 12000 2000 60 sample_running)"
  have j: "jobs sample_running ''a'' = Some sample_hash" by (simp add: sample_running_eq)
  have k: "keeping_id 2 2 10 ''a'' sample_running ?s"
    using j by (simp add: keeping_id_def step_heartbeat)
  show ?thesis
    by (rule superseded_attempt_never_publishes [OF sample_inv _ j _
          r_into_rtranclp [where r = "keeping_id 2 2 10 ''a''", OF k]])
      (simp_all add: sample_hash_def)
qed

section \<open>Placement and depth\<close>

text \<open>
  C15. Back-pressure holds: in every state reachable by the queue's operations, with reapers
  that reap jobs still in the processing list, the jobs that wait or run (pending in any
  shard, processing, or due for a retry) are at most \<open>max_queue_depth\<close>.
\<close>

theorem queue_depth_bounded:
  assumes "(synced_step n m d)\<^sup>*\<^sup>* (empty_store t) s" and "0 < m"
  shows "queue_depth n s \<le> d"
  using synced_reachable [OF assms] by (simp add: placement_inv_def)

theorem queue_depth_bounded_witness: "queue_depth 2 sample_running \<le> 10"
  by (rule queue_depth_bounded [OF sample_synced_steps]) simp



text \<open>
  C10. The reading a reaper acts on has to be current: the reap script pushes a queued job
  back without looking whether its removal from the processing list removed anything. Two
  reapers that read the same unclaimed job leave it in the pending list twice, and the depth
  is above \<open>max_queue_depth\<close>.
\<close>

definition stale_reap_run :: "store list" where
  "stale_reap_run =
     (let s1 = snd (enqueue_script 1 None ''h'' ''{}'' 0 1000 60 ''a'' 60 1 (empty_store 0));
          s2 = snd (pop_to_processing 0 s1);
          s3 = snd (reap_script ''a'' 0 1500 2 2000 60 0 s2);
          s4 = snd (reap_script ''a'' 0 1500 2 2000 60 0 s3)
      in [empty_store 0, s1, s2, s3, s4])"

theorem stale_reap_duplicates:
  "successively (script_step 1 2 1) stale_reap_run
   \<and> pending (last stale_reap_run) 0 = [''a'', ''a''] \<and> queue_depth 1 (last stale_reap_run) = 2
   \<and> occurrences 1 (last stale_reap_run) ''a'' = 2"
proof -
  let ?s1 = "snd (enqueue_script 1 None ''h'' ''{}'' 0 1000 60 ''a'' 60 1 (empty_store 0))"
  let ?s2 = "snd (pop_to_processing 0 ?s1)"
  let ?s3 = "snd (reap_script ''a'' 0 1500 2 2000 60 0 ?s2)"
  have s1: "?s1 = (empty_store 0)\<lparr>jobs := [''a'' \<mapsto> new_job ''{}'' 0 1000 60000],
      pending := (\<lambda>_. [])(0 := [''a''])\<rparr>"
    by (simp add: script_defs Let_def queue_depth_def empty_store_def set_job_def push_pending_def
        expire_def)
  have s2: "?s2 = (empty_store 0)\<lparr>jobs := [''a'' \<mapsto> new_job ''{}'' 0 1000 60000],
      processing := [''a'']\<rparr>"
    unfolding s1 by (simp add: script_defs rpop_def empty_store_def fun_eq_iff)
  have s3: "?s3 = ?s1"
    unfolding s2 unfolding s1 by (simp add: script_defs push_pending_def empty_store_def Let_def)
  have own: "own_shard ''a'' 0 ?s2" "own_shard ''a'' 0 ?s1"
    unfolding s2 unfolding s1 by (simp_all add: own_shard_def)
  have "script_step 1 2 1 (empty_store 0) ?s1"
    by (rule step_enqueue) (simp_all add: fresh_id_def empty_store_def list_all_iff)
  moreover have "script_step 1 2 1 ?s1 ?s2" by (rule step_pop) simp
  moreover have "script_step 1 2 1 ?s2 ?s3" using own(1) by (rule step_reap)
  moreover have "script_step 1 2 1 ?s3 (snd (reap_script ''a'' 0 1500 2 2000 60 0 ?s3))"
    unfolding s3 using own(2) by (rule step_reap)
  ultimately have run: "successively (script_step 1 2 1) stale_reap_run"
    unfolding stale_reap_run_def Let_def by (simp only: successively.simps simp_thms)
  have "last stale_reap_run = push_pending 0 ''a'' ?s1"
    unfolding stale_reap_run_def Let_def s3 unfolding s1
    by (simp add: reap_script_def lrem1_def empty_store_def)
  with run show ?thesis
    unfolding s1 by (simp add: queue_depth_def occurrences_def empty_store_def)
qed

end
