(* ===== verification/QueueRecovery.thy ===== *)
theory QueueRecovery
  imports QueueMethods
begin

text \<open>
  How the queue's loops act on one job: the reaper settles every expired job it visits, the
  promoter empties the due part of the retry set, and a pop finds the oldest job of the
  worker's shard or, when that is empty, one of another shard.
\<close>

section \<open>Frames: a script on one job leaves the others alone\<close>

lemma reap_script_other:
  assumes "i \<noteq> j"
  shows "jobs (snd (reap_script i lease now mx next_ms ttl k s)) j = jobs s j"
    and "zset_ok (retry s) \<Longrightarrow>
      zscore (retry (snd (reap_script i lease now mx next_ms ttl k s))) j = zscore (retry s) j"
  using assms by (auto simp: reap_script_def Let_def zs.score_add split: option.splits)

lemma reap_script_zset:
  "zset_ok (retry s) \<Longrightarrow> zset_ok (retry (snd (reap_script i lease now mx next_ms ttl k s)))"
  by (auto simp: reap_script_def Let_def zset_ok_zadd split: option.splits)

lemma reap_script_settled:
  assumes "jobs s j = Some h" and "h_status h \<notin> {QUEUED, RUNNING}"
  shows "snd (reap_script j lease now mx next_ms ttl k s) = s\<lparr>processing := lrem1 j (processing s)\<rparr>"
  using assms by (simp add: reap_script_def)

lemma promote_script_other:
  assumes "i \<noteq> j"
  shows "jobs (snd (promote_script i now k s)) j = jobs s j"
    and "zset_ok (retry s) \<Longrightarrow>
      zscore (retry (snd (promote_script i now k s))) j = zscore (retry s) j"
    and "j \<in> set (pending s k') \<Longrightarrow> j \<in> set (pending (snd (promote_script i now k s)) k')"
  using assms by (auto simp: promote_script_def zs.score_rem split: option.splits)

lemma promote_script_zset:
  "zset_ok (retry s) \<Longrightarrow> zset_ok (retry (snd (promote_script i now k s)))"
  by (auto simp: promote_script_def zset_ok_zrem split: option.splits)

section \<open>Results stay readable\<close>

text \<open>A stored result was written by \<open>model_dump_json\<close>, so it parses; no script but the
completion writes one.\<close>

definition results_ok :: "codec \<Rightarrow> store \<Rightarrow> bool" where
  "results_ok cd s = (\<forall>j h. jobs s j = Some h \<longrightarrow> h_result h = [] \<or> is_ok (parse_result cd (h_result h)))"

lemma results_ok_get: "results_ok cd s \<Longrightarrow> \<exists>r. get_job cd s j = Inr r"
  by (cases "jobs s j") (force simp: results_ok_def get_job_def is_ok_iff)+

lemma reap_script_results:
  assumes "results_ok cd s"
  shows "results_ok cd (snd (reap_script j lease now mx next_ms ttl k s))"
  using assms by (auto simp: results_ok_def reap_script_def Let_def split: option.splits if_splits)

section \<open>The reaper's loop\<close>

definition reap_outcome :: "queue_cfg \<Rightarrow> int \<Rightarrow> job_hash \<Rightarrow> job_hash \<Rightarrow> bool" where
  "reap_outcome c next_ms h h' =
     (h_worker_id h' = [] \<and> h_lease_expires_ms h' = 0 \<and> h_attempts h' = h_attempts h
      \<and> h_request h' = h_request h \<and> h_shard h' = h_shard h
      \<and> (if h_cancel_requested h then h_status h' = CANCELLED
         else if max_attempts c \<le> h_attempts h
         then h_status h' = FAILED \<and> h_error h' = ''worker lease expired''
         else h_status h' = RETRYING \<and> h_error h' = ''worker lease expired''
           \<and> h_next_attempt_ms h' = next_ms))"

lemma reap_outcome_status:
  "reap_outcome c t h h' \<Longrightarrow> h_status h' \<in> {CANCELLED, FAILED, RETRYING}"
  by (auto simp: reap_outcome_def split: if_splits)

lemma reap_script_outcome:
  assumes "jobs s j = Some h" and "h_status h = RUNNING" and "h_lease_expires_ms h \<le> now"
    and "zset_ok (retry s)"
    and "s' = snd (reap_script j (h_lease_expires_ms h) now (max_attempts c) next_ms ttl k s)"
  shows "fst (reap_script j (h_lease_expires_ms h) now (max_attempts c) next_ms ttl k s)"
    and "\<exists>h'. jobs s' j = Some h' \<and> reap_outcome c next_ms h h'
      \<and> (h_status h' = RETRYING \<longrightarrow> zscore (retry s') j = Some next_ms)"
  using assms by (simp_all add: reap_script_def Let_def reap_outcome_def)

lemma reaped_store_settled:
  assumes "jobs s j = Some h" and "h_status h \<notin> {QUEUED, RUNNING}" and "zset_ok (retry s)"
    and "s' = reaped_store c jitter now i s"
  shows "jobs s' j = Some h" and "zset_ok (retry s')" and "zscore (retry s') j = zscore (retry s) j"
proof -
  consider "s' = s" | lease t ttl k where "s' = snd (reap_script i lease now (max_attempts c) t ttl k s)"
    using assms(4) by (auto simp: reaped_store_def split: option.splits if_splits)
  then have "jobs s' j = Some h \<and> zset_ok (retry s') \<and> zscore (retry s') j = zscore (retry s) j"
  proof cases
    case (2 lease t ttl k)
    then show ?thesis
      using assms(1-3) reap_script_settled [OF assms(1,2)]
      by (cases "i = j") (simp_all add: reap_script_other reap_script_zset)
  qed (use assms in simp)
  then show "jobs s' j = Some h" "zset_ok (retry s')" "zscore (retry s') j = zscore (retry s) j"
    by simp_all
qed

lemma reap_loop_settled:
  assumes "jobs s j = Some h" and "h_status h \<notin> {QUEUED, RUNNING}" and "zset_ok (retry s)"
  shows "jobs (fst (snd (reap_loop cd c mo jitter now js reaped (s, m)))) j = Some h
    \<and> zscore (retry (fst (snd (reap_loop cd c mo jitter now js reaped (s, m))))) j = zscore (retry s) j"
  using assms
proof (induction js arbitrary: s m reaped)
  case Nil
  then show ?case by simp
next
  case (Cons i js)
  obtain r s1 m1 where one: "reap_one cd c mo (jitter i) now i (s, m) = (r, s1, m1)"
    by (metis prod_cases3)
  then have "s1 = reaped_store c (jitter i) now i s"
    using reap_one_store [of cd c mo "jitter i" now i s m] by simp
  note s1 = reaped_store_settled [OF Cons.prems this]
  show ?case using s1(1,3) Cons.IH [OF s1(1) Cons.prems(2) s1(2)] by (cases r) (simp_all add: one)
qed

lemma reap_one_ok:
  assumes "results_ok cd s"
  shows "is_ok (fst (reap_one cd c mo jitter now j (s, m)))"
    and "results_ok cd (reaped_store c jitter now j s)"
proof -
  have get: "\<exists>r. get_job cd (snd (reap_script j l now mx t ttl k s)) j = Inr r" for l mx t ttl k
    by (intro results_ok_get reap_script_results assms)
  then have get': "get_job cd s1 j \<noteq> Inl e"
    if "reap_script j l now mx t ttl k s = (b, s1)" for l mx t ttl k b s1 e
    using that by (metis Inl_Inr_False snd_conv)
  then show "is_ok (fst (reap_one cd c mo jitter now j (s, m)))"
    by (auto simp: reap_one_def Let_def is_ok_def split: option.splits prod.splits sum.splits)
  show "results_ok cd (reaped_store c jitter now j s)"
    using assms by (auto simp: reaped_store_def reap_script_results split: option.splits)
qed

lemma reap_loop_ok:
  assumes "results_ok cd (fst sm)"
  shows "is_ok (fst (reap_loop cd c mo jitter now js reaped sm))"
  using assms
proof (induction js arbitrary: reaped sm)
  case Nil
  then show ?case by simp
next
  case (Cons j js)
  obtain s m where sm: "sm = (s, m)" by (cases sm)
  obtain b s1 m1 where one: "reap_one cd c mo (jitter j) now j (s, m) = (Inr b, s1, m1)"
    using reap_one_ok(1) [of cd s c mo "jitter j" now j m] Cons.prems
    by (metis fst_conv is_ok_iff prod.collapse sm)
  then have "results_ok cd s1"
    using reap_one_ok(2) [of cd s c "jitter j" now j] Cons.prems
      reap_one_store [of cd c mo "jitter j" now j s m] by (simp add: sm)
  then show ?case using Cons.IH by (simp add: sm one)
qed

lemma reap_loop_recovers:
  assumes "j \<in> set js" and "jobs s j = Some h" and "h_status h = RUNNING"
    and "h_lease_expires_ms h \<le> now" and "results_ok cd s" and "zset_ok (retry s)"
    and "t = now + retry_delay_ms c (jitter j) (h_attempts h)"
    and "s' = fst (snd (reap_loop cd c mo jitter now js reaped (s, m)))"
  shows "\<exists>h'. jobs s' j = Some h' \<and> reap_outcome c t h h'
    \<and> (h_status h' = RETRYING \<longrightarrow> zscore (retry s') j = Some t)"
  using assms
proof (induction js arbitrary: s m reaped)
  case Nil
  then show ?case by simp
next
  case (Cons i js)
  obtain b s1 m1 where one: "reap_one cd c mo (jitter i) now i (s, m) = (Inr b, s1, m1)"
    using reap_one_ok(1) [OF Cons.prems(5), of c mo "jitter i" now i m]
    by (metis is_ok_iff prod.collapse)
  then have s1: "s1 = reaped_store c (jitter i) now i s"
    using reap_one_store [of cd c mo "jitter i" now i s m] by simp
  show ?case
  proof (cases "i = j")
    case True
    have "s1 = snd (reap_script j (h_lease_expires_ms h) now (max_attempts c) t
        (job_ttl_seconds c) (shard_field s j) s)"
      using s1 True Cons.prems by (simp add: reaped_store_def)
    then obtain h' where h': "jobs s1 j = Some h'" "reap_outcome c t h h'"
      "h_status h' = RETRYING \<longrightarrow> zscore (retry s1) j = Some t"
      using reap_script_outcome(2) [OF Cons.prems(2-4,6)] by blast
    have "zset_ok (retry s1)" using s1 Cons.prems(6)
      by (auto simp: reaped_store_def reap_script_zset split: option.splits)
    then show ?thesis
      using h' reap_loop_settled [OF h'(1), of cd c mo jitter now js "reaped + (if b then 1 else 0)" m1]
        reap_outcome_status [OF h'(2)] Cons.prems(8) by (auto simp: one)
  next
    case False
    then have "jobs s1 j = jobs s j" "zset_ok (retry s1)"
      using s1 Cons.prems(6)
      by (auto simp: reaped_store_def reap_script_other reap_script_zset split: option.splits)
    moreover have "results_ok cd s1" using s1 Cons.prems(5) by (simp add: reap_one_ok)
    ultimately show ?thesis
      using False Cons.prems Cons.IH [of s1 "reaped + (if b then 1 else 0)" m1] by (simp add: one)
  qed
qed

section \<open>The promoter's loop\<close>

lemma promote_loop_other:
  assumes "j \<notin> set js" and "zset_ok (retry s)"
  shows "jobs (snd (promote_loop now js moved s)) j = jobs s j
    \<and> zscore (retry (snd (promote_loop now js moved s))) j = zscore (retry s) j
    \<and> (j \<in> set (pending s k) \<longrightarrow> j \<in> set (pending (snd (promote_loop now js moved s)) k))"
  using assms
proof (induction js arbitrary: moved s)
  case Nil
  then show ?case by simp
next
  case (Cons i js)
  obtain b s1 where one: "promote_script i now (shard_field s i) s = (b, s1)" by fastforce
  then have s1: "s1 = snd (promote_script i now (shard_field s i) s)" by simp
  have "i \<noteq> j" using Cons.prems by auto
  then have "jobs s1 j = jobs s j \<and> zscore (retry s1) j = zscore (retry s) j
      \<and> (j \<in> set (pending s k) \<longrightarrow> j \<in> set (pending s1 k))"
    unfolding s1 using Cons.prems(2) by (simp add: promote_script_other)
  moreover have "zset_ok (retry s1)" unfolding s1 using Cons.prems by (simp add: promote_script_zset)
  ultimately show ?case
    using Cons.IH [of s1 "moved + (if b then 1 else 0)"] Cons.prems(1) by (simp add: one)
qed

lemma promote_script_due:
  assumes "zscore (retry s) j = Some sc" and "sc \<le> now" and "zset_ok (retry s)"
  shows "zscore (retry (snd (promote_script j now k s))) j = None"
  using assms by (simp add: promote_script_def zs.score_rem split: option.splits)

lemma promote_script_moves:
  assumes "zscore (retry s) j = Some sc" and "sc \<le> now"
    and "jobs s j = Some h" and "h_status h = RETRYING"
  shows "jobs (snd (promote_script j now k s)) j
      = Some (h\<lparr>h_status := QUEUED, h_next_attempt_ms := 0, h_updated_at_ms := now\<rparr>)
    \<and> j \<in> set (pending (snd (promote_script j now k s)) k)"
  using assms by (simp add: promote_script_def)

lemma promote_loop_due:
  assumes "j \<in> set js" and "distinct js" and "zscore (retry s) j = Some sc" and "sc \<le> now"
    and "zset_ok (retry s)" and "s' = snd (promote_loop now js moved s)"
  shows "zscore (retry s') j = None
    \<and> (\<forall>h. jobs s j = Some h \<and> h_status h = RETRYING \<longrightarrow>
         jobs s' j = Some (h\<lparr>h_status := QUEUED, h_next_attempt_ms := 0, h_updated_at_ms := now\<rparr>)
         \<and> j \<in> set (pending s' (h_shard h)))"
  using assms
proof (induction js arbitrary: moved s)
  case Nil
  then show ?case by simp
next
  case (Cons i js)
  obtain b s1 where one: "promote_script i now (shard_field s i) s = (b, s1)" by fastforce
  then have s1: "s1 = snd (promote_script i now (shard_field s i) s)" by simp
  have ok: "zset_ok (retry s1)" using Cons.prems s1 by (simp add: promote_script_zset)
  have s': "s' = snd (promote_loop now js (moved + (if b then 1 else 0)) s1)"
    using Cons.prems(6) one by simp
  show ?case
  proof (cases "i = j")
    case False
    then have "jobs s1 j = jobs s j" "zscore (retry s1) j = zscore (retry s) j"
      using s1 Cons.prems by (simp_all add: promote_script_other)
    then show ?thesis using Cons.IH [OF _ _ _ _ ok s'] Cons.prems False by simp
  next
    case True
    then have "j \<notin> set js" using Cons.prems by simp
    note rest = promote_loop_other [OF this ok, of now "moved + (if b then 1 else 0)", folded s']
    have "zscore (retry s1) j = None" using s1 True Cons.prems by (simp add: promote_script_due)
    moreover have "jobs s1 j = Some (h\<lparr>h_status := QUEUED, h_next_attempt_ms := 0, h_updated_at_ms := now\<rparr>)
        \<and> j \<in> set (pending s1 (h_shard h))" if "jobs s j = Some h" "h_status h = RETRYING" for h
      using promote_script_moves [OF Cons.prems(3,4) that, of "shard_field s i"] that True s1
      by (simp add: shard_field_def)
    ultimately show ?thesis using rest by metis
  qed
qed

text \<open>Not more than a hundred entries are due: then nothing stays due.\<close>

lemma zrangebyscore_batch:
  assumes "zset_ok z" and "zscore z m = Some sc" and "lo \<le> sc" and "sc \<le> hi"
    and "length (filter (\<lambda>p. lo \<le> fst p \<and> fst p \<le> hi) z) \<le> n"
  shows "m \<in> set (zrangebyscore lo hi n z)"
  using assms by (force simp: zrangebyscore_def zscore_Some_iff)

section \<open>Finding work\<close>

text \<open>
  The contract of a first-in first-out list, which \<open>LPUSH\<close> at one end and \<open>RPOP\<close> at the other
  implement.
\<close>

locale fifo =
  fixes push :: "'a \<Rightarrow> 'q \<Rightarrow> 'q" and pop :: "'q \<Rightarrow> ('a \<times> 'q) option" and items :: "'q \<Rightarrow> 'a list"
  assumes items_push: "items (push x q) = items q @ [x]"
    and pop_None: "pop q = None \<longleftrightarrow> items q = []"
    and pop_Some: "pop q = Some (x, q') \<Longrightarrow> items q = x # items q'"
begin

lemma items_pushes: "items (fold push xs q) = items q @ xs"
  by (induction xs arbitrary: q) (simp_all add: items_push)

lemma pop_oldest: "items q = x # xs \<Longrightarrow> \<exists>q'. pop q = Some (x, q') \<and> items q' = xs"
  using pop_None [of q] pop_Some [of q] by (cases "pop q") auto

lemma pop_after_pushes:
  "items q = x # xs \<Longrightarrow> \<exists>q'. pop (fold push ys q) = Some (x, q') \<and> items q' = xs @ ys"
  by (rule pop_oldest) (simp add: items_pushes)

end

interpretation shard_list: fifo lpush rpop rev
  by unfold_locales (auto simp: lpush_def rpop_def split: if_splits)

lemma steal_finds:
  assumes "k \<in> set ks" and "k \<noteq> primary" and "pending s k \<noteq> []"
  shows "fst (steal primary ks s) \<noteq> None"
  using assms
proof (induction ks)
  case Nil
  then show ?case by simp
next
  case (Cons i ks)
  then show ?case
    by (auto simp: pop_to_processing_def split: option.splits prod.splits)
qed

lemma pop_job_finds:
  assumes "k < affinity_shards c" and "pending s k \<noteq> []"
  shows "fst (pop_job c shard s) \<noteq> None"
proof (cases "k = shard mod affinity_shards c")
  case True
  then show ?thesis using assms
    by (auto simp: pop_job_def pop_to_processing_def Let_def rpop_def split: option.splits)
next
  case False
  have "shard mod affinity_shards c < affinity_shards c" using assms(1) by simp
  with False assms(1) have "1 < affinity_shards c" by linarith
  moreover have "fst (steal (shard mod affinity_shards c) [0..<affinity_shards c] s) \<noteq> None"
    using False assms by (intro steal_finds) auto
  ultimately show ?thesis
    by (auto simp: pop_job_def pop_to_processing_def Let_def split: option.splits prod.splits)
qed

lemma pop_job_primary:
  assumes "rev (pending s (shard mod affinity_shards c)) = j # js"
  shows "\<exists>s'. pop_job c shard s = (Some j, s') \<and> j \<in> set (processing s') \<and> jobs s' = jobs s
    \<and> rev (pending s' (shard mod affinity_shards c)) = js"
  using shard_list.pop_oldest [OF assms]
  by (auto simp: pop_job_def pop_to_processing_def Let_def lpush_def)

section \<open>Bindings of idempotency keys\<close>

lemma script_step_binding:
  assumes "script_step n m d s s'" and "server_ms s < b_ttl b \<Longrightarrow> idem s k = Some b"
  shows "server_ms s \<le> server_ms s' \<and> (server_ms s' < b_ttl b \<longrightarrow> idem s' k = Some b)"
  using assms(1)
proof cases
  case (step_reap j sh lease now next_ms ttl)
  then show ?thesis using assms(2)
    by (auto simp: reap_script_def Let_def split: option.splits)
next
  case step_core
  then show ?thesis using assms(2)
  proof cases
    case (core_enqueue j shard ik rh rj now ttl ittl)
    then show ?thesis using assms(2)
      by (auto simp: enqueue_script_def Let_def split: option.splits)
  next
    case (core_advance t)
    then show ?thesis using assms(2) by (auto simp: advance_clock_def)
  qed (auto simp: script_defs Let_def split: option.splits prod.splits)
qed

interpretation bound: kept_property "script_step n m d"
  "\<lambda>s. server_ms s < b_ttl b \<longrightarrow> idem s k = Some b"
  by unfold_locales (meson script_step_binding)

section \<open>Promotion of a settled job\<close>

definition promoted :: "int \<Rightarrow> job_hash \<Rightarrow> job_hash" where
  "promoted now h = h\<lparr>h_status := QUEUED, h_next_attempt_ms := 0, h_updated_at_ms := now\<rparr>"

lemma promote_script_hash:
  assumes "jobs s j = Some h \<or> h_status h = RETRYING \<and> jobs s j = Some (promoted now h)"
    and "s' = snd (promote_script i now k s)"
  shows "jobs s' j = Some h \<or> h_status h = RETRYING \<and> jobs s' j = Some (promoted now h)"
  using assms by (auto simp: promote_script_def promoted_def split: option.splits)

lemma promote_loop_hash:
  assumes "jobs s j = Some h \<or> h_status h = RETRYING \<and> jobs s j = Some (promoted now h)"
  shows "jobs (snd (promote_loop now js moved s)) j = Some h
    \<or> h_status h = RETRYING \<and> jobs (snd (promote_loop now js moved s)) j = Some (promoted now h)"
  using assms
proof (induction js arbitrary: moved s)
  case Nil
  then show ?case by simp
next
  case (Cons i js)
  obtain b s1 where one: "promote_script i now (shard_field s i) s = (b, s1)" by fastforce
  then have "jobs s1 j = Some h \<or> h_status h = RETRYING \<and> jobs s1 j = Some (promoted now h)"
    using promote_script_hash [OF Cons.prems, of s1 i "shard_field s i"] by simp
  then show ?case using Cons.IH by (simp add: one)
qed

lemma promote_retries_future:
  assumes "zset_ok (retry s)" and "zscore (retry s) j = Some t" and "now < t"
  shows "jobs (snd (promote_retries now s)) j = jobs s j
    \<and> zscore (retry (snd (promote_retries now s))) j = Some t"
proof -
  have "j \<notin> set (zrangebyscore 0 now 100 (retry s))"
    using zs.range_due [OF assms(1), of j 0 now 100] assms(2,3) by auto
  then show ?thesis
    using promote_loop_other [OF _ assms(1)] assms(2) by (simp add: promote_retries_def)
qed

lemma reap_loop_zset:
  "zset_ok (retry (fst sm)) \<Longrightarrow> zset_ok (retry (fst (snd (reap_loop cd c mo jitter now js r sm))))"
proof (induction js arbitrary: r sm)
  case Nil
  then show ?case by simp
next
  case (Cons j js)
  obtain s m where sm: "sm = (s, m)" by (cases sm)
  obtain q s1 m1 where one: "reap_one cd c mo (jitter j) now j (s, m) = (q, s1, m1)"
    by (metis prod_cases3)
  then have "s1 = reaped_store c (jitter j) now j s"
    using reap_one_store [of cd c mo "jitter j" now j s m] by simp
  then have "zset_ok (retry s1)" using Cons.prems
    by (auto simp: sm reaped_store_def reap_script_zset split: option.splits)
  then show ?case using Cons.IH [of "(s1, m1)"] by (cases q) (simp_all add: sm one)
qed

section \<open>Cancellation of a running attempt\<close>

text \<open>
  The request sticks to the attempt it was made for: as long as the same attempt runs, the
  flag stays set.
\<close>

lemma script_step_cancel_flag:
  assumes "script_step n m d s s'" and "jobs s j = Some h" and "jobs s' j = Some h'"
    and "h_status h = RUNNING" and "h_status h' = RUNNING" and "h_cancel_requested h"
  shows "h_cancel_requested h'"
  using assms(1)
proof cases
  case step_reap
  then show ?thesis using assms(2-)
    by (auto simp: reap_script_def Let_def split: option.splits if_splits)
next
  case step_core
  then show ?thesis using assms(2-)
    by cases (auto simp: script_defs Let_def fresh_id_def split: option.splits if_splits prod.splits)
qed

definition cancel_pending :: "nat \<Rightarrow> string \<Rightarrow> store \<Rightarrow> bool" where
  "cancel_pending a j s = (\<forall>h. jobs s j = Some h \<longrightarrow> a \<le> h_attempts h
     \<and> (h_status h = RUNNING \<and> h_attempts h = a \<longrightarrow> h_cancel_requested h))"

lemma keeping_id_cancel:
  assumes "keeping_id n m d j s s'" and "queue_inv n m s" and "cancel_pending a j s"
  shows "cancel_pending a j s'"
  unfolding cancel_pending_def
proof (intro allI impI conjI)
  fix h' assume h': "jobs s' j = Some h'"
  then obtain h where h: "jobs s j = Some h"
    using assms(1) by (cases "jobs s j") (auto simp: keeping_id_def)
  have att: "a \<le> h_attempts h" using assms(3) h by (simp add: cancel_pending_def)
  show "a \<le> h_attempts h'"
    using keeping_id_attempts [OF assms(1,2) _ h', of a] h att by auto
  assume run: "h_status h' = RUNNING \<and> h_attempts h' = a"
  have step: "h' = h \<or> life_step m (life h) (life h') \<or> h_status h = RUNNING \<and> life h' = life h"
    using keeping_id_hash [OF assms(1,2)] h h' by (auto simp: hash_step_def)
  have "\<not> life_step m (life h) (life h')"
    using run att by (auto simp: life_def elim: life_step_from)
  with step have "h_status h = RUNNING \<and> h_attempts h = a" using run by (auto simp: life_def)
  then have "h_status h = RUNNING" "h_cancel_requested h"
    using assms(3) h by (auto simp: cancel_pending_def)
  then show "h_cancel_requested h'"
    using script_step_cancel_flag [OF _ h h'] assms(1) run by (auto simp: keeping_id_def)
qed

interpretation cancelling: kept_property "keeping_id n m d j"
  "\<lambda>s. queue_inv n m s \<and> 0 < m \<and> cancel_pending a j s"
  by unfold_locales (meson keeping_id_cancel keeping_id_inv)

end
