(* ===== verification/QueueBehaviour.thy ===== *)
theory QueueBehaviour
  imports QueueSafety QueueRecovery
begin

text \<open>
  What the queue's methods do: they keep the invariant, do not depend on the metadata store,
  make submission idempotent, recover expired jobs, promote due retries, hand out the oldest
  job, and finish a job once.
\<close>

section \<open>A sample configuration\<close>

definition sample_cfg :: queue_cfg where
  "sample_cfg = make_queue ''q'' 60 10 2 2 10 None 2 60"

definition sample_source :: SourceSpec where
  "sample_source = \<lparr>src_path = ''t.csv'', src_format = DF_CSV, src_location = None,
     src_options = [], src_version = Some ''1'', src_schema = None, src_infer_schema = False\<rparr>"

definition sample_request :: QueryRequest where
  "sample_request = \<lparr>req_sql = ''select 1'', req_sources = [(''t'', sample_source)],
     req_output = default_output, req_max_rows = 10, req_cache_ttl_seconds = None,
     req_timeout_seconds = None, req_fields_set = []\<rparr>"

definition sample_result :: QueryResult where
  "sample_result = Inline \<lparr>inl_query_id = None, inl_columns = [], inl_rows = [],
     inl_truncated = False, inl_cached = False\<rparr>"

definition sample_codec :: codec where
  "sample_codec = \<lparr>dump_request = (\<lambda>_. ''{}''), parse_request = (\<lambda>_. Inr sample_request),
     dump_result = (\<lambda>_. ''r''), parse_result = (\<lambda>_. Inr sample_result)\<rparr>"

definition sample_hashing :: hashing where
  "sample_hashing = \<lparr>sha_hex = (\<lambda>s. take 1 s), sha_bytes = (\<lambda>s. map of_char s)\<rparr>"

lemma sample_cfg_sel [simp]:
  "affinity_shards sample_cfg = 2" "max_attempts sample_cfg = 2" "max_queue_depth sample_cfg = 10"
  "job_ttl_seconds sample_cfg = 60" "lease_seconds sample_cfg = 10"
  "idempotency_ttl_seconds sample_cfg = 60" "retry_base_seconds sample_cfg = 2"
  "retry_max_seconds sample_cfg = 60" "queue_name sample_cfg = ''q''" "cfg_ok sample_cfg"
  by (simp_all add: sample_cfg_def make_queue_def cfg_ok_def)

lemma sample_running_job: "jobs sample_running ''a'' = Some sample_hash"
  by (simp add: sample_running_eq)

lemma sample_hash_sel [simp]:
  "h_status sample_hash = RUNNING" "h_attempts sample_hash = 1" "h_worker_id sample_hash = ''w1''"
  "h_lease_expires_ms sample_hash = 11000" "h_cancel_requested sample_hash = False"
  "h_shard sample_hash = 1" "h_result sample_hash = []"
  by (simp_all add: sample_hash_def new_job_def)

section \<open>Invariance and independence\<close>

text \<open>
  Every method of the queue keeps the queue invariant, whatever it returns: submission
  with an unused identifier, promotion, reservation, heartbeat, completion, publication,
  cancellation, failure and reaping.
\<close>

theorem methods_keep_invariant:
  assumes "cfg_ok c" and "queue_ok c s" and "fresh_id (affinity_shards c) job_id s"
  shows "queue_ok c (fst (snd (enqueue hs cd c mo r key job_id now (s, m))))
    \<and> queue_ok c (snd (promote_retries now s))
    \<and> queue_ok c (fst (snd (reserve cd c mo w shard now now' (s, m))))
    \<and> queue_ok c (snd (heartbeat c j w now s))
    \<and> queue_ok c (fst (snd (complete cd c mo j w res now (s, m))))
    \<and> queue_ok c (snd (publish_output j w a k aid uri mode now s))
    \<and> queue_ok c (fst (snd (cancel_complete c mo j w now (s, m))))
    \<and> queue_ok c (fst (snd (request_cancel cd mo j now (s, m))))
    \<and> queue_ok c (fst (snd (fail cd c mo j w err retryable ec jitter now now' (s, m))))
    \<and> queue_ok c (fst (snd (reap_stale cd c mo jits now now' (s, m))))"
  by (intro conjI steps_queue_ok [OF _ assms(1,2)] method_steps assms(1) steps_enqueue [OF assms(1,3)])

theorem methods_keep_invariant_witness:
  "queue_ok sample_cfg (fst (snd (reap_stale sample_codec sample_cfg null_meta (\<lambda>_. 1) 20000 20000
     (sample_running, ()))))"
proof -
  have "queue_ok sample_cfg sample_running" using sample_inv by simp
  moreover have "fresh_id (affinity_shards sample_cfg) ''b'' sample_running"
    by (simp add: fresh_id_def sample_running_eq empty_store_def list_all_iff)
  ultimately show ?thesis
    using methods_keep_invariant [where c = sample_cfg and s = sample_running and job_id = "''b''"
        and mo = null_meta and m = "()"] by simp
qed

text \<open>
  The metadata store never interferes: with any metadata store in any state, failing or
  not, every method returns the same value and leaves Valkey in the same state as with the
  null store.
\<close>

theorem metadata_never_interferes:
  "map_prod id fst (enqueue hs cd c mo r key job_id now (s, m))
     = map_prod id fst (enqueue hs cd c null_meta r key job_id now (s, ()))
   \<and> map_prod id fst (reserve cd c mo w shard now now' (s, m))
     = map_prod id fst (reserve cd c null_meta w shard now now' (s, ()))
   \<and> map_prod id fst (complete cd c mo j w res now (s, m))
     = map_prod id fst (complete cd c null_meta j w res now (s, ()))
   \<and> map_prod id fst (cancel_complete c mo j w now (s, m))
     = map_prod id fst (cancel_complete c null_meta j w now (s, ()))
   \<and> map_prod id fst (request_cancel cd mo j now (s, m))
     = map_prod id fst (request_cancel cd null_meta j now (s, ()))
   \<and> map_prod id fst (fail cd c mo j w err retryable ec jitter now now' (s, m))
     = map_prod id fst (fail cd c null_meta j w err retryable ec jitter now now' (s, ()))
   \<and> map_prod id fst (reap_stale cd c mo jits now now' (s, m))
     = map_prod id fst (reap_stale cd c null_meta jits now now' (s, ()))"
proof -
  have one: "map_prod id fst (reap_one cd c mo x now j (s, m))
      = map_prod id fst (reap_one cd c null_meta x now j (s, u))" for x j s m u
    by (auto simp: reap_one_def Let_def split: option.splits prod.splits sum.splits)
  have loop: "map_prod id fst (reap_loop cd c mo jits now js n (s, m))
      = map_prod id fst (reap_loop cd c null_meta jits now js n (s, u))" for js n s m u
  proof (induction js arbitrary: n s m u)
    case (Cons j js)
    obtain r s1 m1 where a: "reap_one cd c mo (jits j) now j (s, m) = (r, s1, m1)"
      by (metis prod_cases3)
    moreover obtain u1 where b: "reap_one cd c null_meta (jits j) now j (s, u) = (r, s1, u1)"
      using one [of "jits j" j s m u] a by (cases "reap_one cd c null_meta (jits j) now j (s, u)") auto
    ultimately show ?case using Cons.IH [of _ s1 m1 u1] by (cases r) simp_all
  qed simp
  have stale: "map_prod id fst (reap_stale cd c mo jits now now' (s, m))
      = map_prod id fst (reap_stale cd c null_meta jits now now' (s, ()))"
  proof -
    obtain r s1 m1 where a: "reap_loop cd c mo jits now (processing s) 0 (s, m) = (r, s1, m1)"
      by (metis prod_cases3)
    moreover have b: "reap_loop cd c null_meta jits now (processing s) 0 (s, ()) = (r, s1, ())"
      using loop [of "processing s" 0 s m "()"] a
      by (cases "reap_loop cd c null_meta jits now (processing s) 0 (s, ())") auto
    ultimately show ?thesis by (cases r) (simp_all add: reap_stale_def)
  qed
  show ?thesis
    by (intro conjI stale)
      (auto simp: enqueue_alone reserve_def complete_def cancel_complete_def request_cancel_def fail_def
        Let_def split: option.splits prod.splits sum.splits enqueue_reply.splits)
qed

section \<open>Idempotent submission\<close>






section \<open>Recovery\<close>

text \<open>
  A crashed worker's job is recovered by the next pass of the reaper. A running job whose
  lease has passed is taken from its worker: it is cancelled if that had been requested, dead
  if its attempts are used up, and otherwise waits for a retry at the pass's clock plus the
  back-off delay, or is already queued again when the pass's own promotion finds that time
  reached. Its attempt count, request and shard stay, and the pass itself does not fail.
\<close>

theorem expired_lease_recovered:
  assumes "queue_ok c s" and "results_ok cd s" and "jobs s j = Some h"
    and "h_status h = RUNNING" and "h_lease_expires_ms h \<le> now"
    and "t = now + retry_delay_ms c (jitter j) (h_attempts h)"
    and "reap_stale cd c mo jitter now now' (s, m) = (r, s', m')"
  shows "\<exists>n h'. r = Inr n \<and> reap_outcome c t h h'
    \<and> (jobs s' j = Some h' \<or> h_status h' = RETRYING \<and> t \<le> now' \<and> jobs s' j = Some (promoted now' h'))
    \<and> (h_status h' = RETRYING \<and> now' < t \<longrightarrow> zscore (retry s') j = Some t)"
proof -
  have proc: "j \<in> set (processing s)"
    using queue_invD(1) [OF assms(1,3)] assms(4) by (simp add: job_ok_def)
  have zok: "zset_ok (retry s)" using assms(1) by (rule queue_invD)
  obtain n s1 m1 where loop: "reap_loop cd c mo jitter now (processing s) 0 (s, m) = (Inr n, s1, m1)"
    using reap_loop_ok [of cd "(s, m)" c mo jitter now "processing s" 0] assms(2)
    by (metis fst_conv is_ok_iff prod.collapse)
  then have s1: "s1 = fst (snd (reap_loop cd c mo jitter now (processing s) 0 (s, m)))" by simp
  obtain h' where h': "jobs s1 j = Some h'" "reap_outcome c t h h'"
    "h_status h' = RETRYING \<longrightarrow> zscore (retry s1) j = Some t"
    using reap_loop_recovers [OF proc assms(3-5,2) zok assms(6) s1] by blast
  have zok1: "zset_ok (retry s1)"
    using reap_loop_zset [of "(s, m)" cd c mo jitter now "processing s" 0] zok loop by simp
  have end1: "r = Inr n" "s' = snd (promote_retries now' s1)"
    using assms(7) loop by (auto simp: reap_stale_def)
  have hash: "jobs s' j = Some h' \<or> h_status h' = RETRYING \<and> jobs s' j = Some (promoted now' h')"
    using promote_loop_hash [of s1 j h' now'] h'(1) by (simp add: end1 promote_retries_def)
  have later: "jobs s' j = Some h' \<and> zscore (retry s') j = Some t" if "h_status h' = RETRYING" "now' < t"
    using promote_retries_future [OF zok1 _ that(2)] that(1) h' end1 by simp
  show ?thesis
  proof (intro exI conjI impI)
    show "jobs s' j = Some h' \<or> h_status h' = RETRYING \<and> t \<le> now' \<and> jobs s' j = Some (promoted now' h')"
      using hash later by linarith
  qed (use end1 h' later in auto)
qed

lemma sample_results_ok: "results_ok sample_codec sample_running"
  by (simp add: results_ok_def sample_codec_def)

theorem expired_lease_recovered_witness:
  "let sm = reap_stale sample_codec sample_cfg null_meta (\<lambda>_. 1) 20000 20001 (sample_running, ())
   in zscore (retry (fst (snd sm))) ''a'' = Some 22000"
proof -
  let ?sm = "reap_stale sample_codec sample_cfg null_meta (\<lambda>_. 1) 20000 20001 (sample_running, ())"
  have inv: "queue_ok sample_cfg sample_running" using sample_inv by simp
  have t: "22000 = 20000 + retry_delay_ms sample_cfg 1 1" by (simp add: retry_delay_ms_def)
  obtain r s' m' where sm: "?sm = (r, s', m')" by (metis prod_cases3)
  obtain h' where "reap_outcome sample_cfg 22000 sample_hash h'"
    "h_status h' = RETRYING \<and> 20001 < (22000::int) \<longrightarrow> zscore (retry s') ''a'' = Some 22000"
    using expired_lease_recovered [OF inv sample_results_ok sample_running_job _ _ _ sm,
        of 22000] t by auto
  then show ?thesis by (simp add: sm reap_outcome_def)
qed

text \<open>
  Due retries do not wait: when at most a hundred entries of the retry set are due (the
  size of a batch), one call of \<open>promote_retries\<close> leaves no due entry behind, and every retrying
  job among them is queued again and stands in its own shard's pending list.
\<close>

theorem due_retries_promoted:
  assumes "queue_ok c s" and "zscore (retry s) j = Some sc" and "0 \<le> sc" and "sc \<le> now"
    and "length (filter (\<lambda>p. 0 \<le> fst p \<and> fst p \<le> now) (retry s)) \<le> 100"
    and "s' = snd (promote_retries now s)"
  shows "zscore (retry s') j = None
    \<and> (\<forall>h. jobs s j = Some h \<and> h_status h = RETRYING \<longrightarrow>
         jobs s' j = Some (promoted now h) \<and> j \<in> set (pending s' (h_shard h)))"
proof -
  have zok: "zset_ok (retry s)" using assms(1) by (rule queue_invD)
  have due: "j \<in> set (zrangebyscore 0 now 100 (retry s))"
    using zok assms(2-5) by (rule zrangebyscore_batch)
  show ?thesis unfolding promoted_def
    by (rule promote_loop_due [OF due distinct_zrangebyscore [OF zok] assms(2,4) zok])
      (simp add: assms(6) promote_retries_def)
qed

definition sample_retrying :: store where
  "sample_retrying = snd (retry_script ''a'' ''w1'' 2 ''boom'' 2000 4000 60 sample_running)"

lemma sample_retrying_facts:
  "queue_inv 2 2 sample_retrying" "retry sample_retrying = [(4000, ''a'')]"
  "\<exists>h. jobs sample_retrying ''a'' = Some h \<and> h_status h = RETRYING \<and> h_shard h = 1"
proof -
  show "queue_inv 2 2 sample_retrying"
    unfolding sample_retrying_def by (rule inv_retry [OF sample_inv])
  show "retry sample_retrying = [(4000, ''a'')]"
    "\<exists>h. jobs sample_retrying ''a'' = Some h \<and> h_status h = RETRYING \<and> h_shard h = 1"
    by (simp_all add: sample_retrying_def sample_running_eq retry_script_def holds_lease_def Let_def
        empty_store_def zadd_def zrem_def)
qed

theorem due_retries_promoted_witness:
  "''a'' \<in> set (pending (snd (promote_retries 4000 sample_retrying)) 1)"
proof -
  note f = sample_retrying_facts
  have ok: "queue_ok sample_cfg sample_retrying" using f(1) by simp
  obtain h where "jobs sample_retrying ''a'' = Some h" "h_status h = RETRYING" "h_shard h = 1"
    using f(3) by blast
  then show ?thesis
    using due_retries_promoted [OF ok, of "''a''" 4000 4000] f(2) by (simp add: zscore_def)
qed

section \<open>Reservation\<close>

text \<open>
  A worker gets the oldest job of its shard: if, after the due retries have been promoted,
  the shard's jobs are \<open>j # js\<close> from oldest to newest and \<open>j\<close> is queued, then \<open>reserve\<close> takes \<open>j\<close>,
  leaves \<open>js\<close>, counts the attempt, records the worker and a lease of \<open>lease_seconds\<close> from its
  clock, clears an old cancellation request, and returns the job with its request.
\<close>

theorem reserve_claims_oldest:
  assumes "s1 = snd (promote_retries now s)"
    and "rev (pending s1 (shard mod affinity_shards c)) = j # js"
    and "jobs s1 j = Some h" and "h_status h = QUEUED" and "parse_request cd (h_request h) = Inr r"
    and "reserve cd c mo w shard now now' (s, m) = (res, s', m')"
  shows "res = Inr (Some \<lparr>rj_id = j, rj_request = r, rj_attempts = h_attempts h + 1, rj_shard = h_shard h\<rparr>)
    \<and> rev (pending s' (shard mod affinity_shards c)) = js \<and> j \<in> set (processing s')
    \<and> (\<exists>h'. jobs s' j = Some h' \<and> h_status h' = RUNNING \<and> h_worker_id h' = w
         \<and> h_attempts h' = h_attempts h + 1 \<and> h_lease_expires_ms h' = now' + lease_seconds c * 1000
         \<and> \<not> h_cancel_requested h')"
proof -
  obtain s2 where s2: "pop_job c shard s1 = (Some j, s2)" "j \<in> set (processing s2)"
    "jobs s2 = jobs s1" "rev (pending s2 (shard mod affinity_shards c)) = js"
    using pop_job_primary [OF assms(2)] by blast
  then show ?thesis
    using assms(3-6) by (auto simp: reserve_def assms(1) [symmetric] Let_def claim_script_def)
qed

theorem reserve_claims_oldest_witness:
  "fst (reserve sample_codec sample_cfg null_meta ''w1'' 1 1000 1000 (sample_queued, ()))
   = Inr (Some \<lparr>rj_id = ''a'', rj_request = sample_request, rj_attempts = 1, rj_shard = 1\<rparr>)"
proof -
  obtain res s' m' where
    r: "reserve sample_codec sample_cfg null_meta ''w1'' 1 1000 1000 (sample_queued, ()) = (res, s', m')"
    by (metis prod_cases3)
  have p: "snd (promote_retries 1000 sample_queued) = sample_queued"
    by (simp add: promote_retries_def sample_queued_eq empty_store_def zrangebyscore_def)
  have job: "jobs sample_queued ''a'' = Some (new_job ''{}'' 1 1000 60000)"
    and lst: "rev (pending sample_queued (1 mod affinity_shards sample_cfg)) = [''a'']"
    by (simp_all add: sample_queued_eq)
  have parse: "parse_request sample_codec (h_request (new_job ''{}'' 1 1000 60000)) = Inr sample_request"
    by (simp add: sample_codec_def)
  show ?thesis
    unfolding r using reserve_claims_oldest [OF p [symmetric] lst job _ parse r] by simp
qed

text \<open>
  No worker idles while there is work: if any shard's pending list is not empty, the pop
  inside \<open>reserve\<close> returns a job, from the worker's own shard or stolen from another.
\<close>

theorem no_shard_starves:
  assumes "k < affinity_shards c" and "pending s k \<noteq> []"
  shows "\<exists>j. fst (pop_job c shard s) = Some j"
  using pop_job_finds [OF assms] by auto

theorem no_shard_starves_witness: "\<exists>j. fst (pop_job sample_cfg 0 sample_queued) = Some j"
  by (rule no_shard_starves [of 1]) (simp_all add: sample_queued_eq)

section \<open>Completion and cancellation\<close>

text \<open>
  A job completes at most once: after a completion was accepted, in no later state does a
  completion, failure or cancellation of that job by any worker change anything, and the
  record keeps the status and the result that were written.
\<close>

theorem completion_is_final:
  assumes "cfg_ok c" and "queue_ok c s" and "complete cd c mo j w res now (s, m) = (True, s1, m1)"
    and "(keeping_id (affinity_shards c) (max_attempts c) (max_queue_depth c) j)\<^sup>*\<^sup>* s1 s2"
  shows "complete cd c mo j w' res' now' (s2, m2) = (False, s2, m2)
    \<and> fail cd c mo j w' err retryable ec jitter now' now' (s2, m2) = (Inr False, s2, m2)
    \<and> cancel_complete c mo j w' now' (s2, m2) = (False, s2, m2)
    \<and> (\<forall>h. jobs s2 j = Some h \<longrightarrow> h_status h = SUCCEEDED \<and> h_result h = dump_result cd res)"
proof -
  have inv1: "queue_ok c s1"
    using steps_queue_ok [OF steps_complete assms(1,2), of cd mo j w res now m] assms(3) by simp
  obtain h1 where h1: "jobs s1 j = Some h1" "h_status h1 = SUCCEEDED" "h_result h1 = dump_result cd res"
    using assms(3)
    by (auto simp: complete_def complete_script_def Let_def split: prod.splits option.splits if_splits)
  have "jobs s2 j = None \<or> jobs s2 j = Some h1"
    using frozen.steps_keep [OF assms(4), of h1] inv1 h1 assms(1)
    by (simp add: terminal_status_def cfg_ok_def)
  then have only: "\<forall>h. jobs s2 j = Some h \<longrightarrow> h = h1" by auto
  then have "\<not> holds_lease w' now' h" if "jobs s2 j = Some h" for h
    using that h1(2) by (auto simp: holds_lease_def)
  then show ?thesis using only h1 by (auto simp: method_defs refused_unchanged)
qed

theorem completion_is_final_witness:
  "let s1 = fst (snd (complete sample_codec sample_cfg null_meta ''a'' ''w1'' sample_result 2000
         (sample_running, ())))
   in complete sample_codec sample_cfg null_meta ''a'' ''w1'' sample_result 3000 (s1, ()) = (False, s1, ())"
proof -
  let ?e = "complete sample_codec sample_cfg null_meta ''a'' ''w1'' sample_result 2000 (sample_running, ())"
  have e: "?e = (True, fst (snd ?e), ())"
    by (simp add: complete_def complete_script_def Let_def sample_running_job holds_lease_def)
  have inv: "queue_ok sample_cfg sample_running" using sample_inv by simp
  show ?thesis
    using completion_is_final [OF _ inv e rtranclp.rtrancl_refl] by (simp add: Let_def)
qed

text \<open>
  A cancelled attempt cannot succeed: once cancellation of a running job has been
  requested, then in every later state, as long as the job is still in that attempt, no worker
  can complete it, and the attempt can never publish an output again.
\<close>

theorem cancelled_attempt_cannot_finish:
  assumes "cfg_ok c" and "queue_ok c s" and "jobs s j = Some h" and "h_status h = RUNNING"
    and "request_cancel cd mo j now (s, m) = (r, s1, m1)"
    and "(keeping_id (affinity_shards c) (max_attempts c) (max_queue_depth c) j)\<^sup>*\<^sup>* s1 s2"
  shows "publish_output j w (h_attempts h) key aid uri mode now' s2 = (-1, s2)
    \<and> ((\<exists>h2. jobs s2 j = Some h2 \<and> h_attempts h2 = h_attempts h)
       \<longrightarrow> complete cd c mo j w res now' (s2, m2) = (False, s2, m2))"
proof -
  have inv1: "queue_ok c s1"
    using steps_queue_ok [OF steps_request_cancel assms(1,2), of cd mo j now m] assms(5) by simp
  have s1: "jobs s1 j = Some (h\<lparr>h_cancel_requested := True, h_updated_at_ms := now\<rparr>)"
    using assms(3-5)
    by (auto simp: request_cancel_def cancel_script_def Let_def split: sum.splits)
  then have "cancel_pending (h_attempts h) j s1" by (simp add: cancel_pending_def)
  then have p: "cancel_pending (h_attempts h) j s2"
    using cancelling.steps_keep [OF assms(6), of "h_attempts h"] inv1 assms(1) by (simp add: cfg_ok_def)
  have "publish_output j w (h_attempts h) key aid uri mode now' s2 = (-1, s2)"
    using p by (auto simp: publish_output_def publish_script_def cancel_pending_def holds_lease_def
        split: option.splits)
  moreover have "complete cd c mo j w res now' (s2, m2) = (False, s2, m2)"
    if "jobs s2 j = Some h2" "h_attempts h2 = h_attempts h" for h2
    using p that by (auto simp: complete_def complete_script_def cancel_pending_def holds_lease_def)
  ultimately show ?thesis by blast
qed

theorem cancelled_attempt_cannot_finish_witness:
  "let s1 = fst (snd (request_cancel sample_codec null_meta ''a'' 2000 (sample_running, ())))
   in publish_output ''a'' ''w1'' 1 ''k'' ''x'' ''u'' ''overwrite'' 3000 s1 = (-1, s1)"
proof -
  obtain r s1 m1 where e: "request_cancel sample_codec null_meta ''a'' 2000 (sample_running, ()) = (r, s1, m1)"
    by (metis prod_cases3)
  have inv: "queue_ok sample_cfg sample_running" using sample_inv by simp
  show ?thesis
    using cancelled_attempt_cannot_finish [OF _ inv sample_running_job _ e rtranclp.rtrancl_refl,
        of "''w1''" "''k''" "''x''" "''u''" "''overwrite''" 3000]
    by (simp add: e)
qed

text \<open>
  A cancellation request does not survive a retry. The retry script does not look at the
  request (the reaper does): a worker that reports a retryable failure of a job whose
  cancellation was requested sends it back for another attempt, and the next claim clears the
  request, so the job runs again as if nobody had cancelled it.
\<close>

theorem retry_drops_cancellation:
  assumes "jobs s j = Some h" and "holds_lease w now' h" and "h_cancel_requested h"
    and "h_attempts h < max_attempts c" and "h_result h = []" and "zset_ok (retry s)"
    and "fail cd c mo j w err True ec jitter now now' (s, m) = (r, s1, m1)"
    and "t = now + retry_delay_ms c jitter (h_attempts h)" and "t \<le> later"
    and "s2 = snd (promote_script j later (h_shard h) s1)"
    and "s3 = s2\<lparr>processing := lpush j (processing s2)\<rparr>"
    and "s4 = snd (claim_script j w2 lease later ttl s3)"
  shows "r = Inr True \<and> (\<exists>h4. jobs s4 j = Some h4 \<and> h_status h4 = RUNNING
    \<and> h_attempts h4 = Suc (h_attempts h) \<and> \<not> h_cancel_requested h4)"
proof -
  let ?h1 = "h\<lparr>h_error := err, h_worker_id := [], h_lease_expires_ms := 0, h_updated_at_ms := now',
    h_ttl := expire (job_ttl_seconds c) s, h_status := RETRYING, h_next_attempt_ms := t\<rparr>"
  have s1: "jobs s1 j = Some ?h1" "zscore (retry s1) j = Some t" "r = Inr True"
    using assms(1-8) by (auto simp: fail_def retry_script_def Let_def get_job_def)
  have "jobs s2 j = Some (?h1\<lparr>h_status := QUEUED, h_next_attempt_ms := 0, h_updated_at_ms := later\<rparr>)"
    unfolding assms(10) using promote_script_moves [OF s1(2) assms(9) s1(1)] by simp
  then show ?thesis
    using s1(3) unfolding assms(11,12) by (simp add: claim_script_def lpush_def)
qed

definition sample_cancelling :: store where
  "sample_cancelling = snd (cancel_script ''a'' 1500 1 sample_running)"

definition sample_resumed :: store where
  "sample_resumed =
     (let s1 = fst (snd (fail sample_codec sample_cfg null_meta ''a'' ''w1'' ''boom'' True None 1 2000 2000
            (sample_cancelling, ())));
          s2 = snd (promote_script ''a'' 5000 1 s1);
          s3 = s2\<lparr>processing := lpush ''a'' (processing s2)\<rparr>
      in snd (claim_script ''a'' ''w2'' 15000 5000 60 s3))"

theorem retry_drops_cancellation_witness:
  "cancel_requested ''a'' ''w1'' sample_cancelling
   \<and> (\<exists>h. jobs sample_resumed ''a'' = Some h \<and> h_status h = RUNNING \<and> h_attempts h = 2
        \<and> \<not> h_cancel_requested h)"
proof -
  let ?h = "sample_hash\<lparr>h_cancel_requested := True, h_updated_at_ms := 1500\<rparr>"
  have job: "jobs sample_cancelling ''a'' = Some ?h" and z: "zset_ok (retry sample_cancelling)"
    by (simp_all add: sample_cancelling_def cancel_script_def sample_running_eq empty_store_def zset_ok_def)
  obtain r s1 m1 where e: "fail sample_codec sample_cfg null_meta ''a'' ''w1'' ''boom'' True None 1
      2000 2000 (sample_cancelling, ()) = (r, s1, m1)" by (metis prod_cases3)
  have delay: "retry_delay_ms sample_cfg 1 1 = 2000" by (simp add: retry_delay_ms_def)
  have "\<exists>h. jobs sample_resumed ''a'' = Some h \<and> h_status h = RUNNING \<and> h_attempts h = Suc (h_attempts ?h)
      \<and> \<not> h_cancel_requested h"
    unfolding sample_resumed_def Let_def e snd_conv fst_conv
    using retry_drops_cancellation [OF job _ _ _ _ z e refl _ refl refl refl] delay
    by (simp add: holds_lease_def)
  then show ?thesis using job by (simp add: cancel_requested_def numeral_2_eq_2)
qed

section \<open>Back-off, keys and shards\<close>

text \<open>
  The back-off is bounded: for a jitter between 0.8 and 1.2 and a configuration with
  \<open>0 \<le> retry_base_seconds\<close> and \<open>1 \<le> retry_max_seconds\<close>, the delay before the next attempt is at least one millisecond, at
  least (less one millisecond) 0.8 and at most 1.2 times \<open>min(base * 2^(attempts-1), max)\<close>, so it
  never passes 1.2 times \<open>retry_max_seconds\<close>; for the same jitter it does not shrink from one
  attempt to the next.
\<close>

theorem retry_delay_bounds:
  assumes "4 / 5 \<le> jitter" and "jitter \<le> 6 / 5" and "0 \<le> retry_base_seconds c"
    and "1 \<le> retry_max_seconds c"
    and "base = min (retry_base_seconds c * 2 ^ (a - 1)) (retry_max_seconds c)"
  shows "1 \<le> retry_delay_ms c jitter a \<and> 800 * base - 1 \<le> of_int (retry_delay_ms c jitter a)
    \<and> of_int (retry_delay_ms c jitter a) \<le> max 1 (1200 * base)
    \<and> of_int (retry_delay_ms c jitter a) \<le> 1200 * retry_max_seconds c
    \<and> retry_delay_ms c jitter a \<le> retry_delay_ms c jitter (Suc a)"
proof -
  have base: "0 \<le> base" "base \<le> retry_max_seconds c" using assms(3-5) by auto
  have low: "800 * base \<le> base * jitter * 1000" using mult_left_mono [OF assms(1) base(1)] by simp
  have high: "base * jitter * 1000 \<le> 1200 * base" using mult_left_mono [OF assms(2) base(1)] by simp
  have d: "retry_delay_ms c jitter a = max 1 \<lfloor>base * jitter * 1000\<rfloor>"
    by (simp add: retry_delay_ms_def assms(5))
  have fl: "800 * base - 1 \<le> of_int \<lfloor>base * jitter * 1000\<rfloor>"
    "of_int \<lfloor>base * jitter * 1000\<rfloor> \<le> 1200 * base"
    using low high by linarith+
  have up: "of_int (retry_delay_ms c jitter a) \<le> max 1 (1200 * base)"
    unfolding d using fl(2) high by (auto simp: max_def)
  have lo: "800 * base - 1 \<le> of_int (retry_delay_ms c jitter a)"
    unfolding d using fl(1) low by (auto simp: max_def)
  have pow: "(2 :: rat) ^ (a - 1) \<le> 2 ^ (Suc a - 1)" by (rule power_increasing) simp_all
  have "base \<le> min (retry_base_seconds c * 2 ^ (Suc a - 1)) (retry_max_seconds c)"
    unfolding assms(5) using mult_left_mono [OF pow assms(3)] by (rule min.mono) simp
  then have "base * jitter * 1000
      \<le> min (retry_base_seconds c * 2 ^ (Suc a - 1)) (retry_max_seconds c) * jitter * 1000"
    using assms(1) by (intro mult_right_mono) simp_all
  then have "max 1 \<lfloor>base * jitter * 1000\<rfloor>
      \<le> max 1 \<lfloor>min (retry_base_seconds c * 2 ^ (Suc a - 1)) (retry_max_seconds c) * jitter * 1000\<rfloor>"
    by (intro max.mono floor_mono order_refl)
  then have mono: "retry_delay_ms c jitter a \<le> retry_delay_ms c jitter (Suc a)"
    by (simp only: d) (simp only: retry_delay_ms_def Let_def)
  have "max 1 (1200 * base) \<le> 1200 * retry_max_seconds c" using base assms(4) by simp
  then have cap: "of_int (retry_delay_ms c jitter a) \<le> 1200 * retry_max_seconds c"
    using up by (rule order_trans [rotated])
  show ?thesis using up lo mono cap unfolding d by simp
qed

theorem retry_delay_bounds_witness:
  "1 \<le> retry_delay_ms sample_cfg 1 10 \<and> of_int (retry_delay_ms sample_cfg 1 10) \<le> (72000 :: rat)"
  using retry_delay_bounds [of 1 sample_cfg _ 10] by simp

text \<open>
  The key space is partitioned: within one queue the keys of jobs, shards and idempotency
  bindings and the names of the processing, retry and dead lists never coincide, whatever the
  identifiers, and different jobs and different shards have different keys.
\<close>

theorem keyspace_disjoint:
  "distinct [job_key c j, pending_key c k, idempotency_key hs c i, processing_name c,
     retry_name c, dead_name c]
   \<and> (job_key c j = job_key c j' \<longleftrightarrow> j = j') \<and> (pending_key c k = pending_key c k' \<longleftrightarrow> k = k')"
  by (simp add: job_key_def pending_key_def idempotency_key_def processing_name_def retry_name_def
      dead_name_def)

text \<open>
  Jobs on the same data meet the same workers: the shard of a request is one of the
  configured shards and depends only on its sources, not on their order, the SQL text or the
  delivery.
\<close>

theorem shard_affinity:
  assumes "0 < affinity_shards c" and "mset (req_sources r) = mset (req_sources r')"
    and "distinct (map fst (req_sources r))"
  shows "shard_of hs c r = shard_of hs c r' \<and> shard_of hs c r < affinity_shards c"
proof -
  have "sort_key fst (req_sources r) = sort_key fst (req_sources r')"
    using assms(2,3) by (rule sort_key_perm_eq)
  then show ?thesis using assms(1) by (simp add: shard_of_def dataset_affinity_key_def)
qed

theorem shard_affinity_witness:
  "shard_of sample_hashing sample_cfg
     (sample_request\<lparr>req_sources := [(''t'', sample_source), (''u'', sample_source)]\<rparr>)
   = shard_of sample_hashing sample_cfg
     (sample_request\<lparr>req_sql := ''x'', req_sources := [(''u'', sample_source), (''t'', sample_source)]\<rparr>)"
  by (rule shard_affinity [THEN conjunct1]) simp_all

end
