(* ===== verification/WorkerProps.thy ===== *)
theory WorkerProps
  imports Worker QueueBehaviour
begin

text \<open>
  What a worker does to the queue: it keeps the invariant under any interference, it moves its
  job to the state its outcome calls for, it changes nothing when it no longer owns the job, and
  its heartbeats keep the lease.
\<close>

section \<open>Safety under interference\<close>

text \<open>
  C9. A worker keeps the queue's invariant whatever the rest of the system does: if the
  execution of the query, the closing of the service and everything other processes do between
  the worker's calls are operations of the queue, then a unit of work, and the whole run of the
  worker's loop with its reaper, however it ends, is a run of the queue's atomic steps and
  leaves the invariant intact.
\<close>

theorem worker_keeps_queue_safe:
  assumes "cfg_ok c" and "queue_ok c (fst sm)" and "\<forall>n. quiet c (env n)"
    and "\<forall>r ctx. quiet c (\<lambda>sm. snd (run r ctx sm))" and "quiet c (\<lambda>sm. snd (svc_close sm))"
    and "\<And>tn. tn \<in> set tns \<Longrightarrow> quiet_turn c tn"
    and "work_once cd c mo run w shard uuid clk env jitter sm = (x, sm1)"
    and "worker_run cd c mo run svc_close w shard interval tns sm = (y, wk, opn)"
  shows "queue_steps c (fst sm) (fst sm1) \<and> queue_ok c (fst sm1)
    \<and> queue_steps c (fst sm) (fst (wk_world wk)) \<and> queue_ok c (fst (wk_world wk))"
proof -
  have "queue_steps c (fst sm) (fst (snd (work_once cd c mo run w shard uuid clk env jitter sm)))"
    using assms(1,3,4) by (intro steps_work_once) auto
  then have s1: "queue_steps c (fst sm) (fst sm1)" using assms(7) by simp
  have s2: "queue_steps c (fst sm) (fst (wk_world wk))"
    by (rule worker_run_steps [OF assms(1) _ assms(4,5,8)]) (rule assms(6))
  show ?thesis using s1 s2 steps_queue_ok [OF _ assms(1,2)] by blast
qed

definition sample_run :: "QueryRequest \<Rightarrow> ExecutionContext \<Rightarrow> unit world \<Rightarrow> QueryResult res \<times> unit world" where
  "sample_run r ctx sm = (Inr sample_result, sm)"

lemma quiet_id [simp]: "quiet c (\<lambda>sm. sm)"
  by (simp add: quiet_def)

definition sample_turn :: "rat \<Rightarrow> unit turn" where
  "sample_turn now = \<lparr>tn_stop = False, tn_now = now, tn_uuid = ''u'', tn_clk = (\<lambda>n. 20000 + int n),
     tn_env = (\<lambda>_ sm. sm), tn_jitter = 1, tn_jits = (\<lambda>_. 1), tn_reap_ms = 20000, tn_promote_ms = 20001,
     tn_others = (\<lambda>_ sm. sm)\<rparr>"

definition sample_close :: "unit world \<Rightarrow> unit res \<times> unit world" where
  "sample_close sm = (Inr (), sm)"

theorem worker_keeps_queue_safe_witness:
  "queue_ok sample_cfg (fst (wk_world (fst (snd (worker_run sample_codec sample_cfg null_meta sample_run
     sample_close ''w2'' 0 15 [sample_turn 20, (sample_turn 36)\<lparr>tn_stop := True\<rparr>] (sample_running, ()))))))"
proof -
  let ?tns = "[sample_turn 20, (sample_turn 36)\<lparr>tn_stop := True\<rparr>]"
  let ?r = "worker_run sample_codec sample_cfg null_meta sample_run sample_close ''w2'' 0 15 ?tns (sample_running, ())"
  obtain x sm1 where w: "work_once sample_codec sample_cfg null_meta sample_run ''w2'' 0 ''u'' (\<lambda>n. 2000 + int n)
     (\<lambda>_ sm. sm) 1 (sample_running, ()) = (x, sm1)" by (rule prod.exhaust)
  have q: "\<forall>r ctx. quiet sample_cfg (\<lambda>sm. snd (sample_run r ctx sm))"
    "quiet sample_cfg (\<lambda>sm. snd (sample_close sm))" by (simp_all add: sample_run_def sample_close_def)
  have e: "\<forall>n::nat. quiet sample_cfg (\<lambda>sm :: unit world. sm)" by simp
  have i: "queue_ok sample_cfg (fst (sample_running, ()))" using sample_inv by simp
  have t: "quiet_turn sample_cfg tn" if "tn \<in> set ?tns" for tn
    using that by (auto simp: quiet_turn_def sample_turn_def)
  obtain y wk opn where r: "?r = (y, wk, opn)" by (rule prod_cases3)
  show ?thesis
    using worker_keeps_queue_safe [OF _ i e q t w r] by (simp add: r)
qed

section \<open>Outcomes\<close>





definition sample_claimed :: store where
  "sample_claimed = snd (claim_script ''a'' ''w1'' 11001 1001 60 sample_popped)"

definition sample_claimed_hash :: job_hash where
  "sample_claimed_hash = (new_job ''{}'' 1 1000 60000)\<lparr>h_status := RUNNING, h_attempts := 1,
     h_worker_id := ''w1'', h_lease_expires_ms := 11001, h_updated_at_ms := 1001\<rparr>"

definition sample_job :: ReservedJob where
  "sample_job = \<lparr>rj_id = ''a'', rj_request = sample_request, rj_attempts = 1, rj_shard = 1\<rparr>"

lemma sample_claimed_job: "jobs sample_claimed ''a'' = Some sample_claimed_hash"
  by (simp add: sample_claimed_def sample_popped_eq claim_script_def Let_def sample_claimed_hash_def
      empty_store_def expire_def new_job_def)

lemma sample_reserved: "reserve sample_codec sample_cfg null_meta ''w1'' 1 1000 1001 (sample_queued, ())
    = (Inr (Some sample_job), (sample_claimed, ()))"
proof -
  have p: "snd (promote_retries 1000 sample_queued) = sample_queued"
    by (simp add: promote_retries_def sample_queued_eq empty_store_def zrangebyscore_def)
  have "pop_to_processing 1 sample_queued = (Some ''a'', sample_popped)"
    by (simp add: sample_popped_def pop_to_processing_def sample_queued_eq rpop_def)
  then have q: "pop_job sample_cfg 1 sample_queued = (Some ''a'', sample_popped)"
    by (simp add: pop_job_def)
  have "claim_script ''a'' ''w1'' 11001 1001 60 sample_popped = (Some (''{}'', 1, 1, 1000), sample_claimed)"
    by (simp add: sample_claimed_def claim_script_def sample_popped_eq empty_store_def Let_def new_job_def)
  then show ?thesis
    using q by (simp add: reserve_def p Let_def sample_codec_def sample_job_def swallow_def null_meta_def
        del: One_nat_def)
qed



text \<open>
  A worker that has lost its job changes nothing: if, when the query has been executed, the
  job is not running under this worker with an unexpired lease, then whatever the outcome, the
  queue's state in Valkey after the unit of work is the one the execution left.
\<close>

theorem lost_job_untouched:
  assumes "reserve cd c mo w shard (clk 0) (clk 1) sm = (Inr (Some job), sm1)"
    and "run (rj_request job) (job_context job uuid) sm1 = (result, (s2, m2))"
    and "\<forall>h n. jobs s2 (rj_id job) = Some h \<and> 2 \<le> n \<longrightarrow>
      h_status h \<noteq> RUNNING \<or> h_worker_id h \<noteq> w \<or> h_lease_expires_ms h \<le> clk n"
    and "work_once cd c mo run w shard uuid clk (\<lambda>_ sm. sm) jitter sm = (x, sm3)"
  shows "fst sm3 = s2 \<and> is_ok x"
proof -
  let ?j = "rj_id job" and ?clk = "\<lambda>n. clk (n + 2)"
  have lost: "\<not> holds_lease w (clk (Suc (Suc n))) h" if "jobs s2 ?j = Some h" for h n
    using assms(3) that by (auto simp: holds_lease_def)
  have refuse: "complete_script ?j w r (clk (Suc (Suc n))) ttl s2 = (False, s2)"
    "terminal_script ?j w st err (clk (Suc (Suc n))) ttl s2 = (False, s2)"
    "retry_script ?j w mx err (clk (Suc (Suc n))) nx ttl s2 = (False, s2)" for r n ttl st err mx nx
    using refused_unchanged [of s2 ?j w "clk (Suc (Suc n))"] lost by simp_all
  have own: "\<not> owns ?j w (clk (Suc (Suc n))) s2" for n
  proof (cases "jobs s2 ?j")
    case (Some h)
    then show ?thesis using lost [of h n] by (auto simp: owns_def holds_lease_def)
  qed (simp add: owns_def)
  have x: "(x, sm3) = (let (outcome, sm3) = (case result of
        Inl e \<Rightarrow> (if isinstance e [QueryCancelled] then finish_cancelled cd c mo ?j w ?clk (\<lambda>_ sm. sm) jitter (s2, m2)
          else if isinstance e [CommitFenced] then finish_fenced c mo ?j w ?clk (\<lambda>_ sm. sm) (s2, m2)
          else finish_error cd c mo ?j w ?clk (\<lambda>_ sm. sm) jitter e (s2, m2))
      | Inr v \<Rightarrow> finish_result cd c mo ?j w ?clk (\<lambda>_ sm. sm) v (s2, m2)) in (bindE outcome (\<lambda>m. Inr (True, m)), sm3))"
    using assms(4) [symmetric] by (simp only: work_once_def assms(1,2) Let_def prod.case sum.case option.case)
  show ?thesis
    using x own
    by (cases result; simp only: sum.case Let_def)
      (simp_all add: finish_cancelled_def finish_fenced_def finish_error_def finish_result_def
        cancel_complete_def complete_def refuse Let_def split: if_splits)
qed

theorem lost_job_untouched_witness:
  "fst (snd (work_once sample_codec sample_cfg null_meta sample_run ''w1'' 1 ''u''
     (\<lambda>n. if n < 2 then 1000 + int n else 20000) (\<lambda>_ sm. sm) 1 (sample_queued, ()))) = sample_claimed"
proof -
  let ?clk = "\<lambda>n :: nat. if n < 2 then 1000 + int n else 20000"
  have ticks: "?clk 0 = 1000" "?clk 1 = 1001" by simp_all
  have r: "reserve sample_codec sample_cfg null_meta ''w1'' 1 (?clk 0) (?clk 1) (sample_queued, ())
      = (Inr (Some sample_job), (sample_claimed, ()))" unfolding ticks by (rule sample_reserved)
  have t: "sample_run (rj_request sample_job) (job_context sample_job ''u'') (sample_claimed, ())
      = (Inr sample_result, (sample_claimed, ()))" by (simp add: sample_run_def)
  have l: "\<forall>h n. jobs sample_claimed (rj_id sample_job) = Some h \<and> 2 \<le> n \<longrightarrow>
      h_status h \<noteq> RUNNING \<or> h_worker_id h \<noteq> ''w1'' \<or> h_lease_expires_ms h \<le> ?clk n"
    using sample_claimed_job by (auto simp: sample_job_def sample_claimed_hash_def)
  obtain x sm3 where w: "work_once sample_codec sample_cfg null_meta sample_run ''w1'' 1 ''u'' ?clk
      (\<lambda>_ sm. sm) 1 (sample_queued, ()) = (x, sm3)" by (rule prod.exhaust)
  show ?thesis unfolding w using lost_job_untouched [where clk = ?clk, OF r t l w] by simp
qed

section \<open>Heartbeats\<close>

text \<open>Each tick comes before the lease the previous one set has expired.\<close>

fun timely :: "int \<Rightarrow> int \<Rightarrow> int list \<Rightarrow> bool" where
  "timely lease expires [] = True"
| "timely lease expires (now # ticks) = (now < expires \<and> timely lease (now + lease) ticks)"

definition leases_only :: "string \<Rightarrow> (int \<Rightarrow> store \<Rightarrow> store) \<Rightarrow> bool" where
  "leases_only j others = (\<forall>now s h. jobs s j = Some h \<longrightarrow> jobs (others now s) j = Some h)"

lemma heartbeat_tick:
  assumes "jobs s j = Some h" "h_status h = RUNNING" "h_worker_id h = w" "now < h_lease_expires_ms h"
  shows "\<exists>ttl. heartbeat c j w now s = (True, set_job j
      (h\<lparr>h_lease_expires_ms := now + lease_seconds c * 1000, h_updated_at_ms := now, h_ttl := ttl\<rparr>) s)"
  using assms by (auto simp: heartbeat_def heartbeat_script_def holds_lease_def)

text \<open>The clocks of the ticks that reached Valkey.\<close>

definition reached :: "(int \<times> beat_fault) list \<Rightarrow> int list" where
  "reached ticks = map fst (filter (\<lambda>(_, fault). fault \<noteq> Unreached) ticks)"

lemma reached_simps [simp]:
  "reached [] = []" "reached ((now, Unreached) # ticks) = reached ticks"
  "reached ((now, NoFault) # ticks) = now # reached ticks"
  "reached ((now, Unanswered) # ticks) = now # reached ticks"
  by (simp_all add: reached_def)

text \<open>
  C40. Heartbeats keep the lease, through failing connections: as long as each tick that reaches
  Valkey comes before the previous lease expires, nobody else touches the job and no
  cancellation is requested, the heartbeat thread never cancels the query, whatever ticks are
  lost or stay unanswered in between, and the worker holds a lease of full length from the last
  tick that got through. The first tick that gets an answer when cancellation was requested
  cancels the query.
\<close>

theorem heartbeats_keep_lease:
  assumes "leases_only j others" and "jobs s j = Some h" and "h_status h = RUNNING" and "h_worker_id h = w"
    and "timely (lease_seconds c * 1000) (h_lease_expires_ms h) (reached ticks)"
  shows "(\<not> h_cancel_requested h \<longrightarrow> (\<exists>s' h'. heartbeat_run c j w others ticks s = (False, s')
      \<and> jobs s' j = Some h' \<and> h_status h' = RUNNING \<and> h_worker_id h' = w
      \<and> h_lease_expires_ms h' = (if reached ticks = [] then h_lease_expires_ms h
           else last (reached ticks) + lease_seconds c * 1000)))
    \<and> (h_cancel_requested h \<and> NoFault \<in> snd ` set ticks \<longrightarrow> fst (heartbeat_run c j w others ticks s))"
  using assms
proof (induction ticks arbitrary: s h)
  case (Cons tick ticks)
  obtain now fault where tick_eq: "tick = (now, fault)" by (rule prod.exhaust)
  let ?s = "others now s" and ?h = "\<lambda>ttl. h\<lparr>h_lease_expires_ms := now + lease_seconds c * 1000,
      h_updated_at_ms := now, h_ttl := ttl\<rparr>"
  have o: "jobs ?s j = Some h" using Cons.prems by (simp add: leases_only_def)
  show ?case
  proof (cases "fault = Unreached")
    case True
    then show ?thesis using Cons.IH [OF Cons.prems(1) o Cons.prems(3,4)] Cons.prems(5) tick_eq by auto
  next
    case False
    then have r: "reached (tick # ticks) = now # reached ticks" by (cases fault) (simp_all add: tick_eq)
    have "now < h_lease_expires_ms h" using Cons.prems(5) unfolding r by simp
    from heartbeat_tick [OF o Cons.prems(3,4) this]
    obtain ttl where tick: "heartbeat c j w now ?s = (True, set_job j (?h ttl) ?s)" by blast
    define h1 where "h1 = ?h ttl"
    note beat = tick [folded h1_def]
    have h1: "h_status h1 = RUNNING" "h_worker_id h1 = w" "h_cancel_requested h1 = h_cancel_requested h"
      "h_lease_expires_ms h1 = now + lease_seconds c * 1000"
      using Cons.prems(3,4) by (simp_all add: h1_def)
    have flag: "cancel_requested j w (set_job j h1 ?s) = h_cancel_requested h"
      using h1 by (simp add: cancel_requested_def)
    have "jobs (set_job j h1 ?s) j = Some h1" by simp
    note ih = Cons.IH [OF Cons.prems(1) this h1(1,2), unfolded h1(3,4)]
    have "timely (lease_seconds c * 1000) (now + lease_seconds c * 1000) (reached ticks)"
      using Cons.prems(5) unfolding r by simp
    note ih = ih [OF this]
    show ?thesis using ih False unfolding r by (cases fault) (auto simp: tick_eq beat flag)
  qed
qed simp

definition sample_tick :: "int \<Rightarrow> store \<Rightarrow> store" where
  "sample_tick now s = s"

theorem heartbeats_keep_lease_witness:
  "\<not> fst (heartbeat_run sample_cfg ''a'' ''w1'' sample_tick
     [(4000, NoFault), (8000, Unreached), (10000, Unanswered), (12000, NoFault)] sample_claimed)"
proof -
  let ?ticks = "[(4000, NoFault), (8000, Unreached), (10000, Unanswered), (12000, NoFault)]"
  have q: "leases_only ''a'' sample_tick" by (simp add: leases_only_def sample_tick_def)
  have h: "h_status sample_claimed_hash = RUNNING" "h_worker_id sample_claimed_hash = ''w1''"
    "\<not> h_cancel_requested sample_claimed_hash"
    by (simp_all add: sample_claimed_hash_def new_job_def)
  have t: "timely (lease_seconds sample_cfg * 1000) (h_lease_expires_ms sample_claimed_hash) (reached ?ticks)"
    by (simp add: sample_claimed_hash_def sample_cfg_def make_queue_def)
  show ?thesis using heartbeats_keep_lease [OF q sample_claimed_job h(1,2) t] h(3) by auto
qed

section \<open>Shard affinity of workers\<close>

lemma takeWhile_digits: "takeWhile is_digit (rev (p @ CHR ''-'' # dec_of_nat n)) = rev (dec_of_nat n)"
proof -
  have "is_digit c" if "c \<in> set (dec_of_nat n)" for c
    using dec_of_nat_digits [OF that] by (auto simp: is_digit_def digit_char_def less_eq_char_def)
  moreover have "\<not> is_digit CHR ''-''" by (simp add: is_digit_def)
  ultimately show ?thesis by (simp, subst takeWhile_append2) auto
qed

lemma worker_shard_ordinal:
  "worker_shard (p @ ''-worker-'' @ dec_of_nat n) None shards = (n - 1) mod shards"
proof -
  have digits: "takeWhile is_digit (rev (p @ ''-worker-'' @ dec_of_nat n)) = rev (dec_of_nat n)"
    using takeWhile_digits [of "p @ ''-worker''" n] by simp
  have "contains ''-worker-'' (p @ ''-worker-'' @ dec_of_nat n)"
    unfolding contains_iff by blast
  then show ?thesis unfolding worker_shard_def digits
    by (simp add: Let_def)
qed

text \<open>
  Every shard has a worker that prefers it: the shard is always below the number of shards,
  and the one-based suffixes \<open>-worker-1\<close> to \<open>-worker-n\<close> that Compose gives are spread one per
  shard.
\<close>

theorem worker_shards_covered:
  assumes "0 < shards"
  shows "worker_shard hostname preset shards < shards
    \<and> (\<forall>i < shards. worker_shard (p @ ''-worker-'' @ dec_of_nat (Suc i)) None shards = i)"
proof -
  have "worker_shard hostname preset shards < shards"
    using assms by (simp add: worker_shard_def Let_def split: option.split)
  then show ?thesis by (simp only: worker_shard_ordinal) simp
qed

theorem worker_shards_covered_witness:
  "worker_shard ''dalmatian-worker-3'' None 4 = 2 \<and> worker_shard ''dalmatian-worker-4'' None 4 = 3"
proof -
  have d: "dec_of_nat (Suc 2) = ''3''" "dec_of_nat (Suc 3) = ''4''" by code_simp+
  have "\<forall>i<4. worker_shard (''dalmatian'' @ ''-worker-'' @ dec_of_nat (Suc i)) None 4 = i"
    using worker_shards_covered [of 4 "[]" None "''dalmatian''"] by simp
  from spec [OF this, of 2] spec [OF this, of 3] show ?thesis unfolding d by simp
qed

text \<open>
  The zero-based ordinals of the Helm StatefulSet \<open>...-worker\<close> have the same form of name: the
  first two share shard 0, and of as many workers as shards none prefers the last shard.
\<close>

lemma helm_ordinals_collide:
  "worker_shard (p @ ''-worker-'' @ dec_of_nat 0) None shards = worker_shard (p @ ''-worker-'' @ dec_of_nat 1) None shards"
  "1 < shards \<Longrightarrow> i < shards \<Longrightarrow> worker_shard (p @ ''-worker-'' @ dec_of_nat i) None shards \<noteq> shards - 1"
  unfolding worker_shard_ordinal by simp_all

end
