(* ===== verification/Paths.thy ===== *)
theory Paths
  imports Storage
begin

text \<open>
  Local paths: \<open>src/dalmatian/paths.py\<close> and the parts of \<open>pathlib\<close> and \<open>urllib\<close> it and
  \<open>datasets.py\<close> use. A \<open>Path\<close> is its \<open>str\<close>: segments joined by slashes, with empty and \<open>.\<close> segments
  collapsed (the POSIX special case of exactly two leading slashes is not modelled). What only
  the file system knows (\<open>Path.resolve\<close>, \<open>glob\<close>, \<open>is_file\<close>, \<open>exists\<close>, \<open>rglob\<close>, \<open>stat\<close>) is the
  parameter \<open>fs\<close>.
\<close>

section \<open>Path objects\<close>

record filesystem =
  fs_resolve :: "string \<Rightarrow> string"
  fs_glob :: "string \<Rightarrow> string list"
  fs_is_file :: "string \<Rightarrow> bool"
  fs_exists :: "string \<Rightarrow> bool"
  fs_rglob :: "string \<Rightarrow> string list"
  fs_stat :: "string \<Rightarrow> nat \<times> nat"

definition segments :: "string \<Rightarrow> string list" where
  "segments p = filter (\<lambda>w. w \<noteq> [] \<and> w \<noteq> ''.'') (split_on CHR ''/'' p)"

definition is_absolute :: "string \<Rightarrow> bool" where
  "is_absolute p = starts_with p ''/''"

text \<open>\<open>str(Path(p))\<close>.\<close>

definition path_str :: "string \<Rightarrow> string" where
  "path_str p =
     (if is_absolute p then CHR ''/'' # join_on CHR ''/'' (segments p)
      else if segments p = [] then ''.'' else join_on CHR ''/'' (segments p))"

text \<open>\<open>str(root / p)\<close>.\<close>

definition path_join :: "string \<Rightarrow> string \<Rightarrow> string" where
  "path_join base p = (if is_absolute p then path_str p else path_str (base @ CHR ''/'' # p))"

definition is_relative_to :: "string \<Rightarrow> string \<Rightarrow> bool" where
  "is_relative_to p base =
     (is_absolute p = is_absolute base \<and> take (length (segments base)) (segments p) = segments base)"

text \<open>\<open>sorted\<close> on paths compares the lists of parts.\<close>

definition sort_paths :: "string list \<Rightarrow> string list" where
  "sort_paths ps = sort_key (split_on CHR ''/'') ps"

section \<open>Percent encoding\<close>

definition hex_upper :: "nat \<Rightarrow> char" where
  "hex_upper d = (if d < 10 then char_of (48 + d) else char_of (55 + d))"

definition uri_safe :: "char \<Rightarrow> bool" where
  "uri_safe c = (is_alpha c \<or> is_digit c \<or> c \<in> {CHR ''_'', CHR ''.'', CHR ''-'', CHR ''~'', CHR ''/''})"

definition quote_path :: "string \<Rightarrow> string" where
  "quote_path p = concat (map (\<lambda>c. if uri_safe c then [c]
     else [CHR ''%'', hex_upper (of_char c div 16), hex_upper (of_char c mod 16)]) p)"

definition as_uri :: "string \<Rightarrow> string" where
  "as_uri p = ''file://'' @ quote_path p"

definition hex_val :: "char \<Rightarrow> nat option" where
  "hex_val c =
     (if is_digit c then Some (of_char c - 48)
      else if CHR ''a'' \<le> c \<and> c \<le> CHR ''f'' then Some (of_char c - 87)
      else if CHR ''A'' \<le> c \<and> c \<le> CHR ''F'' then Some (of_char c - 55)
      else None)"

fun unquote :: "string \<Rightarrow> string" where
  "unquote [] = []"
| "unquote (c # a # b # r) =
     (if c = CHR ''%'' then
        (case (hex_val a, hex_val b) of
           (Some x, Some y) \<Rightarrow> char_of (16 * x + y) # unquote r
         | _ \<Rightarrow> c # unquote (a # b # r))
      else c # unquote (a # b # r))"
| "unquote (c # r) = c # unquote r"

lemma hex_val_upper:
  assumes "d < 16"
  shows "hex_val (hex_upper d) = Some d"
proof -
  have "d \<in> set [0..<16]" using assms by simp
  moreover have "list_all (\<lambda>d. hex_val (hex_upper d) = Some d) [0..<16]" by code_simp
  ultimately show ?thesis by (simp add: list_all_iff)
qed

lemma unquote_other: "c \<noteq> CHR ''%'' \<Longrightarrow> unquote (c # r) = c # unquote r"
proof (cases r)
  case (Cons a r')
  then show "c \<noteq> CHR ''%'' \<Longrightarrow> ?thesis" by (cases r') auto
qed simp

lemma unquote_quote_append: "unquote (quote_path p @ r) = p @ unquote r"
proof (induction p)
  case Nil
  then show ?case by (simp add: quote_path_def)
next
  case (Cons c p)
  show ?case
  proof (cases "uri_safe c")
    case True
    then have "c \<noteq> CHR ''%''" by (auto simp: uri_safe_def is_alpha_def is_digit_def)
    with True Cons show ?thesis by (simp add: quote_path_def unquote_other)
  next
    case False
    have "of_char c div 16 < (16 :: nat)" "of_char c mod 16 < (16 :: nat)"
      using nat_of_char_less_256 [of c] by linarith+
    with False Cons show ?thesis by (simp add: quote_path_def hex_val_upper)
  qed
qed

lemma unquote_quote_path [simp]: "unquote (quote_path p) = p"
  using unquote_quote_append [of p "[]"] by simp

lemma quote_path_chars:
  assumes "c \<in> set (quote_path p)"
  shows "uri_safe c \<or> c = CHR ''%''"
proof -
  have hex: "uri_safe (hex_upper d)" if "d < 16" for d
  proof -
    have "d \<in> set [0..<16]" using that by simp
    moreover have "list_all (\<lambda>d. uri_safe (hex_upper d)) [0..<16]" by code_simp
    ultimately show ?thesis by (simp add: list_all_iff)
  qed
  have "of_char x div 16 < (16 :: nat)" for x :: char using nat_of_char_less_256 [of x] by linarith
  with assms hex show ?thesis by (auto simp: quote_path_def split: if_splits)
qed

section \<open>Segments\<close>

lemma segments_append: "segments (p @ CHR ''/'' # q) = segments p @ segments q"
  by (simp add: segments_def split_on_append)

lemma split_on_join_on:
  "ws \<noteq> [] \<Longrightarrow> (\<forall>w \<in> set ws. c \<notin> set w) \<Longrightarrow> split_on c (join_on c ws) = ws"
proof (induction c ws rule: join_on.induct)
  case (3 c w v ws)
  then show ?case by (simp add: split_on_append split_on_single)
qed (simp_all add: split_on_single)

lemma segments_join: "segments (join_on CHR ''/'' (segments p)) = segments p"
proof (cases "segments p = []")
  case False
  then have "split_on CHR ''/'' (join_on CHR ''/'' (segments p)) = segments p"
    by (intro split_on_join_on) (auto simp: segments_def dest: split_on_no_sep)
  then show ?thesis by (simp add: segments_def [of "join_on _ _"]) (simp add: segments_def)
next
  case True
  then show ?thesis by (simp add: segments_def [of "[]"])
qed

lemma segments_path_str [simp]: "segments (path_str p) = segments p"
proof -
  have "segments (CHR ''/'' # q) = segments q" for q
    using segments_append [of "[]" q] by (simp add: segments_def)
  then show ?thesis by (simp add: path_str_def segments_join) (simp add: segments_def)
qed

lemma relative_join: "\<not> is_absolute (join_on CHR ''/'' (segments p))"
proof (cases "segments p")
  case Nil
  then show ?thesis by (simp add: is_absolute_def)
next
  case (Cons w ws)
  then have "w \<in> set (segments p)" by simp
  then have "w \<noteq> []" "CHR ''/'' \<notin> set w"
    by (auto simp: segments_def dest: split_on_no_sep)
  then obtain x w' where "w = x # w'" "x \<noteq> CHR ''/''" by (cases w) auto
  moreover obtain r where "join_on CHR ''/'' (w # ws) = w @ r" by (cases ws) auto
  ultimately show ?thesis using Cons by (simp add: is_absolute_def)
qed

lemma is_absolute_path_str [simp]: "is_absolute (path_str p) = is_absolute p"
  using relative_join [of p] by (simp add: path_str_def) (simp add: is_absolute_def)

section \<open>Wildcards\<close>

definition wildcard :: "char \<Rightarrow> bool" where
  "wildcard c = (c \<in> {CHR ''*'', CHR ''?'', CHR ''['', CHR ''{''})"

text \<open>The pattern up to the first of the wildcard characters, the whole pattern without one.\<close>

definition static_prefix :: "string \<Rightarrow> string" where
  "static_prefix pattern = takeWhile (\<lambda>c. \<not> wildcard c) pattern"

definition resolve_paths :: "filesystem \<Rightarrow> string \<Rightarrow> string \<Rightarrow> string list res" where
  "resolve_paths fs pattern data_root =
     (let base = fs_resolve fs data_root;
          absolute_pattern = path_join base pattern;
          pre = static_prefix absolute_pattern;
          prefix_path = fs_resolve fs (path_str (if pre = [] then base else pre));
          outside = raise PathOutsideDataRoot (''path must stay under '' @ base) in
      if \<not> is_relative_to prefix_path base then outside
      else if \<not> list_ex wildcard absolute_pattern then
        (let resolved = fs_resolve fs absolute_pattern in
         if \<not> is_relative_to resolved base then outside
         else if \<not> fs_exists fs resolved
           then raise NoFilesMatched (''no file or directory found for '' @ pattern)
         else Inr [resolved])
      else
        (let matches = map (fs_resolve fs) (fs_glob fs absolute_pattern);
             files = sort_paths (remdups (filter (\<lambda>p. fs_is_file fs p \<and> is_relative_to p base) matches)) in
         if files = [] then raise NoFilesMatched (''no files matched '' @ pattern) else Inr files))"

lemma resolve_paths_under:
  "resolve_paths fs pattern data_root = Inr ps \<Longrightarrow> p \<in> set ps \<Longrightarrow> is_relative_to p (fs_resolve fs data_root)"
  by (auto simp: resolve_paths_def sort_paths_def Let_def split: if_splits)

text \<open>
  C32. Path resolution is confined to the data root: whatever the pattern and the file system
  (absolute patterns, \<open>..\<close> segments, wildcards, symbolic links), every path that
  \<open>resolve_paths\<close> returns is a resolved path under the resolved data root, at least one is
  returned, and with wildcards they are existing files in ascending order without repetition.
\<close>

theorem resolve_paths_confined:
  assumes "resolve_paths fs pattern data_root = Inr ps"
  shows "ps \<noteq> [] \<and> distinct ps \<and> sorted (map (split_on CHR ''/'') ps)
    \<and> (\<forall>p \<in> set ps. is_relative_to p (fs_resolve fs data_root) \<and> (\<exists>q. p = fs_resolve fs q))
    \<and> (list_ex wildcard (path_join (fs_resolve fs data_root) pattern) \<longrightarrow> (\<forall>p \<in> set ps. fs_is_file fs p))"
  using assms
  by (auto simp: resolve_paths_def sort_paths_def Let_def split: if_splits)

definition sample_fs :: filesystem where
  "sample_fs = \<lparr>fs_resolve = (\<lambda>p. p), fs_glob = (\<lambda>_. [''/d/a.csv'', ''/e/b.csv'']), fs_is_file = (\<lambda>_. True),
     fs_exists = (\<lambda>_. True), fs_rglob = (\<lambda>_. []), fs_stat = (\<lambda>_. (1, 2))\<rparr>"

theorem resolve_paths_confined_witness:
  "resolve_paths sample_fs ''*.csv'' ''/d'' = Inr [''/d/a.csv''] \<and> is_relative_to ''/d/a.csv'' ''/d''"
proof -
  have r: "resolve_paths sample_fs ''*.csv'' ''/d'' = Inr [''/d/a.csv'']"
    by code_simp
  show ?thesis using resolve_paths_confined [OF r] r by (simp add: sample_fs_def)
qed

end
