(* ===== verification/Datasets.thy ===== *)
theory Datasets
  imports Paths Fingerprint
begin

text \<open>
  \<open>src/dalmatian/datasets.py\<close>: the resolution of a source to a URI with a fingerprint, and
  \<open>DatasetCache\<close>, a bounded least-recently-used cache with a time to live. An \<open>OrderedDict\<close> is an
  association list, oldest entry first. \<open>dc_released\<close> records the values that were given to
  \<open>release\<close>; the monotonic clock is an argument of each operation.
\<close>

section \<open>Resolved sources\<close>

record ResolvedSource =
  rs_uri :: string
  rs_fingerprint :: string
  rs_cache_safe :: bool
  rs_read_uris :: "string list option"

record PreparedQuery =
  pq_request :: QueryRequest
  pq_sources :: "(string \<times> ResolvedSource) list"
  pq_normalized_sql :: string

definition pq_source_versions :: "PreparedQuery \<Rightarrow> (string \<times> string) list" where
  "pq_source_versions p = map (map_prod id rs_fingerprint) (pq_sources p)"

definition pq_cache_safe :: "PreparedQuery \<Rightarrow> bool" where
  "pq_cache_safe p = list_all (\<lambda>q. rs_cache_safe (snd q)) (pq_sources p)"

definition source_destination ::
  "filesystem \<Rightarrow> 'm metadata_ref \<Rightarrow> storage_registry \<Rightarrow> string \<Rightarrow> SourceSpec \<Rightarrow> ResolvedDestination res"
where
  "source_destination fs md sr data_root src =
     (case src_location src of
        None \<Rightarrow>
          (if escapes_root (src_path src)
           then raise ValueError (''source path must be relative and cannot contain '' @ quoted ''..'')
           else (let clean = strip CHR ''/'' (src_path src) in
             Inr \<lparr>dst_location = ''local'', dst_path = clean,
                  dst_uri = as_uri (fs_resolve fs data_root) @ CHR ''/'' # clean\<rparr>))
      | Some l \<Rightarrow> resolve_source_location md sr (Some l) (src_path src))"

text \<open>\<open>p.relative_to(base)\<close>, on the texts alone.\<close>

definition relative_to :: "string \<Rightarrow> string \<Rightarrow> string option" where
  "relative_to p base =
     (if is_relative_to p base
      then Some (path_str (join_on CHR ''/'' (drop (length (segments base)) (segments p)))) else None)"

definition star_glob :: "char \<Rightarrow> bool" where
  "star_glob c = (c \<in> {CHR ''*'', CHR ''?'', CHR ''[''})"

definition local_matches :: "filesystem \<Rightarrow> string \<Rightarrow> string \<Rightarrow> string list res" where
  "local_matches fs data_root local_path =
     (case relative_to local_path (fs_resolve fs data_root) of
        None \<Rightarrow> Inr (if list_ex star_glob local_path
                     then sort_paths (map path_str (fs_glob fs local_path)) else [local_path])
      | Some relative \<Rightarrow> resolve_paths fs relative data_root)"

definition source_files :: "filesystem \<Rightarrow> string list \<Rightarrow> (string \<times> nat \<times> nat) list" where
  "source_files fs matches =
     concat (map (\<lambda>p. map (\<lambda>c. (c, fs_stat fs c))
       (if fs_is_file fs p then [p] else sort_paths (filter (fs_is_file fs) (fs_rglob fs p)))) matches)"

definition file_json :: "string \<times> nat \<times> nat \<Rightarrow> json" where
  "file_json f = JArr [JStr (fst f), JInt (int (fst (snd f))), JInt (int (snd (snd f)))]"

definition declared_payload :: "string \<Rightarrow> SourceSpec \<Rightarrow> string \<Rightarrow> json" where
  "declared_payload uri src version = JObj [(''uri'', JStr uri),
     (''format'', JStr (data_format_value (src_format src))), (''options'', json_dict (src_options src)),
     (''schema'', json_schema (src_schema src)), (''infer_schema'', JBool (src_infer_schema src)),
     (''version'', JStr version)]"

definition files_payload :: "SourceSpec \<Rightarrow> (string \<times> nat \<times> nat) list \<Rightarrow> json" where
  "files_payload src files = JObj [(''format'', JStr (data_format_value (src_format src))),
     (''options'', json_dict (src_options src)), (''schema'', json_schema (src_schema src)),
     (''infer_schema'', JBool (src_infer_schema src)), (''files'', JArr (map file_json files))]"

definition resolve_source ::
  "(string \<Rightarrow> string) \<Rightarrow> filesystem \<Rightarrow> 'm metadata_ref \<Rightarrow> storage_registry \<Rightarrow> string \<Rightarrow> SourceSpec
   \<Rightarrow> ResolvedSource res" where
  "resolve_source sha256 fs md sr data_root src =
     bindE (source_destination fs md sr data_root src) (\<lambda>d.
     (case src_version src of
        Some version \<Rightarrow>
          Inr \<lparr>rs_uri = dst_uri d, rs_fingerprint = hash_json sha256 (declared_payload (dst_uri d) src version),
               rs_cache_safe = True, rs_read_uris = None\<rparr>
      | None \<Rightarrow>
          (if url_scheme (dst_uri d) \<noteq> ''file''
           then Inr \<lparr>rs_uri = dst_uri d,
                  rs_fingerprint = hash_json sha256
                    (JObj [(''uri'', JStr (dst_uri d)), (''uncached'', JBool True)]),
                  rs_cache_safe = False, rs_read_uris = None\<rparr>
           else
             bindE (local_matches fs data_root (path_str (unquote (url_path (dst_uri d))))) (\<lambda>matches.
             (let files = source_files fs matches in
              if files = [] then raise ValueError (''source matched no files: '' @ src_path src)
              else Inr \<lparr>rs_uri = dst_uri d,
                   rs_fingerprint = hash_json sha256 (files_payload src files),
                   rs_cache_safe = True,
                   rs_read_uris = (if list_ex wildcard (src_path src)
                     then Some (map (\<lambda>f. as_uri (fs_resolve fs (fst f))) files) else None)\<rparr>)))))"

definition prepare ::
  "(string \<Rightarrow> string) \<Rightarrow> filesystem \<Rightarrow> 'm metadata_ref \<Rightarrow> storage_registry \<Rightarrow> string \<Rightarrow> QueryRequest
   \<Rightarrow> string \<Rightarrow> PreparedQuery res" where
  "prepare sha256 fs md sr data_root r normalized_sql =
     bindE (mapE (\<lambda>p. bindE (resolve_source sha256 fs md sr data_root (snd p)) (\<lambda>s. Inr (fst p, s)))
        (req_sources r))
      (\<lambda>srcs. Inr \<lparr>pq_request = r, pq_sources = srcs, pq_normalized_sql = normalized_sql\<rparr>)"

section \<open>The dataset cache\<close>

record 'v dataset_cache =
  dc_max :: nat
  dc_ttl :: int
  dc_entries :: "(string \<times> 'v \<times> rat) list"
  dc_hits :: nat
  dc_misses :: nat
  dc_released :: "'v list"

definition make_dataset_cache :: "int \<Rightarrow> int \<Rightarrow> 'v dataset_cache res" where
  "make_dataset_cache max_entries ttl_seconds =
     (if max_entries < 1 then raise ValueError ''max_entries must be at least 1''
      else if ttl_seconds < 1 then raise ValueError ''ttl_seconds must be at least 1''
      else Inr \<lparr>dc_max = nat max_entries, dc_ttl = ttl_seconds, dc_entries = [], dc_hits = 0,
                dc_misses = 0, dc_released = []\<rparr>)"

definition pop_key :: "string \<Rightarrow> (string \<times> 'a) list \<Rightarrow> (string \<times> 'a) list" where
  "pop_key k es = filter (\<lambda>e. fst e \<noteq> k) es"

definition dc_get :: "string \<Rightarrow> rat \<Rightarrow> 'v dataset_cache \<Rightarrow> 'v option \<times> 'v dataset_cache" where
  "dc_get key now c =
     (case map_of (dc_entries c) key of
        None \<Rightarrow> (None, c)
      | Some (v, expires_at) \<Rightarrow>
          (if expires_at \<le> now
           then (None, c\<lparr>dc_entries := pop_key key (dc_entries c), dc_released := dc_released c @ [v]\<rparr>)
           else (Some v, c\<lparr>dc_entries := pop_key key (dc_entries c) @ [(key, v, expires_at)],
                           dc_hits := dc_hits c + 1\<rparr>)))"

fun evict :: "nat \<Rightarrow> (string \<times> 'v \<times> rat) list \<Rightarrow> 'v list \<Rightarrow> (string \<times> 'v \<times> rat) list \<times> 'v list" where
  "evict mx [] released = ([], released)"
| "evict mx (e # es) released =
     (if Suc (length es) > mx then evict mx es (released @ [fst (snd e)]) else (e # es, released))"

definition dc_put :: "string \<Rightarrow> 'v \<Rightarrow> rat \<Rightarrow> 'v dataset_cache \<Rightarrow> 'v dataset_cache" where
  "dc_put key v now c =
     (let old = (case map_of (dc_entries c) key of None \<Rightarrow> [] | Some (w, _) \<Rightarrow> [w]);
          (es, released) = evict (dc_max c)
            (pop_key key (dc_entries c) @ [(key, v, now + of_int (dc_ttl c))]) (dc_released c @ old)
      in c\<lparr>dc_entries := es, dc_released := released\<rparr>)"

text \<open>The second look is under the key's lock; \<open>others\<close> is what other threads did in between.\<close>

definition get_or_load ::
  "string \<Rightarrow> 'v res \<Rightarrow> rat \<Rightarrow> rat \<Rightarrow> rat \<Rightarrow> ('v dataset_cache \<Rightarrow> 'v dataset_cache) \<Rightarrow> 'v dataset_cache
   \<Rightarrow> ('v \<times> bool) res \<times> 'v dataset_cache" where
  "get_or_load key loaded t1 t2 t3 others c =
     (case dc_get key t1 c of
        (Some v, c1) \<Rightarrow> (Inr (v, True), c1)
      | (None, c1) \<Rightarrow>
          (case dc_get key t2 (others c1) of
             (Some v, c2) \<Rightarrow> (Inr (v, True), c2)
           | (None, c2) \<Rightarrow>
               (case loaded of
                  Inl e \<Rightarrow> (Inl e, c2)
                | Inr v \<Rightarrow> (Inr (v, False), (let c3 = dc_put key v t3 c2 in c3\<lparr>dc_misses := dc_misses c3 + 1\<rparr>)))))"

text \<open>
  The label of \<open>CACHE_DATASET\<close> that \<open>SparkEngine._load_cached_view\<close> counts, from the hit counter before
  and after the call.
\<close>

definition dataset_label :: "nat \<Rightarrow> bool \<Rightarrow> 'v dataset_cache \<Rightarrow> string" where
  "dataset_label hits_before hit c = (if hit \<or> dc_hits c > hits_before then ''hit'' else ''miss'')"

definition dc_close :: "'v dataset_cache \<Rightarrow> 'v dataset_cache" where
  "dc_close c = c\<lparr>dc_entries := [], dc_released := dc_released c @ map (\<lambda>e. fst (snd e)) (dc_entries c)\<rparr>"

section \<open>Invariant of the cache\<close>

definition dc_ok :: "'v dataset_cache \<Rightarrow> bool" where
  "dc_ok c = (0 < dc_max c \<and> length (dc_entries c) \<le> dc_max c \<and> distinct (map fst (dc_entries c)))"

definition dc_values :: "'v dataset_cache \<Rightarrow> 'v list" where
  "dc_values c = map (\<lambda>e. fst (snd e)) (dc_entries c)"

text \<open>Every value the cache was ever given, in it or released.\<close>

definition dc_owned :: "'v dataset_cache \<Rightarrow> 'v multiset" where
  "dc_owned c = mset (dc_values c) + mset (dc_released c)"

lemma evict_eq:
  "evict mx es rel = (drop (length es - mx) es, rel @ map (\<lambda>e. fst (snd e)) (take (length es - mx) es))"
  by (induction es arbitrary: rel) (auto simp: Suc_diff_le not_less)

lemma pop_key_simps:
  "distinct (map fst es) \<Longrightarrow> distinct (map fst (pop_key k es))"
  "k \<notin> fst ` set (pop_key k es)" "length (pop_key k es) \<le> length es"
  "map_of es k = None \<Longrightarrow> pop_key k es = es"
  by (auto simp: pop_key_def distinct_map_filter map_of_eq_None_iff filter_id_conv)

lemma map_of_pop_key: "map_of (pop_key k es) k' = (if k' = k then None else map_of es k')"
  by (simp add: pop_key_def map_of_filter_neq)

lemma mset_pop_key:
  assumes "distinct (map fst es)" and "map_of es k = Some x"
  shows "mset es = add_mset (k, x) (mset (pop_key k es))"
  using assms
proof (induction es)
  case (Cons e es)
  show ?case
  proof (cases "fst e = k")
    case True
    with Cons.prems(1) have "k \<notin> fst ` set es" by auto
    then have "pop_key k es = es" by (force simp: pop_key_def filter_id_conv)
    with True Cons.prems(2) show ?thesis by (cases e) (simp add: pop_key_def)
  next
    case False
    then have "mset es = add_mset (k, x) (mset (pop_key k es))"
      using Cons by (cases e) auto
    with False show ?thesis by (simp add: pop_key_def)
  qed
qed simp

lemma length_pop_key:
  "distinct (map fst es) \<Longrightarrow> map_of es k = Some x \<Longrightarrow> Suc (length (pop_key k es)) = length es"
  by (drule (1) mset_pop_key) (metis mset_eq_length size_add_mset size_mset)

lemma dc_get_ok: "dc_ok c \<Longrightarrow> dc_ok (snd (dc_get key now c))"
  by (auto simp: dc_get_def dc_ok_def pop_key_simps length_pop_key split: option.splits)
    (meson le_trans pop_key_simps(3))

lemma dc_put_entries:
  assumes "dc_ok c"
  shows "dc_entries (dc_put key v now c) =
    (if map_of (dc_entries c) key = None \<and> length (dc_entries c) = dc_max c
     then tl (dc_entries c) else pop_key key (dc_entries c)) @ [(key, v, now + of_int (dc_ttl c))]"
proof (cases "map_of (dc_entries c) key")
  case None
  then show ?thesis using assms
    by (cases "dc_entries c")
      (auto simp: dc_put_def Let_def evict_eq pop_key_simps(4) dc_ok_def Suc_diff_le)
next
  case (Some x)
  then have "length (pop_key key (dc_entries c)) < dc_max c"
    using length_pop_key [of "dc_entries c" key x] assms by (simp add: dc_ok_def)
  with Some show ?thesis by (auto simp: dc_put_def Let_def evict_eq)
qed

lemma dc_put_fixed [simp]: "dc_max (dc_put key v now c) = dc_max c" "dc_ttl (dc_put key v now c) = dc_ttl c"
  by (simp_all add: dc_put_def Let_def split: prod.splits)

lemma dc_put_ok:
  assumes "dc_ok c"
  shows "dc_ok (dc_put key v now c)"
proof -
  have d: "distinct (map fst (dc_entries c))" and l: "length (dc_entries c) \<le> dc_max c" "0 < dc_max c"
    using assms by (simp_all add: dc_ok_def)
  show ?thesis
  proof (cases "map_of (dc_entries c) key")
    case None
    then have "key \<notin> fst ` set (dc_entries c)" by (simp add: map_of_eq_None_iff)
    then show ?thesis
      using d l None by (cases "dc_entries c") (auto simp: dc_ok_def dc_put_entries [OF assms] pop_key_simps)
  next
    case (Some x)
    then show ?thesis
      using d l length_pop_key [OF d Some] pop_key_simps(1) [OF d] pop_key_simps(2) [of key "dc_entries c"]
      by (auto simp: dc_ok_def dc_put_entries [OF assms])
  qed
qed

abbreviation entry_value :: "string \<times> 'v \<times> rat \<Rightarrow> 'v" where
  "entry_value e \<equiv> fst (snd e)"

lemma values_pop_key:
  assumes "distinct (map fst es)"
  shows "mset (map entry_value es) = mset (map entry_value (pop_key k es))
    + mset (case map_of es k of None \<Rightarrow> [] | Some (w, _) \<Rightarrow> [w])"
proof (cases "map_of es k")
  case (Some x)
  then have "mset es = add_mset (k, x) (mset (pop_key k es))" using assms by (intro mset_pop_key)
  then show ?thesis using Some by (simp split: prod.splits)
qed (simp add: pop_key_simps(4))

lemma values_evict:
  assumes "evict mx es rel = (es', rel')"
  shows "mset (map entry_value es') + mset rel' = mset (map entry_value es) + mset rel"
proof -
  have "mset (map entry_value es) = mset (map entry_value (take (length es - mx) es))
      + mset (map entry_value (drop (length es - mx) es))"
    by (metis append_take_drop_id map_append mset_append)
  then show ?thesis using assms by (auto simp: evict_eq)
qed

lemma dc_get_owned:
  assumes "dc_ok c"
  shows "dc_owned (snd (dc_get key now c)) = dc_owned c"
  using values_pop_key [of "dc_entries c" key] assms
  by (auto simp: dc_get_def dc_owned_def dc_values_def dc_ok_def split: option.splits)

lemma dc_put_owned:
  assumes "dc_ok c"
  shows "dc_owned (dc_put key v now c) = add_mset v (dc_owned c)"
proof -
  obtain es' rel' where ev: "evict (dc_max c)
      (pop_key key (dc_entries c) @ [(key, v, now + of_int (dc_ttl c))])
      (dc_released c @ (case map_of (dc_entries c) key of None \<Rightarrow> [] | Some (w, _) \<Rightarrow> [w])) = (es', rel')"
    by fastforce
  then have "dc_owned (dc_put key v now c) = mset (map entry_value es') + mset rel'"
    by (simp add: dc_owned_def dc_values_def dc_put_def Let_def)
  then show ?thesis
    using values_evict [OF ev] values_pop_key [of "dc_entries c" key] assms
    by (simp add: dc_owned_def dc_values_def dc_ok_def)
qed

section \<open>The cache as its users see it\<close>

text \<open>
  The dataset cache stays within its bound and evicts the least recently used entry: both
  operations keep at most \<open>max_entries\<close> entries with distinct keys; storing a new key in a full
  cache drops exactly the oldest entry, otherwise none but the key's old one; a hit makes its
  entry the newest.
\<close>

theorem dataset_cache_bounded_lru:
  assumes "dc_ok c"
  shows "dc_ok (snd (dc_get key now c)) \<and> dc_ok (dc_put key v now c)
    \<and> dc_entries (dc_put key v now c) =
        (if map_of (dc_entries c) key = None \<and> length (dc_entries c) = dc_max c
         then tl (dc_entries c) else pop_key key (dc_entries c)) @ [(key, v, now + of_int (dc_ttl c))]
    \<and> (\<forall>w c'. dc_get key now c = (Some w, c') \<longrightarrow>
         fst (last (dc_entries c')) = key \<and> butlast (dc_entries c') = pop_key key (dc_entries c))"
  using dc_get_ok [OF assms] dc_put_ok [OF assms] dc_put_entries [OF assms]
  by (auto simp: dc_get_def split: option.splits if_splits)

definition sample_cache :: "nat dataset_cache" where
  "sample_cache = \<lparr>dc_max = 1, dc_ttl = 10, dc_entries = [(''a'', 1, 5)], dc_hits = 0, dc_misses = 1,
     dc_released = []\<rparr>"

theorem dataset_cache_bounded_lru_witness:
  "dc_entries (dc_put ''b'' 2 3 sample_cache) = [(''b'', 2, 13)]"
proof -
  have ok: "dc_ok sample_cache" by (simp add: dc_ok_def sample_cache_def)
  show ?thesis
    using dataset_cache_bounded_lru [OF ok, of "''b''" 3 2] by (simp add: sample_cache_def)
qed

lemma map_of_snoc: "k \<notin> fst ` set xs \<Longrightarrow> map_of (xs @ [(k, v)]) k = Some v"
  by (induction xs) auto

text \<open>
  A cached dataset is returned until its time to live has passed and never after: right
  after a store, a lookup of the same key finds the value before the deadline and nothing from
  then on, and whatever a lookup finds is an entry that has not expired.
\<close>

theorem dataset_cache_ttl:
  assumes "dc_ok c"
  shows "fst (dc_get key later (dc_put key v now c)) =
      (if later < now + of_int (dc_ttl c) then Some v else None)
    \<and> (\<forall>w. fst (dc_get k2 t c) = Some w \<longrightarrow> (\<exists>e. (k2, w, e) \<in> set (dc_entries c) \<and> t < e))"
proof -
  have "key \<notin> fst ` set (tl (dc_entries c))" if "map_of (dc_entries c) key = None"
    using that unfolding map_of_eq_None_iff by (cases "dc_entries c") auto
  then have "map_of (dc_entries (dc_put key v now c)) key = Some (v, now + of_int (dc_ttl c))"
    using pop_key_simps(2) [of key "dc_entries c"]
    unfolding dc_put_entries [OF assms] by (intro map_of_snoc) simp
  then show ?thesis
    by (auto simp: dc_get_def split: option.splits if_splits dest: map_of_SomeD)
qed

theorem dataset_cache_ttl_witness:
  "fst (dc_get ''b'' 12 (dc_put ''b'' 2 3 sample_cache)) = Some 2
   \<and> fst (dc_get ''b'' 13 (dc_put ''b'' 2 3 sample_cache)) = None"
proof -
  have ok: "dc_ok sample_cache" by (simp add: dc_ok_def sample_cache_def)
  have "dc_ttl sample_cache = 10" by (simp add: sample_cache_def)
  then show ?thesis
    using dataset_cache_ttl [OF ok, of "''b''" 12 2 3] dataset_cache_ttl [OF ok, of "''b''" 13 2 3] by simp
qed

text \<open>
  Datasets are neither leaked nor released twice: through any lookup, and any load with
  other threads' operations in between, the values in the cache together with the values
  released are exactly those there were before plus the one loaded, and after closing every
  value ever stored has been released exactly once.
\<close>

theorem dataset_release_exact:
  assumes "dc_ok c" and "\<forall>c. dc_ok c \<longrightarrow> dc_ok (others c) \<and> dc_owned (others c) = dc_owned c + extra"
  shows "dc_owned (snd (dc_get key ta c)) = dc_owned c
    \<and> (\<exists>r c'. get_or_load key loaded ta tb tc others c = (r, c') \<and> dc_ok c'
        \<and> (dc_owned c' = dc_owned c \<or> dc_owned c' = dc_owned c + extra
           \<or> (\<exists>v. loaded = Inr v \<and> r = Inr (v, False) \<and> dc_owned c' = add_mset v (dc_owned c + extra)))
        \<and> mset (dc_released (dc_close c')) = dc_owned c')"
proof -
  let ?c1 = "snd (dc_get key ta c)"
  let ?c2 = "snd (dc_get key tb (others ?c1))"
  have ok: "dc_ok ?c1" "dc_ok (others ?c1)" "dc_ok ?c2"
    using assms by (simp_all add: dc_get_ok)
  have own: "dc_owned ?c1 = dc_owned c" "dc_owned ?c2 = dc_owned c + extra"
    using assms ok(1,2) by (simp_all add: dc_get_owned)
  have miss: "dc_ok (x\<lparr>dc_misses := n\<rparr>) = dc_ok x" "dc_owned (x\<lparr>dc_misses := n\<rparr>) = dc_owned x"
    for x :: "'a dataset_cache" and n by (simp_all add: dc_ok_def dc_owned_def dc_values_def)
  obtain r c' where g: "get_or_load key loaded ta tb tc others c = (r, c')" by fastforce
  have "c' = ?c1 \<or> c' = ?c2
      \<or> (\<exists>v. loaded = Inr v \<and> r = Inr (v, False)
          \<and> c' = (dc_put key v tc ?c2)\<lparr>dc_misses := dc_misses (dc_put key v tc ?c2) + 1\<rparr>)"
    using g by (auto simp: get_or_load_def Let_def split: prod.splits option.splits sum.splits)
  then have "dc_ok c' \<and> (dc_owned c' = dc_owned c \<or> dc_owned c' = dc_owned c + extra
      \<or> (\<exists>v. loaded = Inr v \<and> r = Inr (v, False) \<and> dc_owned c' = add_mset v (dc_owned c + extra)))"
    using ok own by (auto simp: miss dc_put_ok dc_put_owned)
  moreover have "mset (dc_released (dc_close c')) = dc_owned c'"
    by (simp add: dc_close_def dc_owned_def dc_values_def)
  ultimately show ?thesis using g own(1) by blast
qed

theorem dataset_release_exact_witness:
  "dc_owned (snd (dc_get ''a'' 7 sample_cache)) = {#1#}"
proof -
  have ok: "dc_ok sample_cache" by (simp add: dc_ok_def sample_cache_def)
  show ?thesis
    using dataset_release_exact [OF ok, where others = "\<lambda>c. c" and extra = "{#}" and key = "''a''" and ta = 7]
    by (simp add: sample_cache_def dc_owned_def dc_values_def)
qed

section \<open>Confinement of local sources\<close>





definition sample_local :: SourceSpec where
  "sample_local = \<lparr>src_path = ''a.csv'', src_format = DF_CSV, src_location = None, src_options = [],
     src_version = None, src_schema = None, src_infer_schema = False\<rparr>"


text \<open>
  Where the confinement ends. A named file location outside the data root takes the branch
  that only compares texts, after percent escapes have been decoded: the traversal test has seen
  \<open>%2e%2e\<close>, the file system sees \<open>..\<close>, and the files handed to Spark are outside the location.
\<close>

definition escape_fs :: filesystem where
  "escape_fs = \<lparr>fs_resolve = (\<lambda>p. if p = ''/srv/named/../x.csv'' then ''/srv/x.csv'' else p),
     fs_glob = (\<lambda>_. [''/srv/named/../x.csv'']), fs_is_file = (\<lambda>_. True), fs_exists = (\<lambda>_. True),
     fs_rglob = (\<lambda>_. []), fs_stat = (\<lambda>_. (1, 2))\<rparr>"

definition escape_registry :: storage_registry where
  "escape_registry = \<lparr>configured = [], sources = [(''named'', ''file:///srv/named'')], publication_prefix = ''p''\<rparr>"

definition escape_source :: SourceSpec where
  "escape_source = \<lparr>src_path = ''%2e%2e/*.csv'', src_format = DF_CSV, src_location = Some ''named'',
     src_options = [], src_version = None, src_schema = None, src_infer_schema = False\<rparr>"

lemma named_source_escapes:
  "map_sum id rs_read_uris (resolve_source (\<lambda>_. ''h'') escape_fs (None :: unit metadata_ref)
      escape_registry ''/data'' escape_source) = Inr (Some [''file:///srv/x.csv''])"
  by code_simp

text \<open>
  A \<open>?\<close> starts the query of a URL, so in an unversioned local path it never works as the
  wildcard the rest of the code takes it for: the pattern is cut before it.
\<close>

definition question_fs :: filesystem where
  "question_fs = \<lparr>fs_resolve = (\<lambda>p. p), fs_glob = (\<lambda>_. [''/d/part1.csv'']), fs_is_file = (\<lambda>p. p = ''/d/part1.csv''),
     fs_exists = (\<lambda>p. p = ''/d/part1.csv''), fs_rglob = (\<lambda>_. []), fs_stat = (\<lambda>_. (1, 2))\<rparr>"

lemma question_mark_cut:
  "map_sum exn_cls (\<lambda>_. ()) (resolve_source (\<lambda>_. ''h'') question_fs (None :: unit metadata_ref)
      escape_registry ''/d'' (sample_local\<lparr>src_path := ''part?.csv''\<rparr>)) = Inl NoFilesMatched
   \<and> resolve_paths question_fs ''part?.csv'' ''/d'' = Inr [''/d/part1.csv'']"
  by code_simp

text \<open>
  The hit counter is shared: when another thread hits any entry during a load, the load is counted
  as a hit.
\<close>

lemma miss_counted_as_hit:
  "let (r, c) = get_or_load ''b'' (Inr 2) 1 2 3 (\<lambda>c. snd (dc_get ''a'' 2 c)) sample_cache
   in r = Inr (2, False) \<and> dataset_label (dc_hits sample_cache) False c = ''hit''"
  by (simp add: sample_cache_def get_or_load_def dc_get_def dc_put_def pop_key_def dataset_label_def Let_def)

end
