(* ===== verification/Cache.thy ===== *)
theory Cache
  imports Models Prelude
begin

text \<open>
  \<open>src/dalmatian/cache.py\<close>: the three result caches behind the contracts \<open>result_cache\<close> (what a
  stored value reads back as, and that locks and values do not mix) and \<open>locking_cache\<close> (the
  single-flight lock), and the polling loop of \<open>wait\<close>. The Valkey cache keeps raw values with the
  deadline at which Valkey drops them, on Valkey's clock \<open>vc_now\<close> in milliseconds; \<open>encode\<close>
  (JSON and zlib) and \<open>decode\<close> (which fails on anything else) are parameters. \<open>uuid4\<close> tokens are
  arguments.
\<close>

section \<open>The contracts\<close>

locale result_cache =
  fixes get :: "string \<Rightarrow> 's \<Rightarrow> InlineResult option \<times> 's"
    and set_value :: "string \<Rightarrow> InlineResult \<Rightarrow> int \<Rightarrow> 's \<Rightarrow> bool \<times> 's"
    and acquire :: "string \<Rightarrow> int \<Rightarrow> string \<Rightarrow> 's \<Rightarrow> string option \<times> 's"
    and release :: "string \<Rightarrow> string \<Rightarrow> 's \<Rightarrow> 's"
    and reads_as :: "InlineResult \<Rightarrow> InlineResult option"
    and plain :: "string \<Rightarrow> bool"
  assumes get_hit: "get k s = (Some v, s') \<Longrightarrow> s' = s"
    and get_set: "set_value k v ttl s = (True, s') \<Longrightarrow> fst (get k s') = reads_as v"
    and set_refused: "set_value k v ttl s = (False, s') \<Longrightarrow> s' = s"
    and set_other: "k' \<noteq> k \<Longrightarrow> fst (get k' (snd (set_value k v ttl s))) = fst (get k' s)"
    and acquire_get: "plain k' \<Longrightarrow> fst (get k' (snd (acquire k ttl t s))) = fst (get k' s)"
    and release_get: "plain k' \<Longrightarrow> fst (get k' (release k t s)) = fst (get k' s)"
begin

text \<open>What the holder of the lock stored is still there for the others after it let go.\<close>

lemma store_release_get:
  "plain k \<Longrightarrow> set_value k v ttl s = (True, s') \<Longrightarrow> fst (get k (release k t s')) = reads_as v"
  by (simp add: release_get get_set)

end

text \<open>\<open>holder k s\<close> is the token of who holds the lock of \<open>k\<close>.\<close>

locale locking_cache = result_cache get set_value acquire release reads_as plain
  for get :: "string \<Rightarrow> 's \<Rightarrow> InlineResult option \<times> 's"
    and set_value acquire release reads_as plain +
  fixes holder :: "string \<Rightarrow> 's \<Rightarrow> string option"
  assumes acquire_free: "holder k s = None \<Longrightarrow> 0 < ttl \<Longrightarrow>
        \<exists>t' s'. acquire k ttl t s = (Some t', s') \<and> holder k s' = Some t'"
    and acquire_held: "holder k s = Some t0 \<Longrightarrow> acquire k ttl t s = (None, s)"
    and acquire_other: "k' \<noteq> k \<Longrightarrow> holder k' (snd (acquire k ttl t s)) = holder k' s"
    and get_holder: "plain k \<Longrightarrow> holder k' (snd (get k s)) = holder k' s"
    and set_holder: "plain k \<Longrightarrow> holder k' (snd (set_value k v ttl s)) = holder k' s"
    and release_held: "holder k s = Some t \<Longrightarrow> holder k (release k t s) = None"
    and release_other: "k' \<noteq> k \<Longrightarrow> holder k' (release k t s) = holder k' s"
begin

lemma acquire_SomeD: "acquire k ttl t s = (Some t', s') \<Longrightarrow> 0 < ttl \<Longrightarrow> holder k s = None \<and> holder k s' = Some t'"
  using acquire_free [of k s ttl t] acquire_held [of k s _ ttl t] by (cases "holder k s") auto

lemma acquire_NoneD: "acquire k ttl t s = (None, s') \<Longrightarrow> 0 < ttl \<Longrightarrow> s' = s"
  using acquire_free [of k s ttl t] acquire_held [of k s _ ttl t] by (cases "holder k s") auto

text \<open>A value stored under the lock, and the lock let go: the lock is free and the value is there.\<close>

lemma store_and_release:
  assumes "plain k" and "holder k s = Some t" and "set_value k v ttl s = (True, s')"
  shows "holder k (release k t s') = None \<and> fst (get k (release k t s')) = reads_as v"
proof -
  have "holder k s' = Some t" using set_holder [OF assms(1), of k v ttl s] assms(2,3) by simp
  then show ?thesis using release_held store_release_get [OF assms(1,3)] by simp
qed

end

section \<open>NullCache and MemoryCache\<close>

definition null_get :: "string \<Rightarrow> unit \<Rightarrow> InlineResult option \<times> unit" where
  "null_get k s = (None, s)"

definition null_set :: "string \<Rightarrow> InlineResult \<Rightarrow> int \<Rightarrow> unit \<Rightarrow> bool \<times> unit" where
  "null_set k v ttl s = (False, s)"

definition null_acquire :: "string \<Rightarrow> int \<Rightarrow> string \<Rightarrow> unit \<Rightarrow> string option \<times> unit" where
  "null_acquire k ttl uuid s = (Some uuid, s)"

definition null_release :: "string \<Rightarrow> string \<Rightarrow> unit \<Rightarrow> unit" where
  "null_release k t s = s"

record memory_cache =
  mc_values :: "string \<rightharpoonup> InlineResult"
  mc_locks :: "string set"

definition memory_get :: "string \<Rightarrow> memory_cache \<Rightarrow> InlineResult option \<times> memory_cache" where
  "memory_get k s = (mc_values s k, s)"

definition memory_set :: "string \<Rightarrow> InlineResult \<Rightarrow> int \<Rightarrow> memory_cache \<Rightarrow> bool \<times> memory_cache" where
  "memory_set k v ttl s = (True, s\<lparr>mc_values := (mc_values s)(k \<mapsto> v)\<rparr>)"

definition memory_acquire ::
  "string \<Rightarrow> int \<Rightarrow> string \<Rightarrow> memory_cache \<Rightarrow> string option \<times> memory_cache" where
  "memory_acquire k ttl uuid s =
     (if k \<in> mc_locks s then (None, s) else (Some k, s\<lparr>mc_locks := insert k (mc_locks s)\<rparr>))"

definition memory_release :: "string \<Rightarrow> string \<Rightarrow> memory_cache \<Rightarrow> memory_cache" where
  "memory_release k t s = s\<lparr>mc_locks := mc_locks s - {k}\<rparr>"

lemmas memory_defs = memory_get_def memory_set_def memory_acquire_def memory_release_def

interpretation null_cache: result_cache null_get null_set null_acquire null_release Some "\<lambda>_. True"
  by unfold_locales (auto simp: null_get_def null_set_def)

definition memory_holder :: "string \<Rightarrow> memory_cache \<Rightarrow> string option" where
  "memory_holder k s = (if k \<in> mc_locks s then Some k else None)"

interpretation memory_cache: locking_cache memory_get memory_set memory_acquire memory_release Some
  "\<lambda>_. True" memory_holder
  by unfold_locales (auto simp: memory_defs memory_holder_def split: if_splits)

section \<open>ValkeyResultCache\<close>

record valkey_cache =
  vc_db :: "string \<rightharpoonup> string \<times> int"
  vc_now :: int

record cache_cfg =
  cc_prefix :: string
  cc_max_bytes :: nat
  cc_encode :: "InlineResult \<Rightarrow> string"
  cc_decode :: "string \<Rightarrow> InlineResult option"

definition vget :: "string \<Rightarrow> valkey_cache \<Rightarrow> string option" where
  "vget k s = (case vc_db s k of None \<Rightarrow> None | Some (v, e) \<Rightarrow> if vc_now s < e then Some v else None)"

definition vput :: "string \<Rightarrow> string \<Rightarrow> int \<Rightarrow> valkey_cache \<Rightarrow> valkey_cache" where
  "vput k v ttl s = s\<lparr>vc_db := (vc_db s)(k \<mapsto> (v, vc_now s + ttl * 1000))\<rparr>"

definition vdel :: "string \<Rightarrow> valkey_cache \<Rightarrow> valkey_cache" where
  "vdel k s = s\<lparr>vc_db := (vc_db s)(k := None)\<rparr>"

definition value_key :: "cache_cfg \<Rightarrow> string \<Rightarrow> string" where
  "value_key c k = cc_prefix c @ CHR '':'' # k"

definition lock_key :: "cache_cfg \<Rightarrow> string \<Rightarrow> string" where
  "lock_key c k = cc_prefix c @ '':lock:'' @ k"

definition valkey_get :: "cache_cfg \<Rightarrow> string \<Rightarrow> valkey_cache \<Rightarrow> InlineResult option \<times> valkey_cache" where
  "valkey_get c k s =
     (case vget (value_key c k) s of
        None \<Rightarrow> (None, s)
      | Some raw \<Rightarrow> (case cc_decode c raw of
            None \<Rightarrow> (None, vdel (value_key c k) s)
          | Some v \<Rightarrow> (Some v, s)))"

definition valkey_set ::
  "cache_cfg \<Rightarrow> string \<Rightarrow> InlineResult \<Rightarrow> int \<Rightarrow> valkey_cache \<Rightarrow> bool \<times> valkey_cache" where
  "valkey_set c k v ttl s =
     (if ttl \<le> 0 then (False, s)
      else if length (cc_encode c v) > cc_max_bytes c then (False, s)
      else (True, vput (value_key c k) (cc_encode c v) ttl s))"

definition valkey_acquire ::
  "cache_cfg \<Rightarrow> string \<Rightarrow> int \<Rightarrow> string \<Rightarrow> valkey_cache \<Rightarrow> string option \<times> valkey_cache" where
  "valkey_acquire c k ttl uuid s =
     (if vget (lock_key c k) s = None then (Some uuid, vput (lock_key c k) uuid ttl s) else (None, s))"

definition valkey_release :: "cache_cfg \<Rightarrow> string \<Rightarrow> string \<Rightarrow> valkey_cache \<Rightarrow> valkey_cache" where
  "valkey_release c k t s = (if vget (lock_key c k) s = Some t then vdel (lock_key c k) s else s)"

text \<open>The fingerprints used as keys are hex digests, so none starts with \<open>lock:\<close>.\<close>

definition plain_key :: "string \<Rightarrow> bool" where
  "plain_key k = (\<not> starts_with k ''lock:'')"

lemma value_lock_key: "plain_key k \<Longrightarrow> value_key c k \<noteq> lock_key c k'"
proof
  assume "plain_key k" "value_key c k = lock_key c k'"
  then have "k = ''lock:'' @ k'" by (simp add: value_key_def lock_key_def)
  with \<open>plain_key k\<close> show False by (metis plain_key_def starts_with_append)
qed

lemma key_inject [simp]:
  "value_key c k = value_key c k' \<longleftrightarrow> k = k'" "lock_key c k = lock_key c k' \<longleftrightarrow> k = k'"
  by (simp_all add: value_key_def lock_key_def)

lemma vget_vput [simp]: "0 < ttl \<Longrightarrow> vget k (vput k v ttl s) = Some v"
  "k' \<noteq> k \<Longrightarrow> vget k' (vput k v ttl s) = vget k' s"
  "vget k (vdel k s) = None" "k' \<noteq> k \<Longrightarrow> vget k' (vdel k s) = vget k' s"
  by (auto simp: vget_def vput_def vdel_def split: option.splits)

lemma valkey_get_value:
  "fst (valkey_get c k s) = (case vget (value_key c k) s of None \<Rightarrow> None | Some raw \<Rightarrow> cc_decode c raw)"
  by (simp add: valkey_get_def split: option.splits)

lemmas valkey_defs = valkey_get_value valkey_set_def valkey_acquire_def valkey_release_def

definition valkey_holder :: "cache_cfg \<Rightarrow> string \<Rightarrow> valkey_cache \<Rightarrow> string option" where
  "valkey_holder c k s = vget (lock_key c k) s"

lemma valkey_get_hit: "valkey_get c k s = (Some v, s') \<Longrightarrow> s' = s"
  by (auto simp: valkey_get_def split: option.splits)

lemma valkey_get_locks: "plain_key k \<Longrightarrow> vget (lock_key c k') (snd (valkey_get c k s)) = vget (lock_key c k') s"
  using value_lock_key [of k c k'] by (auto simp: valkey_get_def split: option.splits)

lemma valkey_set_locks:
  "plain_key k \<Longrightarrow> vget (lock_key c k') (snd (valkey_set c k v ttl s)) = vget (lock_key c k') s"
  using value_lock_key [of k c k'] by (auto simp: valkey_set_def)

interpretation valkey_cache: locking_cache "valkey_get c" "valkey_set c" "valkey_acquire c"
  "valkey_release c" "\<lambda>v. cc_decode c (cc_encode c v)" plain_key "valkey_holder c"
  by unfold_locales
    (auto simp: valkey_defs valkey_holder_def value_lock_key valkey_get_locks valkey_set_locks [unfolded valkey_set_def]
      dest: valkey_get_hit split: if_splits)

section \<open>Waiting\<close>

text \<open>
  The loop of \<open>wait\<close>: the \<open>n\<close>-th test reads the clock as \<open>clk n\<close> and the cache as \<open>reads n\<close>. It may
  run as long as the clock stands still, so its value is an option: \<open>None\<close> is not returning.
\<close>

partial_function (option) wait_loop ::
  "(nat \<Rightarrow> rat) \<Rightarrow> (nat \<Rightarrow> InlineResult option) \<Rightarrow> rat \<Rightarrow> nat \<Rightarrow> InlineResult option option" where
  "wait_loop clk reads deadline n =
     (if clk n < deadline
      then (case reads n of Some v \<Rightarrow> Some (Some v) | None \<Rightarrow> wait_loop clk reads deadline (Suc n))
      else Some None)"

definition wait_for :: "(nat \<Rightarrow> rat) \<Rightarrow> (nat \<Rightarrow> InlineResult option) \<Rightarrow> rat \<Rightarrow> InlineResult option option" where
  "wait_for clk reads timeout = wait_loop (\<lambda>n. clk (Suc n)) reads (clk 0 + timeout) 0"

lemma wait_loop_result:
  assumes "\<forall>i. n \<le> i \<and> i < N \<longrightarrow> clk i < deadline \<and> reads i = None" and "n \<le> N"
  shows "wait_loop clk reads deadline n = wait_loop clk reads deadline N"
  using assms
proof (induction "N - n" arbitrary: n)
  case 0
  then show ?case by simp
next
  case (Suc d)
  then have "clk n < deadline" "reads n = None" by auto
  then have "wait_loop clk reads deadline n = wait_loop clk reads deadline (Suc n)"
    by (subst wait_loop.simps) simp
  with Suc show ?case by auto
qed

text \<open>
  C37. Waiting for another process's result ends: when the clock reaches the deadline \<open>wait\<close>
  returns, with the first value that some reading before the deadline found, and with \<open>None\<close> only
  when no reading before the deadline found one.
\<close>

theorem wait_returns_first_value:
  assumes "clk (Suc N) \<ge> clk 0 + timeout" and "\<forall>i<N. clk (Suc i) < clk 0 + timeout"
  shows "wait_for clk reads timeout =
    Some (case find (\<lambda>v. v \<noteq> None) (map reads [0..<N]) of None \<Rightarrow> None | Some v \<Rightarrow> v)"
proof (cases "\<exists>i<N. reads i \<noteq> None")
  case False
  then have "find (\<lambda>v. v \<noteq> None) (map reads [0..<N]) = None" by (auto simp: find_None_iff)
  moreover have "wait_for clk reads timeout = wait_loop (\<lambda>n. clk (Suc n)) reads (clk 0 + timeout) N"
    unfolding wait_for_def using False assms(2) by (intro wait_loop_result) auto
  ultimately show ?thesis using assms(1) by (subst (asm) wait_loop.simps) simp
next
  case True
  obtain i where i: "i < N" "reads i \<noteq> None" and "\<forall>k<i. \<not> (k < N \<and> reads k \<noteq> None)"
    using True exists_least_iff [of "\<lambda>i. i < N \<and> reads i \<noteq> None"] by blast
  then have first: "\<forall>k<i. reads k = None" by auto
  obtain v where v: "reads i = Some v" using i(2) by auto
  have "find (\<lambda>v. v \<noteq> None) (map reads [0..<N]) = Some (Some v)"
    unfolding find_Some_iff using i(1) first v by (intro exI [of _ i]) auto
  moreover have "wait_for clk reads timeout = wait_loop (\<lambda>n. clk (Suc n)) reads (clk 0 + timeout) i"
    unfolding wait_for_def using first i(1) assms(2) by (intro wait_loop_result) auto
  ultimately show ?thesis using v i(1) assms(2) by (subst (asm) wait_loop.simps) simp
qed

theorem wait_returns_first_value_witness:
  "wait_for (\<lambda>n. of_nat n) (\<lambda>n. None) 2 = Some None"
  using wait_returns_first_value [where clk = of_nat and N = 1 and timeout = 2 and reads = "\<lambda>_. None"]
  by simp

section \<open>The single-flight lock\<close>

text \<open>
  C36. The lock in Valkey admits one holder at a time and cannot be lost or stolen: until its time
  to live has passed nobody else acquires it, a release with any other token (one left from an
  expired lock) changes nothing, the holder's own release frees it, and a crashed holder keeps
  it no longer than the time to live.
\<close>

theorem lock_exclusive_and_fenced:
  assumes "valkey_acquire c k ttl t s = (Some t1, s1)" and "0 < ttl"
  shows "(vc_now s \<le> now \<and> now < vc_now s + ttl * 1000 \<longrightarrow>
      valkey_acquire c k ttl' t' (s1\<lparr>vc_now := now\<rparr>) = (None, s1\<lparr>vc_now := now\<rparr>))
    \<and> (t' \<noteq> t1 \<longrightarrow> valkey_release c k t' s1 = s1)
    \<and> fst (valkey_acquire c k ttl' t' (valkey_release c k t1 s1)) = Some t'
    \<and> (vc_now s + ttl * 1000 \<le> now \<longrightarrow>
      fst (valkey_acquire c k ttl' t' (s1\<lparr>vc_now := now\<rparr>)) = Some t')"
  using assms
  by (auto simp: valkey_acquire_def valkey_release_def vget_def vput_def vdel_def split: if_splits)

definition sample_cache_cfg :: cache_cfg where
  "sample_cache_cfg = \<lparr>cc_prefix = ''p'', cc_max_bytes = 100, cc_encode = (\<lambda>_. ''x''), cc_decode = (\<lambda>_. None)\<rparr>"

theorem lock_exclusive_and_fenced_witness:
  "let s1 = snd (valkey_acquire sample_cache_cfg ''k'' 10 ''t1'' \<lparr>vc_db = Map.empty, vc_now = 0\<rparr>)
   in valkey_release sample_cache_cfg ''k'' ''t2'' s1 = s1"
proof -
  let ?a = "valkey_acquire sample_cache_cfg ''k'' 10 ''t1'' \<lparr>vc_db = Map.empty, vc_now = 0\<rparr>"
  have a: "?a = (Some ''t1'', snd ?a)" by (simp add: valkey_acquire_def vget_def)
  show ?thesis
    using lock_exclusive_and_fenced [OF a, where t' = "''t2''" and now = 0 and ttl' = 1] by (simp add: Let_def)
qed

end
