(* ===== verification/JsonText.thy ===== *)
theory JsonText
  imports Fingerprint
begin

text \<open>
  JSON text as data: \<open>json_print\<close> is \<open>json.dumps(_, separators=(",", ":"))\<close>, which keeps the order
  of a dictionary, and \<open>json_dumps\<close> is the same after sorting the keys of every object. The text
  determines the value: a printed value can be told from what follows it, so that equal texts
  are texts of equal values. Numbers with a fraction are left out of that statement, since the
  model keeps only their text.
\<close>

section \<open>Printing\<close>

primrec json_print :: "json \<Rightarrow> string" where
  "json_print JNull = ''null''"
| "json_print (JBool b) = (if b then ''true'' else ''false'')"
| "json_print (JInt i) = dec_of_int i"
| "json_print (JFloat t) = t"
| "json_print (JStr s) = json_quote s"
| "json_print (JArr xs) = CHR ''['' # join_on CHR '','' (map json_print xs) @ '']''"
| "json_print (JObj kvs) = CHR ''{'' # join_on CHR '','' (map json_member (map (map_prod id json_print) kvs)) @ ''}''"

primrec json_sorted :: "json \<Rightarrow> json" where
  "json_sorted JNull = JNull"
| "json_sorted (JBool b) = JBool b"
| "json_sorted (JInt i) = JInt i"
| "json_sorted (JFloat t) = JFloat t"
| "json_sorted (JStr s) = JStr s"
| "json_sorted (JArr xs) = JArr (map json_sorted xs)"
| "json_sorted (JObj kvs) = JObj (sort_key fst (map (map_prod id json_sorted) kvs))"

lemma sort_key_map_values: "sort_key fst (map (map_prod id f) kvs) = map (map_prod id f) (sort_key fst kvs)"
proof (induction kvs)
  case (Cons p kvs)
  have "insort_key fst (map_prod id f p) (map (map_prod id f) xs) = map (map_prod id f) (insort_key fst p xs)" for xs
    by (induction xs) simp_all
  then show ?case using Cons by (simp add: id_def)
qed simp

lemma json_dumps_print: "json_dumps j = json_print (json_sorted j)"
proof (induction j)
  case (JArr xs)
  then have "map json_dumps xs = map (json_print \<circ> json_sorted) xs" by simp
  then show ?case by (simp del: map_eq_conv)
next
  case (JObj kvs)
  have eq: "map (map_prod id json_dumps) kvs = map (map_prod id json_print) (map (map_prod id json_sorted) kvs)"
    using JObj by auto
  have "sort_key fst (map (map_prod id json_dumps) kvs)
      = map (map_prod id json_print) (sort_key fst (map (map_prod id json_sorted) kvs))"
    by (simp only: eq sort_key_map_values)
  then show ?case by (simp only: json_dumps.simps json_sorted.simps json_print.simps)
qed simp_all

section \<open>Texts of strings and integers end by themselves\<close>

definition hex_value :: "char \<Rightarrow> nat" where
  "hex_value c = (let n = of_char c in if n < 58 then n - 48 else n - 87)"

lemma hex_value_digit: "d < 16 \<Longrightarrow> hex_value (hex_digit d) = d"
  by (simp add: hex_value_def hex_digit_def Let_def)

text \<open>The first character that a quoted text stands for, and the text behind it.\<close>

fun unescape :: "string \<Rightarrow> (char \<times> string) option" where
  "unescape [] = None"
| "unescape (c # s) =
     (if c \<noteq> CHR 0x5C then Some (c, s)
      else (case s of
          [] \<Rightarrow> None
        | e # s1 \<Rightarrow>
            (if e = CHR ''n'' then Some (CHR 0x0A, s1)
             else if e = CHR ''r'' then Some (CHR 0x0D, s1)
             else if e = CHR ''t'' then Some (CHR 0x09, s1)
             else if e = CHR ''f'' then Some (CHR 0x0C, s1)
             else if e = CHR ''b'' then Some (CHR 0x08, s1)
             else if e \<noteq> CHR ''u'' then Some (e, s1)
             else (case s1 of
                 _ # _ # h # l # s2 \<Rightarrow> Some (char_of (16 * hex_value h + hex_value l), s2)
               | _ \<Rightarrow> None))))"

lemma unescape_escape: "unescape (json_escape c @ x) = Some (c, x)"
proof -
  define n where "n = (of_char c :: nat)"
  have c: "c = char_of n" by (simp add: n_def)
  have n: "n < 256" by (simp add: n_def)
  have div: "n div 16 < 16" using n by (simp add: less_mult_imp_div_less)
  have codes: "char_of (34 :: nat) = CHR 0x22" "char_of (92 :: nat) = CHR 0x5C" "char_of (10 :: nat) = CHR 0x0A"
    "char_of (13 :: nat) = CHR 0x0D" "char_of (9 :: nat) = CHR 0x09" "char_of (12 :: nat) = CHR 0x0C"
    "char_of (8 :: nat) = CHR 0x08" by code_simp+
  have special: ?thesis if "n \<in> {34, 92, 10, 13, 9, 12, 8}"
    using that by (auto simp: json_escape_def c codes)
  have plain: ?thesis if "n \<notin> {34, 92, 10, 13, 9, 12, 8}" "32 \<le> n \<and> n \<le> 126"
  proof -
    have "c \<noteq> CHR 0x5C" using that(1) by (auto simp: n_def)
    then show ?thesis using that by (simp add: json_escape_def Let_def n_def [symmetric])
  qed
  have "16 * (n div 16) + n mod 16 = n" by simp
  then have other: ?thesis if "n \<notin> {34, 92, 10, 13, 9, 12, 8}" "\<not> (32 \<le> n \<and> n \<le> 126)"
    using that div hex_value_digit [OF div] hex_value_digit [of "n mod 16"]
    by (simp add: json_escape_def Let_def n_def [symmetric] c) auto
  show ?thesis using special plain other by blast
qed

lemma escape_unique:
  assumes "json_escape c @ x = json_escape d @ y"
  shows "c = d \<and> x = y"
proof -
  have "Some (c, x) = Some (d, y)" by (simp only: unescape_escape [symmetric] assms)
  then show ?thesis by simp
qed

lemma escape_head: "\<exists>a s. json_escape c = a # s \<and> a \<noteq> CHR 0x22"
proof -
  have quote: "(of_char c :: nat) \<noteq> 34 \<Longrightarrow> c \<noteq> CHR 0x22" by (rule notI) simp
  have "json_escape c \<noteq> [] \<and> hd (json_escape c) \<noteq> CHR 0x22"
    by (cases "(of_char c :: nat) = 34") (simp_all add: json_escape_def Let_def quote)
  then show ?thesis by (cases "json_escape c") simp_all
qed

lemma quote_body_unique:
  "concat (map json_escape s) @ CHR 0x22 # x = concat (map json_escape t) @ CHR 0x22 # y \<Longrightarrow> s = t \<and> x = y"
proof (induction s arbitrary: t)
  case Nil
  then show ?case using escape_head by (cases t) (auto, metis append_Cons list.inject)
next
  case (Cons c s)
  obtain a w where c: "json_escape c = a # w" "a \<noteq> CHR 0x22" using escape_head by blast
  show ?case
  proof (cases t)
    case Nil
    then show ?thesis using Cons.prems c by simp
  next
    case (Cons d u)
    then have "json_escape c @ (concat (map json_escape s) @ CHR 0x22 # x)
        = json_escape d @ (concat (map json_escape u) @ CHR 0x22 # y)" using Cons.prems by simp
    from escape_unique [OF this] Cons.IH show ?thesis by (simp add: Cons)
  qed
qed

lemma quote_unique: "json_quote s @ x = json_quote t @ y \<Longrightarrow> s = t \<and> x = y"
  unfolding json_quote_def by (rule quote_body_unique) simp

text \<open>What can follow a value inside a text.\<close>

definition value_end :: "string \<Rightarrow> bool" where
  "value_end s = (case s of [] \<Rightarrow> True | c # _ \<Rightarrow> c \<in> {CHR '','', CHR '']'', CHR ''}''})"

definition number_char :: "char \<Rightarrow> bool" where
  "number_char c = (c \<in> set ''-0123456789'')"

lemma digit_char_number: "d < 10 \<Longrightarrow> number_char (digit_char d) \<and> digit_char d \<noteq> CHR ''-''"
proof -
  have "list_all (\<lambda>d. number_char (digit_char d) \<and> digit_char d \<noteq> CHR ''-'') [0..<10]" by code_simp
  then show "d < 10 \<Longrightarrow> ?thesis" by (simp add: list_all_iff)
qed

lemma number_chars: "c \<in> set (dec_of_int i) \<Longrightarrow> number_char c"
  using dec_of_nat_digits digit_char_number
  by (force simp: dec_of_int_def number_char_def split: if_splits)

lemma take_number:
  assumes "value_end x"
  shows "takeWhile number_char (dec_of_int i @ x) = dec_of_int i"
proof -
  have "takeWhile number_char x = []"
    using assms by (auto simp: value_end_def number_char_def split: list.splits)
  then show ?thesis using number_chars by (simp add: takeWhile_append2)
qed

lemma dec_of_int_inject: "dec_of_int i = dec_of_int j \<longleftrightarrow> i = j"
proof
  have "CHR ''-'' \<notin> set (dec_of_nat n)" for n
    using dec_of_nat_digits [of "CHR ''-''" n] digit_char_number by metis
  then have m: "dec_of_nat n \<noteq> CHR ''-'' # s" for n s by (metis list.set_intros(1))
  show "i = j" if "dec_of_int i = dec_of_int j"
    using that m m [symmetric] by (auto simp: dec_of_int_def split: if_splits)
qed simp

lemma int_unique:
  assumes "dec_of_int i @ x = dec_of_int j @ y" and "value_end x" and "value_end y"
  shows "i = j \<and> x = y"
proof -
  have "dec_of_int i = dec_of_int j" using take_number [of x i] take_number [of y j] assms by simp
  then show ?thesis using assms(1) by (simp add: dec_of_int_inject)
qed

section \<open>A text determines its value\<close>

text \<open>The value has no number with a fraction.\<close>

fun json_exact :: "json \<Rightarrow> bool" where
  "json_exact (JFloat t) = False"
| "json_exact (JArr xs) = list_all json_exact xs"
| "json_exact (JObj kvs) = list_all (\<lambda>p. json_exact (snd p)) kvs"
| "json_exact _ = True"

text \<open>Which constructor a text belongs to can be read off its first character.\<close>

definition text_kind :: "string \<Rightarrow> nat" where
  "text_kind s = (case s of [] \<Rightarrow> 0 | c # _ \<Rightarrow>
     if c = CHR ''n'' then 1 else if c = CHR ''t'' then 2 else if c = CHR ''f'' then 3 else if c = CHR 0x22 then 4
     else if c = CHR ''['' then 5 else if c = CHR ''{'' then 6 else if number_char c then 7 else 0)"

fun json_kind :: "json \<Rightarrow> nat" where
  "json_kind JNull = 1"
| "json_kind (JBool b) = (if b then 2 else 3)"
| "json_kind (JStr s) = 4"
| "json_kind (JArr xs) = 5"
| "json_kind (JObj kvs) = 6"
| "json_kind _ = 7"

lemma print_kind: "json_exact j \<Longrightarrow> text_kind (json_print j @ x) = json_kind j"
proof (cases j)
  case (JInt i)
  obtain c s where c: "dec_of_int i = c # s" by (cases "dec_of_int i") (auto simp: dec_of_int_def split: if_splits)
  then have "number_char c" using number_chars [of c i] by simp
  moreover from this have "c \<notin> set ''ntf[{'' \<and> c \<noteq> CHR 0x22"
    by (auto simp: number_char_def)
  ultimately show ?thesis by (simp add: JInt c text_kind_def)
qed (simp_all add: text_kind_def json_quote_def)

text \<open>Elements that end by themselves, with commas between and a closing bracket, end by themselves.\<close>

lemma joined_unique:
  assumes "\<And>a b u v. a \<in> set xs \<Longrightarrow> b \<in> set ys \<Longrightarrow> f a @ u = f b @ v \<Longrightarrow> value_end u \<Longrightarrow> value_end v
      \<Longrightarrow> a = b \<and> u = v"
    and "\<And>a u s. a \<in> set xs \<union> set ys \<Longrightarrow> f a @ u \<noteq> close # s" and "close \<in> {CHR '']'', CHR ''}''}"
    and "join_on CHR '','' (map f xs) @ close # x = join_on CHR '','' (map f ys) @ close # y"
  shows "xs = ys \<and> x = y"
  using assms
proof (induction xs arbitrary: ys)
  case Nil
  show ?case
  proof (cases ys)
    case (Cons b ys')
    have "\<exists>w. f b @ w = close # x" using Nil(4) by (cases ys') (auto simp: Cons eq_commute)
    then show ?thesis using Nil(2) [of b] by (auto simp: Cons)
  qed (use Nil in simp)
next
  case (Cons a xs)
  show ?case
  proof (cases ys)
    case Nil
    have "\<exists>w. f a @ w = close # y" using Cons.prems(4) by (cases xs) (auto simp: Nil)
    then show ?thesis using Cons.prems(2) [of a] by auto
  next
    case ys: (Cons b ys')
    define u where "u = (case xs of [] \<Rightarrow> [] | _ \<Rightarrow> CHR '','' # join_on CHR '','' (map f xs)) @ close # x"
    define v where "v = (case ys' of [] \<Rightarrow> [] | _ \<Rightarrow> CHR '','' # join_on CHR '','' (map f ys')) @ close # y"
    have "f a @ u = f b @ v"
      using Cons.prems(4) by (cases xs; cases ys') (simp_all add: ys u_def v_def)
    moreover have "value_end u" "value_end v"
      using Cons.prems(3) by (auto simp: u_def v_def value_end_def split: list.splits)
    ultimately have eq: "a = b \<and> u = v" using Cons.prems(1) [of a b u v] by (simp add: ys)
    have "CHR '','' \<noteq> close" using Cons.prems(3) by auto
    with eq have rest: "join_on CHR '','' (map f xs) @ close # x = join_on CHR '','' (map f ys') @ close # y"
      by (auto simp: u_def v_def split: list.splits)
    have "xs = ys' \<and> x = y"
      by (rule Cons.IH [OF _ _ Cons.prems(3) rest]) (use Cons.prems(1,2) in \<open>auto simp: ys\<close>)
    then show ?thesis using eq ys by simp
  qed
qed

lemma member_unique:
  assumes "json_member (map_prod id json_print p) @ u = json_member (map_prod id json_print q) @ v"
    and "value_end u" and "value_end v"
    and "\<And>x y. json_print (snd p) @ x = json_print (snd q) @ y \<Longrightarrow> value_end x \<Longrightarrow> value_end y
      \<Longrightarrow> snd p = snd q \<and> x = y"
  shows "p = q \<and> u = v"
proof -
  have "json_quote (fst p) @ (CHR '':'' # json_print (snd p) @ u) = json_quote (fst q) @ (CHR '':'' # json_print (snd q) @ v)"
    using assms(1) by (simp add: json_member_def)
  from quote_unique [OF this] have "fst p = fst q" "json_print (snd p) @ u = json_print (snd q) @ v" by simp_all
  then show ?thesis using assms(4) [OF _ assms(2,3)] by (simp add: prod_eq_iff)
qed

lemma print_unique:
  assumes "json_print a @ x = json_print b @ y" and "json_exact a" and "json_exact b"
    and "value_end x" and "value_end y"
  shows "a = b \<and> x = y"
  using assms
proof (induction a arbitrary: b x y)
  case (JArr xs)
  have "json_kind b = 5" using print_kind [OF JArr.prems(3)] print_kind [OF JArr.prems(2)] JArr.prems(1)
    by (metis json_kind.simps(4))
  then obtain ys where b: "b = JArr ys" by (cases b) (auto split: if_splits)
  have "xs = ys \<and> x = y"
  proof (rule joined_unique [where f = json_print and close = "CHR '']''"])
    show "join_on CHR '','' (map json_print xs) @ CHR '']'' # x = join_on CHR '','' (map json_print ys) @ CHR '']'' # y"
      using JArr.prems(1) by (simp add: b)
    show "a = b' \<and> u = v" if "a \<in> set xs" "b' \<in> set ys" "json_print a @ u = json_print b' @ v"
      "value_end u" "value_end v" for a b' u v
      using JArr.IH [OF that(1,3)] JArr.prems(2,3) that by (auto simp: b list_all_iff)
    show "json_print a @ u \<noteq> CHR '']'' # s" if "a \<in> set xs \<union> set ys" for a u s
    proof
      assume e: "json_print a @ u = CHR '']'' # s"
      have "json_exact a" using that JArr.prems(2,3) by (auto simp: b list_all_iff)
      from print_kind [OF this, of u] have "json_kind a = 0" by (simp add: e text_kind_def number_char_def)
      then show False by (cases a) (auto split: if_splits)
    qed
  qed simp
  then show ?case by (simp add: b)
next
  case (JObj kvs)
  have "json_kind b = 6" using print_kind [OF JObj.prems(3)] print_kind [OF JObj.prems(2)] JObj.prems(1)
    by (metis json_kind.simps(5))
  then obtain kvs' where b: "b = JObj kvs'" by (cases b) (auto split: if_splits)
  let ?f = "\<lambda>p. json_member (map_prod id json_print p)"
  have "kvs = kvs' \<and> x = y"
  proof (rule joined_unique [where f = ?f and close = "CHR ''}''"])
    show "join_on CHR '','' (map ?f kvs) @ CHR ''}'' # x = join_on CHR '','' (map ?f kvs') @ CHR ''}'' # y"
      using JObj.prems(1) by (simp add: b comp_def)
    show "p = q \<and> u = v" if "p \<in> set kvs" "q \<in> set kvs'" "?f p @ u = ?f q @ v" "value_end u" "value_end v" for p q u v
    proof (rule member_unique [OF that(3-5)])
      fix x y
      assume e: "json_print (snd p) @ x = json_print (snd q) @ y" "value_end x" "value_end y"
      have "snd p \<in> Basic_BNFs.snds p" by (cases p) simp
      from JObj.IH [OF that(1) this e(1)] show "snd p = snd q \<and> x = y"
        using JObj.prems(2,3) that(1,2) e(2,3) by (auto simp: b list_all_iff)
    qed
    show "?f p @ u \<noteq> CHR ''}'' # s" if "p \<in> set kvs \<union> set kvs'" for p u s
      by (simp add: json_member_def json_quote_def)
  qed simp
  then show ?case by (simp add: b)
next
  case (JInt i)
  have "json_kind b = 7" using print_kind [OF JInt.prems(3)] print_kind [OF JInt.prems(2)] JInt.prems(1)
    by (metis json_kind.simps(6))
  then obtain k where b: "b = JInt k" using JInt.prems(3) by (cases b) (auto split: if_splits)
  then show ?case using int_unique [of i x k y] JInt.prems by simp
next
  case (JStr s)
  have "json_kind b = 4" using print_kind [OF JStr.prems(3)] print_kind [OF JStr.prems(2)] JStr.prems(1)
    by (metis json_kind.simps(3))
  then obtain t where b: "b = JStr t" by (cases b) (auto split: if_splits)
  then show ?case using quote_unique [of s x t y] JStr.prems by simp
next
  case JNull
  have "json_kind b = 1" using print_kind [OF JNull.prems(3)] print_kind [OF JNull.prems(2)] JNull.prems(1)
    by (metis json_kind.simps(1))
  then have "b = JNull" by (cases b) (auto split: if_splits)
  then show ?case using JNull.prems by simp
next
  case (JBool v)
  have "json_kind b = (if v then 2 else 3)" using print_kind [OF JBool.prems(3)] print_kind [OF JBool.prems(2)] JBool.prems(1)
    by (metis json_kind.simps(2))
  then have "b = JBool v" by (cases b) (auto split: if_splits)
  then show ?case using JBool.prems by (cases v) simp_all
qed simp

lemma json_print_inject:
  "json_exact a \<Longrightarrow> json_exact b \<Longrightarrow> json_print a = json_print b \<longleftrightarrow> a = b"
  using print_unique [of a "[]" b "[]"] by (auto simp: value_end_def)

lemma json_sorted_exact [simp]: "json_exact (json_sorted j) = json_exact j"
  by (induction j) (auto simp: list_all_iff)

lemma json_dumps_inject:
  "json_exact a \<Longrightarrow> json_exact b \<Longrightarrow> json_dumps a = json_dumps b \<longleftrightarrow> json_sorted a = json_sorted b"
  by (simp add: json_dumps_print json_print_inject)

end
