(* ===== verification/Observability.thy ===== *)
theory Observability
  imports JsonText "HOL-Library.AList"
begin

text \<open>
  \<open>src/dalmatian/observability.py\<close>: the metrics of the service, the timer around a query, and the
  JSON log lines. A counter or gauge with a label is a function from labels, \<open>0\<close> where it was
  never used; a histogram is the list of its observations. The clock of \<open>query_timer\<close> is a
  parameter: the duration it measures. Serving the metrics is Prometheus's part.
\<close>

section \<open>Metrics\<close>

record metrics =
  mx_query_seconds :: "(string \<times> rat) list"
  mx_active_queries :: "string \<Rightarrow> int"
  mx_cache_result :: "string \<Rightarrow> nat"
  mx_output_bytes :: "string \<Rightarrow> nat"

definition no_metrics :: metrics where
  "no_metrics = \<lparr>mx_query_seconds = [], mx_active_queries = (\<lambda>_. 0), mx_cache_result = (\<lambda>_. 0),
     mx_output_bytes = (\<lambda>_. 0)\<rparr>"

definition count_cache :: "string \<Rightarrow> metrics \<Rightarrow> metrics" where
  "count_cache label m = m\<lparr>mx_cache_result := (mx_cache_result m)(label := Suc (mx_cache_result m label))\<rparr>"

definition count_bytes :: "string \<Rightarrow> nat \<Rightarrow> metrics \<Rightarrow> metrics" where
  "count_bytes mode n m = m\<lparr>mx_output_bytes := (mx_output_bytes m)(mode := mx_output_bytes m mode + n)\<rparr>"

text \<open>Entering and leaving \<open>with query_timer(mode)\<close>.\<close>

definition timer_start :: "string \<Rightarrow> metrics \<Rightarrow> metrics" where
  "timer_start mode m = m\<lparr>mx_active_queries := (mx_active_queries m)(mode := mx_active_queries m mode + 1)\<rparr>"

definition timer_stop :: "string \<Rightarrow> rat \<Rightarrow> metrics \<Rightarrow> metrics" where
  "timer_stop mode seconds m =
     m\<lparr>mx_query_seconds := mx_query_seconds m @ [(mode, seconds)],
       mx_active_queries := (mx_active_queries m)(mode := mx_active_queries m mode - 1)\<rparr>"

lemma metrics_frame [simp]:
  "mx_active_queries (count_cache l m) = mx_active_queries m"
  "mx_query_seconds (count_cache l m) = mx_query_seconds m"
  "mx_output_bytes (count_cache l m) = mx_output_bytes m"
  "mx_active_queries (count_bytes mode n m) = mx_active_queries m"
  "mx_query_seconds (count_bytes mode n m) = mx_query_seconds m"
  "mx_cache_result (count_bytes mode n m) = mx_cache_result m"
  "mx_cache_result (timer_start mode m) = mx_cache_result m"
  "mx_output_bytes (timer_start mode m) = mx_output_bytes m"
  "mx_query_seconds (timer_start mode m) = mx_query_seconds m"
  "mx_cache_result (timer_stop mode t m) = mx_cache_result m"
  "mx_output_bytes (timer_stop mode t m) = mx_output_bytes m"
  by (simp_all add: count_cache_def count_bytes_def timer_start_def timer_stop_def)

lemma metrics_effect [simp]:
  "mx_cache_result (count_cache l m) = (mx_cache_result m)(l := Suc (mx_cache_result m l))"
  "mx_output_bytes (count_bytes mode n m) = (mx_output_bytes m)(mode := mx_output_bytes m mode + n)"
  "mx_active_queries (timer_start mode m) = (mx_active_queries m)(mode := mx_active_queries m mode + 1)"
  "mx_active_queries (timer_stop mode t m) = (mx_active_queries m)(mode := mx_active_queries m mode - 1)"
  "mx_query_seconds (timer_stop mode t m) = mx_query_seconds m @ [(mode, t)]"
  by (simp_all add: count_cache_def count_bytes_def timer_start_def timer_stop_def)

section \<open>Log lines\<close>

text \<open>The values of a log record's \<open>__dict__\<close>; \<open>OtherValue\<close> is any object that is no JSON scalar.\<close>

datatype log_value = ScalarValue json | OtherValue

record log_record =
  lr_levelname :: string
  lr_name :: string
  lr_message :: string
  lr_dict :: "(string \<times> log_value) list"
  lr_exception :: "string option"

definition standard_names :: "string list" where
  "standard_names =
     [''name'', ''msg'', ''args'', ''levelname'', ''levelno'', ''pathname'', ''filename'', ''module'', ''exc_info'',
      ''exc_text'', ''stack_info'', ''lineno'', ''funcName'', ''created'', ''msecs'', ''relativeCreated'',
      ''thread'', ''threadName'', ''processName'', ''process'', ''taskName'']"

text \<open>An assignment \<open>payload[name] = value\<close> keeps the place of a key that is there.\<close>

fun add_extras :: "(string \<times> log_value) list \<Rightarrow> (string \<times> json) list \<Rightarrow> (string \<times> json) list" where
  "add_extras [] payload = payload"
| "add_extras ((name, value) # rest) payload =
     (if name \<in> set standard_names \<or> starts_with name ''_'' then add_extras rest payload
      else (case value of
          ScalarValue j \<Rightarrow> add_extras rest (AList.update name j payload)
        | OtherValue \<Rightarrow> add_extras rest payload))"

definition log_payload :: "string \<Rightarrow> log_record \<Rightarrow> (string \<times> json) list" where
  "log_payload now r =
     (let payload = add_extras (lr_dict r) [(''ts'', JStr now), (''level'', JStr (lr_levelname r)),
            (''logger'', JStr (lr_name r)), (''message'', JStr (lr_message r))]
      in case lr_exception r of None \<Rightarrow> payload | Some text \<Rightarrow> AList.update ''exception'' (JStr text) payload)"

definition format_record :: "string \<Rightarrow> log_record \<Rightarrow> string" where
  "format_record now r = json_print (JObj (log_payload now r))"

datatype log_handler = JsonStdout | OtherHandler string

record root_logger =
  rl_handlers :: "log_handler list"
  rl_level :: string

definition upper_char :: "char \<Rightarrow> char" where
  "upper_char c = (let n = of_char c :: nat in if 97 \<le> n \<and> n \<le> 122 then char_of (n - 32) else c)"

text \<open>\<open>configure_logging\<close>: whatever handlers were there, one JSON handler on standard output is left.\<close>

definition configure_logging :: "string \<Rightarrow> root_logger \<Rightarrow> root_logger" where
  "configure_logging level logger = logger\<lparr>rl_handlers := [JsonStdout], rl_level := map upper_char level\<rparr>"

end
