(* ===== verification/Service.thy ===== *)
theory Service
  imports Datasets Cache Observability
begin

text \<open>
  \<open>QueryService\<close> of \<open>src/dalmatian/service.py\<close>: admission, the cached and single-flight execution
  of a query, and the guarded stream. The engine is the \<open>QueryEngine\<close> protocol (\<open>engine_ops\<close> over
  its own state), the cache the \<open>ResultCache\<close> protocol (\<open>cache_ops\<close>), the metadata store
  \<open>meta_ops\<close>. \<open>sv_free\<close> is the number of free permits of the admission semaphore; a caller that
  finds none within the admission wait gets \<open>BusyError\<close>. Fresh identifiers and tokens are
  arguments. Metrics are not modelled; calls to the cache do not raise.
\<close>

section \<open>Collaborators and state\<close>

record 'e engine_ops =
  en_prepare :: "QueryRequest \<Rightarrow> string \<Rightarrow> 'e \<Rightarrow> PreparedQuery res \<times> 'e"
  en_execute :: "PreparedQuery \<Rightarrow> ExecutionContext \<Rightarrow> 'e \<Rightarrow> QueryResult res \<times> 'e"
  en_stream :: "PreparedQuery \<Rightarrow> ExecutionContext \<Rightarrow> 'e \<Rightarrow> (string \<times> string list \<times> exn option) res \<times> 'e"
  en_explain :: "PreparedQuery \<Rightarrow> ExecutionContext \<Rightarrow> 'e \<Rightarrow> string res \<times> 'e"
  en_inspect :: "SourceSpec \<Rightarrow> 'e \<Rightarrow> SourceInspection res \<times> 'e"
  en_cancel :: "string \<Rightarrow> 'e \<Rightarrow> 'e"
  en_ping :: "'e \<Rightarrow> bool"

record 'c cache_ops =
  co_get :: "string \<Rightarrow> 'c \<Rightarrow> InlineResult option \<times> 'c"
  co_set :: "string \<Rightarrow> InlineResult \<Rightarrow> int \<Rightarrow> 'c \<Rightarrow> bool \<times> 'c"
  co_acquire :: "string \<Rightarrow> int \<Rightarrow> string \<Rightarrow> 'c \<Rightarrow> string option \<times> 'c"
  co_release :: "string \<Rightarrow> string \<Rightarrow> 'c \<Rightarrow> 'c"
  co_wait :: "string \<Rightarrow> rat \<Rightarrow> 'c \<Rightarrow> InlineResult option \<times> 'c"
  co_ping :: "'c \<Rightarrow> bool"

record service_cfg =
  default_cache_ttl_seconds :: int
  max_cache_ttl_seconds :: int
  result_row_limit :: int
  max_concurrent_queries :: nat
  default_query_timeout_seconds :: int
  max_query_timeout_seconds :: int
  singleflight_wait_seconds :: rat
  singleflight_lock_seconds :: int

record ('e, 'c, 'm) service =
  sv_engine :: 'e
  sv_cache :: 'c
  sv_meta :: 'm
  sv_free :: nat
  sv_metrics :: metrics

record ('e, 'c, 'm, 'ast) deps =
  dp_engine :: "'e engine_ops"
  dp_cache :: "'c cache_ops"
  dp_meta :: "'m meta_ops"
  dp_sqlglot :: "'ast sqlglot option"
  dp_sha256 :: "string \<Rightarrow> string"
  dp_dump :: "QueryRequest \<Rightarrow> string"
  dp_dump_result :: "QueryResult \<Rightarrow> string"
  dp_elapsed :: "string \<Rightarrow> rat"

section \<open>Limits\<close>

definition query_ttl :: "service_cfg \<Rightarrow> QueryRequest \<Rightarrow> int res" where
  "query_ttl c r =
     (let ttl = (case req_cache_ttl_seconds r of None \<Rightarrow> default_cache_ttl_seconds c | Some t \<Rightarrow> t) in
      if ttl > max_cache_ttl_seconds c
      then raise QueryRejected (''cache_ttl_seconds cannot exceed '' @ dec_of_int (max_cache_ttl_seconds c))
      else Inr ttl)"

definition query_timeout :: "service_cfg \<Rightarrow> QueryRequest \<Rightarrow> int res" where
  "query_timeout c r =
     (let timeout = (case req_timeout_seconds r of None \<Rightarrow> default_query_timeout_seconds c
            | Some t \<Rightarrow> if t = 0 then default_query_timeout_seconds c else t) in
      if timeout > max_query_timeout_seconds c
      then raise QueryRejected (''timeout_seconds cannot exceed '' @ dec_of_int (max_query_timeout_seconds c))
      else Inr timeout)"

definition validate_query :: "'ast sqlglot option \<Rightarrow> service_cfg \<Rightarrow> QueryRequest \<Rightarrow> string res" where
  "validate_query sg c r =
     (if out_mode (req_output r) = INLINE \<and> req_max_rows r > result_row_limit c
      then raise QueryRejected (''max_rows cannot exceed '' @ dec_of_int (result_row_limit c))
      else validate_and_normalize sg (req_sql r) (source_names r))"

definition make_context ::
  "service_cfg \<Rightarrow> QueryRequest \<Rightarrow> string \<Rightarrow> string \<Rightarrow> ExecutionContext option \<Rightarrow> ExecutionContext res" where
  "make_context c r query_id attempt_id ctx =
     bindE (query_timeout c r) (\<lambda>timeout. Inr (case ctx of
         None \<Rightarrow> \<lparr>ctx_query_id = query_id, ctx_attempt_id = attempt_id, ctx_attempt_number = 0,
                  ctx_timeout_seconds = timeout, ctx_kind = ''sync''\<rparr>
       | Some x \<Rightarrow> x\<lparr>ctx_timeout_seconds := timeout\<rparr>))"

section \<open>Metadata\<close>

definition sv_record ::
  "('e, 'c, 'm, 'ast) deps \<Rightarrow> string \<Rightarrow> string \<Rightarrow> QueryRequest \<Rightarrow> ('e, 'c, 'm) service \<Rightarrow> ('e, 'c, 'm) service"
where
  "sv_record d query_id kind r s = s\<lparr>sv_meta :=
     swallow (mo_record_invocation (dp_meta d) query_id kind (dp_dump d r) (sv_meta s)) (sv_meta s)\<rparr>"

definition sv_update ::
  "('e, 'c, 'm, 'ast) deps \<Rightarrow> string \<Rightarrow> string \<Rightarrow> QueryResult option \<Rightarrow> string option \<Rightarrow> string option
   \<Rightarrow> ('e, 'c, 'm) service \<Rightarrow> ('e, 'c, 'm) service" where
  "sv_update d query_id status result error error_class s = s\<lparr>sv_meta :=
     swallow (mo_update_invocation (dp_meta d) query_id status result error error_class None (sv_meta s))
       (sv_meta s)\<rparr>"

section \<open>Execution\<close>

definition for_query :: "bool \<Rightarrow> string \<Rightarrow> InlineResult \<Rightarrow> QueryResult" where
  "for_query cached query_id v = Inline (v\<lparr>inl_cached := cached, inl_query_id := Some query_id\<rparr>)"

text \<open>
  The engine's part under the single-flight lock, and \<open>finally: release\<close>. \<open>key\<close> is \<open>None\<close> when
  the query is not cacheable.
\<close>

definition run_engine ::
  "('e, 'c, 'm, 'ast) deps \<Rightarrow> PreparedQuery \<Rightarrow> ExecutionContext \<Rightarrow> (string \<times> string) option \<Rightarrow> int
   \<Rightarrow> ('e, 'c, 'm) service \<Rightarrow> QueryResult res \<times> ('e, 'c, 'm) service" where
  "run_engine d p ctx lock ttl s =
     (let (r, e) = en_execute (dp_engine d) p ctx (sv_engine s); s1 = s\<lparr>sv_engine := e\<rparr>;
          (r', s2) =
            (case r of
               Inr (Inline v) \<Rightarrow>
                 (let v' = v\<lparr>inl_cached := False, inl_query_id := Some (ctx_query_id ctx)\<rparr>;
                      s1 = s1\<lparr>sv_metrics := count_bytes ''inline'' (length (dp_dump_result d (Inline v')))
                        (sv_metrics s1)\<rparr>
                  in (Inr (Inline v'),
                   (case lock of None \<Rightarrow> s1
                    | Some (key, _) \<Rightarrow>
                        s1\<lparr>sv_cache := snd (co_set (dp_cache d) key v' ttl (sv_cache s1))\<rparr>)))
             | _ \<Rightarrow> (r, s1))
      in (r', (case lock of None \<Rightarrow> s2
               | Some (key, token) \<Rightarrow> s2\<lparr>sv_cache := co_release (dp_cache d) key token (sv_cache s2)\<rparr>)))"

text \<open>\<open>_cache_get\<close> without the identifier of the query it puts into a hit.\<close>

definition cache_get ::
  "('e, 'c, 'm, 'ast) deps \<Rightarrow> string \<Rightarrow> ('e, 'c, 'm) service \<Rightarrow> InlineResult option \<times> ('e, 'c, 'm) service" where
  "cache_get d key s =
     (let (cached, c) = co_get (dp_cache d) key (sv_cache s) in
      (cached, s\<lparr>sv_cache := c, sv_metrics := count_cache (if cached \<noteq> None then ''hit'' else ''miss'') (sv_metrics s)\<rparr>))"

definition execute_keyed ::
  "('e, 'c, 'm, 'ast) deps \<Rightarrow> service_cfg \<Rightarrow> PreparedQuery \<Rightarrow> ExecutionContext \<Rightarrow> string \<Rightarrow> int
   \<Rightarrow> string \<Rightarrow> string \<Rightarrow> ('e, 'c, 'm) service \<Rightarrow> QueryResult res \<times> ('e, 'c, 'm) service" where
  "execute_keyed d c p ctx key ttl tok1 tok2 s =
     (let (hit, s1) = cache_get d key s in
      case hit of
        Some v \<Rightarrow> (Inr (for_query True (ctx_query_id ctx) v), s1)
      | None \<Rightarrow>
          (let lock_seconds = max (singleflight_lock_seconds c) (ctx_timeout_seconds ctx + 30);
               (t1, c2) = co_acquire (dp_cache d) key lock_seconds tok1 (sv_cache s1);
               s2 = s1\<lparr>sv_cache := c2\<rparr>
           in case t1 of
                Some t \<Rightarrow> run_engine d p ctx (Some (key, t)) ttl s2
              | None \<Rightarrow>
                  (let (found, c3) = co_wait (dp_cache d) key (singleflight_wait_seconds c) (sv_cache s2);
                       s3 = s2\<lparr>sv_cache := c3\<rparr>
                   in case found of
                        Some v \<Rightarrow> (Inr (for_query True (ctx_query_id ctx) v),
                          s3\<lparr>sv_metrics := count_cache ''coalesced'' (sv_metrics s3)\<rparr>)
                      | None \<Rightarrow>
                          (let (t2, c4) = co_acquire (dp_cache d) key lock_seconds tok2 (sv_cache s3);
                               s4 = s3\<lparr>sv_cache := c4\<rparr>
                           in case t2 of
                                Some t \<Rightarrow> run_engine d p ctx (Some (key, t)) ttl s4
                              | None \<Rightarrow> (raise BusyError ''equivalent query is already running'', s4)))))"

definition execute_admitted ::
  "('e, 'c, 'm, 'ast) deps \<Rightarrow> service_cfg \<Rightarrow> QueryRequest \<Rightarrow> string \<Rightarrow> ExecutionContext \<Rightarrow> string \<Rightarrow> string
   \<Rightarrow> ('e, 'c, 'm) service \<Rightarrow> QueryResult res \<times> ('e, 'c, 'm) service" where
  "execute_admitted d c r normalized_sql ctx tok1 tok2 s =
     (case query_ttl c r of
        Inl e \<Rightarrow> (Inl e, s)
      | Inr ttl \<Rightarrow>
          (let (pr, e1) = en_prepare (dp_engine d) r normalized_sql (sv_engine s); s1 = s\<lparr>sv_engine := e1\<rparr> in
           case pr of
             Inl e \<Rightarrow> (Inl e, s1)
           | Inr p \<Rightarrow>
               (if out_mode (req_output r) = INLINE \<and> ttl > 0 \<and> pq_cache_safe p
                then (case query_fingerprint (dp_sha256 d) (dp_sqlglot d) (r\<lparr>req_sql := normalized_sql\<rparr>)
                        (pq_source_versions p) of
                      Inl e \<Rightarrow> (Inl e, s1)
                    | Inr key \<Rightarrow> execute_keyed d c p ctx key ttl tok1 tok2 s1)
                else run_engine d p ctx None ttl s1)))"

text \<open>\<open>with self._slot()\<close>: the permit is given back on every way out.\<close>

definition with_slot ::
  "(('e, 'c, 'm) service \<Rightarrow> 'a res \<times> ('e, 'c, 'm) service) \<Rightarrow> ('e, 'c, 'm) service
   \<Rightarrow> 'a res \<times> ('e, 'c, 'm) service" where
  "with_slot body s =
     (if sv_free s = 0 then (raise BusyError ''query concurrency limit reached'', s)
      else (let (r, s1) = body (s\<lparr>sv_free := sv_free s - 1\<rparr>) in (r, s1\<lparr>sv_free := sv_free s1 + 1\<rparr>)))"

text \<open>\<open>with query_timer(mode)\<close>; \<open>elapsed\<close> is the difference of its two readings of the clock.\<close>

definition query_timer ::
  "string \<Rightarrow> rat \<Rightarrow> (('e, 'c, 'm) service \<Rightarrow> 'a res \<times> ('e, 'c, 'm) service) \<Rightarrow> ('e, 'c, 'm) service
   \<Rightarrow> 'a res \<times> ('e, 'c, 'm) service" where
  "query_timer mode elapsed body s =
     (let (r, s1) = body (s\<lparr>sv_metrics := timer_start mode (sv_metrics s)\<rparr>)
      in (r, s1\<lparr>sv_metrics := timer_stop mode elapsed (sv_metrics s1)\<rparr>))"

definition execute ::
  "('e, 'c, 'm, 'ast) deps \<Rightarrow> service_cfg \<Rightarrow> QueryRequest \<Rightarrow> string \<Rightarrow> string \<Rightarrow> ExecutionContext option
   \<Rightarrow> string \<Rightarrow> string \<Rightarrow> ('e, 'c, 'm) service \<Rightarrow> QueryResult res \<times> ('e, 'c, 'm) service" where
  "execute d c r query_id attempt_id ctx0 tok1 tok2 s =
     (case bindE (validate_query (dp_sqlglot d) c r)
             (\<lambda>sql. bindE (make_context c r query_id attempt_id ctx0) (\<lambda>ctx. Inr (sql, ctx))) of
        Inl e \<Rightarrow> (Inl e, s)
      | Inr (sql, ctx) \<Rightarrow>
          (let is_sync = ctx_kind ctx = ''sync'';
               s1 = (if is_sync then sv_record d (ctx_query_id ctx) ''sync'' r s else s);
               mode = delivery_mode_value (out_mode (req_output r));
               (res, s2) = with_slot (query_timer mode (dp_elapsed d (ctx_query_id ctx))
                  (execute_admitted d c r sql ctx tok1 tok2)) s1
           in (res,
               (if \<not> is_sync then s2
                else (case res of
                    Inl e \<Rightarrow> sv_update d (ctx_query_id ctx) ''failed'' None (Some (exn_msg e))
                               (Some (class_name (exn_cls e))) s2
                  | Inr v \<Rightarrow> sv_update d (ctx_query_id ctx) ''succeeded'' (Some v) None None s2)))))"

definition explain ::
  "('e, 'c, 'm, 'ast) deps \<Rightarrow> service_cfg \<Rightarrow> QueryRequest \<Rightarrow> string \<Rightarrow> string \<Rightarrow> ('e, 'c, 'm) service
   \<Rightarrow> ExplainResult res \<times> ('e, 'c, 'm) service" where
  "explain d c r query_id attempt_id s =
     (case bindE (validate_query (dp_sqlglot d) c r)
             (\<lambda>sql. bindE (make_context c r query_id attempt_id None) (\<lambda>ctx. Inr (sql, ctx))) of
        Inl e \<Rightarrow> (Inl e, s)
      | Inr (sql, ctx) \<Rightarrow>
          with_slot (\<lambda>s.
            let (pr, e1) = en_prepare (dp_engine d) r sql (sv_engine s); s1 = s\<lparr>sv_engine := e1\<rparr> in
            case pr of
              Inl e \<Rightarrow> (Inl e, s1)
            | Inr p \<Rightarrow> (let (plan, e2) = en_explain (dp_engine d) p ctx (sv_engine s1) in
                (bindE plan (\<lambda>t. Inr \<lparr>exp_query_id = query_id, exp_normalized_sql = sql,
                   exp_source_versions = pq_source_versions p, exp_plan = t\<rparr>), s1\<lparr>sv_engine := e2\<rparr>))) s)"

definition inspect_source ::
  "('e, 'c, 'm, 'ast) deps \<Rightarrow> SourceSpec \<Rightarrow> ('e, 'c, 'm) service
   \<Rightarrow> SourceInspection res \<times> ('e, 'c, 'm) service" where
  "inspect_source d src s =
     with_slot (\<lambda>s. let (r, e1) = en_inspect (dp_engine d) src (sv_engine s) in (r, s\<lparr>sv_engine := e1\<rparr>)) s"

definition affinity_key :: "('e, 'c, 'm, 'ast) deps \<Rightarrow> service_cfg \<Rightarrow> QueryRequest \<Rightarrow> string res" where
  "affinity_key d c r =
     bindE (validate_query (dp_sqlglot d) c r) (\<lambda>_. Inr (dataset_affinity_key (dp_sha256 d) r))"

definition cancel_query ::
  "('e, 'c, 'm, 'ast) deps \<Rightarrow> string \<Rightarrow> ('e, 'c, 'm) service \<Rightarrow> ('e, 'c, 'm) service" where
  "cancel_query d query_id s = s\<lparr>sv_engine := en_cancel (dp_engine d) query_id (sv_engine s)\<rparr>"

definition service_ready :: "('e, 'c, 'm, 'ast) deps \<Rightarrow> ('e, 'c, 'm) service \<Rightarrow> bool" where
  "service_ready d s = (co_ping (dp_cache d) (sv_cache s) \<and> en_ping (dp_engine d) (sv_engine s))"

section \<open>Streams\<close>

text \<open>
  \<open>guarded()\<close> is a generator: its body starts at the first \<open>next\<close>, and closing one that never
  started runs none of it.
\<close>

datatype gen_phase = NotStarted | Suspended | Finished

record guarded =
  gd_phase :: gen_phase
  gd_rows :: "string list"
  gd_error :: "exn option"
  gd_sync :: bool
  gd_query_id :: string

definition stream ::
  "('e, 'c, 'm, 'ast) deps \<Rightarrow> service_cfg \<Rightarrow> QueryRequest \<Rightarrow> string \<Rightarrow> string \<Rightarrow> ExecutionContext option
   \<Rightarrow> ('e, 'c, 'm) service \<Rightarrow> (string \<times> guarded \<times> string) res \<times> ('e, 'c, 'm) service" where
  "stream d c r query_id attempt_id ctx0 s =
     (case bindE (validate_query (dp_sqlglot d) c r)
             (\<lambda>sql. if out_mode (req_output r) \<noteq> STREAM
                then raise QueryRejected ''request output mode is not stream''
                else bindE (make_context c r query_id attempt_id ctx0) (\<lambda>ctx. Inr (sql, ctx))) of
        Inl e \<Rightarrow> (Inl e, s)
      | Inr (sql, ctx) \<Rightarrow>
          (let is_sync = ctx_kind ctx = ''sync''; q = ctx_query_id ctx;
               s1 = (if is_sync then sv_record d q ''sync'' r s else s) in
           if sv_free s1 = 0
           then (raise BusyError ''query concurrency limit reached'',
                 (if is_sync then sv_update d q ''failed'' None (Some ''query concurrency limit reached'') None s1
                  else s1))
           else
             (let s2 = s1\<lparr>sv_free := sv_free s1 - 1\<rparr>;
                  (pr, e1) = en_prepare (dp_engine d) r sql (sv_engine s2); s3 = s2\<lparr>sv_engine := e1\<rparr>;
                  (st, s4) = (case pr of
                      Inl e \<Rightarrow> (Inl e, s3)
                    | Inr p \<Rightarrow> (let (x, e2) = en_stream (dp_engine d) p ctx (sv_engine s3)
                        in (x, s3\<lparr>sv_engine := e2\<rparr>)))
              in case st of
                   Inl e \<Rightarrow>
                     (let s5 = s4\<lparr>sv_free := sv_free s4 + 1\<rparr> in
                      (Inl e, (if is_sync
                         then sv_update d q ''failed'' None (Some (exn_msg e)) (Some (class_name (exn_cls e))) s5
                         else s5)))
                 | Inr (media_type, rows, err) \<Rightarrow>
                     (Inr (media_type, \<lparr>gd_phase = NotStarted, gd_rows = rows, gd_error = err,
                        gd_sync = is_sync, gd_query_id = q\<rparr>, q), s4))))"

definition gen_cleanup ::
  "('e, 'c, 'm, 'ast) deps \<Rightarrow> guarded \<Rightarrow> ('e, 'c, 'm) service \<Rightarrow> ('e, 'c, 'm) service" where
  "gen_cleanup d g s = s\<lparr>sv_engine := en_cancel (dp_engine d) (gd_query_id g) (sv_engine s),
     sv_free := sv_free s + 1\<rparr>"

definition gen_update ::
  "('e, 'c, 'm, 'ast) deps \<Rightarrow> guarded \<Rightarrow> string \<Rightarrow> string option \<Rightarrow> string option
   \<Rightarrow> ('e, 'c, 'm) service \<Rightarrow> ('e, 'c, 'm) service" where
  "gen_update d g status error error_class s =
     (if gd_sync g then sv_update d (gd_query_id g) status None error error_class s else s)"

definition gen_metrics :: "(metrics \<Rightarrow> metrics) \<Rightarrow> ('e, 'c, 'm) service \<Rightarrow> ('e, 'c, 'm) service" where
  "gen_metrics f s = s\<lparr>sv_metrics := f (sv_metrics s)\<rparr>"

definition gen_start :: "guarded \<Rightarrow> ('e, 'c, 'm) service \<Rightarrow> ('e, 'c, 'm) service" where
  "gen_start g s = (if gd_phase g = NotStarted then gen_metrics (timer_start ''stream'') s else s)"

definition gen_stop ::
  "('e, 'c, 'm, 'ast) deps \<Rightarrow> guarded \<Rightarrow> ('e, 'c, 'm) service \<Rightarrow> ('e, 'c, 'm) service" where
  "gen_stop d g s = gen_metrics (timer_stop ''stream'' (dp_elapsed d (gd_query_id g))) s"

definition gen_next ::
  "('e, 'c, 'm, 'ast) deps \<Rightarrow> guarded \<Rightarrow> ('e, 'c, 'm) service
   \<Rightarrow> string option res \<times> guarded \<times> ('e, 'c, 'm) service" where
  "gen_next d g s =
     (if gd_phase g = Finished then (Inr None, g, s)
      else let s = gen_start g s in (case gd_rows g of
          x # xs \<Rightarrow> (Inr (Some x), g\<lparr>gd_phase := Suspended, gd_rows := xs\<rparr>,
            gen_metrics (count_bytes ''stream'' (length x)) s)
        | [] \<Rightarrow>
            (case gd_error g of
               None \<Rightarrow> (Inr None, g\<lparr>gd_phase := Finished\<rparr>,
                  gen_cleanup d g (gen_update d g ''succeeded'' None None (gen_stop d g s)))
             | Some e \<Rightarrow> (Inl e, g\<lparr>gd_phase := Finished\<rparr>,
                  gen_cleanup d g (gen_update d g ''failed'' (Some (exn_msg e)) (Some (class_name (exn_cls e)))
                    (gen_stop d g s))))))"

definition gen_close ::
  "('e, 'c, 'm, 'ast) deps \<Rightarrow> guarded \<Rightarrow> ('e, 'c, 'm) service \<Rightarrow> guarded \<times> ('e, 'c, 'm) service" where
  "gen_close d g s =
     (case gd_phase g of
        Suspended \<Rightarrow> (g\<lparr>gd_phase := Finished\<rparr>,
          gen_cleanup d g (gen_update d g ''cancelled''
            (Some ''stream consumer disconnected before completion'') None (gen_stop d g s)))
      | _ \<Rightarrow> (g\<lparr>gd_phase := Finished\<rparr>, s))"

section \<open>Closing\<close>

text \<open>\<open>close\<close>: the engine first, then the cache; \<open>getattr(..., "close", None)\<close> is \<open>None\<close> without one.\<close>

definition close_service ::
  "('e \<Rightarrow> 'e) option \<Rightarrow> ('c \<Rightarrow> 'c) option \<Rightarrow> ('e, 'c, 'm) service \<Rightarrow> ('e, 'c, 'm) service" where
  "close_service close_engine close_cache s =
     (let s1 = (case close_engine of None \<Rightarrow> s | Some f \<Rightarrow> s\<lparr>sv_engine := f (sv_engine s)\<rparr>) in
      case close_cache of None \<Rightarrow> s1 | Some f \<Rightarrow> s1\<lparr>sv_cache := f (sv_cache s1)\<rparr>)"

end
