(* ===== verification/Spark.thy ===== *)
theory Spark
  imports Service
begin

text \<open>
  \<open>SparkEngine\<close> of \<open>src/dalmatian/spark.py\<close>. PySpark, the Spark session and Hadoop's file systems
  are third-party code: a record \<open>pyspark\<close> of the calls the engine makes, over frames \<open>'f\<close> and a
  world \<open>'w\<close> that holds everything outside the process. The engine's own state is its dataset
  cache and the global temporary views it has registered. A clock reading, the timer of a query
  and \<open>isinstance(exc, AnalysisException)\<close> are parameters. The order of a dictionary of options
  is not used, so such a dictionary is a map.
\<close>

section \<open>Schemas\<close>

fun join_with :: "string \<Rightarrow> string list \<Rightarrow> string" where
  "join_with sep [] = []"
| "join_with sep [w] = w"
| "join_with sep (w # v # ws) = w @ sep @ join_with sep (v # ws)"

definition schema_text :: "SourceSpec \<Rightarrow> string option" where
  "schema_text src =
     (case src_schema src of
        None \<Rightarrow> None
      | Some (SchemaText t) \<Rightarrow> Some t
      | Some (SchemaFields fs) \<Rightarrow>
          Some (join_with '', '' (map (\<lambda>(name, dtype). CHR 0x60 # name @ CHR 0x60 # CHR '' '' # dtype) fs)))"

section \<open>Recursive globs\<close>

text \<open>\<open>uri.split("**", 1)\<close>, \<open>None\<close> when there is no \<open>**\<close>.\<close>

fun split_stars :: "string \<Rightarrow> (string \<times> string) option" where
  "split_stars [] = None"
| "split_stars (c # s) =
     (if starts_with (c # s) ''**'' then Some ([], tl s)
      else map_option (\<lambda>(u, v). (c # u, v)) (split_stars s))"

definition last_segment :: "string \<Rightarrow> string" where
  "last_segment p = rev (takeWhile (\<lambda>c. c \<noteq> CHR ''/'') (rev p))"

definition read_target :: "string \<Rightarrow> string \<times> (string \<rightharpoonup> string)" where
  "read_target uri =
     (case split_stars uri of
        None \<Rightarrow> (uri, Map.empty)
      | Some (pre, suffix) \<Rightarrow>
          (let trailing = lstrip CHR ''/'' suffix;
               basename = (if trailing = [] then [] else last_segment trailing)
           in (rstrip CHR ''/'' pre,
               if basename \<noteq> [] \<and> \<not> contains ''**'' basename
               then [''recursiveFileLookup'' \<mapsto> ''true'', ''pathGlobFilter'' \<mapsto> basename]
               else [''recursiveFileLookup'' \<mapsto> ''true''])))"

text \<open>The pieces the loop of \<open>_glob_regex\<close> appends, and the text of each.\<close>

datatype glob_item = DirStar | AnyStar | SegStar | SegAny | Lit char

fun glob_items :: "string \<Rightarrow> glob_item list" where
  "glob_items [] = []"
| "glob_items (c # s) =
     (if starts_with (c # s) ''**/'' then DirStar # glob_items (drop 2 s)
      else if starts_with (c # s) ''**'' then AnyStar # glob_items (drop 1 s)
      else if c = CHR ''*'' then SegStar # glob_items s
      else if c = CHR ''?'' then SegAny # glob_items s
      else Lit c # glob_items s)"

definition re_special :: "char \<Rightarrow> bool" where
  "re_special c = (c \<in> set ''()[]{}?*+-|^$.&~# '' \<or> c = CHR 0x5C \<or> c \<in> {CHR 0x09, CHR 0x0A, CHR 0x0B, CHR 0x0C, CHR 0x0D})"

fun item_regex :: "glob_item \<Rightarrow> string" where
  "item_regex DirStar = ''(?:.*/)?''"
| "item_regex AnyStar = ''.*''"
| "item_regex SegStar = ''[^/]*''"
| "item_regex SegAny = ''[^/]''"
| "item_regex (Lit c) = (if re_special c then [CHR 0x5C, c] else [c])"

definition glob_regex :: "string \<Rightarrow> string option" where
  "glob_regex uri =
     (case split_stars uri of
        None \<Rightarrow> None
      | Some (_, suffix) \<Rightarrow>
          (let trailing = lstrip CHR ''/'' suffix in
           if trailing = [] \<or> (CHR ''/'' \<notin> set trailing \<and> \<not> contains ''**'' trailing) then None
           else Some (CHR ''^'' # concat (map item_regex (glob_items uri)) @ ''$'')))"

section \<open>Reading a source\<close>

record read_plan =
  rp_format :: DataFormat
  rp_targets :: "string list"
  rp_options :: "string \<rightharpoonup> string"
  rp_schema :: "string option"
  rp_filter :: "string option"

definition py_bool_lower :: "bool \<Rightarrow> string" where
  "py_bool_lower b = (if b then ''true'' else ''false'')"

definition make_read_plan :: "SourceSpec \<Rightarrow> ResolvedSource \<Rightarrow> read_plan" where
  "make_read_plan src rs =
     (let (targets, recursive_options) =
            (case rs_read_uris rs of
               None \<Rightarrow> (let (t, opts) = read_target (rs_uri rs) in ([t], opts))
             | Some uris \<Rightarrow> (uris, Map.empty));
          schema = schema_text src;
          base = [''dalmatianSourceFingerprint'' \<mapsto> rs_fingerprint rs];
          common = base ++ map_of (src_options src) ++ recursive_options;
          csv = [''header'' \<mapsto> ''true''] ++ common;
          options = (if src_format src = DF_CSV
            then (if schema = None then csv(''inferSchema'' \<mapsto> py_bool_lower (src_infer_schema src)) else csv)
            else common)
      in \<lparr>rp_format = src_format src, rp_targets = targets, rp_options = options,
          rp_schema = (if schema = Some [] then None else schema), rp_filter = glob_regex (rs_uri rs)\<rparr>)"

section \<open>The Spark session\<close>

text \<open>
  The configuration that \<open>SparkEngine.__init__\<close> gives the session builder: later calls of \<open>config\<close>
  win, so the operator's \<open>spark_config\<close> overrides everything before it. \<open>appName\<close> and \<open>master\<close> set
  the keys \<open>spark.app.name\<close> and \<open>spark.master\<close>; \<open>local_ip\<close> is the variable \<open>SPARK_LOCAL_IP\<close>.
\<close>

definition engine_conf ::
  "string \<Rightarrow> string \<Rightarrow> int \<Rightarrow> int \<Rightarrow> string \<Rightarrow> string option \<Rightarrow> int option \<Rightarrow> string \<Rightarrow> (string \<rightharpoonup> string)" where
  "engine_conf master app_name max_cores executor_cores executor_memory local_ip instances packages =
     (let conf = [''spark.app.name'' \<mapsto> app_name, ''spark.master'' \<mapsto> master,
            ''spark.scheduler.mode'' \<mapsto> ''FAIR'', ''spark.cores.max'' \<mapsto> dec_of_int max_cores,
            ''spark.executor.cores'' \<mapsto> dec_of_int executor_cores, ''spark.executor.memory'' \<mapsto> executor_memory];
          conf = (case local_ip of
              Some ip \<Rightarrow> if ip = [] then conf
                else conf(''spark.driver.host'' \<mapsto> ip, ''spark.driver.bindAddress'' \<mapsto> ip)
            | None \<Rightarrow> conf);
          conf = (case instances of
              Some n \<Rightarrow> conf(''spark.executor.instances'' \<mapsto> dec_of_int n) | None \<Rightarrow> conf)
      in if packages = [] then conf else conf(''spark.jars.packages'' \<mapsto> packages))"

definition with_options :: "(string \<rightharpoonup> string) \<Rightarrow> (string \<times> string) list option \<Rightarrow> (string \<rightharpoonup> string)" where
  "with_options conf spark_config =
     foldl (\<lambda>conf (key, value). conf(key \<mapsto> value)) conf (case spark_config of None \<Rightarrow> [] | Some kvs \<Rightarrow> kvs)"

lemma foldl_map_upd:
  "distinct (map fst kvs) \<Longrightarrow>
     foldl (\<lambda>conf (key, value). conf(key \<mapsto> value)) conf kvs = conf ++ map_of kvs"
proof (induction kvs arbitrary: conf)
  case (Cons kv kvs)
  obtain k v where kv: "kv = (k, v)" by (rule prod.exhaust)
  have "map_of kvs k = None" using Cons.prems by (simp add: kv map_of_eq_None_iff)
  then show ?case using Cons by (simp add: kv fun_eq_iff map_add_def split: option.split)
qed simp

section \<open>PySpark and the engine's state\<close>

text \<open>
  \<open>ps_path\<close> resolves a URI to a path of its Hadoop file system and gives the path's parent;
  \<open>ps_create\<close>, \<open>ps_put\<close> and \<open>ps_close\<close> open, write and close the stream of one file.
\<close>

record ('f, 'w) pyspark =
  ps_read :: "read_plan \<Rightarrow> 'w \<Rightarrow> 'f res \<times> 'w"
  ps_sql :: "(string \<times> 'f) list \<Rightarrow> string \<Rightarrow> 'w \<Rightarrow> 'f res \<times> 'w"
  ps_columns :: "'f \<Rightarrow> string list"
  ps_json_rows :: "int option \<Rightarrow> 'f \<Rightarrow> 'w \<Rightarrow> (string list \<times> exn option) \<times> 'w"
  ps_rows :: "'f \<Rightarrow> 'w \<Rightarrow> (string option list list \<times> exn option) \<times> 'w"
  ps_partitions :: "'f \<Rightarrow> nat"
  ps_write :: "OutputFormat \<Rightarrow> (string \<times> string) list \<Rightarrow> string \<Rightarrow> 'f \<Rightarrow> 'w \<Rightarrow> unit res \<times> 'w"
  ps_path :: "string \<Rightarrow> 'w \<Rightarrow> string option res \<times> 'w"
  ps_mkdirs :: "string \<Rightarrow> 'w \<Rightarrow> unit res \<times> 'w"
  ps_create :: "string \<Rightarrow> bool \<Rightarrow> 'w \<Rightarrow> unit res \<times> 'w"
  ps_put :: "string \<Rightarrow> string \<Rightarrow> 'w \<Rightarrow> unit res \<times> 'w"
  ps_close :: "string \<Rightarrow> 'w \<Rightarrow> unit res \<times> 'w"
  ps_plan :: "'f \<Rightarrow> 'w \<Rightarrow> string res \<times> 'w"
  ps_fields :: "'f \<Rightarrow> SourceColumn list"
  ps_cancel_group :: "string \<Rightarrow> 'w \<Rightarrow> 'w"
  ps_stopped :: "'w \<Rightarrow> bool"
  ps_stop :: "'w \<Rightarrow> 'w"

record ('f, 'w) spark =
  sk_datasets :: "string dataset_cache"
  sk_views :: "string \<rightharpoonup> 'f"
  sk_world :: 'w

text \<open>An operation of the dataset cache; a released view is dropped from the catalog.\<close>

definition with_datasets ::
  "(string dataset_cache \<Rightarrow> 'a \<times> string dataset_cache) \<Rightarrow> ('f, 'w) spark \<Rightarrow> 'a \<times> ('f, 'w) spark" where
  "with_datasets f s =
     (let (x, c) = f (sk_datasets s);
          released = drop (length (dc_released (sk_datasets s))) (dc_released c)
      in (x, s\<lparr>sk_datasets := c, sk_views := foldl (\<lambda>views name. views(name := None)) (sk_views s) released\<rparr>))"

definition view_name :: "string \<Rightarrow> string" where
  "view_name fingerprint = ''_dalmatian_'' @ take 24 fingerprint"

definition read_source ::
  "('f, 'w) pyspark \<Rightarrow> SourceSpec \<Rightarrow> ResolvedSource \<Rightarrow> ('f, 'w) spark \<Rightarrow> 'f res \<times> ('f, 'w) spark" where
  "read_source ps src rs s =
     (let (r, w) = ps_read ps (make_read_plan src rs) (sk_world s) in (r, s\<lparr>sk_world := w\<rparr>))"

definition load_cached_view ::
  "('f, 'w) pyspark \<Rightarrow> SourceSpec \<Rightarrow> ResolvedSource \<Rightarrow> rat \<Rightarrow> rat \<Rightarrow> rat \<Rightarrow> ('f, 'w) spark
   \<Rightarrow> string res \<times> ('f, 'w) spark" where
  "load_cached_view ps src rs t1 t2 t3 s =
     (let key = rs_fingerprint rs; (hit, s1) = with_datasets (dc_get key t1) s in
      case hit of
        Some v \<Rightarrow> (Inr v, s1)
      | None \<Rightarrow>
          (let (hit2, s2) = with_datasets (dc_get key t2) s1 in
           case hit2 of
             Some v \<Rightarrow> (Inr v, s2)
           | None \<Rightarrow>
               (let name = view_name key; (r, s3) = read_source ps src rs s2 in
                case r of
                  Inl e \<Rightarrow> (Inl e, s3)
                | Inr frame \<Rightarrow>
                    (let s4 = s3\<lparr>sk_views := (sk_views s3)(name \<mapsto> frame)\<rparr>;
                         (_, s5) = with_datasets (\<lambda>c. let c' = dc_put key name t3 c
                           in ((), c'\<lparr>dc_misses := dc_misses c' + 1\<rparr>)) s4
                     in (Inr name, s5)))))"

text \<open>
  The loop of \<open>_frame\<close> over the sources: the session's temporary views. \<open>session.table\<close> on a view
  that is not registered raises. Each source takes three readings of the clock.
\<close>

fun session_views ::
  "('f, 'w) pyspark \<Rightarrow> (nat \<Rightarrow> rat) \<Rightarrow> (string \<times> ResolvedSource) list \<Rightarrow> (string \<times> SourceSpec) list
   \<Rightarrow> (string \<times> 'f) list \<Rightarrow> ('f, 'w) spark \<Rightarrow> (string \<times> 'f) list res \<times> ('f, 'w) spark" where
  "session_views ps clk resolved [] views s = (Inr views, s)"
| "session_views ps clk resolved ((name, src) # rest) views s =
     (case map_of resolved name of
        None \<Rightarrow> (raise (OtherExn ''KeyError'') name, s)
      | Some rs \<Rightarrow>
          (let (r, s1) =
             (if rs_cache_safe rs
              then (let (v, s1) = load_cached_view ps src rs (clk 0) (clk 1) (clk 2) s in
                (bindE v (\<lambda>v. case sk_views s1 v of
                     None \<Rightarrow> raise (OtherExn ''AnalysisException'') (''table or view not found: '' @ v)
                   | Some f \<Rightarrow> Inr f), s1))
              else read_source ps src rs s)
           in case r of
                Inl e \<Rightarrow> (Inl e, s1)
              | Inr f \<Rightarrow> session_views ps (\<lambda>n. clk (n + 3)) resolved rest (views @ [(name, f)]) s1))"

definition make_frame ::
  "('f, 'w) pyspark \<Rightarrow> (nat \<Rightarrow> rat) \<Rightarrow> PreparedQuery \<Rightarrow> ('f, 'w) spark \<Rightarrow> 'f res \<times> ('f, 'w) spark" where
  "make_frame ps clk p s =
     (let (r, s1) = session_views ps clk (pq_sources p) (req_sources (pq_request p)) [] s in
      case r of
        Inl e \<Rightarrow> (Inl e, s1)
      | Inr views \<Rightarrow>
          (let (f, w) = ps_sql ps views (pq_normalized_sql p) (sk_world s1) in (f, s1\<lparr>sk_world := w\<rparr>)))"

end
