(* ===== verification/SparkQuery.thy ===== *)
theory SparkQuery
  imports Spark
begin

text \<open>
  The queries of \<open>SparkEngine\<close>: the scope that maps exceptions, inline results, streams, stored
  outputs, plans and inspections. \<open>engine_env\<close> gathers what the engine was built with and the
  libraries it calls; \<open>timed_out\<close> says whether the query's timer had fired when its exception
  was handled. The two callbacks of an execution context are \<open>commit_ops\<close> over the world.
\<close>

section \<open>Environment\<close>

record ('f, 'w, 'm) engine_env =
  ev_ps :: "('f, 'w) pyspark"
  ev_sha256 :: "string \<Rightarrow> string"
  ev_fs :: filesystem
  ev_metadata :: "'m metadata_ref"
  ev_registry :: storage_registry
  ev_publish :: "string \<Rightarrow> string \<Rightarrow> string \<Rightarrow> string \<Rightarrow> string \<Rightarrow> 'w \<Rightarrow> bool \<times> 'w"
  ev_data_root :: string
  ev_max_inline_bytes :: nat
  ev_loads :: "string \<Rightarrow> json res"
  ev_analysis :: "exn \<Rightarrow> bool"
  ev_quotes_cr :: bool

record 'w commit_ops =
  cm_can_commit :: "'w \<Rightarrow> bool \<times> 'w"
  cm_publish_output :: "(string \<Rightarrow> string \<Rightarrow> string \<Rightarrow> 'w \<Rightarrow> int \<times> 'w) option"

definition default_commit :: "'w commit_ops" where
  "default_commit = \<lparr>cm_can_commit = (\<lambda>w. (True, w)), cm_publish_output = None\<rparr>"

section \<open>The query scope\<close>

definition line_break :: "char \<Rightarrow> bool" where
  "line_break c = (let n = of_char c :: nat in (10 \<le> n \<and> n \<le> 13) \<or> (28 \<le> n \<and> n \<le> 30))"

definition query_scope :: "(exn \<Rightarrow> bool) \<Rightarrow> bool \<Rightarrow> ExecutionContext \<Rightarrow> 'a res \<Rightarrow> 'a res" where
  "query_scope analysis timed_out ctx r =
     (case r of
        Inr v \<Rightarrow> Inr v
      | Inl e \<Rightarrow>
          (if timed_out
           then raise QueryTimeout (''query exceeded '' @ dec_of_int (ctx_timeout_seconds ctx) @ '' seconds'')
           else if contains ''cancel'' (lower (exn_msg e)) then raise QueryCancelled ''query was cancelled''
           else if analysis e
           then (if exn_msg e = [] then raise (OtherExn ''IndexError'') ''list index out of range''
                 else raise QueryRejected (''query analysis failed: ''
                   @ take 500 (takeWhile (\<lambda>c. \<not> line_break c) (exn_msg e))))
           else Inl e))"

section \<open>Inline results\<close>

fun take_rows ::
  "(string \<Rightarrow> json res) \<Rightarrow> nat \<Rightarrow> int \<Rightarrow> exn option \<Rightarrow> nat \<Rightarrow> nat \<Rightarrow> json list \<Rightarrow> string list
   \<Rightarrow> (json list \<times> bool) res" where
  "take_rows loads max_bytes max_rows err index encoded_bytes rows [] =
     (case err of Some e \<Rightarrow> Inl e | None \<Rightarrow> Inr (rows, False))"
| "take_rows loads max_bytes max_rows err index encoded_bytes rows (raw # raws) =
     (if int index \<ge> max_rows then Inr (rows, True)
      else if encoded_bytes + length raw > max_bytes
      then raise QueryRejected ''inline result exceeds byte limit; use stream or store output''
      else bindE (loads raw) (\<lambda>row. take_rows loads max_bytes max_rows err (index + 1)
             (encoded_bytes + length raw) (rows @ [row]) raws))"

definition inline_result ::
  "('f, 'w, 'm) engine_env \<Rightarrow> (nat \<Rightarrow> rat) \<Rightarrow> PreparedQuery \<Rightarrow> ExecutionContext \<Rightarrow> ('f, 'w) spark
   \<Rightarrow> InlineResult res \<times> ('f, 'w) spark" where
  "inline_result ev clk p ctx s =
     (let (fr, s1) = make_frame (ev_ps ev) clk p s in
      case fr of
        Inl e \<Rightarrow> (Inl e, s1)
      | Inr frame \<Rightarrow>
          (let max_rows = req_max_rows (pq_request p);
               ((raws, err), w) = ps_json_rows (ev_ps ev) (Some (max_rows + 1)) frame (sk_world s1);
               r = take_rows (ev_loads ev) (ev_max_inline_bytes ev) max_rows err 0 0 [] raws
           in (bindE r (\<lambda>(rows, truncated). Inr \<lparr>inl_query_id = Some (ctx_query_id ctx),
                 inl_columns = ps_columns (ev_ps ev) frame, inl_rows = rows, inl_truncated = truncated,
                 inl_cached = False\<rparr>), s1\<lparr>sk_world := w\<rparr>)))"

section \<open>CSV and JSON lines\<close>

text \<open>
  \<open>csv.writer\<close> with its default quoting: a field is quoted when it holds the delimiter, the quote
  or a line end. Whether a bare carriage return counts depends on the Python version, so it is
  a parameter. A row whose only field is empty is written as a quoted empty field.
\<close>

definition csv_special :: "bool \<Rightarrow> char \<Rightarrow> bool" where
  "csv_special qcr c = (c \<in> {CHR '','', CHR 0x22, CHR 0x0A} \<or> (qcr \<and> c = CHR 0x0D))"

definition csv_text :: "string option \<Rightarrow> string" where
  "csv_text v = (case v of None \<Rightarrow> [] | Some t \<Rightarrow> t)"

definition csv_quote :: "string \<Rightarrow> string" where
  "csv_quote t = CHR 0x22 # concat (map (\<lambda>c. if c = CHR 0x22 then [c, c] else [c]) t) @ [CHR 0x22]"

definition csv_field :: "bool \<Rightarrow> string \<Rightarrow> string" where
  "csv_field qcr t = (if list_ex (csv_special qcr) t then csv_quote t else t)"

definition csv_row :: "bool \<Rightarrow> string list \<Rightarrow> string" where
  "csv_row qcr cells =
     (if cells = [[]] then csv_quote [] else join_on CHR '','' (map (csv_field qcr) cells)) @ [CHR 0x0A]"

definition csv_rows :: "bool \<Rightarrow> string list \<Rightarrow> string option list list \<Rightarrow> string list" where
  "csv_rows qcr columns rows = csv_row qcr columns # map (\<lambda>r. csv_row qcr (map csv_text r)) rows"

text \<open>
  \<open>stream\<close>: the media type, the chunks the generator yields and the exception that ends it. The
  frame is built at the first chunk, inside the query's scope.
\<close>

definition spark_stream ::
  "('f, 'w, 'm) engine_env \<Rightarrow> (nat \<Rightarrow> rat) \<Rightarrow> bool \<Rightarrow> PreparedQuery \<Rightarrow> ExecutionContext \<Rightarrow> ('f, 'w) spark
   \<Rightarrow> (string \<times> string list \<times> exn option) res \<times> ('f, 'w) spark" where
  "spark_stream ev clk timed_out p ctx s =
     (let output = req_output (pq_request p);
          scoped = (\<lambda>e. case query_scope (ev_analysis ev) timed_out ctx (Inl e :: unit res) of
             Inl e' \<Rightarrow> Some e' | Inr _ \<Rightarrow> None)
      in if out_mode output \<noteq> STREAM then (raise ValueError ''request output mode is not stream'', s)
         else if out_format output = OF_JSONL
         then (let (fr, s1) = make_frame (ev_ps ev) clk p s in
               case fr of
                 Inl e \<Rightarrow> (Inr (''application/x-ndjson'', [], scoped e), s1)
               | Inr frame \<Rightarrow>
                   (let ((raws, err), w) = ps_json_rows (ev_ps ev) None frame (sk_world s1)
                    in (Inr (''application/x-ndjson'', map (\<lambda>r. r @ [CHR 0x0A]) raws,
                          (case err of None \<Rightarrow> None | Some e \<Rightarrow> scoped e)), s1\<lparr>sk_world := w\<rparr>)))
         else if out_format output = OF_CSV
         then (let (fr, s1) = make_frame (ev_ps ev) clk p s in
               case fr of
                 Inl e \<Rightarrow> (Inr (''text/csv'', [], scoped e), s1)
               | Inr frame \<Rightarrow>
                   (let ((rows, err), w) = ps_rows (ev_ps ev) frame (sk_world s1)
                    in (Inr (''text/csv'', csv_rows (ev_quotes_cr ev) (ps_columns (ev_ps ev) frame) rows,
                          (case err of None \<Rightarrow> None | Some e \<Rightarrow> scoped e)), s1\<lparr>sk_world := w\<rparr>)))
         else (raise ValueError ''stream output format must be csv or jsonl'', s))"

section \<open>Stored outputs\<close>

definition stored_dump :: "StoredResult \<Rightarrow> json" where
  "stored_dump r = JObj [(''type'', JStr ''stored''), (''query_id'', JStr (sto_query_id r)),
     (''format'', JStr (output_format_value (sto_format r))), (''location'', JStr (sto_location r)),
     (''path'', JStr (sto_path r)), (''manifest_uri'', JStr (sto_manifest_uri r)),
     (''data_uri'', JStr (sto_data_uri r)), (''partitions'', JInt (int (sto_partitions r))),
     (''source_versions'', json_dict (sto_source_versions r))]"

definition data_uri_of :: "string \<Rightarrow> ExecutionContext \<Rightarrow> string" where
  "data_uri_of uri ctx = uri @ ''/_dalmatian_data/'' @ ctx_query_id ctx @ CHR ''/'' # ctx_attempt_id ctx"

definition manifest_uri_of :: "string \<Rightarrow> ExecutionContext \<Rightarrow> string" where
  "manifest_uri_of uri ctx =
     uri @ ''/_dalmatian_manifests/'' @ ctx_query_id ctx @ CHR ''/'' # ctx_attempt_id ctx @ ''.json''"

definition publish_result ::
  "('f, 'w, 'm) engine_env \<Rightarrow> 'w commit_ops \<Rightarrow> ResolvedDestination \<Rightarrow> ExecutionContext \<Rightarrow> string \<Rightarrow> string
   \<Rightarrow> 'w \<Rightarrow> int \<times> 'w" where
  "publish_result ev cm logical ctx manifest_uri mode w =
     (case cm_publish_output cm of
        Some publish \<Rightarrow> publish (publication_key (ev_sha256 ev) (ev_registry ev) logical) manifest_uri mode w
      | None \<Rightarrow>
          (let (ok, w1) = publish_sync (ev_sha256 ev) (ev_publish ev) (ev_registry ev) logical
             (ctx_query_id ctx) (ctx_attempt_id ctx) manifest_uri mode w
           in (if ok then 1 else 0, w1)))"

text \<open>\<open>_write_manifest\<close>: an exception of \<open>close\<close> takes the place of one of \<open>write\<close>.\<close>

definition write_manifest :: "('f, 'w) pyspark \<Rightarrow> string \<Rightarrow> string \<Rightarrow> bool \<Rightarrow> 'w \<Rightarrow> unit res \<times> 'w" where
  "write_manifest ps uri payload overwrite w =
     (let (parent, w1) = ps_path ps uri w in
      case parent of
        Inl e \<Rightarrow> (Inl e, w1)
      | Inr parent \<Rightarrow>
          (let (made, w2) = (case parent of None \<Rightarrow> (Inr (), w1) | Some dir \<Rightarrow> ps_mkdirs ps dir w1) in
           case made of
             Inl e \<Rightarrow> (Inl e, w2)
           | Inr _ \<Rightarrow>
               (let (opened, w3) = ps_create ps uri overwrite w2 in
                case opened of
                  Inl e \<Rightarrow> (Inl e, w3)
                | Inr _ \<Rightarrow>
                    (let (put, w4) = ps_put ps uri payload w3; (closed, w5) = ps_close ps uri w4
                     in ((case closed of Inl e \<Rightarrow> Inl e | Inr _ \<Rightarrow> put), w5)))))"

text \<open>What follows the writing of the data: the fence, the manifest, the pointer.\<close>

definition commit_output ::
  "('f, 'w, 'm) engine_env \<Rightarrow> 'w commit_ops \<Rightarrow> string \<Rightarrow> ResolvedDestination \<Rightarrow> StoredResult
   \<Rightarrow> ExecutionContext \<Rightarrow> string \<Rightarrow> 'w \<Rightarrow> StoredResult res \<times> 'w" where
  "commit_output ev cm created_at logical result ctx mode w =
     (let (ok, w1) = cm_can_commit cm w in
      if \<not> ok then (raise CommitFenced ''job lease changed before output publication'', w1)
      else
        (let manifest = manifest_payload [(''version'', JInt 2), (''query_id'', JStr (ctx_query_id ctx)),
               (''attempt_id'', JStr (ctx_attempt_id ctx)),
               (''attempt_number'', JInt (int (ctx_attempt_number ctx))), (''created_at'', JStr created_at),
               (''result'', stored_dump result)];
             (r, w2) = write_manifest (ev_ps ev) (sto_manifest_uri result) manifest False w1
         in case r of
              Inl e \<Rightarrow> (Inl e, w2)
            | Inr _ \<Rightarrow>
                (let (published, w3) = publish_result ev cm logical ctx (sto_manifest_uri result) mode w2 in
                 if published < 0 then (raise CommitFenced ''job lease changed during output publication'', w3)
                 else if published = 0
                 then (raise FileExistsError (''stored output already exists: '' @ dst_path logical), w3)
                 else (Inr result, w3))))"

definition store_result ::
  "('f, 'w, 'm) engine_env \<Rightarrow> 'w commit_ops \<Rightarrow> (nat \<Rightarrow> rat) \<Rightarrow> string \<Rightarrow> PreparedQuery \<Rightarrow> ExecutionContext
   \<Rightarrow> ('f, 'w) spark \<Rightarrow> StoredResult res \<times> ('f, 'w) spark" where
  "store_result ev cm clk created_at p ctx s =
     (let output = req_output (pq_request p) in
      case (out_location output, out_path output) of
        (Some location, Some path) \<Rightarrow>
          (if out_format output = OF_JSON
           then (raise ValueError ''stored json uses jsonl format; json is reserved for inline output'', s)
           else (case resolve (ev_metadata ev) (ev_registry ev) location path of
               Inl e \<Rightarrow> (Inl e, s)
             | Inr logical \<Rightarrow>
                 (let (fr, s1) = make_frame (ev_ps ev) clk p s in
                  case fr of
                    Inl e \<Rightarrow> (Inl e, s1)
                  | Inr frame \<Rightarrow>
                      (let data_uri = data_uri_of (dst_uri logical) ctx;
                           (r, w) = ps_write (ev_ps ev) (out_format output) (out_options output) data_uri frame
                             (sk_world s1)
                       in case r of
                            Inl e \<Rightarrow> (Inl e, s1\<lparr>sk_world := w\<rparr>)
                          | Inr _ \<Rightarrow>
                              (let result = \<lparr>sto_query_id = ctx_query_id ctx, sto_format = out_format output,
                                     sto_location = dst_location logical, sto_path = dst_path logical,
                                     sto_manifest_uri = manifest_uri_of (dst_uri logical) ctx,
                                     sto_data_uri = data_uri, sto_partitions = ps_partitions (ev_ps ev) frame,
                                     sto_source_versions = pq_source_versions p\<rparr>;
                                   (res, w1) = commit_output ev cm created_at logical result ctx
                                     (write_mode_value (out_write_mode output)) w
                               in (res, s1\<lparr>sk_world := w1\<rparr>))))))
      | _ \<Rightarrow> (raise (OtherExn ''AssertionError'') [], s))"

section \<open>The engine's operations\<close>

definition spark_execute ::
  "('f, 'w, 'm) engine_env \<Rightarrow> 'w commit_ops \<Rightarrow> (nat \<Rightarrow> rat) \<Rightarrow> string \<Rightarrow> bool \<Rightarrow> PreparedQuery
   \<Rightarrow> ExecutionContext \<Rightarrow> ('f, 'w) spark \<Rightarrow> QueryResult res \<times> ('f, 'w) spark" where
  "spark_execute ev cm clk created_at timed_out p ctx s =
     (case out_mode (req_output (pq_request p)) of
        INLINE \<Rightarrow>
          (let (r, s1) = inline_result ev clk p ctx s in
           (query_scope (ev_analysis ev) timed_out ctx (bindE r (\<lambda>v. Inr (Inline v))), s1))
      | STORE \<Rightarrow>
          (let (r, s1) = store_result ev cm clk created_at p ctx s in
           (query_scope (ev_analysis ev) timed_out ctx (bindE r (\<lambda>v. Inr (Stored v))), s1))
      | STREAM \<Rightarrow> (raise ValueError ''stream output must use the streaming execution path'', s))"

definition spark_explain ::
  "('f, 'w, 'm) engine_env \<Rightarrow> (nat \<Rightarrow> rat) \<Rightarrow> bool \<Rightarrow> PreparedQuery \<Rightarrow> ExecutionContext \<Rightarrow> ('f, 'w) spark
   \<Rightarrow> string res \<times> ('f, 'w) spark" where
  "spark_explain ev clk timed_out p ctx s =
     (let (fr, s1) = make_frame (ev_ps ev) clk p s in
      case fr of
        Inl e \<Rightarrow> (query_scope (ev_analysis ev) timed_out ctx (Inl e), s1)
      | Inr frame \<Rightarrow>
          (let (plan, w) = ps_plan (ev_ps ev) frame (sk_world s1) in
           (query_scope (ev_analysis ev) timed_out ctx plan, s1\<lparr>sk_world := w\<rparr>)))"

definition spark_inspect ::
  "('f, 'w, 'm) engine_env \<Rightarrow> SourceSpec \<Rightarrow> ('f, 'w) spark \<Rightarrow> SourceInspection res \<times> ('f, 'w) spark" where
  "spark_inspect ev src s =
     (case resolve_source (ev_sha256 ev) (ev_fs ev) (ev_metadata ev) (ev_registry ev) (ev_data_root ev) src of
        Inl e \<Rightarrow> (Inl e, s)
      | Inr rs \<Rightarrow>
          (let (r, s1) = read_source (ev_ps ev) src rs s in
           (bindE r (\<lambda>frame. Inr
              \<lparr>insp_location = (case src_location src of None \<Rightarrow> ''local'' | Some l \<Rightarrow> if l = [] then ''local'' else l),
               insp_resolved_uri = rs_uri rs,
               insp_fingerprint = (if rs_cache_safe rs then Some (rs_fingerprint rs) else None),
               insp_cache_safe = rs_cache_safe rs, insp_columns = ps_fields (ev_ps ev) frame\<rparr>), s1)))"

definition spark_cancel :: "('f, 'w, 'm) engine_env \<Rightarrow> string \<Rightarrow> ('f, 'w) spark \<Rightarrow> ('f, 'w) spark" where
  "spark_cancel ev query_id s = s\<lparr>sk_world := ps_cancel_group (ev_ps ev) query_id (sk_world s)\<rparr>"

definition spark_close :: "('f, 'w, 'm) engine_env \<Rightarrow> ('f, 'w) spark \<Rightarrow> ('f, 'w) spark" where
  "spark_close ev s =
     (let s1 = snd (with_datasets (\<lambda>c. ((), dc_close c)) s) in s1\<lparr>sk_world := ps_stop (ev_ps ev) (sk_world s1)\<rparr>)"

text \<open>The engine as the service sees it.\<close>

definition spark_ops ::
  "('f, 'w, 'm) engine_env \<Rightarrow> (nat \<Rightarrow> rat) \<Rightarrow> string \<Rightarrow> bool \<Rightarrow> ('f, 'w) spark engine_ops" where
  "spark_ops ev clk created_at timed_out =
     \<lparr>en_prepare = (\<lambda>r sql s.
        (prepare (ev_sha256 ev) (ev_fs ev) (ev_metadata ev) (ev_registry ev) (ev_data_root ev) r sql, s)),
      en_execute = spark_execute ev default_commit clk created_at timed_out,
      en_stream = spark_stream ev clk timed_out,
      en_explain = spark_explain ev clk timed_out,
      en_inspect = spark_inspect ev,
      en_cancel = spark_cancel ev,
      en_ping = (\<lambda>s. \<not> ps_stopped (ev_ps ev) (sk_world s))\<rparr>"

end
