(* ===== verification/SparkProps.thy ===== *)
theory SparkProps
  imports SparkQuery
begin

text \<open>
  What the engine delivers: a CSV stream that reads back as the rows, inline results within
  their limits, stored outputs whose pointer moves last, and a cache whose views are registered.
\<close>

section \<open>Reading CSV back\<close>

text \<open>
  A reader of CSV text with newline line ends, independent of the writer: a field in quotes ends
  at the first quote that is not doubled, any other at the next comma or newline.
\<close>

fun scan_quoted :: "string \<Rightarrow> string \<times> string" where
  "scan_quoted [] = ([], [])"
| "scan_quoted [c] = (if c = CHR 0x22 then ([], []) else ([c], []))"
| "scan_quoted (c # d # s) =
     (if c \<noteq> CHR 0x22 then map_prod (Cons c) id (scan_quoted (d # s))
      else if d = CHR 0x22 then map_prod (Cons c) id (scan_quoted s)
      else ([], d # s))"

definition field_end :: "char \<Rightarrow> bool" where
  "field_end c = (c = CHR '','' \<or> c = CHR 0x0A)"

definition read_field :: "string \<Rightarrow> string \<times> string" where
  "read_field s =
     (case s of
        [] \<Rightarrow> ([], [])
      | c # r \<Rightarrow> (if c = CHR 0x22 then scan_quoted r
          else (takeWhile (\<lambda>c. \<not> field_end c) s, dropWhile (\<lambda>c. \<not> field_end c) s)))"

lemma scan_quoted_shorter: "length (snd (scan_quoted s)) \<le> length s"
  by (induction s rule: scan_quoted.induct) auto

lemma read_field_shorter: "length (snd (read_field s)) \<le> length s"
  using scan_quoted_shorter [of "tl s"] length_dropWhile_le [of "\<lambda>c. \<not> field_end c" s]
  by (cases s) (auto simp: read_field_def)

function read_record :: "string \<Rightarrow> string list \<times> string" where
  "read_record s =
     (case snd (read_field s) of
        [] \<Rightarrow> ([fst (read_field s)], [])
      | c # r \<Rightarrow> (if c = CHR '','' then (let (fs, r') = read_record r in (fst (read_field s) # fs, r'))
          else ([fst (read_field s)], r)))"
  by pat_completeness auto
termination
  using read_field_shorter by (relation "measure length") (auto, metis less_eq_Suc_le length_Cons)

declare read_record.simps [simp del]

lemma read_record_shorter: "s \<noteq> [] \<Longrightarrow> length (snd (read_record s)) < length s"
proof (induction s rule: read_record.induct)
  case (1 s)
  show ?case
  proof (cases "snd (read_field s)")
    case Nil
    then show ?thesis using 1(2) by (simp add: read_record.simps [of s])
  next
    case (Cons c r)
    then have r: "length r < length s" using read_field_shorter [of s] by simp
    have "length (snd (read_record r)) \<le> length r" if "c = CHR '',''"
    proof (cases "r = []")
      case True
      then show ?thesis by (simp add: read_record.simps [of "[]"] read_field_def)
    next
      case False
      then show ?thesis using 1(1) [OF Cons that] by simp
    qed
    then show ?thesis using Cons r by (auto simp: read_record.simps [of s] split: prod.split)
  qed
qed

function read_csv :: "string \<Rightarrow> string list list" where
  "read_csv s = (if s = [] then [] else fst (read_record s) # read_csv (snd (read_record s)))"
  by pat_completeness auto
termination
  using read_record_shorter by (relation "measure length") auto

declare read_csv.simps [simp del]

lemma scan_quoted_body:
  assumes "r = [] \<or> hd r \<noteq> CHR 0x22"
  shows "scan_quoted (concat (map (\<lambda>c. if c = CHR 0x22 then [c, c] else [c]) t) @ CHR 0x22 # r) = (t, r)"
proof (induction t)
  case Nil
  then show ?case using assms by (cases r) auto
next
  case (Cons c t)
  obtain d s where "concat (map (\<lambda>c. if c = CHR 0x22 then [c, c] else [c]) t) @ CHR 0x22 # r = d # s"
    by (cases "concat (map (\<lambda>c. if c = CHR 0x22 then [c, c] else [c]) t) @ CHR 0x22 # r") auto
  then show ?case using Cons by auto
qed

lemma read_field_csv:
  assumes "r \<noteq> [] \<Longrightarrow> field_end (hd r)"
  shows "read_field (csv_field qcr t @ r) = (t, r)" "read_field (csv_quote t @ r) = (t, r)"
proof -
  have r: "r = [] \<or> hd r \<noteq> CHR 0x22" using assms by (auto simp: field_end_def)
  show q: "read_field (csv_quote t @ r) = (t, r)"
    using scan_quoted_body [OF r] by (simp add: read_field_def csv_quote_def)
  show "read_field (csv_field qcr t @ r) = (t, r)"
  proof (cases "list_ex (csv_special qcr) t")
    case True
    then show ?thesis using q by (simp add: csv_field_def)
  next
    case False
    then have t: "c \<noteq> CHR 0x22" "\<not> field_end c" if "c \<in> set t" for c
      using that by (auto simp: csv_special_def field_end_def list_ex_iff)
    have "takeWhile (\<lambda>c. \<not> field_end c) (t @ r) = t" "dropWhile (\<lambda>c. \<not> field_end c) (t @ r) = r"
      using t(2) assms by (cases r; simp)+
    then show ?thesis using False t r by (cases "t @ r"; cases t) (auto simp: read_field_def csv_field_def)
  qed
qed

lemma read_record_row:
  assumes "cells \<noteq> []"
  shows "read_record (join_on CHR '','' (map (csv_field qcr) cells) @ CHR 0x0A # r) = (cells, r)"
  using assms
proof (induction "CHR '',''" "map (csv_field qcr) cells" arbitrary: cells rule: join_on.induct)
  case (2 w)
  then obtain t where "cells = [t]" "w = csv_field qcr t" by auto
  then show ?case
    using read_field_csv(1) [of "CHR 0x0A # r" qcr t] by (simp add: read_record.simps field_end_def)
next
  case (3 w v ws)
  then obtain t cs where c: "cells = t # cs" "w = csv_field qcr t" "cs \<noteq> []" "map (csv_field qcr) cs = v # ws" by auto
  let ?rest = "join_on CHR '','' (map (csv_field qcr) cs) @ CHR 0x0A # r"
  have "read_field (csv_field qcr t @ CHR '','' # ?rest) = (t, CHR '','' # ?rest)"
    by (rule read_field_csv(1)) (simp add: field_end_def)
  moreover have "read_record ?rest = (cs, r)" using 3(1) [of cs] c by simp
  ultimately show ?case using c by (simp add: read_record.simps [of "_ @ _"])
qed simp

lemma read_record_csv_row: "cells \<noteq> [] \<Longrightarrow> read_record (csv_row qcr cells @ r) = (cells, r)"
  using read_record_row [of cells qcr r] read_field_csv(2) [of "CHR 0x0A # r" "[]"]
  by (auto simp: csv_row_def read_record.simps [of "csv_quote [] @ _"] field_end_def)

lemma read_csv_rows:
  "\<forall>cells \<in> set rows. cells \<noteq> [] \<Longrightarrow> read_csv (concat (map (csv_row qcr) rows)) = rows"
proof (induction rows)
  case Nil
  then show ?case by (simp add: read_csv.simps)
next
  case (Cons cells rows)
  moreover have "csv_row qcr cells \<noteq> []" by (simp add: csv_row_def)
  ultimately show ?case
    using read_record_csv_row [of cells qcr "concat (map (csv_row qcr) rows)"]
    by (simp add: read_csv.simps [of "_ @ _"])
qed

text \<open>
  C29. A CSV stream reads back as what was streamed: wherever the consumer stops, the chunks
  received so far, read by an independent CSV reader, are the header and the rows sent so far,
  with a null as the empty field, whatever commas, quotes and line ends the values hold.
\<close>

theorem csv_stream_roundtrip:
  assumes "columns \<noteq> []" and "\<forall>row \<in> set rows. row \<noteq> []"
  shows "read_csv (concat (take (Suc n) (csv_rows qcr columns rows))) = columns # map (map csv_text) (take n rows)"
proof -
  have "take (Suc n) (csv_rows qcr columns rows) = map (csv_row qcr) (columns # map (map csv_text) (take n rows))"
    by (simp add: csv_rows_def take_map)
  moreover have "\<forall>cells \<in> set (columns # map (map csv_text) (take n rows)). cells \<noteq> []"
    using assms by (auto dest: in_set_takeD)
  ultimately show ?thesis by (simp only: read_csv_rows)
qed

theorem csv_stream_roundtrip_witness:
  "read_csv (concat (take 2 (csv_rows False [''a'', ''b''] [[Some ''x,y'', None], [Some [CHR 0x22, CHR 0x0A], Some ''z'']])))
     = [[''a'', ''b''], [''x,y'', []]]"
  using csv_stream_roundtrip [of "[''a'', ''b'']" "[[Some ''x,y'', None], [Some [CHR 0x22, CHR 0x0A], Some ''z'']]" 1 False]
  by (simp add: csv_text_def numeral_2_eq_2)

section \<open>Inline results\<close>

lemma take_rows_exact:
  assumes "\<forall>raw \<in> set raws. loads raw = Inr (dec raw)" and "i \<le> n" and "b \<le> max_bytes"
  shows "take_rows loads max_bytes (int n) None i b rows raws =
    (if b + sum_list (map length (take (n - i) raws)) \<le> max_bytes
     then Inr (rows @ map dec (take (n - i) raws), n - i < length raws)
     else raise QueryRejected ''inline result exceeds byte limit; use stream or store output'')"
  using assms
proof (induction raws arbitrary: i b rows)
  case (Cons raw raws)
  show ?case
  proof (cases "i < n")
    case True
    then have "n - i = Suc (n - Suc i)" by simp
    then show ?thesis using Cons True by (auto simp: take_Cons')
  qed (use Cons.prems in simp)
qed simp

text \<open>
  C30. An inline result is exact and bounded: when the engine's rows arrive without an error, the
  result holds the first \<open>max_rows\<close> of them decoded and in order, says it is truncated exactly
  when there are more, and its encoded rows fit the byte limit; and if they would not fit, the
  query is rejected instead of returning part of them.
\<close>

theorem inline_rows_exact:
  assumes "\<forall>raw \<in> set F. ev_loads ev raw = Inr (dec raw)" and "req_max_rows (pq_request p) = int n"
    and "make_frame (ev_ps ev) clk p s = (Inr frame, s1)"
    and "ps_json_rows (ev_ps ev) (Some (int n + 1)) frame (sk_world s1) = ((take (n + 1) F, None), w)"
  shows "fst (inline_result ev clk p ctx s) =
    (if sum_list (map length (take n F)) \<le> ev_max_inline_bytes ev
     then Inr \<lparr>inl_query_id = Some (ctx_query_id ctx), inl_columns = ps_columns (ev_ps ev) frame,
       inl_rows = map dec (take n F), inl_truncated = (n < length F), inl_cached = False\<rparr>
     else raise QueryRejected ''inline result exceeds byte limit; use stream or store output'')"
proof -
  have l: "\<forall>raw \<in> set (take (n + 1) F). ev_loads ev raw = Inr (dec raw)"
    using assms(1) by (auto dest: in_set_takeD)
  have "take n (take (n + 1) F) = take n F" by (simp add: min_def)
  moreover have "n < length (take (n + 1) F) \<longleftrightarrow> n < length F" by auto
  ultimately have "take_rows (ev_loads ev) (ev_max_inline_bytes ev) (int n) None 0 0 [] (take (n + 1) F) =
    (if sum_list (map length (take n F)) \<le> ev_max_inline_bytes ev
     then Inr (map dec (take n F), n < length F)
     else raise QueryRejected ''inline result exceeds byte limit; use stream or store output'')"
    using take_rows_exact [OF l, of 0 n 0 "ev_max_inline_bytes ev" "[]"] by (simp del: take_take)
  then show ?thesis by (simp add: inline_result_def assms(2-4) Let_def)
qed

section \<open>Cached views\<close>

definition views_ok :: "('f, 'w) spark \<Rightarrow> bool" where
  "views_ok s = (dc_ok (sk_datasets s)
     \<and> (\<forall>(k, v, e) \<in> set (dc_entries (sk_datasets s)). v = view_name k \<and> sk_views s v \<noteq> None))"

definition cached_keys :: "('f, 'w) spark \<Rightarrow> string set" where
  "cached_keys s = fst ` set (dc_entries (sk_datasets s))"

lemma drop_views: "foldl (\<lambda>views n. views(n := None)) vs names v = (if v \<in> set names then None else vs v)"
  by (induction names arbitrary: vs) auto

lemma with_datasets_views_ok:
  assumes "views_ok s" and "dc_ok (snd (f (sk_datasets s)))"
    and "dc_released (snd (f (sk_datasets s))) = dc_released (sk_datasets s) @ rel"
    and "\<And>k v e. (k, v, e) \<in> set (dc_entries (snd (f (sk_datasets s)))) \<Longrightarrow>
      v = view_name k \<and> sk_views s v \<noteq> None \<and> v \<notin> set rel"
  shows "views_ok (snd (with_datasets f s))"
  using assms by (force simp: with_datasets_def views_ok_def drop_views Let_def split: prod.split)

lemma view_name_other:
  "inj_on view_name (insert k K) \<Longrightarrow> k' \<in> K \<Longrightarrow> k' \<noteq> k \<Longrightarrow> view_name k' \<noteq> view_name k"
  by (auto simp: inj_on_def)

lemma dc_get_views_ok:
  assumes "views_ok s" and inj: "inj_on view_name (insert key (cached_keys s))"
  shows "views_ok (snd (with_datasets (dc_get key now) s))"
    and "cached_keys (snd (with_datasets (dc_get key now) s)) \<subseteq> cached_keys s"
    and "fst (with_datasets (dc_get key now) s) = Some v \<Longrightarrow>
      v = view_name key \<and> sk_views (snd (with_datasets (dc_get key now) s)) v \<noteq> None"
proof -
  let ?c = "sk_datasets s"
  have ok: "dc_ok ?c" and entry: "\<And>k v e. (k, v, e) \<in> set (dc_entries ?c) \<Longrightarrow> v = view_name k \<and> sk_views s v \<noteq> None"
    using assms(1) by (auto simp: views_ok_def)
  have other: "view_name k \<noteq> view_name key" if "(k, v, e) \<in> set (dc_entries ?c)" "k \<noteq> key" for k v e
    using inj that by (intro view_name_other [OF inj]) (force simp: cached_keys_def)+
  have "views_ok (snd (with_datasets (dc_get key now) s))
    \<and> cached_keys (snd (with_datasets (dc_get key now) s)) \<subseteq> cached_keys s
    \<and> (\<forall>v. fst (with_datasets (dc_get key now) s) = Some v \<longrightarrow>
         v = view_name key \<and> sk_views (snd (with_datasets (dc_get key now) s)) v \<noteq> None)"
  proof (cases "map_of (dc_entries ?c) key")
    case None
    then have "dc_get key now ?c = (None, ?c)" by (simp add: dc_get_def)
    then have "with_datasets (dc_get key now) s = (None, s)" by (simp add: with_datasets_def)
    then show ?thesis using assms(1) by simp
  next
    case (Some x)
    obtain v e where x: "x = (v, e)" by (cases x)
    have mem: "(key, v, e) \<in> set (dc_entries ?c)" using Some x by (simp add: map_of_SomeD)
    have v: "v = view_name key" "sk_views s v \<noteq> None" using entry [OF mem] by auto
    have ok': "dc_ok (snd (dc_get key now ?c))" by (rule dc_get_ok [OF ok])
    show ?thesis
    proof (cases "e \<le> now")
      case True
      with Some x have g: "dc_get key now ?c = (None, ?c\<lparr>dc_entries := pop_key key (dc_entries ?c),
          dc_released := dc_released ?c @ [v]\<rparr>)" by (simp add: dc_get_def)
      have kept: "v' = view_name k \<and> sk_views s v' \<noteq> None \<and> v' \<notin> set [v]"
        if "(k, v', e') \<in> set (dc_entries (snd (dc_get key now ?c)))" for k v' e'
      proof -
        have "(k, v', e') \<in> set (dc_entries ?c)" "k \<noteq> key" using that g by (auto simp: pop_key_def)
        then show ?thesis using entry other v(1) by fastforce
      qed
      have "views_ok (snd (with_datasets (dc_get key now) s))"
        by (rule with_datasets_views_ok [where f = "dc_get key now" and rel = "[v]", OF assms(1) ok' _ kept])
          (simp add: g)
      then show ?thesis using g by (auto simp: with_datasets_def cached_keys_def pop_key_def)
    next
      case False
      with Some x have g: "dc_get key now ?c = (Some v, ?c\<lparr>dc_entries := pop_key key (dc_entries ?c)
          @ [(key, v, e)], dc_hits := dc_hits ?c + 1\<rparr>)" by (simp add: dc_get_def)
      have "views_ok (snd (with_datasets (dc_get key now) s))"
        by (rule with_datasets_views_ok [where f = "dc_get key now" and rel = "[]", OF assms(1) ok'])
          (use entry v in \<open>auto simp: g pop_key_def\<close>)
      then show ?thesis using g v mem by (force simp: with_datasets_def cached_keys_def pop_key_def)
    qed
  qed
  then show "views_ok (snd (with_datasets (dc_get key now) s))"
    and "cached_keys (snd (with_datasets (dc_get key now) s)) \<subseteq> cached_keys s"
    and "fst (with_datasets (dc_get key now) s) = Some v \<Longrightarrow>
      v = view_name key \<and> sk_views (snd (with_datasets (dc_get key now) s)) v \<noteq> None"
    by blast+
qed

lemma dc_put_released:
  assumes "dc_ok c" and "map_of (dc_entries c) key = None"
  shows "dc_released (dc_put key v now c) = dc_released c
    @ (if length (dc_entries c) = dc_max c then [entry_value (hd (dc_entries c))] else [])"
  using assms
  by (cases "dc_entries c")
    (auto simp: dc_put_def Let_def evict_eq pop_key_simps(4) dc_ok_def Suc_diff_le)

definition put_view :: "string \<Rightarrow> string \<Rightarrow> rat \<Rightarrow> string dataset_cache \<Rightarrow> unit \<times> string dataset_cache" where
  "put_view key name now = (\<lambda>c. let c' = dc_put key name now c in ((), c'\<lparr>dc_misses := dc_misses c' + 1\<rparr>))"

lemma put_view_views_ok:
  assumes "views_ok s" and inj: "inj_on view_name (insert key (cached_keys s))" and "key \<notin> cached_keys s"
    and "sk_views s (view_name key) \<noteq> None"
  shows "views_ok (snd (with_datasets (put_view key (view_name key) now) s))"
    and "sk_views (snd (with_datasets (put_view key (view_name key) now) s)) (view_name key) \<noteq> None"
proof -
  let ?c = "sk_datasets s" and ?f = "put_view key (view_name key) now"
  have ok: "dc_ok ?c" and entry: "\<And>k v e. (k, v, e) \<in> set (dc_entries ?c) \<Longrightarrow> v = view_name k \<and> sk_views s v \<noteq> None"
    using assms(1) by (auto simp: views_ok_def)
  have fresh: "map_of (dc_entries ?c) key = None" using assms(3) by (simp add: cached_keys_def map_of_eq_None_iff)
  let ?rel = "if length (dc_entries ?c) = dc_max ?c then [entry_value (hd (dc_entries ?c))] else []"
  let ?kept = "if length (dc_entries ?c) = dc_max ?c then tl (dc_entries ?c) else dc_entries ?c"
  have ok': "dc_ok (snd (?f ?c))" using dc_put_ok [OF ok] by (simp add: put_view_def Let_def dc_ok_def)
  have rel: "dc_released (snd (?f ?c)) = dc_released ?c @ ?rel"
    using dc_put_released [OF ok fresh] by (simp add: put_view_def Let_def)
  have es: "dc_entries (snd (?f ?c)) = ?kept @ [(key, view_name key, now + of_int (dc_ttl ?c))]"
    using fresh by (simp add: put_view_def Let_def dc_put_entries [OF ok] pop_key_simps(4))
  have sub: "set ?kept \<subseteq> set (dc_entries ?c)" by (cases "dc_entries ?c") auto
  have apart: "view_name k \<notin> set ?rel" if "k = key \<or> (\<exists>v e. (k, v, e) \<in> set ?kept)" for k
  proof (cases "length (dc_entries ?c) = dc_max ?c")
    case True
    then obtain k0 v0 e0 es' where hd: "dc_entries ?c = (k0, v0, e0) # es'"
      using ok by (cases "dc_entries ?c") (auto simp: dc_ok_def)
    then have "v0 = view_name k0" using entry by auto
    moreover have "k \<noteq> k0" using that True hd ok assms(3) by (force simp: dc_ok_def cached_keys_def)
    moreover have "k \<in> insert key (cached_keys s)" "k0 \<in> insert key (cached_keys s)"
      using that sub hd by (force simp: cached_keys_def)+
    ultimately show ?thesis using inj_onD [OF inj, of k k0] hd by auto
  qed simp
  have kept: "v = view_name k \<and> sk_views s v \<noteq> None \<and> v \<notin> set ?rel"
    if "(k, v, e) \<in> set (dc_entries (snd (?f ?c)))" for k v e
  proof -
    have "k = key \<and> v = view_name key \<or> (k, v, e) \<in> set ?kept" using that unfolding es by auto
    moreover from this have "v = view_name k" using entry sub by blast
    ultimately show ?thesis using apart [of k] entry sub assms(4) by blast
  qed
  show "views_ok (snd (with_datasets ?f s))"
    by (rule with_datasets_views_ok [where f = ?f and rel = ?rel, OF assms(1) ok' rel kept])
  then have "\<forall>(k, v, e) \<in> set (dc_entries (snd (?f ?c))). sk_views (snd (with_datasets ?f s)) v \<noteq> None"
    by (auto simp: views_ok_def with_datasets_def case_prod_beta Let_def)
  then show "sk_views (snd (with_datasets ?f s)) (view_name key) \<noteq> None" unfolding es by simp
qed

lemma with_datasets_eq: "with_datasets f s = (x, s1) \<Longrightarrow> f (sk_datasets s) = (x, sk_datasets s1)"
  by (auto simp: with_datasets_def Let_def split: prod.splits)

lemma dc_get_None: "fst (dc_get key now c) = None \<Longrightarrow> key \<notin> fst ` set (dc_entries (snd (dc_get key now c)))"
  by (force simp: dc_get_def pop_key_def map_of_eq_None_iff dest: map_of_SomeD split: option.splits if_splits)

text \<open>
  A cached view is always registered: as long as the fingerprints in use differ in their
  first 24 digits, every entry of the dataset cache names a view of the catalog before and after
  a source is loaded, the view the load returns is that of the source's fingerprint and is
  registered even when other views had to be evicted or had expired, and the cache itself moves
  as \<open>DatasetCache.get_or_load\<close> says.
\<close>

theorem cached_view_registered:
  assumes "views_ok s" and "inj_on view_name (insert (rs_fingerprint rs) (cached_keys s))"
    and "load_cached_view ps src rs ta tb tc s = (r, s')"
  shows "views_ok s' \<and> (\<forall>v. r = Inr v \<longrightarrow> v = view_name (rs_fingerprint rs) \<and> sk_views s' v \<noteq> None)
    \<and> (\<exists>loaded b. get_or_load (rs_fingerprint rs) loaded ta tb tc (\<lambda>c. c) (sk_datasets s) = (b, sk_datasets s')
         \<and> (\<forall>v. r = Inr v \<longrightarrow> (\<exists>hit. b = Inr (v, hit))))"
proof -
  let ?k = "rs_fingerprint rs"
  obtain h1 s1 where w1: "with_datasets (dc_get ?k ta) s = (h1, s1)" by fastforce
  obtain h2 s2 where w2: "with_datasets (dc_get ?k tb) s1 = (h2, s2)" by fastforce
  obtain fr s3 where rd: "read_source ps src rs s2 = (fr, s3)" by fastforce
  note g = with_datasets_eq [OF w1] with_datasets_eq [OF w2]
  have v1: "views_ok s1" "cached_keys s1 \<subseteq> cached_keys s" "\<And>v. h1 = Some v \<Longrightarrow> v = view_name ?k \<and> sk_views s1 v \<noteq> None"
    using dc_get_views_ok [OF assms(1,2), of ta] by (simp_all add: w1)
  have inj1: "inj_on view_name (insert ?k (cached_keys s1))" using assms(2) v1(2) by (meson inj_on_subset insert_mono)
  have v2: "views_ok s2" "cached_keys s2 \<subseteq> cached_keys s1" "\<And>v. h2 = Some v \<Longrightarrow> v = view_name ?k \<and> sk_views s2 v \<noteq> None"
    using dc_get_views_ok [OF v1(1) inj1, of tb] by (simp_all add: w2)
  have s3: "sk_datasets s3 = sk_datasets s2" "sk_views s3 = sk_views s2"
    using rd by (auto simp: read_source_def split: prod.splits)
  show ?thesis
  proof (cases "h1 = None \<and> h2 = None")
    case False
    then consider v where "h1 = Some v" | v where "h1 = None" "h2 = Some v" by (cases h1; cases h2) auto
    then obtain v where r: "r = Inr v" "v = view_name ?k" "views_ok s'" "sk_views s' v \<noteq> None"
      and b: "get_or_load ?k (raise BaseExn []) ta tb tc (\<lambda>c. c) (sk_datasets s) = (Inr (v, True), sk_datasets s')"
    proof cases
      case 1
      then show ?thesis using assms(3) v1 g that
        by (auto simp: load_cached_view_def w1 get_or_load_def)
    next
      case 2
      then show ?thesis using assms(3) v2 g that
        by (auto simp: load_cached_view_def w1 w2 get_or_load_def)
    qed
    then show ?thesis by auto
  next
    case True
    have inj2: "inj_on view_name (insert ?k (cached_keys s2))" using inj1 v2(2) by (meson inj_on_subset insert_mono)
    have fresh: "?k \<notin> cached_keys s2" using dc_get_None [of ?k tb "sk_datasets s1"] True g by (simp add: cached_keys_def)
    show ?thesis
    proof (cases fr)
      case (Inl e)
      then have "r = Inl e" "s' = s3" using assms(3) True by (auto simp: load_cached_view_def w1 w2 rd Let_def)
      moreover have "views_ok s3" using v2(1) by (simp add: views_ok_def s3)
      ultimately show ?thesis using True g s3
        by (intro conjI exI [of _ "Inl e"]) (auto simp: get_or_load_def)
    next
      case (Inr frame)
      let ?s4 = "s3\<lparr>sk_views := (sk_views s3)(view_name ?k \<mapsto> frame)\<rparr>"
      let ?f = "put_view ?k (view_name ?k) tc"
      have r: "r = Inr (view_name ?k)" "s' = snd (with_datasets ?f ?s4)"
        using assms(3) True Inr
        by (auto simp: load_cached_view_def w1 w2 rd Let_def put_view_def split: prod.splits)
      have s4: "views_ok ?s4" "cached_keys ?s4 = cached_keys s2"
        using v2(1) by (auto simp: views_ok_def s3 cached_keys_def)
      have "views_ok s'" "sk_views s' (view_name ?k) \<noteq> None"
        unfolding r(2) using s4 inj2 fresh by (intro put_view_views_ok; simp)+
      moreover have "snd (?f (sk_datasets s2)) = sk_datasets s'"
        unfolding r(2) by (simp add: with_datasets_def Let_def s3 split: prod.split)
      ultimately show ?thesis using True g r(1)
        by (intro conjI exI [of _ "Inr (view_name ?k)"]) (auto simp: get_or_load_def put_view_def Let_def)
    qed
  qed
qed

section \<open>A small instance\<close>

text \<open>A lake of written URIs with the in-memory registry, and a Spark whose queries give three rows.\<close>

type_synonym lake = "string list \<times> (string \<rightharpoonup> fields)"

definition lake_add :: "string \<Rightarrow> lake \<Rightarrow> unit res \<times> lake" where
  "lake_add u w = (if u \<in> set (fst w) then (raise FileExistsError u, w) else (Inr (), (u # fst w, snd w)))"

definition lake_ps :: "(unit, lake) pyspark" where
  "lake_ps = \<lparr>ps_read = (\<lambda>plan w. (Inr (), w)), ps_sql = (\<lambda>views q w. (Inr (), w)), ps_columns = (\<lambda>f. [''a'']),
     ps_json_rows = (\<lambda>lim f w. ((case lim of None \<Rightarrow> [''1'', ''2'', ''3''] | Some k \<Rightarrow> take (nat k) [''1'', ''2'', ''3''], None), w)),
     ps_rows = (\<lambda>f w. (([[Some ''1'']], None), w)), ps_partitions = (\<lambda>f. 1),
     ps_write = (\<lambda>fmt opts u f. lake_add u), ps_path = (\<lambda>u w. (Inr (Some ''dir''), w)),
     ps_mkdirs = (\<lambda>u w. (Inr (), w)), ps_create = (\<lambda>u ow w. (Inr (), w)), ps_put = (\<lambda>u x w. (Inr (), w)),
     ps_close = lake_add,
     ps_plan = (\<lambda>f w. (Inr ''plan'', w)), ps_fields = (\<lambda>f. []), ps_cancel_group = (\<lambda>q w. w), ps_stopped = (\<lambda>w. False), ps_stop = id\<rparr>"

definition lake_publish :: "string \<Rightarrow> string \<Rightarrow> string \<Rightarrow> string \<Rightarrow> string \<Rightarrow> lake \<Rightarrow> bool \<times> lake" where
  "lake_publish k q a u m w = (let (ok, reg) = mem_publish k q a u m (snd w) in (ok, (fst w, reg)))"

definition lake_env :: "(unit, lake, unit) engine_env" where
  "lake_env = \<lparr>ev_ps = lake_ps, ev_sha256 = (\<lambda>x. x), ev_fs = sample_fs, ev_metadata = None,
     ev_registry = \<lparr>configured = [(''out'', ''s3a://b'')], sources = [], publication_prefix = ''p''\<rparr>,
     ev_publish = lake_publish, ev_data_root = ''/d'', ev_max_inline_bytes = 10,
     ev_loads = (\<lambda>raw. Inr (JStr raw)), ev_analysis = (\<lambda>e. False), ev_quotes_cr = False\<rparr>"

definition lake_source :: ResolvedSource where
  "lake_source = \<lparr>rs_uri = ''file:///d/t.csv'', rs_fingerprint = ''f1'', rs_cache_safe = True, rs_read_uris = None\<rparr>"

definition lake_query :: "OutputSpec \<Rightarrow> PreparedQuery" where
  "lake_query out = \<lparr>pq_request = \<lparr>req_sql = ''select'', req_sources = [], req_output = out, req_max_rows = 2,
       req_cache_ttl_seconds = None, req_timeout_seconds = None, req_fields_set = []\<rparr>,
     pq_sources = [], pq_normalized_sql = ''select''\<rparr>"

definition lake_ctx :: ExecutionContext where
  "lake_ctx = \<lparr>ctx_query_id = ''q'', ctx_attempt_id = ''a'', ctx_attempt_number = 0, ctx_timeout_seconds = 5,
     ctx_kind = ''sync''\<rparr>"

definition lake_state :: "(string \<rightharpoonup> fields) \<Rightarrow> (unit, lake) spark" where
  "lake_state reg = \<lparr>sk_datasets = \<lparr>dc_max = 1, dc_ttl = 10, dc_entries = [], dc_hits = 0, dc_misses = 0,
     dc_released = []\<rparr>, sk_views = Map.empty, sk_world = ([], reg)\<rparr>"

lemma lake_frame:
  "make_frame lake_ps clk (lake_query out) (lake_state reg) = (Inr (), lake_state reg)"
  by (simp add: make_frame_def lake_query_def lake_ps_def lake_state_def)

theorem inline_rows_exact_witness:
  "fst (inline_result lake_env (\<lambda>n. 0) (lake_query default_output) lake_ctx (lake_state Map.empty))
     = Inr \<lparr>inl_query_id = Some ''q'', inl_columns = [''a''], inl_rows = [JStr ''1'', JStr ''2''],
         inl_truncated = True, inl_cached = False\<rparr>"
proof -
  have d: "\<forall>raw \<in> set [''1'', ''2'', ''3'']. ev_loads lake_env raw = Inr (JStr raw)" by (simp add: lake_env_def)
  have n: "req_max_rows (pq_request (lake_query default_output)) = int 2" by (simp add: lake_query_def)
  have f: "make_frame (ev_ps lake_env) (\<lambda>n. 0) (lake_query default_output) (lake_state Map.empty)
      = (Inr (), lake_state Map.empty)" using lake_frame by (simp add: lake_env_def)
  have j: "ps_json_rows (ev_ps lake_env) (Some (int 2 + 1)) () (sk_world (lake_state Map.empty))
      = ((take (2 + 1) [''1'', ''2'', ''3''], None), ([], Map.empty))"
    by (simp add: lake_env_def lake_ps_def lake_state_def)
  show ?thesis using inline_rows_exact [where dec = JStr, OF d n f j, of lake_ctx]
    by (simp add: lake_env_def lake_ps_def lake_ctx_def)
qed

theorem cached_view_registered_witness:
  "\<exists>s'. load_cached_view lake_ps sample_local lake_source 1 2 3 (lake_state Map.empty) = (Inr ''_dalmatian_f1'', s')
     \<and> sk_views s' ''_dalmatian_f1'' \<noteq> None"
proof -
  obtain r s' where l: "load_cached_view lake_ps sample_local lake_source 1 2 3 (lake_state Map.empty) = (r, s')"
    by fastforce
  have v: "views_ok (lake_state Map.empty)" by (simp add: views_ok_def lake_state_def dc_ok_def)
  have i: "inj_on view_name (insert (rs_fingerprint lake_source) (cached_keys (lake_state Map.empty)))"
    by (simp add: cached_keys_def lake_state_def)
  have r: "r = Inr (view_name ''f1'')"
    using l by (auto simp: load_cached_view_def lake_state_def lake_source_def with_datasets_def dc_get_def
        read_source_def lake_ps_def Let_def split: prod.splits)
  show ?thesis using cached_view_registered [OF v i l] l r by (auto simp: view_name_def lake_source_def)
qed

end
