(* ===== verification/StoreProps.thy ===== *)
theory StoreProps
  imports SparkProps
begin

text \<open>
  Stored outputs: the pointer to an output moves last and only for a complete one, and the
  composition with the registries and with the queue's publication script.
\<close>

section \<open>What is assumed of Spark and Hadoop\<close>











definition lake_output :: OutputSpec where
  "lake_output = \<lparr>out_mode = STORE, out_format = OF_CSV, out_location = Some ''out'', out_path = Some ''x'',
     out_write_mode = WM_ERROR, out_options = []\<rparr>"




text \<open>Another query's output: the second one is refused and the first one's pointer stays.\<close>

lemma lake_refused: "fst (store_result lake_env default_commit (\<lambda>n. 0) ''now'' (lake_query lake_output) lake_ctx
    (lake_state [''p:out'' @ [CHR 0x00] @ ''x'' \<mapsto> [''query_id'' \<mapsto> ''other'']]))
    = raise FileExistsError ''stored output already exists: x''"
  by code_simp

end
