(* ===== verification/EndToEnd.thy ===== *)
theory EndToEnd
  imports WorkerProps StoreProps
begin

text \<open>
  The worker, the engine and the queue together: the callbacks a worker gives to the engine, what
  they make of a stored output, and which of the engine's exceptions are retried.
\<close>

section \<open>The callbacks of an asynchronous execution\<close>











section \<open>What is retried\<close>

text \<open>
  A refused output whose path speaks of a cancellation is reported as a cancelled query, because
  the scope looks for the word in the whole text of the exception.
\<close>

lemma refused_output_reported_cancelled:
  "fst (spark_execute lake_env default_commit (\<lambda>n. 0) ''now'' False
     (lake_query (lake_output\<lparr>out_path := Some ''cancelled_orders''\<rparr>)) lake_ctx
     (lake_state [''p:out'' @ [CHR 0x00] @ ''cancelled_orders'' \<mapsto> [''query_id'' \<mapsto> ''other'']]))
    = raise QueryCancelled ''query was cancelled''"
  by code_simp



end
