(* ===== verification/GlobProps.thy ===== *)
theory GlobProps
  imports Spark
begin

text \<open>
  What a recursive read selects. \<open>gmatch\<close> is the meaning of a glob, and of the regular expression
  that \<open>_glob_regex\<close> renders piece by piece (file URIs hold no line breaks); \<open>read_selects\<close> is what
  Spark's documentation says a read with \<open>recursiveFileLookup\<close> and \<open>pathGlobFilter\<close> lists, cut
  by the filter on the file name that \<open>_apply_path_filter\<close> adds.
\<close>

section \<open>Matching\<close>

fun gmatch :: "glob_item list \<Rightarrow> string \<Rightarrow> bool" where
  "gmatch [] s = (s = [])"
| "gmatch (Lit c # r) s = (s \<noteq> [] \<and> hd s = c \<and> gmatch r (tl s))"
| "gmatch (SegAny # r) s = (s \<noteq> [] \<and> hd s \<noteq> CHR ''/'' \<and> gmatch r (tl s))"
| "gmatch (SegStar # r) s =
     list_ex (\<lambda>i. CHR ''/'' \<notin> set (take i s) \<and> gmatch r (drop i s)) [0..<Suc (length s)]"
| "gmatch (AnyStar # r) s = list_ex (\<lambda>i. gmatch r (drop i s)) [0..<Suc (length s)]"
| "gmatch (DirStar # r) s =
     list_ex (\<lambda>i. (i = 0 \<or> s ! (i - 1) = CHR ''/'') \<and> gmatch r (drop i s)) [0..<Suc (length s)]"






section \<open>The pieces of a glob\<close>













section \<open>The selection of a read\<close>




text \<open>
  The pieces have no bracket expressions: a bracket pattern below \<open>**\<close> matches only its own text,
  so the filter drops every file that the pattern's expansion listed.
\<close>

lemma brackets_are_literal:
  "glob_regex ''file:///d/**/x/[ab].csv'' \<noteq> None"
  "\<not> gmatch (glob_items ''file:///d/**/x/[ab].csv'') ''file:///d/x/a.csv''"
  by (code_simp, code_simp)

end
