(* ===== verification/Api.thy ===== *)
theory Api
  imports Service JobQueue
begin

text \<open>
  The HTTP surface, \<open>src/dalmatian/api.py\<close>: the handlers of the application's exceptions and the
  endpoints, as functions from the decoded request to a response and the new state. FastAPI,
  Starlette and pydantic are not under \<open>src/\<close>: of them the model has that a request body is
  validated first (status 422 when it fails), that an exception goes to the handler of the first
  class of its MRO that has one, and that one without a handler is answered with status 500.
\<close>

section \<open>Responses\<close>

datatype body =
    DetailBody string
  | StatusBody string
  | KeyBody string
  | QueryBody QueryResult
  | StreamBody string guarded
  | ExplainBody ExplainResult
  | InspectBody SourceInspection
  | LocationsBody "StorageLocationInfo list"
  | JobBody JobRecord
  | MetricsBody string

record response =
  rsp_status :: nat
  rsp_headers :: "(string \<times> string) list"
  rsp_body :: body

definition reply :: "nat \<Rightarrow> (string \<times> string) list \<Rightarrow> body \<Rightarrow> response" where
  "reply status headers b = \<lparr>rsp_status = status, rsp_headers = headers, rsp_body = b\<rparr>"

definition http_exception :: "nat \<Rightarrow> string \<Rightarrow> response" where
  "http_exception status detail = reply status [] (DetailBody detail)"

definition handlers :: "(exn_class \<times> nat \<times> (string \<times> string) list) list" where
  "handlers = [(BusyError, 429, [(''Retry-After'', ''1'')]), (QueryRejected, 400, []), (QueryTimeout, 408, []),
     (QueryCancelled, 409, []), (IdempotencyConflict, 409, [])]"

fun find_handler :: "exn_class list \<Rightarrow> (nat \<times> (string \<times> string) list) option" where
  "find_handler [] = None"
| "find_handler (c # cs) = (case map_of handlers c of None \<Rightarrow> find_handler cs | Some h \<Rightarrow> Some h)"

definition error_response :: "exn \<Rightarrow> response" where
  "error_response e =
     (case find_handler (mro (exn_cls e)) of
        Some (status, headers) \<Rightarrow> reply status headers (DetailBody (exn_msg e))
      | None \<Rightarrow> http_exception 500 ''Internal Server Error'')"

definition with_body :: "QueryRequest \<Rightarrow> 's \<Rightarrow> (QueryRequest \<Rightarrow> response \<times> 's) \<Rightarrow> response \<times> 's" where
  "with_body r s k = (case make_request r of Inl e \<Rightarrow> (http_exception 422 (exn_msg e), s) | Inr r' \<Rightarrow> k r')"

section \<open>Health\<close>

definition get_live :: response where
  "get_live = reply 200 [] (StatusBody ''ok'')"

definition get_ready :: "bool res \<Rightarrow> response" where
  "get_ready checks =
     (case checks of
        Inl e \<Rightarrow> http_exception 503 (exn_msg e)
      | Inr ok \<Rightarrow> if \<not> ok then http_exception 503 ''not ready'' else reply 200 [] (StatusBody ''ok''))"

definition ready_checks :: "('e, 'c, 'm, 'ast) deps \<Rightarrow> ('e, 'c, 'm) service \<Rightarrow> bool res \<Rightarrow> bool res" where
  "ready_checks d s queue_ping = (if service_ready d s then queue_ping else Inr False)"

text \<open>
  \<open>/metrics\<close>: the gauge of the queue's depth is set before the metrics are rendered; an exception of
  making the queue or of reading its depth is dropped and the gauge keeps its value. Rendering is
  Prometheus's, over the gauge and the \<open>others\<close>.
\<close>

definition get_metrics ::
  "(nat option \<Rightarrow> 'x \<Rightarrow> string) \<Rightarrow> 'q res \<Rightarrow> ('q \<Rightarrow> nat res) \<Rightarrow> nat option \<Rightarrow> 'x \<Rightarrow> response \<times> nat option" where
  "get_metrics generate_latest queue read_depth gauge others =
     (let gauge' = (case bindE queue read_depth of Inl _ \<Rightarrow> gauge | Inr n \<Rightarrow> Some n)
      in (reply 200 [] (MetricsBody (generate_latest gauge' others)), gauge'))"

lemma metrics_always_answered:
  "rsp_status (fst (get_metrics gen queue read_depth gauge others)) = 200"
  "queue = Inl e \<Longrightarrow> snd (get_metrics gen queue read_depth gauge others) = gauge"
  by (simp_all add: get_metrics_def reply_def Let_def)

section \<open>Queries\<close>

definition post_query ::
  "('e, 'c, 'm, 'ast) deps \<Rightarrow> service_cfg \<Rightarrow> QueryRequest \<Rightarrow> string \<Rightarrow> string \<Rightarrow> string \<Rightarrow> string
   \<Rightarrow> ('e, 'c, 'm) service \<Rightarrow> response \<times> ('e, 'c, 'm) service" where
  "post_query d c raw query_id attempt_id tok1 tok2 s = with_body raw s (\<lambda>r.
     let affinity = dataset_affinity_key (dp_sha256 d) r in
     if out_mode (req_output r) = STREAM
     then (let (res, s1) = stream d c r query_id attempt_id None s;
               extension = (if out_format (req_output r) = OF_CSV then ''csv'' else ''jsonl'') in
           case res of
             Inl e \<Rightarrow> (error_response e, s1)
           | Inr (media_type, g, q) \<Rightarrow>
               (reply 200 [(''Content-Disposition'',
                    ''inline; filename='' @ [CHR 0x22] @ ''dalmatian-result.'' @ extension @ [CHR 0x22]),
                  (''X-Dalmatian-Query-Id'', q), (''X-Dalmatian-Result-Cache'', ''bypass''),
                  (''X-Dalmatian-Affinity-Key'', affinity)] (StreamBody media_type g), s1))
     else (let (res, s1) = execute d c r query_id attempt_id None tok1 tok2 s in
           case res of
             Inl e \<Rightarrow> (error_response e, s1)
           | Inr v \<Rightarrow>
               (let result_id = (case v of Inline x \<Rightarrow> (case inl_query_id x of None \<Rightarrow> [] | Some q \<Rightarrow> q)
                      | Stored x \<Rightarrow> sto_query_id x);
                    cache = (case v of Inline x \<Rightarrow> [(''X-Dalmatian-Result-Cache'', if inl_cached x then ''hit'' else ''miss'')]
                      | Stored x \<Rightarrow> [])
                in (reply 200 ([(''X-Dalmatian-Query-Id'', result_id), (''X-Dalmatian-Affinity-Key'', affinity)] @ cache)
                      (QueryBody v), s1))))"

definition post_affinity ::
  "('e, 'c, 'm, 'ast) deps \<Rightarrow> service_cfg \<Rightarrow> QueryRequest \<Rightarrow> ('e, 'c, 'm) service
   \<Rightarrow> response \<times> ('e, 'c, 'm) service" where
  "post_affinity d c raw s = with_body raw s (\<lambda>r.
     (case affinity_key d c r of Inl e \<Rightarrow> error_response e | Inr key \<Rightarrow> reply 200 [] (KeyBody key), s))"

definition post_explain ::
  "('e, 'c, 'm, 'ast) deps \<Rightarrow> service_cfg \<Rightarrow> QueryRequest \<Rightarrow> string \<Rightarrow> string \<Rightarrow> ('e, 'c, 'm) service
   \<Rightarrow> response \<times> ('e, 'c, 'm) service" where
  "post_explain d c raw query_id attempt_id s = with_body raw s (\<lambda>r.
     let (res, s1) = explain d c r query_id attempt_id s in
     (case res of Inl e \<Rightarrow> error_response e | Inr x \<Rightarrow> reply 200 [] (ExplainBody x), s1))"

definition post_inspect ::
  "('e, 'c, 'm, 'ast) deps \<Rightarrow> SourceSpec \<Rightarrow> ('e, 'c, 'm) service \<Rightarrow> response \<times> ('e, 'c, 'm) service" where
  "post_inspect d raw s =
     (case validate_source_spec raw of
        Inl e \<Rightarrow> (http_exception 422 (exn_msg e), s)
      | Inr src \<Rightarrow> (let (res, s1) = inspect_source d src s in
          (case res of Inl e \<Rightarrow> error_response e | Inr x \<Rightarrow> reply 200 [] (InspectBody x), s1)))"

definition get_storage_locations :: "'m metadata_ref \<Rightarrow> storage_registry \<Rightarrow> response" where
  "get_storage_locations md sr = reply 200 [] (LocationsBody
     (map (\<lambda>(name, uri, source). \<lparr>sli_name = name, sli_uri = uri, sli_source = source\<rparr>) (registry_locations md sr)))"

section \<open>Jobs\<close>

definition create_job ::
  "hashing \<Rightarrow> codec \<Rightarrow> queue_cfg \<Rightarrow> 'm meta_ops \<Rightarrow> QueryRequest \<Rightarrow> string option \<Rightarrow> string \<Rightarrow> int
   \<Rightarrow> store \<times> 'm \<Rightarrow> response \<times> store \<times> 'm" where
  "create_job hs cd c mo raw key job_id now sm = with_body raw sm (\<lambda>r.
     if out_mode (req_output r) = STREAM
     then (http_exception 400 ''async jobs do not support stream output; use inline or store'', sm)
     else (let (res, sm1) = enqueue hs cd c mo r key job_id now sm in
           case res of
             Inl e \<Rightarrow> (error_response e, sm1)
           | Inr job \<Rightarrow>
               (reply 202 [(''Location'', ''/v1/jobs/'' @ jr_id job),
                  (''X-Dalmatian-Affinity-Key'', dataset_affinity_key (sha_hex hs) r)] (JobBody job), sm1)))"

definition job_response :: "JobRecord option res \<Rightarrow> response" where
  "job_response res =
     (case res of
        Inl e \<Rightarrow> error_response e
      | Inr None \<Rightarrow> http_exception 404 ''job not found''
      | Inr (Some job) \<Rightarrow> reply 200 [] (JobBody job))"

definition read_job :: "codec \<Rightarrow> string \<Rightarrow> store \<times> 'm \<Rightarrow> response" where
  "read_job cd job_id sm = job_response (get_job cd (fst sm) job_id)"

definition cancel_job ::
  "codec \<Rightarrow> 'm meta_ops \<Rightarrow> string \<Rightarrow> int \<Rightarrow> store \<times> 'm \<Rightarrow> response \<times> store \<times> 'm" where
  "cancel_job cd mo job_id now sm =
     (let (res, sm1) = request_cancel cd mo job_id now sm in (job_response res, sm1))"

end
