(* ===== verification/ServiceProps.thy ===== *)
theory ServiceProps
  imports Service
begin

text \<open>
  What \<open>QueryService\<close> guarantees: permits and locks are given back on every path, a cached
  result is the result of an execution under the same fingerprint, and the metadata record of a
  synchronous query tells its outcome.
\<close>

section \<open>Frames\<close>

lemma sv_record_frame [simp]: "sv_free (sv_record d q k r s) = sv_free s"
  "sv_engine (sv_record d q k r s) = sv_engine s" "sv_cache (sv_record d q k r s) = sv_cache s"
  by (simp_all add: sv_record_def)

lemma sv_update_frame [simp]: "sv_free (sv_update d q st res e ec s) = sv_free s"
  "sv_engine (sv_update d q st res e ec s) = sv_engine s"
  "sv_cache (sv_update d q st res e ec s) = sv_cache s"
  by (simp_all add: sv_update_def)

lemma cache_get_frame:
  "cache_get d key s = (hit, s1) \<Longrightarrow> sv_free s1 = sv_free s \<and> sv_meta s1 = sv_meta s \<and> sv_engine s1 = sv_engine s"
  by (auto simp: cache_get_def split: prod.splits)

lemma run_engine_frame [frame_simps]:
  "sv_free (snd (run_engine d p ctx lock ttl s)) = sv_free s"
  "sv_meta (snd (run_engine d p ctx lock ttl s)) = sv_meta s"
  by (auto simp: run_engine_def Let_def split: prod.splits sum.splits QueryResult.splits option.splits)

lemma execute_keyed_frame [frame_simps]:
  "sv_free (snd (execute_keyed d c p ctx key ttl t t' s)) = sv_free s"
  "sv_meta (snd (execute_keyed d c p ctx key ttl t t' s)) = sv_meta s"
  by (auto simp: execute_keyed_def Let_def frame_simps dest!: cache_get_frame split: prod.splits option.splits)

lemma execute_admitted_frame [frame_simps]:
  "sv_free (snd (execute_admitted d c r sql ctx t t' s)) = sv_free s"
  "sv_meta (snd (execute_admitted d c r sql ctx t t' s)) = sv_meta s"
  by (auto simp: execute_admitted_def Let_def frame_simps split: prod.splits sum.splits)

lemma with_slot_frame:
  assumes "\<And>s. sv_free (snd (body s)) = sv_free s"
  shows "sv_free (snd (with_slot body s)) = sv_free s"
  using assms [of "s\<lparr>sv_free := sv_free s - 1\<rparr>"]
  by (auto simp: with_slot_def Let_def split: prod.splits)

lemma with_slot_meta:
  assumes "\<And>s. sv_meta (snd (body s)) = sv_meta s"
  shows "sv_meta (snd (with_slot body s)) = sv_meta s"
  using assms [of "s\<lparr>sv_free := sv_free s - 1\<rparr>"]
  by (auto simp: with_slot_def Let_def split: prod.splits)

lemma query_timer_frame:
  assumes "\<And>s. sv_free (snd (body s)) = sv_free s" and "\<And>s. sv_meta (snd (body s)) = sv_meta s"
  shows "sv_free (snd (query_timer mode t body s)) = sv_free s"
    and "sv_meta (snd (query_timer mode t body s)) = sv_meta s"
  using assms [of "s\<lparr>sv_metrics := timer_start mode (sv_metrics s)\<rparr>"]
  by (simp_all add: query_timer_def case_prod_beta Let_def)

lemmas timed_frame [frame_simps] = query_timer_frame [OF execute_admitted_frame]

section \<open>Admission\<close>

lemma execute_free: "sv_free (snd (execute d c r qid aid ctx t t' s)) = sv_free s"
proof -
  have slot0: "sv_free (snd (with_slot (query_timer m e (execute_admitted d c r sql x t t')) s1)) = sv_free s1"
    for m e sql x s1 by (rule with_slot_frame) (rule timed_frame)
  then have slot: "sv_free s2 = sv_free s1"
    if "with_slot (query_timer m e (execute_admitted d c r sql x t t')) s1 = (res, s2)" for m e sql x s1 res s2
    using that by (metis snd_conv)
  show ?thesis
    by (auto simp: execute_def Let_def slot0 split: sum.splits prod.splits dest!: slot)
qed

text \<open>
  C18. Admission is exact: whatever a query does (rejected, failing in any phase, answered from
  the cache or executed), \<open>execute\<close>, \<open>explain\<close> and \<open>inspect\<close> leave as many free permits as they found; with
  none free a query fails without touching the engine or the cache; and a query that fails
  validation or asks for too long a timeout changes nothing at all.
\<close>

theorem admission_balanced:
  "sv_free (snd (execute d c r qid aid ctx t t' s)) = sv_free s
   \<and> sv_free (snd (explain d c r qid aid s)) = sv_free s
   \<and> sv_free (snd (inspect_source d src s)) = sv_free s
   \<and> (sv_free s = 0 \<longrightarrow> (\<exists>e. fst (execute d c r qid aid ctx t t' s) = Inl e)
        \<and> sv_engine (snd (execute d c r qid aid ctx t t' s)) = sv_engine s
        \<and> sv_cache (snd (execute d c r qid aid ctx t t' s)) = sv_cache s)
   \<and> (\<forall>e. validate_query (dp_sqlglot d) c r = Inl e \<or> query_timeout c r = Inl e
        \<longrightarrow> snd (execute d c r qid aid ctx t t' s) = s)"
proof (intro conjI impI allI)
  show "sv_free (snd (execute d c r qid aid ctx t t' s)) = sv_free s" by (rule execute_free)
  show "sv_free (snd (explain d c r qid aid s)) = sv_free s"
    by (auto simp: explain_def Let_def intro!: with_slot_frame split: sum.splits prod.splits)
  show "sv_free (snd (inspect_source d src s)) = sv_free s"
    by (auto simp: inspect_source_def intro!: with_slot_frame split: prod.splits)
  show "\<exists>e. fst (execute d c r qid aid ctx t t' s) = Inl e" if "sv_free s = 0"
    using that by (auto simp: execute_def with_slot_def Let_def raise_def split: sum.splits prod.splits)
  show "sv_engine (snd (execute d c r qid aid ctx t t' s)) = sv_engine s"
    "sv_cache (snd (execute d c r qid aid ctx t t' s)) = sv_cache s" if "sv_free s = 0"
    using that by (auto simp: execute_def with_slot_def Let_def raise_def split: sum.splits prod.splits)
  show "snd (execute d c r qid aid ctx t t' s) = s"
    if "validate_query (dp_sqlglot d) c r = Inl e \<or> query_timeout c r = Inl e" for e
    using that by (auto simp: execute_def make_context_def split: sum.splits)
qed

section \<open>Streams\<close>

inductive gen_step ::
  "('e, 'c, 'm, 'ast) deps \<Rightarrow> guarded \<times> ('e, 'c, 'm) service \<Rightarrow> guarded \<times> ('e, 'c, 'm) service \<Rightarrow> bool"
  for d where
  gen_step_next: "gen_next d g s = (r, g', s') \<Longrightarrow> gen_step d (g, s) (g', s')"
| gen_step_close: "gen_close d g s = (g', s') \<Longrightarrow> gen_step d (g, s) (g', s')"

inductive_cases gen_step_elim: "gen_step d (g, s) (g', s')"


lemma gen_update_frame [simp]: "sv_free (gen_update d g st e ec s) = sv_free s"
  by (simp add: gen_update_def)

lemma gen_metrics_frame [simp]:
  "sv_free (gen_metrics f s) = sv_free s" "sv_free (gen_start g s) = sv_free s" "sv_free (gen_stop d g s) = sv_free s"
  by (simp_all add: gen_metrics_def gen_start_def gen_stop_def)




lemma stream_takes_permit:
  assumes "stream d c r qid aid ctx s = (Inr (mt, g, q), s1)"
  shows "gd_phase g = NotStarted" and "Suc (sv_free s1) = sv_free s"
  using assms
  by (auto simp: stream_def Let_def split: sum.splits prod.splits if_splits)


text \<open>
  A stream that is never started keeps its permit for good: closing the generator before
  its first \<open>next\<close> (a client that is gone before the response body is read) runs no part of its
  body, and nothing done with the generator afterwards returns the permit, cancels the query or
  updates its record.
\<close>

theorem unstarted_stream_leaks_permit:
  assumes "stream d c r qid aid ctx s = (Inr (mt, g, q), s1)" and "gen_close d g s1 = (g2, s2)"
    and "(gen_step d)\<^sup>*\<^sup>* (g2, s2) (g3, s3)"
  shows "s3 = s1 \<and> Suc (sv_free s3) = sv_free s"
proof -
  note st = stream_takes_permit [OF assms(1)]
  have start: "gd_phase g2 = Finished" "s2 = s1" using assms(2) st(1) by (auto simp: gen_close_def)
  have "gd_phase (fst y) = Finished \<and> snd y = snd x" if "(gen_step d)\<^sup>*\<^sup>* x y" "gd_phase (fst x) = Finished" for x y
    using that
  proof (induction rule: rtranclp_induct)
    case (step y z)
    then show ?case
      by (cases y; cases z) (auto simp: gen_next_def gen_close_def elim!: gen_step_elim)
  qed simp
  from this [OF assms(3)] start st(2) show ?thesis by simp
qed

section \<open>The single-flight lock\<close>

definition memory_ops ::
  "(string \<Rightarrow> rat \<Rightarrow> memory_cache \<Rightarrow> InlineResult option \<times> memory_cache) \<Rightarrow> memory_cache cache_ops" where
  "memory_ops w = \<lparr>co_get = memory_get, co_set = memory_set, co_acquire = memory_acquire,
     co_release = memory_release, co_wait = w, co_ping = (\<lambda>_. True)\<rparr>"

definition valkey_ops ::
  "cache_cfg \<Rightarrow> (string \<Rightarrow> rat \<Rightarrow> valkey_cache \<Rightarrow> InlineResult option \<times> valkey_cache) \<Rightarrow> valkey_cache cache_ops" where
  "valkey_ops cc w = \<lparr>co_get = valkey_get cc, co_set = valkey_set cc, co_acquire = valkey_acquire cc,
     co_release = valkey_release cc, co_wait = w, co_ping = (\<lambda>_. True)\<rparr>"

text \<open>No lock that was free is held afterwards; one that others held may have been let go.\<close>

definition lets_go :: "(string \<Rightarrow> 'c \<Rightarrow> string option) \<Rightarrow> 'c \<Rightarrow> 'c \<Rightarrow> bool" where
  "lets_go holder c c' = (\<forall>k. holder k c' = holder k c \<or> holder k c' = None)"

lemma lets_go_refl [simp]: "lets_go h c c"
  by (simp add: lets_go_def)

lemma lets_go_trans: "lets_go h a b \<Longrightarrow> lets_go h b c \<Longrightarrow> lets_go h a c"
  unfolding lets_go_def by metis

context locking_cache
begin

lemma run_engine_releases:
  assumes "dp_cache d = \<lparr>co_get = get, co_set = set_value, co_acquire = acquire, co_release = release, co_wait = w, co_ping = pg\<rparr>"
    and "plain k" and "holder k (sv_cache s) = Some t"
  shows "holder k (sv_cache (snd (run_engine d p ctx (Some (k, t)) ttl s))) = None
    \<and> (k' \<noteq> k \<longrightarrow> holder k' (sv_cache (snd (run_engine d p ctx (Some (k, t)) ttl s))) = holder k' (sv_cache s))"
  using assms
  by (auto simp: run_engine_def Let_def release_held release_other set_holder
      split: prod.splits sum.splits QueryResult.splits)

lemma acquired_run_lets_go:
  assumes "dp_cache d = \<lparr>co_get = get, co_set = set_value, co_acquire = acquire, co_release = release, co_wait = w, co_ping = pg\<rparr>"
    and "plain k" and "0 < n" and "acquire k n tok (sv_cache s) = (Some t, c2)"
  shows "lets_go holder (sv_cache s) (sv_cache (snd (run_engine d p ctx (Some (k, t)) ttl (s\<lparr>sv_cache := c2\<rparr>))))"
proof -
  have h: "holder k c2 = Some t" using acquire_SomeD [OF assms(4,3)] by simp
  have other: "holder k' c2 = holder k' (sv_cache s)" if "k' \<noteq> k" for k'
    using acquire_other [OF that, of n tok "sv_cache s"] assms(4) by simp
  show ?thesis
    unfolding lets_go_def
    using run_engine_releases [OF assms(1,2), of "s\<lparr>sv_cache := c2\<rparr>" t p ctx ttl] h other
    by (metis service.select_convs(2) service.surjective service.update_convs(2))
qed

lemma cache_get_reads:
  assumes "dp_cache d = \<lparr>co_get = get, co_set = set_value, co_acquire = acquire, co_release = release, co_wait = w, co_ping = pg\<rparr>"
    and "cache_get d k s = (hit, s1)"
  shows "get k (sv_cache s) = (hit, sv_cache s1)"
  using assms by (auto simp: cache_get_def split: prod.splits)

lemma execute_keyed_lets_go:
  assumes ops: "dp_cache d = \<lparr>co_get = get, co_set = set_value, co_acquire = acquire, co_release = release, co_wait = w, co_ping = pg\<rparr>"
    and "plain k" and "0 < singleflight_lock_seconds c"
    and wait: "\<And>T s. lets_go holder s (snd (w k T s))"
  shows "lets_go holder (sv_cache s) (sv_cache (snd (execute_keyed d c p ctx k ttl t1 t2 s)))"
proof -
  define n where "n = max (singleflight_lock_seconds c) (ctx_timeout_seconds ctx + 30)"
  have n: "0 < n" using assms(3) by (simp add: n_def)
  obtain hit s1 where g: "cache_get d k s = (hit, s1)" by fastforce
  have s1: "lets_go holder (sv_cache s) (sv_cache s1)"
    using get_holder [OF assms(2), of _ "sv_cache s"] cache_get_reads [OF ops g] by (simp add: lets_go_def)
  show ?thesis
  proof (cases hit)
    case (Some v)
    then show ?thesis using s1 by (simp add: execute_keyed_def g)
  next
    case None
    obtain a1 c2 where a1: "acquire k n t1 (sv_cache s1) = (a1, c2)" by fastforce
    show ?thesis
    proof (cases a1)
      case (Some t)
      then have "lets_go holder (sv_cache s1)
          (sv_cache (snd (run_engine d p ctx (Some (k, t)) ttl (s1\<lparr>sv_cache := c2\<rparr>))))"
        using acquired_run_lets_go [OF ops assms(2) n, of t1 s1 t c2] a1 by simp
      then show ?thesis using s1 a1 g None Some
        by (simp add: execute_keyed_def ops n_def [symmetric] Let_def lets_go_trans)
    next
      case no: None
      then have c2: "c2 = sv_cache s1" using a1 n by (intro acquire_NoneD) simp_all
      obtain found c3 where w: "w k (singleflight_wait_seconds c) (sv_cache s1) = (found, c3)" by fastforce
      have c3: "lets_go holder (sv_cache s) c3" using s1 wait [of "sv_cache s1"] w by (metis lets_go_trans snd_conv)
      obtain a2 c4 where a2: "acquire k n t2 c3 = (a2, c4)" by fastforce
      have c4: "a2 = None \<Longrightarrow> c4 = c3" using a2 n by (intro acquire_NoneD) simp_all
      have run: "a2 = Some t \<Longrightarrow>
          lets_go holder c3 (sv_cache (snd (run_engine d p ctx (Some (k, t)) ttl (s1\<lparr>sv_cache := c4\<rparr>))))" for t
        using acquired_run_lets_go [OF ops assms(2) n, of t2 "s1\<lparr>sv_cache := c3\<rparr>" t c4] a2 by simp
      show ?thesis using c3 c4 run a1 a2 w g None no c2
        by (cases found; cases a2)
          (simp_all add: execute_keyed_def ops n_def [symmetric] Let_def lets_go_trans)
    qed
  qed
qed

lemma execute_lets_go:
  assumes ops: "dp_cache d = \<lparr>co_get = get, co_set = set_value, co_acquire = acquire, co_release = release, co_wait = w, co_ping = pg\<rparr>"
    and "\<And>x. plain (dp_sha256 d x)" and "0 < singleflight_lock_seconds c"
    and "\<And>k T s. lets_go holder s (snd (w k T s))"
  shows "lets_go holder (sv_cache s) (sv_cache (snd (execute d c r qid aid ctx t1 t2 s)))"
proof -
  have run: "sv_cache (snd (run_engine d p x None ttl s)) = sv_cache s" for p x ttl s
    by (auto simp: run_engine_def Let_def split: prod.splits sum.splits QueryResult.splits)
  have keyed: "lets_go holder (sv_cache s) (sv_cache s')"
    if "execute_keyed d c p x (hash_json (dp_sha256 d) v) ttl t1 t2 s = (res, s')" for p x v ttl s res s'
    using execute_keyed_lets_go [OF ops assms(2) assms(3,4), of s p x _ ttl t1 t2] that
    unfolding hash_json_def by (metis snd_conv)
  have adm: "lets_go holder (sv_cache s) (sv_cache (snd (execute_admitted d c r sql x t1 t2 s)))" for sql x s
  proof -
    have "lets_go holder (sv_cache s) (sv_cache (snd (execute_keyed d c p x key ttl t1 t2 (s\<lparr>sv_engine := e\<rparr>))))"
      if "query_fingerprint (dp_sha256 d) (dp_sqlglot d) r' vs = Inr key" for p key ttl e r' vs
    proof -
      have "plain key" using that assms(2) by (auto simp: query_fingerprint_def hash_json_def)
      then show ?thesis
        using execute_keyed_lets_go [OF ops _ assms(3,4), of key "s\<lparr>sv_engine := e\<rparr>"] by simp
    qed
    then show ?thesis
      by (auto simp: execute_admitted_def Let_def run split: sum.splits prod.splits)
  qed
  have slot: "lets_go holder (sv_cache s)
      (sv_cache (snd (with_slot (query_timer m e (execute_admitted d c r sql x t1 t2)) s)))" for m e sql x s
    using adm [of "s\<lparr>sv_free := sv_free s - 1, sv_metrics := timer_start m (sv_metrics s)\<rparr>" sql x]
    by (simp add: with_slot_def query_timer_def Let_def case_prod_beta)
  have slot': "lets_go holder (sv_cache s) (sv_cache s')"
    if "with_slot (query_timer m e (execute_admitted d c r sql x t1 t2)) s0 = (res, s')" "sv_cache s0 = sv_cache s"
    for m e sql x s0 res s'
    using slot [of s0 m e sql x] that by simp
  show ?thesis
    by (auto simp: execute_def Let_def slot split: sum.splits prod.splits dest!: slot')
qed

lemma run_engine_stores:
  assumes "dp_cache d = \<lparr>co_get = get, co_set = set_value, co_acquire = acquire, co_release = release, co_wait = w, co_ping = pg\<rparr>"
    and "plain k" and "\<And>s. fst (set_value k v ttl s)" and "reads_as v = Some v"
    and "run_engine d p ctx (Some (k, t)) ttl s = (Inr (Inline v), s')"
  shows "fst (get k (sv_cache s')) = Some v"
proof -
  have "fst (get k (snd (set_value k v ttl c))) = Some v" for c
    using get_set [of k v ttl c] assms(3) [of c] assms(4) by (cases "set_value k v ttl c") simp
  then show ?thesis
    using assms(1,2,5)
    by (auto simp: run_engine_def Let_def release_get split: prod.splits sum.splits QueryResult.splits)
qed

lemma execute_keyed_stores:
  assumes ops: "dp_cache d = \<lparr>co_get = get, co_set = set_value, co_acquire = acquire, co_release = release, co_wait = w, co_ping = pg\<rparr>"
    and "plain k" and "\<And>s. fst (set_value k v ttl s)" and "reads_as v = Some v"
    and wait: "\<And>T s v s'. w k T s = (Some v, s') \<Longrightarrow> fst (get k s') = Some v"
    and "execute_keyed d c p ctx k ttl t1 t2 s = (Inr (Inline v), s')"
  shows "\<exists>v0. fst (get k (sv_cache s')) = Some v0 \<and> for_query b q v0 = for_query b q v"
proof -
  obtain hit s1 where g: "cache_get d k s = (hit, s1)" by fastforce
  have run: "\<exists>v0. fst (get k (sv_cache s')) = Some v0 \<and> for_query b q v0 = for_query b q v"
    if "run_engine d p ctx (Some (k, t)) ttl s0 = (Inr (Inline v), s')" for t s0
    using run_engine_stores [OF ops assms(2-4) that] by blast
  show ?thesis
  proof (cases hit)
    case (Some v0)
    have "sv_cache s1 = sv_cache s" using cache_get_reads [OF ops g] Some by (intro get_hit) simp
    then show ?thesis using Some g assms(6) cache_get_reads [OF ops g] by (auto simp: execute_keyed_def for_query_def)
  next
    case None
    obtain n where n: "n = max (singleflight_lock_seconds c) (ctx_timeout_seconds ctx + 30)" by simp
    obtain a1 c2 where a1: "acquire k n t1 (sv_cache s1) = (a1, c2)" by fastforce
    obtain found c3 where w: "w k (singleflight_wait_seconds c) c2 = (found, c3)" by fastforce
    obtain a2 c4 where a2: "acquire k n t2 c3 = (a2, c4)" by fastforce
    show ?thesis
    proof (cases a1)
      case (Some t)
      then show ?thesis using assms(6) g None a1
        by (auto simp: execute_keyed_def ops n [symmetric] Let_def intro: run)
    next
      case no: None
      show ?thesis
      proof (cases found)
        case (Some v0)
        have "fst (get k c3) = Some v0" using w Some by (intro wait) simp
        then show ?thesis using assms(6) g None no a1 w Some
          by (auto simp: execute_keyed_def ops n [symmetric] Let_def for_query_def)
      next
        case nf: None
        then show ?thesis using assms(6) g None no a1 w a2
          by (cases a2) (auto simp: execute_keyed_def ops n [symmetric] Let_def intro: run)
      qed
    qed
  qed
qed

end

section \<open>What the service promises about its cache\<close>

text \<open>
  C20. No lock outlives the query that took it: with either cache, whatever the engine does
  (results, errors) and whatever other processes do while this one waits, as long as they do
  not take locks themselves in that time, every single-flight lock is after \<open>execute\<close> held by
  the same holder as before or free.
\<close>

theorem no_lock_left_behind:
  assumes "0 < singleflight_lock_seconds c"
    and "dp_cache d = memory_ops w" and "\<forall>k T m. lets_go memory_holder m (snd (w k T m))"
    and "dp_cache d' = valkey_ops cc w'" and "\<forall>k T v. lets_go (valkey_holder cc) v (snd (w' k T v))"
    and "\<forall>x. plain_key (dp_sha256 d' x)"
  shows "lets_go memory_holder (sv_cache s) (sv_cache (snd (execute d c r qid aid ctx t t' s)))
    \<and> lets_go (valkey_holder cc) (sv_cache s') (sv_cache (snd (execute d' c r qid aid ctx t t' s')))"
  using memory_cache.execute_lets_go [of d w "\<lambda>_. True" c s r qid aid ctx t t']
    valkey_cache.execute_lets_go [of d' cc w' "\<lambda>_. True" c s' r qid aid ctx t t'] assms
  by (simp add: memory_ops_def valkey_ops_def)


section \<open>The record of a synchronous query\<close>

text \<open>
  The metadata tells how a synchronous query ended: with the SQL store, a query that passes
  validation leaves a finished record under its identifier: succeeded exactly when a result is
  returned, and otherwise failed with the class and the text of the exception raised.
\<close>

theorem sync_outcome_recorded:
  assumes "dp_meta d = sql_meta loads dump clk" and "loads (dp_dump d r) = Inr j"
    and "validate_query (dp_sqlglot d) c r = Inr sql" and "query_timeout c r = Inr timeout"
    and "invocations (sv_meta s) qid = None" and "execute d c r qid aid None t t' s = (res, s')"
  shows "\<exists>v. invocations (sv_meta s') qid = Some v \<and> iv_kind v = ''sync'' \<and> iv_started_at v \<noteq> None
    \<and> iv_finished_at v \<noteq> None \<and> iv_duration_ms v \<noteq> None
    \<and> (case res of Inr _ \<Rightarrow> iv_status v = ''succeeded'' \<and> iv_error_class v = None
       | Inl e \<Rightarrow> iv_status v = ''failed'' \<and> iv_error_class v = Some (class_name (exn_cls e))
           \<and> iv_error_message v = Some (exn_msg e))"
proof -
  define ctx where "ctx = \<lparr>ctx_query_id = qid, ctx_attempt_id = aid, ctx_attempt_number = 0,
    ctx_timeout_seconds = timeout, ctx_kind = ''sync''\<rparr>"
  let ?body = "query_timer (delivery_mode_value (out_mode (req_output r))) (dp_elapsed d qid)
      (execute_admitted d c r sql ctx t t')"
  obtain s1 where s1: "with_slot ?body (sv_record d qid ''sync'' r s) = (res, s1)"
    and s': "s' = (case res of
        Inl e \<Rightarrow> sv_update d qid ''failed'' None (Some (exn_msg e)) (Some (class_name (exn_cls e))) s1
      | Inr v \<Rightarrow> sv_update d qid ''succeeded'' (Some v) None None s1)"
    using assms(3,4,6)
    by (cases res) (auto simp: execute_def make_context_def ctx_def split: prod.splits)
  have meta: "sv_meta s1 = sv_meta (sv_record d qid ''sync'' r s)"
    using with_slot_meta [of ?body "sv_record d qid ''sync'' r s"] s1 by (simp add: timed_frame)
  obtain v where v: "invocations (sv_meta s1) qid = Some v" "iv_kind v = ''sync''"
    "iv_started_at v \<noteq> None" "iv_error_class v = None"
    using assms(1,2,5) by (simp add: meta sv_record_def sql_meta_def record_invocation_def Let_def swallow_def)
  show ?thesis
    using v assms(1)
    by (auto simp: s' sv_update_def sql_meta_def update_invocation_def swallow_def update_row_def Let_def
        opt_set_def final_status_def result_values_def split: sum.splits QueryResult.splits)
qed

section \<open>A sample service\<close>

text \<open>One permit, a counting engine, an empty Valkey cache: the runs that witness the claims.\<close>

definition demo_source :: SourceSpec where
  "demo_source = \<lparr>src_path = ''t.csv'', src_format = DF_CSV, src_location = None,
     src_options = [], src_version = Some ''1'', src_schema = None, src_infer_schema = False\<rparr>"

definition demo_request :: "DeliveryMode \<Rightarrow> QueryRequest" where
  "demo_request mode = \<lparr>req_sql = ''select * from t'', req_sources = [(''t'', demo_source)],
     req_output = default_output\<lparr>out_mode := mode, out_format := (if mode = STREAM then OF_CSV else OF_JSON)\<rparr>,
     req_max_rows = 10, req_cache_ttl_seconds = None, req_timeout_seconds = None, req_fields_set = []\<rparr>"

definition demo_cfg :: service_cfg where
  "demo_cfg = \<lparr>default_cache_ttl_seconds = 60, max_cache_ttl_seconds = 600, result_row_limit = 100,
     max_concurrent_queries = 1, default_query_timeout_seconds = 300, max_query_timeout_seconds = 3600,
     singleflight_wait_seconds = 15, singleflight_lock_seconds = 120\<rparr>"

definition demo_prepared :: PreparedQuery where
  "demo_prepared = \<lparr>pq_request = demo_request INLINE,
     pq_sources = [(''t'', \<lparr>rs_uri = ''u'', rs_fingerprint = ''f'', rs_cache_safe = True, rs_read_uris = None\<rparr>)],
     pq_normalized_sql = ''select * from t''\<rparr>"

definition demo_value :: InlineResult where
  "demo_value = \<lparr>inl_query_id = None, inl_columns = [''a''], inl_rows = [JInt 1], inl_truncated = False,
     inl_cached = False\<rparr>"

definition demo_engine :: "nat engine_ops" where
  "demo_engine = \<lparr>en_prepare = (\<lambda>r sql e. (Inr demo_prepared, e)),
     en_execute = (\<lambda>p ctx e. (Inr (Inline demo_value), Suc e)),
     en_stream = (\<lambda>p ctx e. (Inr (''text/csv'', [''a''], None), e)),
     en_explain = (\<lambda>p ctx e. (Inr ''plan'', e)), en_inspect = (\<lambda>src e. (raise ValueError ''none'', e)),
     en_cancel = (\<lambda>q e. e), en_ping = (\<lambda>e. True)\<rparr>"

definition demo_cache_cfg :: cache_cfg where
  "demo_cache_cfg = \<lparr>cc_prefix = ''p'', cc_max_bytes = 100, cc_encode = (\<lambda>_. ''x''),
     cc_decode = (\<lambda>_. Some (demo_value\<lparr>inl_query_id := Some ''q1''\<rparr>))\<rparr>"

definition demo_deps :: "(nat, valkey_cache, unit, unit) deps" where
  "demo_deps = \<lparr>dp_engine = demo_engine, dp_cache = valkey_ops demo_cache_cfg (\<lambda>k T c. (None, c)),
     dp_meta = null_meta, dp_sqlglot = None, dp_sha256 = (\<lambda>_. ''k''), dp_dump = (\<lambda>_. ''{}''),
     dp_dump_result = (\<lambda>_. ''{}''), dp_elapsed = (\<lambda>_. 1)\<rparr>"

definition demo_service :: "nat \<Rightarrow> (nat, valkey_cache, unit) service" where
  "demo_service n = \<lparr>sv_engine = 0, sv_cache = \<lparr>vc_db = Map.empty, vc_now = 0\<rparr>, sv_meta = (), sv_free = n,
     sv_metrics = no_metrics\<rparr>"

theorem admission_balanced_witness:
  "\<exists>e. fst (execute demo_deps demo_cfg (demo_request INLINE) ''q'' ''a'' None ''t1'' ''t2'' (demo_service 0)) = Inl e"
  using admission_balanced [of demo_deps demo_cfg "demo_request INLINE" "''q''" "''a''" None "''t1''" "''t2''"
      "demo_service 0"] by (simp add: demo_service_def)

lemma demo_valid:
  "validate_query None demo_cfg (demo_request INLINE) = Inr ''select * from t''"
  "validate_query None demo_cfg (demo_request STREAM) = Inr ''select * from t''"
  "query_timeout demo_cfg (demo_request m) = Inr 300" "query_ttl demo_cfg (demo_request m) = Inr 60"
  by (code_simp, code_simp) (simp_all add: query_timeout_def query_ttl_def demo_request_def demo_cfg_def)

definition demo_stream :: "(string \<times> guarded \<times> string) res \<times> (nat, valkey_cache, unit) service" where
  "demo_stream = stream demo_deps demo_cfg (demo_request STREAM) ''q'' ''a'' None (demo_service 1)"

lemma demo_stream_eq: "demo_stream = (Inr (''text/csv'', \<lparr>gd_phase = NotStarted, gd_rows = [''a''],
    gd_error = None, gd_sync = True, gd_query_id = ''q''\<rparr>, ''q''), demo_service 0)"
proof -
  have "out_mode (req_output (demo_request STREAM)) = STREAM" by (simp add: demo_request_def)
  then show ?thesis
    by (simp add: demo_stream_def stream_def demo_valid make_context_def demo_deps_def demo_service_def
        demo_engine_def sv_record_def null_meta_def swallow_def Let_def)
qed


theorem unstarted_stream_leaks_permit_witness:
  "sv_free (snd (gen_close demo_deps (fst (snd (projr (fst demo_stream)))) (demo_service 0))) = 0"
proof -
  let ?g = "\<lparr>gd_phase = NotStarted, gd_rows = [''a''], gd_error = None, gd_sync = True, gd_query_id = ''q''\<rparr>"
  have st: "stream demo_deps demo_cfg (demo_request STREAM) ''q'' ''a'' None (demo_service 1)
      = (Inr (''text/csv'', ?g, ''q''), demo_service 0)" using demo_stream_eq by (simp add: demo_stream_def)
  obtain g2 s2 where cl: "gen_close demo_deps ?g (demo_service 0) = (g2, s2)" by fastforce
  have "s2 = demo_service 0"
    using unstarted_stream_leaks_permit [OF st cl rtranclp.rtrancl_refl] by simp
  then show ?thesis by (simp add: demo_stream_eq cl) (simp add: demo_service_def)
qed

definition demo_memory_deps :: "(nat, memory_cache, unit, unit) deps" where
  "demo_memory_deps = \<lparr>dp_engine = demo_engine, dp_cache = memory_ops (\<lambda>k T c. (None, c)),
     dp_meta = null_meta, dp_sqlglot = None, dp_sha256 = (\<lambda>_. ''k''), dp_dump = (\<lambda>_. ''{}''),
     dp_dump_result = (\<lambda>_. ''{}''), dp_elapsed = (\<lambda>_. 1)\<rparr>"

theorem no_lock_left_behind_witness:
  "lets_go (valkey_holder demo_cache_cfg) (sv_cache (demo_service 1))
     (sv_cache (snd (execute demo_deps demo_cfg (demo_request INLINE) ''q'' ''a'' None ''t1'' ''t2'' (demo_service 1))))"
proof -
  have "0 < singleflight_lock_seconds demo_cfg" by (simp add: demo_cfg_def)
  moreover have "dp_cache demo_memory_deps = memory_ops (\<lambda>k T c. (None, c))" by (simp add: demo_memory_deps_def)
  moreover have "dp_cache demo_deps = valkey_ops demo_cache_cfg (\<lambda>k T c. (None, c))" by (simp add: demo_deps_def)
  moreover have "\<forall>x. plain_key (dp_sha256 demo_deps x)" by (simp add: demo_deps_def plain_key_def)
  ultimately show ?thesis
    using no_lock_left_behind [where c = demo_cfg and d = demo_memory_deps and d' = demo_deps] by simp
qed




definition demo_sql_deps :: "(nat, valkey_cache, meta_db, unit) deps" where
  "demo_sql_deps = \<lparr>dp_engine = demo_engine, dp_cache = valkey_ops demo_cache_cfg (\<lambda>k T c. (None, c)),
     dp_meta = sql_meta (\<lambda>_. Inr (JObj [])) (\<lambda>_. ''r'') (\<lambda>n. int n), dp_sqlglot = None,
     dp_sha256 = (\<lambda>_. ''k''), dp_dump = (\<lambda>_. ''{}''),
     dp_dump_result = (\<lambda>_. ''{}''), dp_elapsed = (\<lambda>_. 1)\<rparr>"

theorem sync_outcome_recorded_witness:
  "\<exists>v. invocations (sv_meta (snd (execute demo_sql_deps demo_cfg (demo_request INLINE) ''q'' ''a'' None ''t1'' ''t2''
       \<lparr>sv_engine = 0, sv_cache = \<lparr>vc_db = Map.empty, vc_now = 0\<rparr>,
        sv_meta = \<lparr>invocations = Map.empty, locations = [], db_tick = 0\<rparr>, sv_free = 0, sv_metrics = no_metrics\<rparr>))) ''q'' = Some v
     \<and> iv_finished_at v \<noteq> None"
proof -
  let ?s = "\<lparr>sv_engine = 0, sv_cache = \<lparr>vc_db = Map.empty, vc_now = 0\<rparr>,
        sv_meta = \<lparr>invocations = Map.empty, locations = [], db_tick = 0\<rparr>, sv_free = 0, sv_metrics = no_metrics\<rparr>"
  have meta: "dp_meta demo_sql_deps = sql_meta (\<lambda>_. Inr (JObj [])) (\<lambda>_. ''r'') (\<lambda>n. int n)"
    and valid: "validate_query (dp_sqlglot demo_sql_deps) demo_cfg (demo_request INLINE) = Inr ''select * from t''"
    using demo_valid(1) by (simp_all add: demo_sql_deps_def)
  obtain res s' where ex: "execute demo_sql_deps demo_cfg (demo_request INLINE) ''q'' ''a'' None ''t1'' ''t2'' ?s = (res, s')"
    by fastforce
  show ?thesis
    using sync_outcome_recorded [OF meta _ valid demo_valid(3) _ ex] by (auto simp: ex)
qed

end
