(* ===== verification/ApiProps.thy ===== *)
theory ApiProps
  imports Api ServiceProps QueueBehaviour
begin

text \<open>What a client of the HTTP surface can rely on.\<close>

section \<open>Errors\<close>

text \<open>
  C28. Errors have the status their class calls for: a queue or an admission that is full is 429, a
  rejected query 400, a timeout 408 although it is also a cancellation, any other cancellation
  and an idempotency conflict 409, and exactly the exceptions of no such class are 500, with
  a text that reveals nothing of the exception.
\<close>

theorem error_statuses_exact:
  "(isinstance e [BusyError] \<longleftrightarrow> rsp_status (error_response e) = 429)
   \<and> (isinstance e [QueryRejected] \<longleftrightarrow> rsp_status (error_response e) = 400)
   \<and> (isinstance e [QueryTimeout] \<longleftrightarrow> rsp_status (error_response e) = 408)
   \<and> (isinstance e [QueryCancelled, IdempotencyConflict] \<and> \<not> isinstance e [QueryTimeout]
        \<longleftrightarrow> rsp_status (error_response e) = 409)
   \<and> (\<not> isinstance e [BusyError, QueryRejected, QueryCancelled, IdempotencyConflict]
        \<longleftrightarrow> error_response e = http_exception 500 ''Internal Server Error'')"
  by (cases "exn_cls e") (simp_all add: error_response_def handlers_def reply_def http_exception_def)

lemma error_status_cases: "rsp_status (error_response e) \<in> {429, 400, 408, 409, 500}"
  by (cases "exn_cls e") (simp_all add: error_response_def handlers_def reply_def http_exception_def)

text \<open>A key of the wrong length and an unknown storage location are the client's errors, but 500.\<close>

lemma client_errors_reported_as_500:
  "rsp_status (error_response \<lparr>exn_cls = UnknownStorageLocation, exn_msg = m\<rparr>) = 500"
  "make_request r = Inr r \<Longrightarrow> out_mode (req_output r) \<noteq> STREAM \<Longrightarrow>
     rsp_status (fst (create_job hs cd c mo r (Some []) job_id now (s, mt))) = 500"
  by (simp_all add: error_response_def handlers_def reply_def http_exception_def create_job_def with_body_def
      enqueue_alone raise_def Let_def)

section \<open>Submission\<close>

lemma get_job_id: "get_job cd s j = Inr (Some rec) \<Longrightarrow> jr_id rec = j"
  by (cases "jobs s j") (auto simp: get_job_def)

lemma existing_job_visible:
  assumes "existing_job cd s j = Inr rec"
  shows "get_job cd s (jr_id rec) = Inr (Some rec)"
proof -
  from assms obtain x where "get_job cd s j = Inr x" "x = Some rec"
    by (auto simp: existing_job_def split: option.splits)
  then show ?thesis using get_job_id by blast
qed

lemma created_job_visible:
  assumes "enqueue_script n ik fp req k now ttl j ittl mx s = (Created i, s1)"
  shows "get_job cd s1 j = Inr (Some \<lparr>jr_id = j, jr_status = QUEUED, jr_attempts = 0, jr_result = None,
     jr_error = None, jr_created_at = dt now, jr_updated_at = dt now, jr_next_attempt_at = None\<rparr>)"
proof -
  have "jobs s1 j = Some (new_job req k now (expire ttl s))"
    using assms by (auto simp: enqueue_script_def Let_def split: option.splits if_splits)
  then show ?thesis by (simp add: get_job_def new_job_def dt_def)
qed

lemma enqueue_script_unchanged:
  "enqueue_script n ik fp req k now ttl j ittl mx s = (r, s1) \<Longrightarrow> (\<And>i. r \<noteq> Created i) \<Longrightarrow> s1 = s"
  by (auto simp: enqueue_script_def Let_def split: option.splits if_splits)

lemma enqueue_visible:
  assumes "enqueue hs cd c mo r key job_id now (s, m) = (res, s1, m1)"
  shows "(\<forall>job. res = Inr job \<longrightarrow> get_job cd s1 (jr_id job) = Inr (Some job) \<and> (jr_id job = job_id \<or> (s1, m1) = (s, m)))
    \<and> (\<forall>e. res = Inl e \<longrightarrow> (s1, m1) = (s, m))"
proof -
  obtain rep s2 where q: "enqueue_script (affinity_shards c) (map_option (idempotency_key hs c) key)
      (request_payload_fingerprint (sha_hex hs) r) (dump_request cd r) (shard_of hs c r) now (job_ttl_seconds c) job_id
      (idempotency_ttl_seconds c) (max_queue_depth c) s = (rep, s2)" by (rule prod.exhaust)
  show ?thesis
  proof (cases rep)
    case (Created i)
    then show ?thesis using assms q created_job_visible [OF q [unfolded Created]]
      by (auto simp: enqueue_alone Let_def split: if_splits option.splits dest!: existing_job_visible)
  next
    case (Existing i)
    then show ?thesis using assms q enqueue_script_unchanged [OF q]
      by (auto simp: enqueue_alone Let_def split: if_splits option.splits dest!: existing_job_visible)
  qed (use assms q enqueue_script_unchanged [OF q] in
      \<open>auto simp: enqueue_alone Let_def split: if_splits option.splits dest!: existing_job_visible\<close>)
qed

text \<open>
  C17. A submission that is accepted can be looked up, one that is refused leaves no trace: after
  a response 202 the job's own URL answers 200 with the very record of the response, and the
  queue has changed only if the job is new; after any other response, which is one of the
  documented error statuses, the queue and the metadata are what they were.
\<close>

theorem submission_visible:
  assumes "create_job hs cd c mo raw key job_id now (s, m) = (rsp, s1, m1)"
  shows "(\<exists>job. rsp = reply 202 [(''Location'', ''/v1/jobs/'' @ jr_id job),
            (''X-Dalmatian-Affinity-Key'', dataset_affinity_key (sha_hex hs) raw)] (JobBody job)
          \<and> read_job cd (jr_id job) (s1, m1) = reply 200 [] (JobBody job)
          \<and> (jr_id job = job_id \<or> (s1, m1) = (s, m)))
    \<or> rsp_status rsp \<in> {400, 408, 409, 422, 429, 500} \<and> (s1, m1) = (s, m)"
proof (cases "make_request raw")
  case (Inl e)
  then show ?thesis using assms by (auto simp: create_job_def with_body_def http_exception_def reply_def)
next
  case (Inr r)
  then have r: "r = raw" by (rule make_request_returns_input)
  show ?thesis
  proof (cases "out_mode (req_output raw) = STREAM")
    case True
    then show ?thesis using assms Inr r by (auto simp: create_job_def with_body_def http_exception_def reply_def)
  next
    case False
    obtain res s2 m2 where q: "enqueue hs cd c mo raw key job_id now (s, m) = (res, s2, m2)"
      by (rule prod_cases3)
    show ?thesis
    proof (cases res)
      case (Inl e)
      then show ?thesis
        using assms False Inr r q enqueue_visible [OF q] error_status_cases [of e]
        by (auto simp: create_job_def with_body_def)
    next
      case (Inr job)
      then show ?thesis
        using assms False \<open>make_request raw = Inr r\<close> r q enqueue_visible [OF q]
        by (auto simp: create_job_def with_body_def read_job_def job_response_def)
    qed
  qed
qed

theorem submission_visible_witness:
  "\<exists>s1 job. create_job sample_hashing sample_codec sample_cfg null_meta sample_request None ''a'' 1000 (empty_store 0, ())
     = (reply 202 [(''Location'', ''/v1/jobs/a''),
          (''X-Dalmatian-Affinity-Key'', dataset_affinity_key (sha_hex sample_hashing) sample_request)] (JobBody job), s1, ())
     \<and> read_job sample_codec ''a'' (s1, ()) = reply 200 [] (JobBody job)"
proof -
  let ?c = "create_job sample_hashing sample_codec sample_cfg null_meta sample_request None ''a'' 1000 (empty_store 0, ())"
  obtain rsp s1 m1 where c: "?c = (rsp, s1, m1)" by (rule prod_cases3)
  have depth0: "queue_depth 2 (empty_store 0) = 0" by (simp add: queue_depth_def empty_store_def)
  have valid: "make_request sample_request = Inr sample_request" "out_mode (req_output sample_request) \<noteq> STREAM"
    by (code_simp, code_simp)
  have accepted: "rsp_status rsp = 202" "\<And>job. rsp_body rsp = JobBody job \<Longrightarrow> jr_id job = ''a''"
    using c valid depth0
    by (auto simp: create_job_def with_body_def enqueue_alone enqueue_script_def Let_def reply_def)
  have "m1 = ()" by simp
  then show ?thesis
    using submission_visible [OF c] accepted c by (auto simp: reply_def)
qed

section \<open>Affinity\<close>

text \<open>
  The affinity key is the same everywhere: for a request whose SQL is accepted, the key the
  affinity endpoint returns is the header of the query's response and of the job's, and the
  shard the job is queued in is computed from that key.
\<close>

theorem affinity_key_consistent:
  assumes "post_affinity d c r s = (reply 200 [] (KeyBody key), s')"
    and "post_query d c r qid aid t t' s1 = (q, s1')" and "rsp_status q = 200"
    and "create_job hs cd qc mo r ik job_id now sm = (j, sm')" and "rsp_status j = 202"
    and "dp_sha256 d = sha_hex hs"
  shows "map_of (rsp_headers q) ''X-Dalmatian-Affinity-Key'' = Some key
    \<and> map_of (rsp_headers j) ''X-Dalmatian-Affinity-Key'' = Some key
    \<and> shard_of hs qc r = from_bytes_big (take 8 (sha_bytes hs key)) mod affinity_shards qc \<and> s' = s"
proof -
  obtain r' where "make_request r = Inr r'"
    using assms(1) by (cases "make_request r") (auto simp: post_affinity_def with_body_def http_exception_def reply_def)
  then have r: "make_request r = Inr r" using make_request_returns_input by simp
  have bad: "rsp_status (error_response e) \<noteq> 200" "rsp_status (error_response e) \<noteq> 202" for e
    using error_status_cases [of e] by auto
  have key: "key = dataset_affinity_key (sha_hex hs) r" "s' = s"
    using assms(1,6) r bad(1)
    by (auto simp: post_affinity_def with_body_def affinity_key_def reply_def split: sum.splits)
      (metis response.select_convs(1))+
  moreover have "map_of (rsp_headers q) ''X-Dalmatian-Affinity-Key'' = Some key"
    using assms(2,3,6) r bad(1) key
    by (auto simp: post_query_def with_body_def Let_def reply_def split: sum.splits prod.splits if_splits QueryResult.splits)
  moreover have "map_of (rsp_headers j) ''X-Dalmatian-Affinity-Key'' = Some key"
    using assms(4,5) r bad(2) key
    by (auto simp: create_job_def with_body_def Let_def reply_def http_exception_def split: sum.splits prod.splits if_splits)
  ultimately show ?thesis by (simp add: shard_of_def)
qed

definition demo_hashing :: hashing where
  "demo_hashing = \<lparr>sha_hex = (\<lambda>_. ''k''), sha_bytes = (\<lambda>s. map of_char s)\<rparr>"

lemma demo_responses:
  "fst (post_affinity demo_deps demo_cfg (demo_request INLINE) (demo_service 1)) = reply 200 [] (KeyBody ''k'')"
  "rsp_status (fst (post_query demo_deps demo_cfg (demo_request INLINE) ''q'' ''a'' ''t1'' ''t2'' (demo_service 1))) = 200"
  "rsp_status (fst (create_job demo_hashing sample_codec sample_cfg null_meta (demo_request INLINE) None ''a'' 1000
     (empty_store 0, ()))) = 202"
  by (code_simp, code_simp, code_simp)

theorem affinity_key_consistent_witness:
  "map_of (rsp_headers (fst (post_query demo_deps demo_cfg (demo_request INLINE) ''q'' ''a'' ''t1'' ''t2'' (demo_service 1))))
     ''X-Dalmatian-Affinity-Key'' = Some ''k''"
proof -
  obtain s' where a: "post_affinity demo_deps demo_cfg (demo_request INLINE) (demo_service 1)
      = (reply 200 [] (KeyBody ''k''), s')"
    using demo_responses(1) by (metis prod.collapse)
  obtain q s1' where b: "post_query demo_deps demo_cfg (demo_request INLINE) ''q'' ''a'' ''t1'' ''t2'' (demo_service 1) = (q, s1')"
    by (rule prod.exhaust)
  obtain j sm' where c: "create_job demo_hashing sample_codec sample_cfg null_meta (demo_request INLINE) None ''a'' 1000
      (empty_store 0, ()) = (j, sm')" by (rule prod.exhaust)
  have q: "rsp_status q = 200" and j: "rsp_status j = 202"
    using demo_responses(2,3) unfolding b c by simp_all
  have h: "dp_sha256 demo_deps = sha_hex demo_hashing" by (simp add: demo_deps_def demo_hashing_def)
  show ?thesis unfolding b fst_conv by (rule affinity_key_consistent [OF a b q c j h, THEN conjunct1])
qed

end
