(* ===== verification/Settings.thy ===== *)
theory Settings
  imports SparkQuery Worker
begin

text \<open>
  \<open>Settings\<close> of \<open>src/dalmatian/config.py\<close> with its field constraints, and the wiring of
  \<open>dependencies.py\<close>: what the settings make of the queue, the service, the storage registry, the
  Spark session and dataset cache, and the worker. Reading the environment is pydantic-settings'
  part, starting Spark is PySpark's. When each object is made and closed is in \<open>Lifecycle\<close>.
\<close>

record settings =
  st_spark_master :: string
  st_spark_app_name :: string
  st_spark_packages :: string
  st_spark_config :: "(string \<times> string) list option"
  st_spark_app_max_cores :: int
  st_spark_executor_cores :: int
  st_spark_executor_memory :: string
  st_spark_executor_instances :: "int option"
  st_valkey_url :: string
  st_data_root :: string
  st_source_locations :: "(string \<times> string) list"
  st_storage_locations :: "(string \<times> string) list"
  st_output_publication_prefix :: string
  st_metadata_url :: "string option"
  st_default_cache_ttl_seconds :: int
  st_max_cache_ttl_seconds :: int
  st_result_row_limit :: int
  st_result_cache_max_bytes :: int
  st_singleflight_wait_seconds :: rat
  st_lock_seconds :: int
  st_dataset_cache_entries :: int
  st_dataset_cache_ttl_seconds :: int
  st_max_concurrent_queries :: int
  st_admission_wait_seconds :: rat
  st_default_query_timeout_seconds :: int
  st_max_query_timeout_seconds :: int
  st_max_inline_bytes :: int
  st_queue_name :: string
  st_job_ttl_seconds :: int
  st_idempotency_ttl_seconds :: int
  st_job_lease_seconds :: int
  st_reserve_timeout_seconds :: int
  st_reap_interval_seconds :: int
  st_max_attempts :: int
  st_retry_base_seconds :: rat
  st_retry_max_seconds :: rat
  st_affinity_shards :: int
  st_affinity_shard :: "int option"
  st_max_queue_depth :: int
  st_worker_metrics_host :: string
  st_worker_metrics_port :: int
  st_log_level :: string

definition default_settings :: settings where
  "default_settings = \<lparr>st_spark_master = ''local[*]'', st_spark_app_name = ''dalmatian'',
     st_spark_packages = [], st_spark_config = None, st_spark_app_max_cores = 2, st_spark_executor_cores = 2,
     st_spark_executor_memory = ''2g'', st_spark_executor_instances = None,
     st_valkey_url = ''valkey://localhost:6379/0'', st_data_root = ''data'', st_source_locations = [],
     st_storage_locations = [(''local'', ''file:///exports'')],
     st_output_publication_prefix = ''dalmatian:outputs'', st_metadata_url = None,
     st_default_cache_ttl_seconds = 300, st_max_cache_ttl_seconds = 3600, st_result_row_limit = 10000,
     st_result_cache_max_bytes = 4 * 1024 * 1024, st_singleflight_wait_seconds = 15, st_lock_seconds = 120,
     st_dataset_cache_entries = 32, st_dataset_cache_ttl_seconds = 1800, st_max_concurrent_queries = 4,
     st_admission_wait_seconds = 1 / 4, st_default_query_timeout_seconds = 300,
     st_max_query_timeout_seconds = 3600, st_max_inline_bytes = 8 * 1024 * 1024,
     st_queue_name = ''dalmatian:jobs'', st_job_ttl_seconds = 86400, st_idempotency_ttl_seconds = 86400,
     st_job_lease_seconds = 60, st_reserve_timeout_seconds = 2, st_reap_interval_seconds = 15,
     st_max_attempts = 3, st_retry_base_seconds = 2, st_retry_max_seconds = 60, st_affinity_shards = 8,
     st_affinity_shard = None, st_max_queue_depth = 10000,
     st_worker_metrics_host = ''0.0.0.0'', st_worker_metrics_port = 9090, st_log_level = ''INFO''\<rparr>"

text \<open>The \<open>Field(ge=..., le=...)\<close> constraints.\<close>

definition settings_valid :: "settings \<Rightarrow> bool" where
  "settings_valid s =
     (0 \<le> st_default_cache_ttl_seconds s \<and> 0 \<le> st_max_cache_ttl_seconds s \<and> 1 \<le> st_result_row_limit s
      \<and> 1024 \<le> st_result_cache_max_bytes s \<and> 1 / 10 \<le> st_singleflight_wait_seconds s \<and> 1 \<le> st_lock_seconds s
      \<and> 1 \<le> st_dataset_cache_entries s \<and> 1 \<le> st_dataset_cache_ttl_seconds s
      \<and> 1 \<le> st_max_concurrent_queries s \<and> 0 \<le> st_admission_wait_seconds s
      \<and> 1 \<le> st_default_query_timeout_seconds s \<and> 1 \<le> st_max_query_timeout_seconds s
      \<and> 1024 \<le> st_max_inline_bytes s \<and> 60 \<le> st_job_ttl_seconds s \<and> 60 \<le> st_idempotency_ttl_seconds s
      \<and> 10 \<le> st_job_lease_seconds s \<and> 1 \<le> st_reserve_timeout_seconds s \<and> st_reserve_timeout_seconds s \<le> 30
      \<and> 1 \<le> st_reap_interval_seconds s \<and> 1 \<le> st_max_attempts s \<and> 1 / 10 \<le> st_retry_base_seconds s
      \<and> 1 / 10 \<le> st_retry_max_seconds s \<and> 1 \<le> st_affinity_shards s \<and> st_affinity_shards s \<le> 256
      \<and> (case st_affinity_shard s of None \<Rightarrow> True | Some k \<Rightarrow> 0 \<le> k) \<and> 1 \<le> st_max_queue_depth s
      \<and> 1 \<le> st_worker_metrics_port s \<and> st_worker_metrics_port s \<le> 65535
      \<and> 1 \<le> st_spark_app_max_cores s \<and> 1 \<le> st_spark_executor_cores s
      \<and> (case st_spark_executor_instances s of None \<Rightarrow> True | Some n \<Rightarrow> 1 \<le> n))"

definition load_settings :: "settings \<Rightarrow> settings res" where
  "load_settings s = (if settings_valid s then Inr s else raise ValueError ''invalid settings'')"

section \<open>Wiring\<close>

definition get_job_queue :: "settings \<Rightarrow> queue_cfg" where
  "get_job_queue s = make_queue (st_queue_name s) (st_job_ttl_seconds s) (st_job_lease_seconds s)
     (nat (st_max_attempts s)) (nat (st_affinity_shards s)) (nat (st_max_queue_depth s))
     (Some (st_idempotency_ttl_seconds s)) (st_retry_base_seconds s) (st_retry_max_seconds s)"

definition get_service_cfg :: "settings \<Rightarrow> service_cfg" where
  "get_service_cfg s = \<lparr>default_cache_ttl_seconds = st_default_cache_ttl_seconds s,
     max_cache_ttl_seconds = st_max_cache_ttl_seconds s, result_row_limit = st_result_row_limit s,
     max_concurrent_queries = nat (st_max_concurrent_queries s),
     default_query_timeout_seconds = st_default_query_timeout_seconds s,
     max_query_timeout_seconds = st_max_query_timeout_seconds s,
     singleflight_wait_seconds = st_singleflight_wait_seconds s,
     singleflight_lock_seconds = st_lock_seconds s\<rparr>"

definition get_query_service :: "settings \<Rightarrow> 'e \<Rightarrow> 'c \<Rightarrow> 'm \<Rightarrow> ('e, 'c, 'm) service" where
  "get_query_service s engine cache md = \<lparr>sv_engine = engine, sv_cache = cache, sv_meta = md,
     sv_free = max_concurrent_queries (get_service_cfg s), sv_metrics = no_metrics\<rparr>"

definition get_cache_cfg :: "settings \<Rightarrow> (InlineResult \<Rightarrow> string) \<Rightarrow> (string \<Rightarrow> InlineResult option) \<Rightarrow> cache_cfg" where
  "get_cache_cfg s enc dec = \<lparr>cc_prefix = ''dalmatian:cache'', cc_max_bytes = nat (st_result_cache_max_bytes s),
     cc_encode = enc, cc_decode = dec\<rparr>"

definition get_storage_registry :: "filesystem \<Rightarrow> settings \<Rightarrow> storage_registry res" where
  "get_storage_registry fs s = make_registry (st_storage_locations s) (st_source_locations s)
     (Some (as_uri (fs_resolve fs (st_data_root s)))) (st_output_publication_prefix s)"

text \<open>
  \<open>get_or_create\<close> starts the Spark session with a configuration; \<open>local_ip\<close> is \<open>SPARK_LOCAL_IP\<close>.
\<close>

definition spark_conf :: "settings \<Rightarrow> string option \<Rightarrow> (string \<rightharpoonup> string)" where
  "spark_conf s local_ip =
     with_options (engine_conf (st_spark_master s) (st_spark_app_name s) (st_spark_app_max_cores s) (st_spark_executor_cores s)
       (st_spark_executor_memory s) local_ip (st_spark_executor_instances s) (st_spark_packages s))
       (Some (case st_spark_config s of None \<Rightarrow> [] | Some kvs \<Rightarrow> kvs))"

definition get_spark_engine ::
  "((string \<rightharpoonup> string) \<Rightarrow> 'w res) \<Rightarrow> string option \<Rightarrow> settings \<Rightarrow> ('f, 'w) spark res" where
  "get_spark_engine get_or_create local_ip s =
     bindE (get_or_create (spark_conf s local_ip)) (\<lambda>w.
     bindE (make_dataset_cache (st_dataset_cache_entries s) (st_dataset_cache_ttl_seconds s)) (\<lambda>c.
       Inr \<lparr>sk_datasets = c, sk_views = Map.empty, sk_world = w\<rparr>))"

definition build_metadata_store :: "string option \<Rightarrow> bool" where
  \<comment> \<open>whether the store is the SQL one\<close>
  "build_metadata_store url = (case url of None \<Rightarrow> False | Some u \<Rightarrow> u \<noteq> [])"

text \<open>\<open>heartbeat_interval = max(1.0, settings.job_lease_seconds / 3)\<close> of \<open>worker.run\<close>.\<close>

definition heartbeat_interval :: "settings \<Rightarrow> rat" where
  "heartbeat_interval s = max 1 (of_int (st_job_lease_seconds s) / 3)"

definition configured_shard :: "settings \<Rightarrow> string \<Rightarrow> nat" where
  "configured_shard s hostname = worker_shard hostname (map_option nat (st_affinity_shard s)) (nat (st_affinity_shards s))"

end
