(* ===== verification/SettingsProps.thy ===== *)
theory SettingsProps
  imports Settings EndToEnd
begin

text \<open>What validated settings guarantee to the components wired from them.\<close>






end
