(* ===== verification/Admin.thy ===== *)
theory Admin
  imports Storage
begin

text \<open>
  The administration command, \<open>src/dalmatian/admin.py\<close>, over the SQL metadata store and the schema
  revision that \<open>metadata.py\<close> reads and checks before it opens the store. Alembic, which runs the
  migrations, is the parameter \<open>alembic\<close>; parsing of the command line is argparse's part.
\<close>

datatype command =
    StorageAdd string string | StorageList | StorageDelete string | MetadataUpgrade | MetadataCurrent

record admin_db =
  ad_version :: "string option"
  ad_tables :: meta_db

text \<open>The newest revision under \<open>src/dalmatian/migrations/versions\<close>.\<close>

definition head_revision :: string where
  "head_revision = ''0001_metadata''"

definition current_metadata_revision :: "admin_db \<Rightarrow> string option" where
  "current_metadata_revision db = ad_version db"

definition assert_schema_current :: "admin_db \<Rightarrow> unit res" where
  "assert_schema_current db =
     (if current_metadata_revision db \<noteq> Some head_revision
      then raise MetadataSchemaError (''metadata database is not migrated; run '' @ quoted ''dalmatian-admin metadata-upgrade'')
      else Inr ())"

definition upgrade_metadata :: "(admin_db \<Rightarrow> admin_db res) \<Rightarrow> admin_db \<Rightarrow> unit res \<times> admin_db" where
  "upgrade_metadata alembic db = (case alembic db of Inl e \<Rightarrow> (Inl e, db) | Inr db' \<Rightarrow> (Inr (), db'))"

definition or_else :: "string option \<Rightarrow> string \<Rightarrow> string" where
  "or_else v dflt = (case v of None \<Rightarrow> dflt | Some s \<Rightarrow> if s = [] then dflt else s)"

text \<open>The lines printed, or the exception, and the database afterwards.\<close>

definition admin_run ::
  "(admin_db \<Rightarrow> admin_db res) \<Rightarrow> (nat \<Rightarrow> int) \<Rightarrow> string option \<Rightarrow> command \<Rightarrow> admin_db \<Rightarrow> string list res \<times> admin_db" where
  "admin_run alembic clk url cmd db =
     (if or_else url [] = []
      then (raise (OtherExn ''SystemExit'') ''DALMATIAN_METADATA_URL is required for metadata commands'', db)
      else (case cmd of
          MetadataUpgrade \<Rightarrow>
            (let (r, db1) = upgrade_metadata alembic db in
             (bindE r (\<lambda>_. Inr [or_else (current_metadata_revision db1) ''unknown'']), db1))
        | MetadataCurrent \<Rightarrow> (Inr [or_else (current_metadata_revision db) ''unmigrated''], db)
        | _ \<Rightarrow>
            (case assert_schema_current db of
               Inl e \<Rightarrow> (Inl e, db)
             | Inr _ \<Rightarrow>
                 (case cmd of
                    StorageAdd name uri \<Rightarrow>
                      (case make_registry [(name, uri)] [] None ''dalmatian:outputs'' of
                         Inl e \<Rightarrow> (Inl e, db)
                       | Inr _ \<Rightarrow> (Inr [], db\<lparr>ad_tables := put_storage_location clk name uri (ad_tables db)\<rparr>))
                  | StorageDelete name \<Rightarrow>
                      (Inr [], db\<lparr>ad_tables := delete_storage_location name (ad_tables db)\<rparr>)
                  | _ \<Rightarrow>
                      (Inr (map (\<lambda>(name, uri). name @ CHR 0x09 # uri) (sort (storage_locations (ad_tables db)))), db)))))"

section \<open>What an administrator can rely on\<close>

lemma admin_add_cases:
  "admin_run alembic clk url (StorageAdd name uri) db =
     (if or_else url [] = [] then (raise (OtherExn ''SystemExit'') ''DALMATIAN_METADATA_URL is required for metadata commands'', db)
      else case assert_schema_current db of Inl e \<Rightarrow> (Inl e, db)
      | Inr _ \<Rightarrow> (case validated_root name uri of Inl e \<Rightarrow> (Inl e, db)
          | Inr _ \<Rightarrow> (Inr [], db\<lparr>ad_tables := put_storage_location clk name uri (ad_tables db)\<rparr>)))"
  by (cases "validated_root name uri")
    (simp_all add: admin_run_def make_registry_def validated_roots_def cong: sum.case_cong)

lemma validated_root_nonempty: "validated_root name uri = Inr r \<Longrightarrow> uri \<noteq> []"
proof (rule notI)
  assume "validated_root name uri = Inr r" and "uri = []"
  moreover have "isl (validated_root name [])"
    by (simp add: validated_root_def normalize_root_def rstrip_def url_scheme_def url_split_scheme_def
        url_clean_def supported_schemes_def raise_def)
  ultimately show False by simp
qed

lemma admin_add_effect:
  assumes a: "admin_run alembic clk url (StorageAdd name uri) db = (Inr out, db1)"
  shows "db1 = db\<lparr>ad_tables := put_storage_location clk name uri (ad_tables db)\<rparr>
    \<and> (\<exists>r. validated_root name uri = Inr r) \<and> or_else url [] \<noteq> [] \<and> assert_schema_current db = Inr ()"
proof -
  have url: "or_else url [] \<noteq> []" using a unfolding admin_add_cases by (cases "or_else url [] = []") (simp_all add: raise_def)
  obtain u where s: "assert_schema_current db = Inr u"
    using a url unfolding admin_add_cases by (cases "assert_schema_current db") simp_all
  obtain r where r: "validated_root name uri = Inr r"
    using a url s unfolding admin_add_cases by (cases "validated_root name uri") simp_all
  show ?thesis using a url s r unfolding admin_add_cases by simp
qed

text \<open>
  C39. Storage locations administered by command are the ones the service resolves: a location that
  was added is resolved to its normalised root by every registry that does not configure the
  name itself, and is listed with the URI as given; deleting it makes it unknown again; no
  other name is affected; and a command that fails leaves the tables as they were.
\<close>

theorem admin_locations_roundtrip:
  assumes "admin_run alembic clk url (StorageAdd name uri) db = (Inr out, db1)"
    and "map_of (configured sr) name = None"
  shows "root_of (Some (sql_meta loads dump clk, ad_tables db1)) sr name
      = Inr (rstrip CHR ''/'' (normalize_root uri), ''database'')
    \<and> (\<exists>lines. admin_run alembic clk url StorageList db1 = (Inr lines, db1) \<and> name @ CHR 0x09 # uri \<in> set lines)
    \<and> (\<exists>db2 e. admin_run alembic clk url (StorageDelete name) db1 = (Inr [], db2)
         \<and> root_of (Some (sql_meta loads dump clk, ad_tables db2)) sr name = Inl e \<and> exn_cls e = UnknownStorageLocation
         \<and> (\<forall>other. other \<noteq> name \<longrightarrow> storage_location (ad_tables db2) other = storage_location (ad_tables db) other))
    \<and> (\<forall>cmd e db'. admin_run alembic clk url cmd db1 = (Inl e, db') \<longrightarrow> db' = db1)"
proof -
  note effect = admin_add_effect [OF assms(1)]
  note add = effect [THEN conjunct1] effect [THEN conjunct2, THEN conjunct2, THEN conjunct2]
  note url = effect [THEN conjunct2, THEN conjunct2, THEN conjunct1]
  obtain r where r: "validated_root name uri = Inr r" using effect by (elim conjE exE)
  have uri: "uri \<noteq> []" using r by (rule validated_root_nonempty)
  from r have root: "r = rstrip CHR ''/'' (normalize_root uri)"
    by (auto simp: validated_root_def Let_def split: if_splits)
  have schema: "assert_schema_current db1 = Inr ()" "assert_schema_current (db1\<lparr>ad_tables := t\<rparr>) = Inr ()" for t
    using add by (simp_all add: assert_schema_current_def current_metadata_revision_def)
  have look: "storage_location (ad_tables db1) k = (if k = name then Some uri else storage_location (ad_tables db) k)" for k
    using add(1) by (simp add: put_storage_location_lookup)
  have "map_of (storage_locations (ad_tables db1)) name = Some uri"
    using look [of name] by (simp add: storage_location_def storage_locations_def map_of_map map_prod_def case_prod_beta)
  then have listed: "(name, uri) \<in> set (storage_locations (ad_tables db1))" by (rule map_of_SomeD)
  have one: "root_of (Some (sql_meta loads dump clk, ad_tables db1)) sr name
      = Inr (rstrip CHR ''/'' (normalize_root uri), ''database'')"
    using assms(2) r uri root look [of name] by (simp add: root_of_def sql_meta_def)
  have two: "\<exists>lines. admin_run alembic clk url StorageList db1 = (Inr lines, db1) \<and> name @ CHR 0x09 # uri \<in> set lines"
    using url schema listed by (force simp: admin_run_def)
  let ?db2 = "db1\<lparr>ad_tables := delete_storage_location name (ad_tables db1)\<rparr>"
  have del: "admin_run alembic clk url (StorageDelete name) db1 = (Inr [], ?db2)"
    using url schema by (simp add: admin_run_def)
  have gone: "storage_location (ad_tables ?db2) k = (if k = name then None else storage_location (ad_tables db) k)" for k
    using look by (simp add: delete_storage_location_lookup)
  have three: "\<exists>e. root_of (Some (sql_meta loads dump clk, ad_tables ?db2)) sr name = Inl e \<and> exn_cls e = UnknownStorageLocation"
    using assms(2) gone [of name] by (simp add: root_of_def sql_meta_def raise_def)
  have four: "db' = db1" if "admin_run alembic clk url cmd db1 = (Inl e, db')" for cmd e db'
    using that by (cases cmd) (auto simp: admin_run_def upgrade_metadata_def split: if_splits sum.splits prod.splits)
  show ?thesis using one two three del gone four by (intro conjI) auto
qed

definition fresh_admin_db :: admin_db where
  "fresh_admin_db = \<lparr>ad_version = Some head_revision, ad_tables = \<lparr>invocations = Map.empty, locations = [], db_tick = 0\<rparr>\<rparr>"

theorem admin_locations_roundtrip_witness:
  "\<exists>lines db1. admin_run Inr (\<lambda>_. 0) (Some ''sqlite://'') StorageList db1 = (Inr lines, db1)
     \<and> ''db'' @ CHR 0x09 # ''gs://b'' \<in> set lines"
proof -
  let ?a = "admin_run Inr (\<lambda>_. 0) (Some ''sqlite://'') (StorageAdd ''db'' ''gs://b'') fresh_admin_db"
  obtain res db1 where a: "?a = (res, db1)" by (rule prod.exhaust)
  have "fst ?a = Inr []" by code_simp
  then have r: "res = Inr []" using a by simp
  have c: "map_of (configured sample_registry) ''db'' = None" by (simp add: sample_registry_def)
  note both = admin_locations_roundtrip [OF a [unfolded r] c]
  show ?thesis by (rule exE [OF both [THEN conjunct2, THEN conjunct1]]) (rule exI, rule exI, assumption)
qed

end
