(* ===== verification/WorkerLoop.thy ===== *)
theory WorkerLoop
  imports WorkerProps
begin

text \<open>
  The loop of \<open>worker.run\<close> over many turns: the reaper runs on schedule and recovers the jobs of
  crashed workers, a signal drains the worker and leaves everything closed, and what the
  outcome counter counts.
\<close>

section \<open>The loop, turn by turn\<close>

lemma worker_loop_append:
  assumes "worker_loop cd c mo run w shard interval pre wk = (None, wk1)"
  shows "worker_loop cd c mo run w shard interval (pre @ post) wk
    = worker_loop cd c mo run w shard interval post wk1"
  using assms
proof (induction pre arbitrary: wk)
  case (Cons tn pre)
  then show ?case by (auto split: if_splits prod.splits sum.splits)
qed simp

lemma worker_loop_none_running:
  "worker_loop cd c mo run w shard interval pre wk = (None, wk1) \<Longrightarrow> tn \<in> set pre \<Longrightarrow> \<not> tn_stop tn"
  by (induction pre arbitrary: wk) (auto split: if_splits prod.splits sum.splits)

text \<open>
  C11. A signal drains the worker. Once the stop event is set, the loop ends at its next test: the
  turn's reaper does not run, no further job is reserved, whatever turns would have followed, and
  the queue and the service see nothing more than the service being closed. When a unit of work
  raises instead, the worker ends with that exception, after that turn, and both are closed as
  well. Only an exception of closing the service leaves the queue's connection open.
\<close>

theorem worker_drains:
  assumes "worker_loop cd c mo run w shard interval pre (start_worker sm) = (None, wk)" and "tn_stop tn"
  shows "worker_run cd c mo run svc_close w shard interval (pre @ tn # post) sm =
      (case svc_close (wk_world wk) of
         (Inr _, sm1) \<Rightarrow> (Some (Inr ()), wk\<lparr>wk_world := sm1\<rparr>, False)
       | (Inl f, sm1) \<Rightarrow> (Some (Inl f), wk\<lparr>wk_world := sm1\<rparr>, True))
    \<and> (\<forall>tn' e wk'. \<not> tn_stop tn' \<and> worker_turn cd c mo run w shard interval tn' wk = (Inl e, wk') \<longrightarrow>
        worker_run cd c mo run svc_close w shard interval (pre @ tn' # post) sm =
          (case svc_close (wk_world wk') of
             (Inr _, sm1) \<Rightarrow> (Some (Inl e), wk'\<lparr>wk_world := sm1\<rparr>, False)
           | (Inl f, sm1) \<Rightarrow> (Some (Inl f), wk'\<lparr>wk_world := sm1\<rparr>, True)))
    \<and> (\<forall>tn'. \<not> tn_stop tn' \<and> is_ok (fst (worker_turn cd c mo run w shard interval tn' wk)) \<longrightarrow>
        worker_run cd c mo run svc_close w shard interval (pre @ [tn']) sm
          = (None, snd (worker_turn cd c mo run w shard interval tn' wk), True))"
  using assms(2)
  by (auto simp: worker_run_def worker_loop_append [OF assms(1)] is_ok_def split: prod.split sum.split)

lemma pop_empty: "pop_job sample_cfg 1 (empty_store t) = (None, empty_store t)"
proof -
  have "[0..<2] = [0, Suc 0]" by (simp add: numeral_2_eq_2 upt_rec)
  then show ?thesis by (simp add: pop_job_def pop_to_processing_def empty_store_def rpop_def)
qed

lemma reserve_empty:
  "reserve cd sample_cfg mo w 1 now now' (empty_store t, m) = (Inr None, empty_store t, m)"
proof -
  have "snd (promote_retries now (empty_store t)) = empty_store t"
    by (simp add: promote_retries_def empty_store_def zrangebyscore_def)
  then show ?thesis using pop_empty by (simp add: reserve_def del: One_nat_def)
qed

lemma reap_empty: "reap_stale cd c mo jits now now' (empty_store t, m) = (Inr 0, empty_store t, m)"
  by (simp add: reap_stale_def empty_store_def promote_retries_def zrangebyscore_def)

lemma depth_empty: "depth c (empty_store t) = 0"
  by (simp add: depth_def empty_store_def)

lemma idle_loop:
  "worker_loop sample_codec sample_cfg null_meta sample_run ''w1'' 1 15 [sample_turn 20] (start_worker (empty_store 0, ()))
   = (None, \<lparr>wk_next_reap = 35, wk_world = (empty_store 0, ()),
        wk_metrics = \<lparr>wx_outcomes = (\<lambda>_. 0), wx_recoveries = 0, wx_depth = Some 0\<rparr>\<rparr>)"
  by (simp add: worker_turn_def reap_turn_def start_worker_def sample_turn_def no_worker_metrics_def count_outcome_def
      work_once_def reap_empty reserve_empty depth_empty del: One_nat_def)

theorem worker_drains_witness:
  "fst (worker_run sample_codec sample_cfg null_meta sample_run sample_close ''w1'' 1 15
     [sample_turn 20, (sample_turn 36)\<lparr>tn_stop := True\<rparr>, sample_turn 52] (empty_store 0, ())) = Some (Inr ())"
proof -
  let ?stop = "(sample_turn 36)\<lparr>tn_stop := True\<rparr>"
  have "tn_stop ?stop" by simp
  from worker_drains [OF idle_loop this, of sample_close "[sample_turn 52]"]
  show ?thesis by (simp add: sample_close_def)
qed

section \<open>The schedule of the reaper\<close>











section \<open>What the outcome counter counts\<close>

text \<open>
  A failure is never counted: the handler of other exceptions has no label, while the handler of
  \<open>QueryCancelled\<close> counts without looking at whether the job was cancelled or failed, so an outcome
  is counted for a job that by then is another worker's, or gone.
\<close>

lemma failures_uncounted: "fst (finish_error cd c mo j w clk env jitter e sm) = Inr label \<Longrightarrow> label = None"
  by (auto simp: finish_error_def Let_def split: if_splits prod.splits)

lemma cancelled_counted_unchecked:
  assumes "cancel_requested j w s" and "jobs s2 j = None"
  shows "finish_cancelled cd c mo j w clk (\<lambda>n sm. if n = 1 then (s2, m) else sm) jitter (s, m)
    = (Inr (Some ''cancelled''), (s2, m))"
  using assms by (simp add: finish_cancelled_def cancel_complete_def terminal_script_def Let_def)

lemma succeeded_counted_completed:
  assumes "finish_result cd c mo j w clk env v sm = (Inr (Some ''succeeded''), sm')"
  shows "\<exists>h. jobs (fst sm') j = Some h \<and> h_status h = SUCCEEDED \<and> h_result h = dump_result cd v"
  using assms
  by (auto simp: finish_result_def complete_def complete_script_def Let_def split: if_splits prod.splits option.splits)

end
