(* ===== verification/FingerprintProps.thy ===== *)
theory FingerprintProps
  imports JsonText
begin

text \<open>
  What a fingerprint stands for. Two queries with the same cache key, or two submissions with
  the same payload fingerprint, agree in everything that decides the result, the order of their
  dictionaries apart, unless SHA-256 collides on two texts.
\<close>

section \<open>Equal objects\<close>





section \<open>Equal requests\<close>





lemma value_inject [simp]:
  "data_format_value f = data_format_value g \<longleftrightarrow> f = g"
  "output_format_value x = output_format_value y \<longleftrightarrow> x = y"
  "delivery_mode_value m = delivery_mode_value n \<longleftrightarrow> m = n"
  "write_mode_value v = write_mode_value w \<longleftrightarrow> v = w"
proof -
  show "data_format_value f = data_format_value g \<longleftrightarrow> f = g" by (cases f; cases g) simp_all
  show "output_format_value x = output_format_value y \<longleftrightarrow> x = y" by (cases x; cases y) simp_all
  show "delivery_mode_value m = delivery_mode_value n \<longleftrightarrow> m = n" by (cases m; cases n) simp_all
  show "write_mode_value v = write_mode_value w \<longleftrightarrow> v = w" by (cases v; cases w) simp_all
qed

lemma json_opt_sorted [simp]:
  "json_sorted (json_opt v) = json_opt v" "json_opt v = json_opt w \<longleftrightarrow> v = w"
  "json_sorted (json_opt_int i) = json_opt_int i" "json_opt_int i = json_opt_int k \<longleftrightarrow> i = k"
  "json_exact (json_opt v)" "json_exact (json_opt_int i)" "json_exact (json_dict d)"
  by (auto simp: json_opt_def json_opt_int_def json_dict_def list_all_iff split: option.splits)


lemma json_schema_exact [simp]: "json_exact (json_schema v)"
  by (auto simp: json_schema_def split: option.splits schema_definition.splits)



lemma dump_exact [simp]: "json_exact (source_dump s)" "json_exact (output_dump out)"
  by (simp_all add: source_dump_def output_dump_def)


section \<open>What equal fingerprints mean\<close>




lemma sources_exact [simp]: "list_all (\<lambda>p. json_exact (snd p)) (map (map_prod id source_dump) xs)"
  by (simp add: list_all_iff)













end
