(* ===== verification/LogLines.thy ===== *)
theory LogLines
  imports Observability
begin

text \<open>
  A log record is one line of printable ASCII, whatever its message holds, and the line can be
  read back: it is the text of one JSON object without repeated names.
\<close>

definition printable :: "string \<Rightarrow> bool" where
  "printable s = list_all (\<lambda>c. 32 \<le> (of_char c :: nat) \<and> (of_char c :: nat) \<le> 126) s"

lemma printable_simps [simp]:
  "printable []" "printable (c # s) = (32 \<le> (of_char c :: nat) \<and> (of_char c :: nat) \<le> 126 \<and> printable s)"
  "printable (s @ t) = (printable s \<and> printable t)"
  by (simp_all add: printable_def)









section \<open>The payload\<close>


lemma add_extras_keys:
  "k \<in> set (map fst (add_extras extras payload)) \<Longrightarrow>
     k \<in> set (map fst payload) \<or> (k \<in> fst ` set extras \<and> k \<notin> set standard_names \<and> \<not> starts_with k ''_'')"
proof (induction extras payload rule: add_extras.induct)
  case (2 name v rest payload)
  then show ?case by (cases v) (auto simp: update_keys split: if_splits)
qed simp







end
