(* ===== verification/ServiceMetrics.thy ===== *)
theory ServiceMetrics
  imports ServiceProps
begin

text \<open>
  The metrics of \<open>observability.py\<close> as the service moves them: the gauge of active queries returns
  to its value, and every inline result is accounted for once, as a cache hit, as a coalesced
  query or by the bytes that were produced.
\<close>

section \<open>One execution\<close>

definition reused :: "metrics \<Rightarrow> nat" where
  "reused m = mx_cache_result m ''hit'' + mx_cache_result m ''coalesced''"

definition looked_up :: "metrics \<Rightarrow> nat" where
  "looked_up m = mx_cache_result m ''hit'' + mx_cache_result m ''miss''"




lemma counted_lookups [simp]:
  "reused (count_cache ''miss'' m) = reused m" "looked_up (count_cache ''miss'' m) = Suc (looked_up m)"
  "reused (count_cache ''hit'' m) = Suc (reused m)" "looked_up (count_cache ''hit'' m) = Suc (looked_up m)"
  "reused (count_cache ''coalesced'' m) = Suc (reused m)" "looked_up (count_cache ''coalesced'' m) = looked_up m"
  by (simp_all add: reused_def looked_up_def)




lemma record_metrics [simp]:
  "sv_metrics (sv_record d q k r s) = sv_metrics s" "sv_metrics (sv_update d q st res e ec s) = sv_metrics s"
  by (simp_all add: sv_record_def sv_update_def)


section \<open>Streams\<close>


lemma gen_metrics_effect [simp]:
  "sv_metrics (gen_metrics f s) = f (sv_metrics s)"
  "sv_metrics (gen_update d g st e ec s) = sv_metrics s" "sv_metrics (gen_cleanup d g s) = sv_metrics s"
  "sv_metrics (gen_stop d g s) = timer_stop ''stream'' (dp_elapsed d (gd_query_id g)) (sv_metrics s)"
  by (simp_all add: gen_metrics_def gen_update_def gen_cleanup_def gen_stop_def)






section \<open>What the metrics tell\<close>



end
