(* ===== verification/Schema.thy ===== *)
theory Schema
  imports Metadata
begin

text \<open>
  The schema of the metadata database: the migration \<open>migrations/versions/0001_metadata.py\<close> and the
  tables that \<open>SqlMetadataStore.__init__\<close> declares to read and write them. A database is the list
  of its tables with their columns; \<open>op.create_table\<close> raises when the table exists and
  \<open>op.drop_table\<close> when it does not. The rows of \<open>Metadata\<close> are related to the columns, with the
  lengths and ranges of their types.
\<close>

section \<open>Tables\<close>

datatype column_type = StringOf nat | Text | Integer | BigInteger | Boolean | DateTimeTz

record column =
  col_name :: string
  col_type :: column_type
  col_primary :: bool
  col_nullable :: bool
  col_default :: "string option"

definition key_column :: "string \<Rightarrow> column_type \<Rightarrow> column" where
  "key_column n t = \<lparr>col_name = n, col_type = t, col_primary = True, col_nullable = False, col_default = None\<rparr>"

definition nullable :: "string \<Rightarrow> column_type \<Rightarrow> column" where
  "nullable n t = \<lparr>col_name = n, col_type = t, col_primary = False, col_nullable = True, col_default = None\<rparr>"

definition required :: "string \<Rightarrow> column_type \<Rightarrow> column" where
  "required n t = (nullable n t)\<lparr>col_nullable := False\<rparr>"

type_synonym sql_schema = "(string \<times> column list) list"

definition create_table :: "string \<Rightarrow> column list \<Rightarrow> sql_schema \<Rightarrow> sql_schema res" where
  "create_table name cols db =
     (if map_of db name \<noteq> None then raise (OtherExn ''OperationalError'') name else Inr (db @ [(name, cols)]))"

definition drop_table :: "string \<Rightarrow> sql_schema \<Rightarrow> sql_schema res" where
  "drop_table name db =
     (if map_of db name = None then raise (OtherExn ''OperationalError'') name
      else Inr (filter (\<lambda>t. fst t \<noteq> name) db))"

section \<open>The migration\<close>

definition migrated_invocations :: "column list" where
  "migrated_invocations =
     [key_column ''id'' (StringOf 64), required ''kind'' (StringOf 16), required ''status'' (StringOf 32),
      (required ''attempts'' Integer)\<lparr>col_default := Some ''0''\<rparr>, required ''request_json'' Text,
      nullable ''output_mode'' (StringOf 16), nullable ''output_format'' (StringOf 16),
      nullable ''output_location'' (StringOf 128), nullable ''output_path'' Text, nullable ''cached'' Boolean,
      nullable ''rows_returned'' BigInteger, nullable ''bytes_returned'' BigInteger, nullable ''truncated'' Boolean,
      nullable ''manifest_uri'' Text, nullable ''data_uri'' Text, nullable ''source_versions_json'' Text,
      nullable ''error_class'' (StringOf 255), nullable ''error_message'' Text, required ''created_at'' DateTimeTz,
      nullable ''started_at'' DateTimeTz, nullable ''finished_at'' DateTimeTz, nullable ''duration_ms'' BigInteger,
      required ''updated_at'' DateTimeTz]"

definition migrated_locations :: "column list" where
  "migrated_locations =
     [key_column ''name'' (StringOf 128), required ''uri'' Text, required ''created_at'' DateTimeTz,
      required ''updated_at'' DateTimeTz]"

definition upgrade :: "sql_schema \<Rightarrow> sql_schema res" where
  "upgrade db =
     bindE (create_table ''dalmatian_invocations'' migrated_invocations db)
       (create_table ''dalmatian_storage_locations'' migrated_locations)"

definition downgrade :: "sql_schema \<Rightarrow> sql_schema res" where
  "downgrade db =
     bindE (drop_table ''dalmatian_storage_locations'' db) (drop_table ''dalmatian_invocations'')"

section \<open>The migration's configuration\<close>

text \<open>
  \<open>_migration_config\<close> doubles the percent signs of the database URL, because the configuration file
  format that Alembic reads it back from takes \<open>%%\<close> for one.
\<close>

definition escape_percent :: "string \<Rightarrow> string" where
  "escape_percent url = concat (map (\<lambda>c. if c = CHR ''%'' then ''%%'' else [c]) url)"

fun interpolated :: "string \<Rightarrow> string option" where
  "interpolated [] = Some []"
| "interpolated (c # s) =
     (if c = CHR ''%''
      then (case s of
          d # t \<Rightarrow> if d = CHR ''%'' then map_option (Cons CHR ''%'') (interpolated t) else None
        | [] \<Rightarrow> None)
      else map_option (Cons c) (interpolated s))"

lemma migration_url_roundtrip: "interpolated (escape_percent url) = Some url"
  by (induction url) (simp_all add: escape_percent_def)

section \<open>The tables the store declares\<close>

definition store_invocations :: "column list" where
  "store_invocations =
     [key_column ''id'' (StringOf 64), required ''kind'' (StringOf 16), required ''status'' (StringOf 32),
      required ''attempts'' Integer, required ''request_json'' Text,
      nullable ''output_mode'' (StringOf 16), nullable ''output_format'' (StringOf 16),
      nullable ''output_location'' (StringOf 128), nullable ''output_path'' Text, nullable ''cached'' Boolean,
      nullable ''rows_returned'' BigInteger, nullable ''bytes_returned'' BigInteger, nullable ''truncated'' Boolean,
      nullable ''manifest_uri'' Text, nullable ''data_uri'' Text, nullable ''source_versions_json'' Text,
      nullable ''error_class'' (StringOf 255), nullable ''error_message'' Text, required ''created_at'' DateTimeTz,
      nullable ''started_at'' DateTimeTz, nullable ''finished_at'' DateTimeTz, nullable ''duration_ms'' BigInteger,
      required ''updated_at'' DateTimeTz]"

definition store_locations :: "column list" where
  "store_locations =
     [key_column ''name'' (StringOf 128), required ''uri'' Text, required ''created_at'' DateTimeTz,
      required ''updated_at'' DateTimeTz]"

section \<open>Rows\<close>

datatype sql_value = SqlNull | SqlText string | SqlInt int | SqlBool bool | SqlTime int

definition opt_value :: "('a \<Rightarrow> sql_value) \<Rightarrow> 'a option \<Rightarrow> sql_value" where
  "opt_value f v = (case v of None \<Rightarrow> SqlNull | Some x \<Rightarrow> f x)"

definition invocation_row :: "string \<Rightarrow> invocation \<Rightarrow> (string \<times> sql_value) list" where
  "invocation_row i v =
     [(''id'', SqlText i), (''kind'', SqlText (iv_kind v)), (''status'', SqlText (iv_status v)),
      (''attempts'', SqlInt (int (iv_attempts v))), (''request_json'', SqlText (iv_request_json v)),
      (''output_mode'', opt_value SqlText (iv_output_mode v)), (''output_format'', opt_value SqlText (iv_output_format v)),
      (''output_location'', opt_value SqlText (iv_output_location v)),
      (''output_path'', opt_value SqlText (iv_output_path v)), (''cached'', opt_value SqlBool (iv_cached v)),
      (''rows_returned'', opt_value (\<lambda>n. SqlInt (int n)) (iv_rows_returned v)),
      (''bytes_returned'', opt_value (\<lambda>n. SqlInt (int n)) (iv_bytes_returned v)),
      (''truncated'', opt_value SqlBool (iv_truncated v)), (''manifest_uri'', opt_value SqlText (iv_manifest_uri v)),
      (''data_uri'', opt_value SqlText (iv_data_uri v)),
      (''source_versions_json'', opt_value SqlText (iv_source_versions_json v)),
      (''error_class'', opt_value SqlText (iv_error_class v)), (''error_message'', opt_value SqlText (iv_error_message v)),
      (''created_at'', SqlTime (iv_created_at v)), (''started_at'', opt_value SqlTime (iv_started_at v)),
      (''finished_at'', opt_value SqlTime (iv_finished_at v)), (''duration_ms'', opt_value SqlInt (iv_duration_ms v)),
      (''updated_at'', SqlTime (iv_updated_at v))]"

definition location_values :: "string \<Rightarrow> location_row \<Rightarrow> (string \<times> sql_value) list" where
  "location_values name l =
     [(''name'', SqlText name), (''uri'', SqlText (lo_uri l)), (''created_at'', SqlTime (lo_created_at l)),
      (''updated_at'', SqlTime (lo_updated_at l))]"

text \<open>Microseconds from 1970 up to the end of year 9999, the times that Python's \<open>datetime\<close> holds.\<close>

definition valid_time :: "int \<Rightarrow> bool" where
  "valid_time t = (0 \<le> t \<and> t < 253402300800000000)"

fun value_fits :: "column_type \<Rightarrow> sql_value \<Rightarrow> bool" where
  "value_fits (StringOf n) (SqlText s) = (length s \<le> n)"
| "value_fits Text (SqlText s) = True"
| "value_fits Integer (SqlInt i) = (- (2 ^ 31) \<le> i \<and> i < 2 ^ 31)"
| "value_fits BigInteger (SqlInt i) = (- (2 ^ 63) \<le> i \<and> i < 2 ^ 63)"
| "value_fits Boolean (SqlBool b) = True"
| "value_fits DateTimeTz (SqlTime t) = valid_time t"
| "value_fits _ _ = False"

definition cell_fits :: "column \<Rightarrow> string \<times> sql_value \<Rightarrow> bool" where
  "cell_fits c p = (fst p = col_name c \<and> (if snd p = SqlNull then col_nullable c else value_fits (col_type c) (snd p)))"

definition row_fits :: "column list \<Rightarrow> (string \<times> sql_value) list \<Rightarrow> bool" where
  "row_fits cols row = list_all2 cell_fits cols row"

end
