(* ===== verification/SchemaProps.thy ===== *)
theory SchemaProps
  imports Schema
begin

text \<open>The migrated schema is the one the store uses, and every row it writes fits its columns.\<close>

section \<open>Migrating forth and back\<close>

definition without_defaults :: "sql_schema \<Rightarrow> sql_schema" where
  "without_defaults db = map (\<lambda>t. (fst t, map (\<lambda>c. c\<lparr>col_default := None\<rparr>) (snd t))) db"

lemma create_table_cases:
  "create_table n cols db = Inr db' \<longleftrightarrow> map_of db n = None \<and> db' = db @ [(n, cols)]"
  by (auto simp: create_table_def raise_def)

lemma filter_absent: "map_of db n = None \<Longrightarrow> filter (\<lambda>t. fst t \<noteq> n) db = db"
  by (induction db) (auto split: if_splits)

text \<open>
  C25. The migration and the store agree: an upgrade of an empty database creates exactly the two
  tables that \<open>SqlMetadataStore\<close> declares, with the same columns in the same order, the same types
  and lengths, keys and null constraints (a server default apart). Whatever else is in the
  database, a downgrade takes an upgrade back, a second upgrade fails, and other tables stay.
\<close>

theorem schema_agrees:
  "(\<exists>db. upgrade [] = Inr db \<and> without_defaults db =
      [(''dalmatian_invocations'', store_invocations), (''dalmatian_storage_locations'', store_locations)])
   \<and> (\<forall>db db'. upgrade db = Inr db' \<longrightarrow>
        downgrade db' = Inr db \<and> isl (upgrade db') \<and> (\<exists>new. db' = db @ new \<and> length new = 2))"
proof (intro conjI allI impI)
  show "\<exists>db. upgrade [] = Inr db \<and> without_defaults db =
      [(''dalmatian_invocations'', store_invocations), (''dalmatian_storage_locations'', store_locations)]"
    by (simp add: upgrade_def create_table_def without_defaults_def migrated_invocations_def store_invocations_def
        migrated_locations_def store_locations_def key_column_def nullable_def required_def)
next
  fix db db' assume up: "upgrade db = Inr db'"
  then have a: "map_of db ''dalmatian_invocations'' = None"
    and b: "map_of (db @ [(''dalmatian_invocations'', migrated_invocations)]) ''dalmatian_storage_locations'' = None"
    and db': "db' = db @ [(''dalmatian_invocations'', migrated_invocations),
      (''dalmatian_storage_locations'', migrated_locations)]"
    by (auto simp: upgrade_def create_table_cases split: sum.splits)
  have b': "map_of db ''dalmatian_storage_locations'' = None" using b by (simp add: map_add_def split: option.splits)
  show "downgrade db' = Inr db"
    using a b' by (simp add: downgrade_def drop_table_def db' map_add_def filter_absent)
  show "isl (upgrade db')" using a b' by (simp add: upgrade_def create_table_def db' map_add_def raise_def)
  show "\<exists>new. db' = db @ new \<and> length new = 2" by (simp add: db')
qed

theorem schema_agrees_witness:
  "downgrade [(''other'', []), (''dalmatian_invocations'', migrated_invocations),
     (''dalmatian_storage_locations'', migrated_locations)] = Inr [(''other'', [])]"
proof -
  have up: "upgrade [(''other'', [])] = Inr [(''other'', []), (''dalmatian_invocations'', migrated_invocations),
      (''dalmatian_storage_locations'', migrated_locations)]"
    by (simp add: upgrade_def create_table_def)
  show ?thesis
    by (rule schema_agrees [THEN conjunct2, rule_format, OF up, THEN conjunct1])
qed

section \<open>Rows\<close>

definition db_fits :: "meta_db \<Rightarrow> bool" where
  "db_fits db =
     ((\<forall>i v. invocations db i = Some v \<longrightarrow> row_fits migrated_invocations (invocation_row i v))
      \<and> (\<forall>p \<in> set (locations db). row_fits migrated_locations (location_values (fst p) (snd p))))"

definition opt_within :: "nat \<Rightarrow> string option \<Rightarrow> bool" where
  "opt_within n v = (case v of None \<Rightarrow> True | Some s \<Rightarrow> length s \<le> n)"

definition opt_time :: "int option \<Rightarrow> bool" where
  "opt_time v = (case v of None \<Rightarrow> True | Some t \<Rightarrow> valid_time t)"

definition opt_big :: "int option \<Rightarrow> bool" where
  "opt_big v = (case v of None \<Rightarrow> True | Some i \<Rightarrow> - (2 ^ 63) \<le> i \<and> i < 2 ^ 63)"

lemma cell_fits_simps:
  "cell_fits (key_column n ty) (m, x) = (m = n \<and> x \<noteq> SqlNull \<and> value_fits ty x)"
  "cell_fits (required n ty) (m, x) = (m = n \<and> x \<noteq> SqlNull \<and> value_fits ty x)"
  "cell_fits ((required n ty)\<lparr>col_default := d\<rparr>) (m, x) = (m = n \<and> x \<noteq> SqlNull \<and> value_fits ty x)"
  "cell_fits (nullable n ty) (m, x) = (m = n \<and> (x = SqlNull \<or> value_fits ty x))"
  by (auto simp: cell_fits_def key_column_def required_def nullable_def)

lemma opt_value_fits:
  "opt_value SqlText v = SqlNull \<or> value_fits (StringOf k) (opt_value SqlText v) \<longleftrightarrow> opt_within k v"
  "opt_value SqlText v = SqlNull \<or> value_fits Text (opt_value SqlText v)"
  "opt_value SqlBool b = SqlNull \<or> value_fits Boolean (opt_value SqlBool b)"
  "opt_value SqlTime w = SqlNull \<or> value_fits DateTimeTz (opt_value SqlTime w) \<longleftrightarrow> opt_time w"
  "opt_value SqlInt w = SqlNull \<or> value_fits BigInteger (opt_value SqlInt w) \<longleftrightarrow> opt_big w"
  "opt_value (\<lambda>n. SqlInt (int n)) k' = SqlNull \<or> value_fits BigInteger (opt_value (\<lambda>n. SqlInt (int n)) k')
     \<longleftrightarrow> opt_big (map_option int k')"
  by (auto simp: opt_value_def opt_within_def opt_time_def opt_big_def split: option.splits)

lemma row_fits_invocation:
  "row_fits migrated_invocations (invocation_row i v) \<longleftrightarrow>
     length i \<le> 64 \<and> length (iv_kind v) \<le> 16 \<and> length (iv_status v) \<le> 32 \<and> int (iv_attempts v) < 2 ^ 31
     \<and> opt_within 16 (iv_output_mode v) \<and> opt_within 16 (iv_output_format v) \<and> opt_within 128 (iv_output_location v)
     \<and> opt_big (map_option int (iv_rows_returned v)) \<and> opt_big (map_option int (iv_bytes_returned v))
     \<and> opt_within 255 (iv_error_class v) \<and> valid_time (iv_created_at v) \<and> opt_time (iv_started_at v)
     \<and> opt_time (iv_finished_at v) \<and> opt_big (iv_duration_ms v) \<and> valid_time (iv_updated_at v)"
  unfolding row_fits_def migrated_invocations_def invocation_row_def
  by (simp only: list_all2_Cons list_all2_Nil cell_fits_simps opt_value_fits value_fits.simps sql_value.distinct
      simp_thms not_False_eq_True) simp

lemma row_fits_location:
  "row_fits migrated_locations (location_values name l) \<longleftrightarrow>
     length name \<le> 128 \<and> valid_time (lo_created_at l) \<and> valid_time (lo_updated_at l)"
  unfolding row_fits_def migrated_locations_def location_values_def key_column_def required_def nullable_def
  by (simp add: cell_fits_def)

section \<open>Writing keeps the rows in their columns\<close>

definition request_output :: "json \<Rightarrow> json" where
  "request_output request = (case json_get request ''output'' of None \<Rightarrow> JObj [] | Some JNull \<Rightarrow> JObj [] | Some v \<Rightarrow> v)"

text \<open>The texts of a request that go into short columns.\<close>

definition request_fits :: "json \<Rightarrow> bool" where
  "request_fits request =
     (opt_within 16 (json_text (json_get (request_output request) ''mode'') (Some ''inline''))
      \<and> opt_within 16 (json_text (json_get (request_output request) ''format'') (Some ''json''))
      \<and> opt_within 128 (json_text (json_get (request_output request) ''location'') None))"

definition result_fits :: "(QueryResult \<Rightarrow> string) \<Rightarrow> QueryResult \<Rightarrow> bool" where
  "result_fits dump r =
     (case r of Inline x \<Rightarrow> int (length (inl_rows x)) < 2 ^ 63 \<and> int (length (dump r)) < 2 ^ 63
      | Stored x \<Rightarrow> length (sto_location x) \<le> 128)"

lemma opt_within_simps [simp]: "opt_within n None" "opt_within n (Some s) = (length s \<le> n)"
  "opt_time None" "opt_time (Some u) = valid_time u" "opt_big None"
  "opt_big (Some i) = (- (2 ^ 63) \<le> i \<and> i < 2 ^ 63)"
  by (simp_all add: opt_within_def opt_time_def opt_big_def)

lemma output_format_short: "length (output_format_value f) \<le> 16"
  by (cases f) simp_all

lemma duration_fits: "valid_time now \<Longrightarrow> valid_time u \<Longrightarrow> opt_big (Some (max 0 ((now - u) div 1000)))"
  by (simp add: valid_time_def) linarith

lemma result_values_fit:
  assumes "result_fits dump r" and "row_fits migrated_invocations (invocation_row i v)"
  shows "row_fits migrated_invocations (invocation_row i (result_values dump r v))"
  using assms output_format_short
  by (cases r) (auto simp: row_fits_invocation result_values_def result_fits_def)

lemma update_row_fits:
  assumes "row_fits migrated_invocations (invocation_row i v)" and "valid_time now" and "length status \<le> 32"
    and "opt_within 255 error_class" and "\<And>a. attempts = Some a \<Longrightarrow> int a < 2 ^ 31"
    and "\<And>r. result = Some r \<Longrightarrow> result_fits dump r"
  shows "row_fits migrated_invocations (invocation_row i (update_row dump now status result error error_class attempts v))"
proof -
  let ?v0 = "v\<lparr>iv_status := status, iv_updated_at := now\<rparr>"
  have v0: "row_fits migrated_invocations (invocation_row i ?v0)"
    using assms(1-3) by (simp add: row_fits_invocation)
  define v1 where "v1 = opt_set result (result_values dump) ?v0"
  have v1: "row_fits migrated_invocations (invocation_row i v1)"
    using v0 assms(6) by (cases result) (simp_all add: v1_def opt_set_def result_values_fit)
  define v2 where "v2 = opt_set error (\<lambda>e w. w\<lparr>iv_error_message := Some e\<rparr>) v1"
  define v3 where "v3 = opt_set error_class (\<lambda>c w. w\<lparr>iv_error_class := Some c\<rparr>) v2"
  define v4 where "v4 = opt_set attempts (\<lambda>a w. w\<lparr>iv_attempts := a\<rparr>) v3"
  have "row_fits migrated_invocations (invocation_row i v2)"
    using v1 by (cases error) (simp_all add: v2_def opt_set_def row_fits_invocation)
  then have "row_fits migrated_invocations (invocation_row i v3)"
    using assms(4) by (cases error_class) (simp_all add: v3_def opt_set_def row_fits_invocation)
  then have v4: "row_fits migrated_invocations (invocation_row i v4)"
    using assms(5) by (cases attempts) (simp_all add: v4_def opt_set_def row_fits_invocation)
  have "opt_time (iv_started_at v)" using assms(1) by (simp add: row_fits_invocation)
  then have dur: "iv_started_at v = Some u \<Longrightarrow> opt_big (Some (max 0 ((now - u) div 1000)))" for u
    using assms(2) by (intro duration_fits) simp_all
  show ?thesis
    using v4 assms(2) dur unfolding update_row_def Let_def v1_def [symmetric] v2_def [symmetric] v3_def [symmetric]
      v4_def [symmetric]
    by (cases "iv_started_at v") (auto simp: row_fits_invocation opt_set_def simp del: opt_within_simps(6))
qed

text \<open>
  C26. What the store writes fits the migrated columns: from a database whose rows fit, recording
  and updating an invocation and putting or deleting a location lead to one whose rows fit again,
  with every text within its column's length, every number within its range, every required
  column set and every duration computed without overflow, provided the identifiers, names and
  counts handed in are themselves that short (a location name of more than 128 characters is
  not, and nothing in the program refuses it).
\<close>

theorem metadata_rows_fit:
  assumes "db_fits db" and "\<And>n. valid_time (clk n)"
  shows "(length i \<le> 64 \<and> length kind \<le> 16 \<and> (\<forall>j. loads req = Inr j \<longrightarrow> request_fits j)
        \<longrightarrow> (\<forall>db'. record_invocation loads clk i kind req db = Inr db' \<longrightarrow> db_fits db'))
    \<and> (length status \<le> 32 \<and> opt_within 255 ec \<and> (\<forall>a. attempts = Some a \<longrightarrow> int a < 2 ^ 31)
          \<and> (\<forall>r. result = Some r \<longrightarrow> result_fits dump r)
        \<longrightarrow> (\<forall>db'. update_invocation dump clk i status result err ec attempts db = Inr db' \<longrightarrow> db_fits db'))
    \<and> (length name \<le> 128 \<longrightarrow> db_fits (put_storage_location clk name uri db))
    \<and> db_fits (delete_storage_location name db)"
proof (intro conjI impI allI)
  fix db'
  assume a: "length i \<le> 64 \<and> length kind \<le> 16 \<and> (\<forall>j. loads req = Inr j \<longrightarrow> request_fits j)"
    and r: "record_invocation loads clk i kind req db = Inr db'"
  obtain j where j: "loads req = Inr j" using r by (auto simp: record_invocation_def)
  have "request_fits j" using a j by blast
  then show "db_fits db'"
    using r a assms(1) assms(2) [of "db_tick db"]
    by (auto simp: record_invocation_def j Let_def db_fits_def row_fits_invocation raise_def request_fits_def
        request_output_def split: if_splits)
next
  fix db'
  assume a: "length status \<le> 32 \<and> opt_within 255 ec \<and> (\<forall>a. attempts = Some a \<longrightarrow> int a < 2 ^ 31)
          \<and> (\<forall>r. result = Some r \<longrightarrow> result_fits dump r)"
    and "update_invocation dump clk i status result err ec attempts db = Inr db'"
  then show "db_fits db'"
    using assms by (auto simp: update_invocation_def db_fits_def intro!: update_row_fits split: if_splits)
next
  have loc: "length n \<le> 128 \<and> valid_time (lo_created_at l) \<and> valid_time (lo_updated_at l)"
    if "(n, l) \<in> set (locations db)" for n l
    using that assms(1) by (force simp: db_fits_def row_fits_location)
  show "db_fits (put_storage_location clk name uri db)" if "length name \<le> 128"
    using that assms(1) assms(2) [of "db_tick db"]
    by (auto simp: put_storage_location_def Let_def db_fits_def row_fits_location dest: loc)
  show "db_fits (delete_storage_location name db)"
    using assms(1) by (auto simp: delete_storage_location_def db_fits_def)
qed

theorem metadata_rows_fit_witness:
  "db_fits (put_storage_location (\<lambda>_. 5) ''exports'' ''gs://b'' \<lparr>invocations = Map.empty, locations = [], db_tick = 0\<rparr>)"
proof -
  let ?db = "\<lparr>invocations = Map.empty, locations = [], db_tick = 0\<rparr> :: meta_db"
  have empty: "db_fits ?db" by (simp add: db_fits_def)
  have clock: "valid_time 5" by (simp add: valid_time_def)
  have short: "length ''exports'' \<le> 128" by simp
  show ?thesis
    by (rule metadata_rows_fit [where clk = "\<lambda>_. 5", OF empty clock, THEN conjunct2, THEN conjunct2, THEN conjunct1,
          THEN mp, OF short])
qed

end
