(* ===== verification/Lifecycle.thy ===== *)
theory Lifecycle
  imports Api Settings
begin

text \<open>
  The life of a process's objects, \<open>src/dalmatian/dependencies.py\<close>: each \<open>@lru_cache\<close> function makes
  its object at the first call and returns the same one afterwards, \<open>shutdown_dependencies\<close> closes
  and forgets them. An object is the number it was made as; a part that holds a connection, the
  Spark session or a pool is open from its making to its closing. What making a part raises at a
  given moment is a parameter \<open>flt\<close>, and so is what closing raises, \<open>cflt\<close>.
\<close>

section \<open>Objects\<close>

datatype part = MetadataStore | PublicationRegistry | StorageRegistryPart | Engine | ResultCache | Service | JobQueuePart

record process =
  pr_cached :: "part \<Rightarrow> nat option"
  pr_next :: nat
  pr_parts :: "nat \<Rightarrow> (part \<times> nat) list"
  pr_open :: "(part \<times> nat) list"
  pr_closed :: "(part \<times> nat) list"

definition fresh_process :: process where
  "fresh_process = \<lparr>pr_cached = (\<lambda>_. None), pr_next = 0, pr_parts = (\<lambda>_. []), pr_open = [], pr_closed = []\<rparr>"

text \<open>Parts that have something of their own to close.\<close>

definition closable :: "part \<Rightarrow> bool" where
  "closable p = (p \<in> {MetadataStore, PublicationRegistry, Engine, ResultCache, JobQueuePart})"

definition construct :: "(part \<Rightarrow> nat \<Rightarrow> exn option) \<Rightarrow> part \<Rightarrow> (part \<times> nat) list \<Rightarrow> process \<Rightarrow> nat res \<times> process" where
  "construct flt p uses st =
     (case flt p (pr_next st) of
        Some e \<Rightarrow> (Inl e, st\<lparr>pr_next := Suc (pr_next st)\<rparr>)
      | None \<Rightarrow>
          (Inr (pr_next st),
           st\<lparr>pr_next := Suc (pr_next st), pr_parts := (pr_parts st)(pr_next st := uses),
              pr_open := (if closable p then pr_open st @ [(p, pr_next st)] else pr_open st)\<rparr>))"

text \<open>
  \<open>lru_cache\<close> on a function without arguments. It does not lock while the function runs: \<open>amid\<close> is
  what other threads do to the cache meanwhile, and when one of them has stored an object, that one
  stays and this call returns its own. An exception is not stored.
\<close>

definition memo :: "(process \<Rightarrow> process) \<Rightarrow> part \<Rightarrow> (process \<Rightarrow> nat res \<times> process) \<Rightarrow> process \<Rightarrow> nat res \<times> process" where
  "memo amid p build st =
     (case pr_cached st p of
        Some i \<Rightarrow> (Inr i, st)
      | None \<Rightarrow>
          (case build (amid st) of
             (Inl e, st1) \<Rightarrow> (Inl e, st1)
           | (Inr i, st1) \<Rightarrow>
               (Inr i, if pr_cached st1 p = None then st1\<lparr>pr_cached := (pr_cached st1)(p := Some i)\<rparr> else st1)))"

definition get_metadata_store :: "(part \<Rightarrow> nat \<Rightarrow> exn option) \<Rightarrow> process \<Rightarrow> nat res \<times> process" where
  "get_metadata_store flt = memo id MetadataStore (construct flt MetadataStore [])"

definition get_output_publication_registry :: "(part \<Rightarrow> nat \<Rightarrow> exn option) \<Rightarrow> process \<Rightarrow> nat res \<times> process" where
  "get_output_publication_registry flt = memo id PublicationRegistry (construct flt PublicationRegistry [])"

definition get_storage :: "(part \<Rightarrow> nat \<Rightarrow> exn option) \<Rightarrow> process \<Rightarrow> nat res \<times> process" where
  "get_storage flt = memo id StorageRegistryPart (\<lambda>st.
     case get_metadata_store flt st of
       (Inl e, st1) \<Rightarrow> (Inl e, st1)
     | (Inr md, st1) \<Rightarrow>
         (case get_output_publication_registry flt st1 of
            (Inl e, st2) \<Rightarrow> (Inl e, st2)
          | (Inr pub, st2) \<Rightarrow>
              construct flt StorageRegistryPart [(MetadataStore, md), (PublicationRegistry, pub)] st2))"

definition build_service :: "(part \<Rightarrow> nat \<Rightarrow> exn option) \<Rightarrow> process \<Rightarrow> nat res \<times> process" where
  "build_service flt st =
     (case get_storage flt st of
        (Inl e, st1) \<Rightarrow> (Inl e, st1)
      | (Inr sr, st1) \<Rightarrow>
          (case construct flt Engine [(StorageRegistryPart, sr)] st1 of
             (Inl e, st2) \<Rightarrow> (Inl e, st2)
           | (Inr en, st2) \<Rightarrow>
               (case construct flt ResultCache [] st2 of
                  (Inl e, st3) \<Rightarrow> (Inl e, st3)
                | (Inr rc, st3) \<Rightarrow>
                    (case get_metadata_store flt st3 of
                       (Inl e, st4) \<Rightarrow> (Inl e, st4)
                     | (Inr md, st4) \<Rightarrow>
                         construct flt Service [(Engine, en), (ResultCache, rc), (MetadataStore, md)] st4))))"

definition get_service :: "(process \<Rightarrow> process) \<Rightarrow> (part \<Rightarrow> nat \<Rightarrow> exn option) \<Rightarrow> process \<Rightarrow> nat res \<times> process" where
  "get_service amid flt = memo amid Service (build_service flt)"

definition get_queue :: "(part \<Rightarrow> nat \<Rightarrow> exn option) \<Rightarrow> process \<Rightarrow> nat res \<times> process" where
  "get_queue flt = memo id JobQueuePart (\<lambda>st.
     case get_metadata_store flt st of
       (Inl e, st1) \<Rightarrow> (Inl e, st1)
     | (Inr md, st1) \<Rightarrow> construct flt JobQueuePart [(MetadataStore, md)] st1)"

section \<open>Shutting down\<close>

definition close_one :: "(part \<Rightarrow> exn option) \<Rightarrow> part \<times> nat \<Rightarrow> process \<Rightarrow> unit res \<times> process" where
  "close_one cflt x st =
     (case cflt (fst x) of
        Some e \<Rightarrow> (Inl e, st)
      | None \<Rightarrow> (Inr (), st\<lparr>pr_open := filter (\<lambda>y. y \<noteq> x) (pr_open st), pr_closed := pr_closed st @ [x]\<rparr>))"

fun close_all :: "(part \<Rightarrow> exn option) \<Rightarrow> (part \<times> nat) list \<Rightarrow> process \<Rightarrow> unit res \<times> process" where
  "close_all cflt [] st = (Inr (), st)"
| "close_all cflt (x # xs) st =
     (case close_one cflt x st of (Inl e, st1) \<Rightarrow> (Inl e, st1) | (Inr _, st1) \<Rightarrow> close_all cflt xs st1)"

text \<open>
  What \<open>close\<close> of an object closes: the service its engine and then its cache, the storage registry
  its publication registry, the others their own connection.
\<close>

definition close_targets :: "part \<Rightarrow> nat \<Rightarrow> process \<Rightarrow> (part \<times> nat) list" where
  "close_targets p i st =
     (if p = Service then filter (\<lambda>x. fst x \<in> {Engine, ResultCache}) (pr_parts st i)
      else if p = StorageRegistryPart then filter (\<lambda>x. fst x = PublicationRegistry) (pr_parts st i)
      else [(p, i)])"

definition cache_clear :: "part \<Rightarrow> process \<Rightarrow> process" where
  "cache_clear p st = st\<lparr>pr_cached := (pr_cached st)(p := None)\<rparr>"

definition close_cached :: "(part \<Rightarrow> exn option) \<Rightarrow> part \<Rightarrow> process \<Rightarrow> unit res \<times> process" where
  "close_cached cflt p st =
     (case pr_cached st p of
        None \<Rightarrow> (Inr (), st)
      | Some i \<Rightarrow>
          (case close_all cflt (close_targets p i st) st of
             (Inl e, st1) \<Rightarrow> (Inl e, st1)
           | (Inr _, st1) \<Rightarrow> (Inr (), cache_clear p st1)))"

definition shutdown_dependencies :: "(part \<Rightarrow> exn option) \<Rightarrow> process \<Rightarrow> unit res \<times> process" where
  "shutdown_dependencies cflt st =
     (case close_cached cflt Service st of
        (Inl e, st1) \<Rightarrow> (Inl e, st1)
      | (Inr _, st1) \<Rightarrow>
          (case close_cached cflt JobQueuePart st1 of
             (Inl e, st2) \<Rightarrow> (Inl e, st2)
           | (Inr _, st2) \<Rightarrow>
               (case close_cached cflt StorageRegistryPart st2 of
                  (Inl e, st3) \<Rightarrow> (Inl e, st3)
                | (Inr _, st3) \<Rightarrow> close_cached cflt MetadataStore (cache_clear PublicationRegistry st3))))"

text \<open>The application's lifespan: the logger is configured first, everything is shut down last.\<close>

definition app_lifespan ::
  "settings \<Rightarrow> (part \<Rightarrow> exn option) \<Rightarrow> (process \<Rightarrow> process) \<Rightarrow> root_logger \<times> process
   \<Rightarrow> unit res \<times> root_logger \<times> process" where
  "app_lifespan s cflt serve st =
     (let lg = configure_logging (st_log_level s) (fst st);
          (r, st1) = shutdown_dependencies cflt (serve (snd st)) in (r, lg, st1))"

text \<open>\<open>main.run\<close>: the logger, and what the web server is started with.\<close>

definition main_run :: "settings \<Rightarrow> root_logger \<Rightarrow> root_logger \<times> string \<times> string \<times> nat" where
  "main_run s lg = (configure_logging (st_log_level s) lg, ''dalmatian.api:app'', ''0.0.0.0'', 8000)"

end
