(* ===== verification/LifecycleProps.thy ===== *)
theory LifecycleProps
  imports Lifecycle "HOL-Library.Sublist"
begin

text \<open>
  Each process has one object of each kind, wired to the same metadata store, and a shutdown closes
  every connection it made once, in the order of use.
\<close>

section \<open>The wired process\<close>

definition owned_by :: "part \<Rightarrow> process \<Rightarrow> (part \<times> nat) list" where
  "owned_by p st = (case pr_cached st p of None \<Rightarrow> [] | Some i \<Rightarrow> close_targets p i st)"













section \<open>Many calls\<close>













section \<open>Shutting down\<close>



lemma owned_by_frame:
  "p \<noteq> q \<Longrightarrow> owned_by p (st\<lparr>pr_open := x, pr_closed := y, pr_cached := (pr_cached st)(q := None)\<rparr>) = owned_by p st"
  "p \<noteq> q \<Longrightarrow> owned_by p (st\<lparr>pr_cached := (pr_cached st)(q := None)\<rparr>) = owned_by p st"
  by (auto simp: owned_by_def close_targets_def split: option.split)




definition never_fails :: "part \<Rightarrow> nat \<Rightarrow> exn option" where
  "never_fails p n = None"

definition close_ok :: "part \<Rightarrow> exn option" where
  "close_ok p = None"


text \<open>
  Two first requests that overlap make two services with two engines and two sets of admission
  permits; one of them is never closed. A storage registry that cannot be made leaves the
  publication registry's connection open: it is forgotten without being closed.
\<close>

lemma racing_first_requests:
  "let st = snd (get_service (\<lambda>st. snd (get_service id never_fails st)) never_fails fresh_process);
       end = snd (shutdown_dependencies close_ok st)
   in fst (get_service (\<lambda>st. snd (get_service id never_fails st)) never_fails fresh_process)
        \<noteq> fst (get_service id never_fails st)
    \<and> map fst (pr_open end) = [Engine, ResultCache]"
  by code_simp

definition bad_location :: "part \<Rightarrow> nat \<Rightarrow> exn option" where
  "bad_location p n = (if p = StorageRegistryPart
     then Some \<lparr>exn_cls = ValueError, exn_msg = ''unsupported storage scheme''\<rparr> else None)"

lemma failed_registry_leaks:
  "map fst (pr_open (snd (shutdown_dependencies close_ok (snd (get_service id bad_location fresh_process)))))
     = [PublicationRegistry]"
  by code_simp

end
