(* ===== verification/Spec2Isabelle.thy ===== *)
theory Spec2Isabelle
  imports EndToEnd GlobProps ApiProps SettingsProps Admin WorkerLoop FingerprintProps LogLines ServiceMetrics
    SchemaProps LifecycleProps
begin

text \<open>
  Verification of Dalmatian, a service that runs Spark SQL over file datasets: the Python package
  under \<open>src/dalmatian\<close>.

  \<^bold>\<open>The program.\<close> An API process (\<open>api.py\<close>) answers queries synchronously through \<open>QueryService\<close>
  (\<open>service.py\<close>) or puts them into a job queue kept in Valkey (\<open>jobs.py\<close>). Workers (\<open>worker.py\<close>)
  reserve jobs under a lease, run them through the same service and commit the result. The
  service checks the SQL (\<open>sql.py\<close>), resolves the sources (\<open>datasets.py\<close>, \<open>paths.py\<close>), looks into
  the result cache (\<open>cache.py\<close>, \<open>fingerprint.py\<close>) and runs the engine (\<open>spark.py\<close>), which
  publishes stored outputs through the registry (\<open>storage.py\<close>). Every invocation is recorded in a
  metadata store (\<open>metadata.py\<close>) whose tables a migration creates and the command \<open>admin.py\<close>
  administers. Settings (\<open>config.py\<close>, \<open>dependencies.py\<close>) wire these objects, once per process, and
  \<open>observability.py\<close> counts and logs what they do.

  \<^bold>\<open>Models.\<close> One group of theories per part; names follow the source.
  \<^item> \<open>Prelude\<close>: fact collections, the error results \<open>exn + 'a\<close> with \<open>bindE\<close> and \<open>mapE\<close>, Python's string
    operations, decimal numerals, and the locale \<open>kept_property\<close> of what a step relation preserves.
  \<^item> \<open>Errors\<close>: exceptions with their class, text and MRO (\<open>errors.py\<close>). \<open>Models\<close>: the records of
    \<open>models.py\<close> with their validators, and \<open>ExecutionContext\<close> of \<open>execution.py\<close>.
  \<^item> \<open>Valkey\<close>: lists, sorted sets and hashes with the commands the scripts call; the sorted set
    behind the locale \<open>sorted_set\<close>.
  \<^item> \<open>JobStore\<close>: the queue's Valkey state \<open>store\<close> and its Lua scripts, each an atomic function
    \<open>*_script\<close>. \<open>JobQueue\<close>: the Python methods above them (\<open>enqueue\<close>, \<open>reserve\<close>, \<open>heartbeat\<close>,
    \<open>complete\<close>, \<open>publish_output\<close>, \<open>fail\<close>, \<open>reap_stale\<close>, \<open>promote_retries\<close>, \<open>request_cancel\<close>, ...). What
    others do between the steps of a submission is the parameter of \<open>enqueue_amid\<close>.
  \<^item> \<open>Sql\<close>, \<open>Fingerprint\<close>: validation of the query and canonical JSON with the cache keys; \<open>JsonText\<close>
    takes the printing apart from the sorting of the keys.
  \<^item> \<open>Metadata\<close>: the protocol \<open>meta_ops\<close>, the null store and the SQL store over its two tables;
    \<open>Schema\<close>: the tables of the migration, those the store declares, and the rows as column values.
  \<^item> \<open>Observability\<close>: the metrics of the service as a record that \<open>Service\<close> carries along, the query
    timer, and the JSON log line of a record.
  \<^item> \<open>Storage\<close>: locations, destinations, publication keys, and both publication registries behind the
    locale \<open>publication_registry\<close>. \<open>Cache\<close>: the three result caches behind the locales
    \<open>result_cache\<close> and \<open>locking_cache\<close>.
  \<^item> \<open>Paths\<close>, \<open>Datasets\<close>: path and source resolution over a record of what the file system
    answers, and the LRU dataset cache with its time to live.
  \<^item> \<open>Service\<close>: \<open>QueryService\<close> over records of engine, cache and metadata operations; a stream is a
    value \<open>guarded\<close> with the operations \<open>gen_next\<close> and \<open>gen_close\<close>.
  \<^item> \<open>Spark\<close>, \<open>SparkQuery\<close>: \<open>SparkEngine\<close>: read plans, recursive globs, cached views, sessions, the
    query scope, inline, streamed and stored results, plans and inspection.
  \<^item> \<open>Worker\<close>: classification of exceptions, \<open>work_once\<close>, heartbeats with failing connections, shards,
    and the loop of \<open>run\<close> over a list of turns, each with what it reads (stop event, clocks, random
    numbers) and what other processes do between its calls.
  \<^item> \<open>Api\<close>: endpoints and exception handlers as functions from the decoded request to a response.
    \<open>Settings\<close>, \<open>Admin\<close>: constraints and wiring of the settings with the Spark session's
    configuration, and the administration command. \<open>Lifecycle\<close>: the objects of a process as
    \<open>lru_cache\<close> makes them and \<open>shutdown_dependencies\<close> closes them.

  \<^bold>\<open>What the lemmas show.\<close>
  \<^item> \<open>JobInvariant\<close>, \<open>JobLifecycle\<close>, \<open>JobPlacement\<close>, \<open>QueueSafety\<close>: scripts interleave arbitrarily
    (\<open>core_step\<close>, \<open>script_step\<close>, \<open>synced_step\<close>). In every reachable state a live job is where
    the next operation looks for it, attempts are bounded, dead letters are the failed jobs, a
    terminal record never changes, and a worker that lost its lease or was superseded changes
    nothing and publishes nothing. Every step refines the abstract machine \<open>life_step\<close>. The
    depth bound and single placement need reapers that act on current readings (\<open>synced_step\<close>);
    \<open>stale_reap_duplicates\<close> shows that they fail otherwise.
  \<^item> \<open>QueueMethods\<close>, \<open>QueueRecovery\<close>, \<open>QueueBehaviour\<close>: the methods are runs of such steps, so they
    keep the invariants; submission is idempotent, expired leases are recovered, due retries
    promoted, the oldest job is reserved first, and metadata failures never interfere. Submissions
    that race with the same key still make one job.
  \<^item> \<open>ServiceProps\<close>: permits and locks are released on every path, cached results are reused, outcomes
    recorded. \<open>Storage\<close>, \<open>Cache\<close>, \<open>Paths\<close>, \<open>Datasets\<close>: confinement, ownership, exclusion,
    termination of the wait, and the LRU bound, each beside its model.
  \<^item> \<open>SparkProps\<close>, \<open>StoreProps\<close>, \<open>GlobProps\<close>: CSV streams read back as the rows, inline results
    keep their limits, cached views are registered, the pointer of an output moves last, and a
    recursive read selects the files of the glob.
  \<^item> \<open>WorkerProps\<close>, \<open>WorkerLoop\<close>, \<open>EndToEnd\<close>: what a unit of work does to its job under any
    interference; that a running worker recovers the jobs of crashed ones within the reap interval
    and stops when told to; and the worker, the engine and the queue's publication script composed.
  \<^item> \<open>ApiProps\<close>, \<open>SettingsProps\<close>, \<open>Admin\<close>, \<open>LifecycleProps\<close>: response statuses, visibility of
    submitted jobs, sound wiring of valid settings, administered locations, and one object of each
    kind per process, closed once.
  \<^item> \<open>FingerprintProps\<close>: two requests have the same cache key exactly when they are the same query on
    the same versions of the sources, collisions of the hash apart. \<open>ServiceMetrics\<close>, \<open>LogLines\<close>: the
    metrics are exact and a log record is one line. \<open>SchemaProps\<close>: migration and store declare the
    same tables, and what is written fits their columns.

  \<^bold>\<open>Bounds and fuel.\<close> No definition uses fuel. The loops recurse over the lists they read; the worker's
  loop recurses over the turns it is given and says whether it is still running after them; the wait
  for another query's result may run as long as the clock stands still, so \<open>wait_loop\<close> is a
  partial function into options, and \<open>wait_returns_first_value\<close> proves that it returns once a
  reading of the clock reaches the deadline. Integers are Python's, or counters and times of
  Valkey that stay far below the width at which they wrap, so they are \<open>int\<close> and \<open>nat\<close>; times are
  milliseconds or rationals, given by the caller as readings of a clock.

  \<^bold>\<open>Parameters.\<close> Code that is not under \<open>src\<close> is an argument: sqlglot (\<open>sqlglot\<close>), SHA-256, the file
  system (\<open>filesystem\<close>), PySpark and Hadoop (\<open>pyspark\<close>), Alembic, codecs of pydantic, random
  identifiers and clocks. The laws a theorem needs of them (an injective hash, a codec that
  reads back what it wrote, a faithful file creation) are hypotheses with a witness.

  \<^bold>\<open>Not modelled.\<close> Network connections (a failing one is modelled for heartbeats, for metadata and
  for the making and closing of objects), threads beyond the interleaving of their atomic
  operations, the installation of signal handlers, the histogram of queue waits, the text format of
  the metrics, the web server, parsing of HTTP requests, environment variables and command lines,
  Alembic's environment (\<open>migrations/env.py\<close>), the Helm chart and Compose files. The regular
  expressions of \<open>sql.py\<close> and the string operations are those of Python on ASCII text.
\<close>

end
